(* ===== verification/Prelude.thy ===== *)
theory Prelude
  imports Main "HOL-Library.Word"
begin

text \<open>
  What every component shares: the collections its proofs use, Rust's text operations on
  byte strings (a \<^typ>\<open>string\<close> is a list of 8-bit characters, so it holds the UTF-8 bytes
  of a Rust \<open>str\<close> or the bytes of a \<open>[u8]\<close>), integer parsing with the bounds of
  the target type, and tables: a table of the database is the list of its rows in storage
  order, with the keyed operations and the laws the components rely on.
\<close>

named_theorems table_simps \<open>equations for the operations of a table\<close>
named_theorems run \<open>the equations that evaluate a handler on a concrete input\<close>
named_theorems store_intros \<open>every database operation keeps the schema's constraints\<close>
named_theorems store_steps \<open>the same for operations that can fail, with the successful step as first premise\<close>

subsection \<open>Results\<close>

text \<open>
  A fallible step returns a sum, \<open>Inl\<close> for the error. \<open>try_then\<close> is Rust's \<open>?\<close>
  on a pure result; \<open>ok_or\<close> is \<open>Option::ok_or\<close>.
\<close>

definition try_then :: "'e + 'a \<Rightarrow> ('a \<Rightarrow> 'e + 'b) \<Rightarrow> 'e + 'b" where
  "try_then r f = (case r of Inl e \<Rightarrow> Inl e | Inr x \<Rightarrow> f x)"

definition ok_or :: "'e \<Rightarrow> 'a option \<Rightarrow> 'e + 'a" where
  "ok_or e x = (case x of None \<Rightarrow> Inl e | Some y \<Rightarrow> Inr y)"

definition is_ok :: "'e + 'a \<Rightarrow> bool" where
  "is_ok r = (case r of Inl _ \<Rightarrow> False | Inr _ \<Rightarrow> True)"

lemma try_then_simps [simp]:
  "try_then (Inl e) f = Inl e" "try_then (Inr x) f = f x"
  by (simp_all add: try_then_def)

lemma try_then_InrE:
  assumes "try_then r f = Inr y"
  obtains x where "r = Inr x" "f x = Inr y"
  using assms by (cases r) auto

lemma try_then_cong [fundef_cong]:
  "r = r' \<Longrightarrow> (\<And>x. r' = Inr x \<Longrightarrow> f x = f' x) \<Longrightarrow> try_then r f = try_then r' f'"
  by (cases r') auto

definition unwrap_or :: "'a \<Rightarrow> 'a option \<Rightarrow> 'a" where
  "unwrap_or d x = (case x of None \<Rightarrow> d | Some y \<Rightarrow> y)"

lemma unwrap_or_simps [simp]: "unwrap_or d None = d" "unwrap_or d (Some y) = y"
  by (simp_all add: unwrap_or_def)

lemma ok_or_simps [simp]: "ok_or e None = Inl e" "ok_or e (Some x) = Inr x"
  by (simp_all add: ok_or_def)

lemma ok_or_Inr_iff [simp]: "ok_or e x = Inr y \<longleftrightarrow> x = Some y"
  by (cases x) auto

lemma is_ok_simps [simp]: "\<not> is_ok (Inl e)" "is_ok (Inr x)"
  by (simp_all add: is_ok_def)

text \<open>
  A handler threads the database and returns its result with the database it leaves. In
  \<open>attempt r s f\<close> a step \<open>r\<close> that fails ends the handler with its error and leaves \<open>s\<close>,
  so what was written before stays written, and a step that succeeds goes on with its value.
\<close>

definition attempt :: "'e + 'a \<Rightarrow> 's \<Rightarrow> ('a \<Rightarrow> ('e + 'b) \<times> 's) \<Rightarrow> ('e + 'b) \<times> 's" where
  "attempt r s f = (case r of Inl e \<Rightarrow> (Inl e, s) | Inr x \<Rightarrow> f x)"

lemma attempt_simps [simp]:
  "attempt (Inl e) s f = (Inl e, s)" "attempt (Inr x) s f = f x"
  by (simp_all add: attempt_def)

lemma attempt_cong [fundef_cong]:
  "r = r' \<Longrightarrow> s = s' \<Longrightarrow> (\<And>x. r' = Inr x \<Longrightarrow> f x = f' x) \<Longrightarrow> attempt r s f = attempt r' s' f'"
  by (cases r') auto

lemma attempt_InrE:
  assumes "attempt r s f = (Inr y, s')"
  obtains x where "r = Inr x" "f x = (Inr y, s')"
  using assms by (cases r) auto

text \<open>
  \<open>after Q h\<close>: the postcondition \<open>Q\<close> holds of the result and the state of a handler. The rules
  descend through its steps and leave one goal for every way it can end, with the outcome of
  each step on that path as a premise.
\<close>

definition after :: "('r \<Rightarrow> 's \<Rightarrow> bool) \<Rightarrow> 'r \<times> 's \<Rightarrow> bool" where
  "after Q h \<longleftrightarrow> Q (fst h) (snd h)"

named_theorems after_rules \<open>introduction rules of \<open>after\<close>, one per construct\<close>

lemma after_answer [after_rules]: "Q r s \<Longrightarrow> after Q (r, s)"
  by (simp add: after_def)

lemma after_attempt [after_rules]:
  "(\<And>e. r = Inl e \<Longrightarrow> Q (Inl e) s) \<Longrightarrow> (\<And>x. r = Inr x \<Longrightarrow> after Q (f x)) \<Longrightarrow> after Q (attempt r s f)"
  by (cases r) (auto simp: after_def)

lemma after_if [after_rules]:
  "(b \<Longrightarrow> after Q x) \<Longrightarrow> (\<not> b \<Longrightarrow> after Q y) \<Longrightarrow> after Q (if b then x else y)"
  by simp

lemma after_let [after_rules]: "(\<And>x. x = v \<Longrightarrow> after Q (f x)) \<Longrightarrow> after Q (let x = v in f x)"
  by simp

lemma after_option [after_rules]:
  "(x = None \<Longrightarrow> after Q f) \<Longrightarrow> (\<And>y. x = Some y \<Longrightarrow> after Q (g y)) \<Longrightarrow>
     after Q (case x of None \<Rightarrow> f | Some y \<Rightarrow> g y)"
  by (cases x) auto

lemma after_prod [after_rules]:
  "(\<And>a b. p = (a, b) \<Longrightarrow> after Q (f a b)) \<Longrightarrow> after Q (case p of (a, b) \<Rightarrow> f a b)"
  by (cases p) auto

lemma after_sum [after_rules]:
  "(\<And>e. x = Inl e \<Longrightarrow> after Q (f e)) \<Longrightarrow> (\<And>y. x = Inr y \<Longrightarrow> after Q (g y)) \<Longrightarrow>
     after Q (case x of Inl e \<Rightarrow> f e | Inr y \<Rightarrow> g y)"
  by (cases x) auto

text \<open>A postcondition of successful ends only, and one of the state however the handler ends.\<close>

definition on_ok :: "('a \<Rightarrow> 's \<Rightarrow> bool) \<Rightarrow> 'e + 'a \<Rightarrow> 's \<Rightarrow> bool" where
  "on_ok Q r s \<longleftrightarrow> (\<forall>y. r = Inr y \<longrightarrow> Q y s)"

definition leaving :: "('s \<Rightarrow> bool) \<Rightarrow> 'r \<Rightarrow> 's \<Rightarrow> bool" where
  "leaving P r s \<longleftrightarrow> P s"

lemma on_ok_simps [simp]: "on_ok Q (Inl e) s" "on_ok Q (Inr y) s \<longleftrightarrow> Q y s"
  by (simp_all add: on_ok_def)

lemma after_on_okD: "after (on_ok Q) h \<Longrightarrow> h = (Inr y, s) \<Longrightarrow> Q y s"
  by (simp add: after_def)

lemma after_leavingD: "after (leaving P) h \<Longrightarrow> P (snd h)"
  by (simp add: after_def leaving_def)

lemma after_leavingI: "P (snd h) \<Longrightarrow> after (leaving P) h"
  by (simp add: after_def leaving_def)

subsection \<open>Text\<close>

definition byte :: "char \<Rightarrow> nat" where
  "byte c = of_char c"

text \<open>\<open>str::split\<close> on one character: always at least one piece.\<close>

fun split_on :: "char \<Rightarrow> string \<Rightarrow> string list" where
  "split_on c [] = [[]]"
| "split_on c (x # xs) =
     (if x = c then [] # split_on c xs
      else (case split_on c xs of [] \<Rightarrow> [[x]] | p # ps \<Rightarrow> (x # p) # ps))"

fun join_with :: "string \<Rightarrow> string list \<Rightarrow> string" where
  "join_with sep [] = []"
| "join_with sep [x] = x"
| "join_with sep (x # y # ys) = x @ sep @ join_with sep (y # ys)"

text \<open>\<open>str::split_once\<close>.\<close>

fun split_once :: "char \<Rightarrow> string \<Rightarrow> (string \<times> string) option" where
  "split_once c [] = None"
| "split_once c (x # xs) =
     (if x = c then Some ([], xs)
      else map_option (\<lambda>(a, b). (x # a, b)) (split_once c xs))"

fun starts_with :: "string \<Rightarrow> string \<Rightarrow> bool" where
  "starts_with [] s = True"
| "starts_with (p # ps) [] = False"
| "starts_with (p # ps) (x # xs) = (p = x \<and> starts_with ps xs)"

definition ends_with :: "string \<Rightarrow> string \<Rightarrow> bool" where
  "ends_with suffix s = starts_with (rev suffix) (rev s)"

definition strip_prefix :: "string \<Rightarrow> string \<Rightarrow> string option" where
  "strip_prefix p s = (if starts_with p s then Some (drop (length p) s) else None)"

fun contains_str :: "string \<Rightarrow> string \<Rightarrow> bool" where
  "contains_str p [] = (p = [])"
| "contains_str p (x # xs) = (starts_with p (x # xs) \<or> contains_str p xs)"

text \<open>
  \<open>str::trim\<close> removes the characters with Unicode's White\_Space property; these are their
  UTF-8 encodings: one byte (TAB to CR, space), two bytes (U+0085, U+00A0) or three.
\<close>

definition ascii_space :: "char \<Rightarrow> bool" where
  "ascii_space c = (let b = byte c in (9 \<le> b \<and> b \<le> 13) \<or> b = 32)"

definition space2 :: "char \<Rightarrow> char \<Rightarrow> bool" where
  "space2 c d = (byte c = 0xC2 \<and> (byte d = 0x85 \<or> byte d = 0xA0))"

definition space3 :: "char \<Rightarrow> char \<Rightarrow> char \<Rightarrow> bool" where
  "space3 c d e = (let x = byte c; y = byte d; z = byte e in
     (x = 0xE1 \<and> y = 0x9A \<and> z = 0x80) \<or>
     (x = 0xE2 \<and> y = 0x80 \<and> ((0x80 \<le> z \<and> z \<le> 0x8A) \<or> z = 0xA8 \<or> z = 0xA9 \<or> z = 0xAF)) \<or>
     (x = 0xE2 \<and> y = 0x81 \<and> z = 0x9F) \<or>
     (x = 0xE3 \<and> y = 0x80 \<and> z = 0x80))"

fun trim_start :: "string \<Rightarrow> string" where
  "trim_start [] = []"
| "trim_start (c # s) =
     (if ascii_space c then trim_start s
      else (case s of
              [] \<Rightarrow> [c]
            | d # s' \<Rightarrow>
                (if space2 c d then trim_start s'
                 else (case s' of
                         [] \<Rightarrow> c # s
                       | e # s'' \<Rightarrow> (if space3 c d e then trim_start s'' else c # s)))))"

fun trim_rev :: "string \<Rightarrow> string" where
  "trim_rev [] = []"
| "trim_rev (c # s) =
     (if ascii_space c then trim_rev s
      else (case s of
              [] \<Rightarrow> [c]
            | d # s' \<Rightarrow>
                (if space2 d c then trim_rev s'
                 else (case s' of
                         [] \<Rightarrow> c # s
                       | e # s'' \<Rightarrow> (if space3 e d c then trim_rev s'' else c # s)))))"

definition trim :: "string \<Rightarrow> string" where
  "trim s = rev (trim_rev (rev (trim_start s)))"

definition to_ascii_upper :: "char \<Rightarrow> char" where
  "to_ascii_upper c = (if 97 \<le> byte c \<and> byte c \<le> 122 then char_of (byte c - 32) else c)"

definition to_ascii_lower :: "char \<Rightarrow> char" where
  "to_ascii_lower c = (if 65 \<le> byte c \<and> byte c \<le> 90 then char_of (byte c + 32) else c)"

definition is_ascii_digit :: "char \<Rightarrow> bool" where
  "is_ascii_digit c = (48 \<le> byte c \<and> byte c \<le> 57)"

definition is_ascii_hexdigit :: "char \<Rightarrow> bool" where
  "is_ascii_hexdigit c = (is_ascii_digit c \<or> (97 \<le> byte c \<and> byte c \<le> 102) \<or> (65 \<le> byte c \<and> byte c \<le> 70))"

definition is_ascii_alphanumeric :: "char \<Rightarrow> bool" where
  "is_ascii_alphanumeric c =
     (is_ascii_digit c \<or> (97 \<le> byte c \<and> byte c \<le> 122) \<or> (65 \<le> byte c \<and> byte c \<le> 90))"

lemma split_on_not_Nil [simp]: "split_on c s \<noteq> []"
  by (cases s) (auto split: list.splits)

lemma join_with_split_on: "join_with [c] (split_on c s) = s"
proof (induction s)
  case (Cons x xs)
  then show ?case
    by (cases "split_on c xs" rule: list.exhaust; cases "tl (split_on c xs)")
      (auto split: list.splits)
qed simp

lemma split_on_no_sep: "p \<in> set (split_on c s) \<Longrightarrow> c \<notin> set p"
  by (induction s arbitrary: p) (auto split: if_splits list.splits)

lemma starts_with_append [simp]: "starts_with p (p @ s)"
  by (induction p) auto

lemma starts_with_iff: "starts_with p s \<longleftrightarrow> (\<exists>t. s = p @ t)"
  by (induction p s rule: starts_with.induct) auto

lemma strip_prefix_append [simp]: "strip_prefix p (p @ s) = Some s"
  by (simp add: strip_prefix_def)

lemma strip_prefix_Some_iff: "strip_prefix p s = Some t \<longleftrightarrow> s = p @ t"
  by (auto simp: strip_prefix_def starts_with_iff)

lemma contains_str_iff: "contains_str p s \<longleftrightarrow> (\<exists>a b. s = a @ p @ b)"
proof (induction s)
  case (Cons x xs)
  show ?case
  proof
    assume "contains_str p (x # xs)"
    then consider "starts_with p (x # xs)" | "contains_str p xs" by auto
    then show "\<exists>a b. x # xs = a @ p @ b"
    proof cases
      case 1
      then show ?thesis by (metis append_Nil starts_with_iff)
    next
      case 2
      then show ?thesis using Cons.IH by (metis append_Cons)
    qed
  next
    assume "\<exists>a b. x # xs = a @ p @ b"
    then obtain a b where "x # xs = a @ p @ b" by blast
    then consider "x # xs = p @ b" | a' where "xs = a' @ p @ b"
      by (cases a) auto
    then show "contains_str p (x # xs)"
    proof cases
      case 1
      then have "starts_with p (x # xs)" by (metis starts_with_append)
      then show ?thesis by simp
    next
      case 2
      then show ?thesis using Cons.IH by (metis contains_str.simps(2))
    qed
  qed
qed auto

lemma split_once_Some_iff:
  "split_once c s = Some (a, b) \<longleftrightarrow> s = a @ c # b \<and> c \<notin> set a"
proof (induction s arbitrary: a)
  case (Cons x xs)
  then show ?case by (cases a) auto
qed simp

subsection \<open>Integers from text\<close>

fun digits_value :: "nat \<Rightarrow> string \<Rightarrow> nat option" where
  "digits_value acc [] = Some acc"
| "digits_value acc (c # cs) =
     (if is_ascii_digit c then digits_value (10 * acc + (byte c - 48)) cs else None)"

definition parse_unsigned :: "nat \<Rightarrow> string \<Rightarrow> nat option" where
  "parse_unsigned bound s =
     (let t = (case s of c # cs \<Rightarrow> (if c = CHR ''+'' then cs else s) | [] \<Rightarrow> s) in
      if t = [] then None
      else (case digits_value 0 t of
              Some n \<Rightarrow> (if n < bound then Some n else None)
            | None \<Rightarrow> None))"

definition parse_i64 :: "string \<Rightarrow> int option" where
  "parse_i64 s =
     (case s of
        [] \<Rightarrow> None
      | c # cs \<Rightarrow>
          (let (neg, t) = (if c = CHR ''-'' then (True, cs)
                           else if c = CHR ''+'' then (False, cs) else (False, s)) in
           if t = [] then None
           else (case digits_value 0 t of
                   None \<Rightarrow> None
                 | Some n \<Rightarrow>
                     (let i = (if neg then - int n else int n) in
                      if - (2 ^ 63) \<le> i \<and> i < 2 ^ 63 then Some i else None))))"

text \<open>Decimal rendering, as \<open>format!("{}", n)\<close>.\<close>

fun dec :: "nat \<Rightarrow> string" where
  "dec n = (if n < 10 then [char_of (48 + n)] else dec (n div 10) @ [char_of (48 + n mod 10)])"

declare dec.simps [simp del]

definition dec_int :: "int \<Rightarrow> string" where
  "dec_int i = (if i < 0 then ''-'' @ dec (nat (- i)) else dec (nat i))"

lemma parse_unsigned_bound: "parse_unsigned b s = Some n \<Longrightarrow> n < b"
  by (auto simp: parse_unsigned_def Let_def split: if_splits option.splits list.splits)

lemma parse_i64_bound: "parse_i64 s = Some i \<Longrightarrow> - (2 ^ 63) \<le> i \<and> i < 2 ^ 63"
  by (auto simp: parse_i64_def Let_def split: if_splits option.splits list.splits)

subsection \<open>Tables\<close>

definition row_find :: "('r \<Rightarrow> 'k) \<Rightarrow> 'k \<Rightarrow> 'r list \<Rightarrow> 'r option" where
  "row_find pk k rows = List.find (\<lambda>r. pk r = k) rows"

definition row_update :: "('r \<Rightarrow> 'k) \<Rightarrow> 'r \<Rightarrow> 'r list \<Rightarrow> 'r list" where
  "row_update pk r rows = map (\<lambda>x. if pk x = pk r then r else x) rows"

definition row_delete :: "('r \<Rightarrow> bool) \<Rightarrow> 'r list \<Rightarrow> 'r list" where
  "row_delete P rows = filter (\<lambda>r. \<not> P r) rows"

lemma row_find_SomeD: "row_find pk k rows = Some r \<Longrightarrow> r \<in> set rows \<and> pk r = k"
  by (auto simp: row_find_def find_Some_iff)

lemma row_find_None_iff: "row_find pk k rows = None \<longleftrightarrow> k \<notin> pk ` set rows"
  by (auto simp: row_find_def find_None_iff)

lemma row_find_distinct:
  assumes "distinct (map pk rows)" "r \<in> set rows"
  shows "row_find pk (pk r) rows = Some r"
  using assms by (induction rows) (auto simp: row_find_def rev_image_eqI)

lemma row_find_append:
  "row_find pk k (rows @ rows') =
     (case row_find pk k rows of None \<Rightarrow> row_find pk k rows' | Some r \<Rightarrow> Some r)"
  by (induction rows) (auto simp: row_find_def)

lemma row_find_Nil [simp]: "row_find pk k [] = None"
  by (simp add: row_find_def)

lemma row_find_Cons: "row_find pk k (r # rows) = (if pk r = k then Some r else row_find pk k rows)"
  by (simp add: row_find_def)

lemmas row_eqns [run] = row_find_Cons row_delete_def row_update_def

lemma row_update_Cons:
  "row_update pk r (x # rows) = (if pk x = pk r then r else x) # row_update pk r rows"
  by (simp add: row_update_def)

lemma map_pk_row_update [table_simps, simp]: "map pk (row_update pk r rows) = map pk rows"
  by (simp add: row_update_def)

lemma set_row_delete [table_simps, simp]: "set (row_delete P rows) = {r \<in> set rows. \<not> P r}"
  by (simp add: row_delete_def)

lemma set_row_update:
  "set (row_update pk r rows) =
     {x \<in> set rows. pk x \<noteq> pk r} \<union> (if pk r \<in> pk ` set rows then {r} else {})"
  by (induction rows) (auto simp: row_update_def)

lemma in_row_updateD: "x \<in> set (row_update pk r rows) \<Longrightarrow> x = r \<or> (x \<in> set rows \<and> pk x \<noteq> pk r)"
  by (auto simp: row_update_def)

lemma row_find_update:
  "row_find pk k (row_update pk r rows) =
     (if k = pk r then (if k \<in> pk ` set rows then Some r else None) else row_find pk k rows)"
  by (induction rows) (auto simp: row_find_def row_update_def)

text \<open>A lookup on another column that the update leaves as it is.\<close>
lemma row_find_update_other:
  assumes "\<And>x. x \<in> set rows \<Longrightarrow> pk x = pk r \<Longrightarrow> f x = f r"
  shows "row_find f k (row_update pk r rows) =
    (case row_find f k rows of None \<Rightarrow> None | Some x \<Rightarrow> Some (if pk x = pk r then r else x))"
  using assms by (induction rows) (auto simp: row_find_def row_update_def)

lemma distinct_row_delete: "distinct (map f rows) \<Longrightarrow> distinct (map f (row_delete P rows))"
  by (induction rows) (auto simp: row_delete_def)

lemma row_find_delete:
  assumes "distinct (map pk rows)"
  shows "row_find pk k (row_delete P rows) =
    (case row_find pk k rows of None \<Rightarrow> None | Some r \<Rightarrow> if P r then None else Some r)"
  using assms
proof (induction rows)
  case (Cons r rows)
  have "row_find pk (pk r) rows = None"
    using Cons.prems by (simp add: row_find_None_iff)
  then show ?case
    using Cons by (auto simp: row_find_Cons row_delete_def split: option.splits)
qed (simp add: row_delete_def)

lemma distinct_map_snoc [table_simps]:
  "distinct (map f (rows @ [r])) \<longleftrightarrow> distinct (map f rows) \<and> (\<forall>x\<in>set rows. f x \<noteq> f r)"
  by (induction rows) auto

lemma not_in_image_iff [table_simps]: "y \<notin> f ` A \<longleftrightarrow> (\<forall>x\<in>A. f x \<noteq> y)"
  by auto

lemma length_filter_row_delete: "length (filter Q (row_delete P rows)) \<le> length (filter Q rows)"
  by (induction rows) (auto simp: row_delete_def)

text \<open>
  The interface a keyed table offers its clients: an insertion that the engine refuses when a
  unique column repeats, and a well-formedness predicate that includes the uniqueness of the
  primary key. The laws below it are proved once and used for every table of the schema.
\<close>

locale keyed_table =
  fixes pk :: "'r \<Rightarrow> 'k"
    and add :: "'r \<Rightarrow> 'r list \<Rightarrow> 'r list option"
    and ok :: "'r list \<Rightarrow> bool"
  assumes add_Some: "add r rows = Some rows' \<Longrightarrow> rows' = rows @ [r]"
    and add_fresh: "add r rows = Some rows' \<Longrightarrow> pk r \<notin> pk ` set rows"
    and ok_add: "ok rows \<Longrightarrow> add r rows = Some rows' \<Longrightarrow> ok rows'"
    and ok_delete: "ok rows \<Longrightarrow> ok (row_delete P rows)"
    and ok_distinct: "ok rows \<Longrightarrow> distinct (map pk rows)"
begin

lemma find_after_add:
  assumes "add r rows = Some rows'"
  shows "row_find pk (pk r) rows' = Some r"
proof -
  have "row_find pk (pk r) rows = None"
    using add_fresh [OF assms] by (simp add: row_find_None_iff)
  then show ?thesis
    by (simp add: add_Some [OF assms] row_find_append row_find_Cons)
qed

lemma find_other_after_add:
  "add r rows = Some rows' \<Longrightarrow> k \<noteq> pk r \<Longrightarrow> row_find pk k rows' = row_find pk k rows"
  by (drule add_Some) (simp add: row_find_append row_find_Cons split: option.splits)

lemma set_after_add: "add r rows = Some rows' \<Longrightarrow> set rows' = insert r (set rows)"
  by (drule add_Some) simp

lemma find_in: "ok rows \<Longrightarrow> r \<in> set rows \<Longrightarrow> row_find pk (pk r) rows = Some r"
  by (simp add: ok_distinct row_find_distinct)

lemma find_after_delete:
  "ok rows \<Longrightarrow> row_find pk k (row_delete P rows) =
    (case row_find pk k rows of None \<Rightarrow> None | Some r \<Rightarrow> if P r then None else Some r)"
  by (simp add: ok_distinct row_find_delete)

lemma unique_row: "ok rows \<Longrightarrow> r \<in> set rows \<Longrightarrow> r' \<in> set rows \<Longrightarrow> pk r = pk r' \<Longrightarrow> r = r'"
  by (metis find_in option.inject)

end

end
