(* ===== verification/Extern.thy ===== *)
theory Extern
  imports Prelude
begin

text \<open>
  What the program takes from outside its own sources. The crates it calls (\<open>sha2\<close>,
  \<open>hmac\<close>, \<open>hex\<close>, \<open>chacha20poly1305\<close>, \<open>uuid\<close>, \<open>ipnetwork\<close>, \<open>url\<close> and
  \<open>chrono\<close>) and the textual syntax of addresses are the fields of a record \<open>lib\<close> that
  the definitions take as an argument; what a theorem needs of them is a hypothesis on the
  record. The address predicates of \<open>std::net\<close> are definitions. \<open>env\<close> is what one
  request reads from its surroundings: the clock, the random generator and the peer address.
\<close>

type_synonym uuid = "128 word"

text \<open>\<open>NaiveDateTime\<close> and \<open>DateTime<Utc>\<close>: nanoseconds since the Unix epoch.\<close>
type_synonym datetime = int

definition unix_seconds :: "datetime \<Rightarrow> int" where
  "unix_seconds t = t div 1000000000"

datatype ip_addr = V4 "32 word" | V6 "128 word"

text \<open>\<open>IpNetwork\<close>: an address with its prefix length (\<open>ip()\<close> and \<open>prefix()\<close>).\<close>
record ip_network =
  net_ip :: ip_addr
  net_prefix :: nat

text \<open>
  The parts of a \<open>reqwest::Url\<close> the program asks for; \<open>url_port\<close> is \<open>port_or_known_default()\<close>.
  \<open>url_query\<close> is never asked for, but it is on the wire.
\<close>
record url =
  url_scheme :: string
  url_host :: "string option"
  url_path :: string
  url_query :: "string option"
  url_port :: "nat option"

record lib =
  l_sha256 :: "string \<Rightarrow> string"
  l_hmac_sha256 :: "string \<Rightarrow> string \<Rightarrow> string"
  l_hex_encode :: "string \<Rightarrow> string"
  l_hex_decode :: "string \<Rightarrow> string option"
  l_utf8_valid :: "string \<Rightarrow> bool"
  l_aead_encrypt :: "string \<Rightarrow> string \<Rightarrow> string \<Rightarrow> string option"
  l_aead_decrypt :: "string \<Rightarrow> string \<Rightarrow> string \<Rightarrow> string option"
  l_uuid_parse :: "string \<Rightarrow> uuid option"
  l_uuid_str :: "uuid \<Rightarrow> string"
  l_ip_parse :: "string \<Rightarrow> ip_addr option"
  l_ip_str :: "ip_addr \<Rightarrow> string"
  l_net_parse :: "string \<Rightarrow> ip_network option"
  l_net_network :: "ip_network \<Rightarrow> ip_addr"
  l_net_contains :: "ip_network \<Rightarrow> ip_addr \<Rightarrow> bool"
  l_url_parse :: "string \<Rightarrow> url option"
  l_from_timestamp :: "int \<Rightarrow> datetime option"
  l_minus_days :: "datetime \<Rightarrow> int \<Rightarrow> datetime option"
  l_minus_secs :: "datetime \<Rightarrow> int \<Rightarrow> datetime option"
  l_minus_hours :: "datetime \<Rightarrow> int \<Rightarrow> datetime option"
  l_like :: "string \<Rightarrow> string \<Rightarrow> bool"
  l_net_of_ip :: "ip_addr \<Rightarrow> ip_network"
  l_header_name :: "string \<Rightarrow> string option"
  l_header_value_error :: "string \<Rightarrow> string option"
  l_json_map :: "string \<Rightarrow> (string \<times> string) list option"
  l_url_error :: "string \<Rightarrow> string"
  l_debug_str :: "string \<Rightarrow> string"

text \<open>
  One request's readings. \<open>e_now\<close> is the handler's clock, \<open>e_audit_now\<close> the later one of
  its audit row; \<open>e_uuid n\<close> is the \<open>n\<close>-th \<open>Uuid::new_v4()\<close> and \<open>e_random n\<close> the
  \<open>n\<close>-th draw of 32 random bytes.
\<close>

record env =
  e_now :: datetime
  e_audit_now :: datetime
  e_uuid :: "nat \<Rightarrow> uuid"
  e_random :: "nat \<Rightarrow> string"
  e_client_ip :: string

subsection \<open>Address predicates of \<open>std::net\<close>\<close>

definition octet :: "nat \<Rightarrow> 32 word \<Rightarrow> nat" where
  "octet i w = unat (drop_bit (8 * (3 - i)) w) mod 256"

definition segment :: "nat \<Rightarrow> 128 word \<Rightarrow> nat" where
  "segment i w = unat (drop_bit (16 * (7 - i)) w) mod 65536"

definition v4_is_private :: "32 word \<Rightarrow> bool" where
  "v4_is_private w =
     (octet 0 w = 10 \<or> (octet 0 w = 172 \<and> 16 \<le> octet 1 w \<and> octet 1 w \<le> 31) \<or>
      (octet 0 w = 192 \<and> octet 1 w = 168))"

definition v4_is_loopback :: "32 word \<Rightarrow> bool" where
  "v4_is_loopback w = (octet 0 w = 127)"

definition v4_is_link_local :: "32 word \<Rightarrow> bool" where
  "v4_is_link_local w = (octet 0 w = 169 \<and> octet 1 w = 254)"

definition v4_is_broadcast :: "32 word \<Rightarrow> bool" where
  "v4_is_broadcast w = (w = 0xFFFFFFFF)"

definition v4_is_documentation :: "32 word \<Rightarrow> bool" where
  "v4_is_documentation w =
     ((octet 0 w, octet 1 w, octet 2 w) \<in> {(192, 0, 2), (198, 51, 100), (203, 0, 113)})"

fun ip_is_loopback :: "ip_addr \<Rightarrow> bool" where
  "ip_is_loopback (V4 w) = v4_is_loopback w"
| "ip_is_loopback (V6 w) = (w = 1)"

fun ip_is_unspecified :: "ip_addr \<Rightarrow> bool" where
  "ip_is_unspecified (V4 w) = (w = 0)"
| "ip_is_unspecified (V6 w) = (w = 0)"

text \<open>\<open>Ipv6Addr::to_ipv4_mapped\<close>: \<open>::ffff:a.b.c.d\<close>, that is \<open>0xffff\<close> above 32 address bits.\<close>

definition to_ipv4_mapped :: "128 word \<Rightarrow> 32 word option" where
  "to_ipv4_mapped w = (if drop_bit 32 w = 0xFFFF then Some (ucast w) else None)"

definition map_v4 :: "32 word \<Rightarrow> 128 word" where
  "map_v4 w = word_of_nat (0xFFFF * 2 ^ 32 + unat w)"

lemma octet_bound: "octet i w < 256"
  by (simp add: octet_def)

end
