(* ===== verification/Errors.thy ===== *)
theory Errors
  imports Extern
begin

text \<open>
  The error type of the service (\<open>src/error.rs\<close>): its constructors, the classification of
  transient database failures and the status and message of the response. The database's own
  error is kept as far as the classification and \<open>sql_err()\<close> look into it. The entity
  records that a refused deletion enumerates are the payload of \<open>ConflictWithDetails\<close>.
\<close>

subsection \<open>Database errors\<close>

datatype sqlx_error = PoolTimedOut | Database "string option" | OtherSqlx
datatype runtime_err = SqlxError sqlx_error | RuntimeInternal string
datatype db_err = Conn runtime_err | Exec runtime_err | Query runtime_err | RecordNotUpdated | OtherDbErr string

text \<open>
  SQLite's extended codes for the two constraint violations: 2067 (a unique index, 1555 for a
  primary key) and 787 (a foreign key); \<open>sql_err()\<close> recognises them by these codes.
\<close>

definition unique_violation :: db_err where
  "unique_violation = Exec (SqlxError (Database (Some ''2067'')))"

definition foreign_key_violation :: db_err where
  "foreign_key_violation = Exec (SqlxError (Database (Some ''787'')))"

fun is_unique_violation :: "db_err \<Rightarrow> bool" where
  "is_unique_violation (Exec (SqlxError (Database (Some c)))) = (c = ''2067'' \<or> c = ''1555'')"
| "is_unique_violation (Query (SqlxError (Database (Some c)))) = (c = ''2067'' \<or> c = ''1555'')"
| "is_unique_violation _ = False"

definition is_transient_lock_error :: "db_err \<Rightarrow> bool" where
  "is_transient_lock_error err =
     (case (case err of Conn e \<Rightarrow> Some e | Exec e \<Rightarrow> Some e | Query e \<Rightarrow> Some e | _ \<Rightarrow> None) of
        None \<Rightarrow> False
      | Some runtime_err \<Rightarrow>
          (case runtime_err of
             SqlxError PoolTimedOut \<Rightarrow> True
           | SqlxError (Database (Some code)) \<Rightarrow>
               (if code = ''55P03'' \<or> code = ''40001'' \<or> code = ''40P01'' then True
                else (case parse_unsigned 4294967296 code of
                        Some n \<Rightarrow> n mod 256 = 5 \<or> n mod 256 = 6
                      | None \<Rightarrow> False))
           | _ \<Rightarrow> False))"

subsection \<open>The service's errors\<close>

record owned_entity =
  oe_type :: string
  oe_id :: uuid
  oe_name :: string
  oe_owner_key_id :: uuid
  oe_owner_name :: string

text \<open>The two JSON payloads \<open>ConflictWithDetails\<close> is built with.\<close>
datatype conflict_details =
    SubtreeInventory nat "owned_entity list"
  | Unresolved "owned_entity list"

datatype app_error =
    DbError db_err
  | InvalidInput string
  | Unauthorized string
  | Forbidden string
  | NotFound
  | Conflict string
  | ConflictWithDetails string conflict_details
  | BodyRejected nat string
  | Internal

fun status_of :: "app_error \<Rightarrow> nat" where
  "status_of (ConflictWithDetails _ _) = 409"
| "status_of (DbError err) = (if is_transient_lock_error err then 503 else 500)"
| "status_of (InvalidInput _) = 400"
| "status_of (Unauthorized _) = 401"
| "status_of (Forbidden _) = 403"
| "status_of NotFound = 404"
| "status_of (Conflict _) = 409"
| "status_of (BodyRejected status _) = status"
| "status_of Internal = 500"

definition msg_busy :: string where "msg_busy = ''Database busy or query timeout, please retry''"
definition msg_db_internal :: string where "msg_db_internal = ''Internal database error''"
definition msg_not_found :: string where "msg_not_found = ''Resource not found''"
definition msg_internal :: string where "msg_internal = ''An internal server error occurred''"

text \<open>
  The body of the response: the message under \<open>error\<close>, and beside it the details' own
  fields. \<open>into_response\<close> gives the pair of status and body.
\<close>

fun error_message :: "app_error \<Rightarrow> string" where
  "error_message (ConflictWithDetails message _) = message"
| "error_message (DbError err) = (if is_transient_lock_error err then msg_busy else msg_db_internal)"
| "error_message (InvalidInput msg) = msg"
| "error_message (Unauthorized msg) = msg"
| "error_message (Forbidden msg) = msg"
| "error_message NotFound = msg_not_found"
| "error_message (Conflict msg) = msg"
| "error_message (BodyRejected _ msg) = msg"
| "error_message Internal = msg_internal"

definition into_response :: "app_error \<Rightarrow> nat \<times> string \<times> conflict_details option" where
  "into_response e =
     (status_of e, error_message e, (case e of ConflictWithDetails _ d \<Rightarrow> Some d | _ \<Rightarrow> None))"

lemma unique_violation_facts [simp]:
  "is_unique_violation unique_violation" "\<not> is_unique_violation foreign_key_violation"
  by (simp_all add: unique_violation_def foreign_key_violation_def)

lemma constraint_errors_not_transient:
  "\<not> is_transient_lock_error unique_violation" "\<not> is_transient_lock_error foreign_key_violation"
  by (simp_all add: is_transient_lock_error_def unique_violation_def foreign_key_violation_def
      parse_unsigned_def is_ascii_digit_def byte_def)

text \<open>A database error never puts its own text into the response.\<close>
lemma db_error_opaque:
  "error_message (DbError err) \<in> {msg_busy, msg_db_internal}"
  by simp

end
