(* ===== verification/Store.thy ===== *)
theory Store
  imports Errors
begin

text \<open>
  The database: one record per entity (\<open>src/entities\<close>), the state \<open>db\<close> as the list of rows
  of every table, and the statements the handlers issue, with the constraints of the schema
  (\<open>src/migration\<close>): unique columns and indexes, the engine-derived master marker, and the
  foreign keys with their \<open>ON DELETE\<close> actions. An insertion that would break a constraint is
  refused with the engine's error. \<open>db_ok\<close> collects the constraints and every statement is
  shown to keep it. The columns \<open>parent_key_id\<close> and \<open>owner_key_id\<close> carry no foreign key.
\<close>

subsection \<open>Entities\<close>

record api_key =
  k_id :: uuid
  k_name :: string
  k_key_hash :: string
  k_signing_secret :: "string option"
  k_prefix :: string
  k_bound_ips :: "string option"
  k_is_master :: bool
  k_can_manage_keys :: bool
  k_can_manage_webhooks :: bool
  k_can_create_groups :: bool
  k_parent_key_id :: "uuid option"
  k_created_at :: datetime
  k_updated_at :: datetime

record ip_group =
  g_id :: uuid
  g_name :: string
  g_group_type :: string
  g_description :: "string option"
  g_owner_key_id :: "uuid option"
  g_created_at :: datetime

record group_permission =
  p_id :: uuid
  p_api_key_id :: uuid
  p_group_id :: uuid
  p_can_read :: bool
  p_can_write :: bool
  p_can_delete :: bool
  p_can_manage :: bool
  p_created_at :: datetime

record ip_record =
  r_id :: uuid
  r_target_address :: string
  r_cause :: "string option"
  r_is_locked :: bool
  r_created_at :: datetime
  r_updated_at :: datetime
  r_last_seen_at :: datetime
  r_is_deleted :: bool
  r_deleted_at :: "datetime option"
  r_deleted_by :: "string option"

record membership =
  m_ip_record_id :: uuid
  m_group_id :: uuid

record webhook_config =
  w_id :: uuid
  w_name :: string
  w_target_url :: string
  w_secret_token :: string
  w_auth_mode :: string
  w_api_key :: "string option"
  w_hmac_template :: "string option"
  w_signature_header :: "string option"
  w_signature_prefix :: "string option"
  w_headers_json :: "string option"
  w_payload_template :: string
  w_group_id :: uuid
  w_is_active :: bool
  w_events :: "string option"
  w_owner_key_id :: "uuid option"
  w_created_at :: datetime

record webhook_execution =
  x_id :: uuid
  x_webhook_id :: uuid
  x_event_type :: string
  x_status_code :: "int option"
  x_is_success :: bool
  x_duration_ms :: int
  x_response_body :: "string option"
  x_resolved_target_url :: "string option"
  x_target_address :: "string option"
  x_cause :: "string option"
  x_created_at :: datetime

record audit_log =
  a_id :: uuid
  a_api_key_id :: "uuid option"
  a_api_key_name :: string
  a_api_key_prefix :: string
  a_client_ip :: string
  a_action :: string
  a_target_address :: "string option"
  a_group_names :: "string option"
  a_details :: "string option"
  a_timestamp :: datetime

record db =
  api_keys :: "api_key list"
  ip_groups :: "ip_group list"
  permissions :: "group_permission list"
  ip_records :: "ip_record list"
  memberships :: "membership list"
  webhook_configs :: "webhook_config list"
  webhook_executions :: "webhook_execution list"
  audit_logs :: "audit_log list"

definition empty_db :: db where
  "empty_db = \<lparr>api_keys = [], ip_groups = [], permissions = [], ip_records = [],
     memberships = [], webhook_configs = [], webhook_executions = [], audit_logs = []\<rparr>"

text \<open>A handler's outcome: its result and the database it leaves, also after an error.\<close>
type_synonym 'a outcome = "(app_error + 'a) \<times> db"

abbreviation perm_pair :: "group_permission \<Rightarrow> uuid \<times> uuid" where
  "perm_pair p \<equiv> (p_api_key_id p, p_group_id p)"

abbreviation member_pair :: "membership \<Rightarrow> uuid \<times> uuid" where
  "member_pair m \<equiv> (m_ip_record_id m, m_group_id m)"

subsection \<open>Unique columns\<close>

definition keys_add :: "api_key \<Rightarrow> api_key list \<Rightarrow> api_key list option" where
  "keys_add k rows =
     (if list_ex (\<lambda>x. k_id x = k_id k \<or> k_key_hash x = k_key_hash k \<or> (k_is_master x \<and> k_is_master k)) rows
      then None else Some (rows @ [k]))"

definition keys_ok :: "api_key list \<Rightarrow> bool" where
  "keys_ok rows =
     (distinct (map k_id rows) \<and> distinct (map k_key_hash rows) \<and> length (filter k_is_master rows) \<le> 1)"

definition groups_add :: "ip_group \<Rightarrow> ip_group list \<Rightarrow> ip_group list option" where
  "groups_add g rows =
     (if list_ex (\<lambda>x. g_id x = g_id g \<or> g_name x = g_name g) rows then None else Some (rows @ [g]))"

definition groups_ok :: "ip_group list \<Rightarrow> bool" where
  "groups_ok rows = (distinct (map g_id rows) \<and> distinct (map g_name rows))"

definition perms_add :: "group_permission \<Rightarrow> group_permission list \<Rightarrow> group_permission list option" where
  "perms_add p rows =
     (if list_ex (\<lambda>x. p_id x = p_id p \<or> perm_pair x = perm_pair p) rows then None else Some (rows @ [p]))"

definition perms_ok :: "group_permission list \<Rightarrow> bool" where
  "perms_ok rows = (distinct (map p_id rows) \<and> distinct (map perm_pair rows))"

definition records_add :: "ip_record \<Rightarrow> ip_record list \<Rightarrow> ip_record list option" where
  "records_add r rows =
     (if list_ex (\<lambda>x. r_id x = r_id r \<or> r_target_address x = r_target_address r) rows
      then None else Some (rows @ [r]))"

definition records_ok :: "ip_record list \<Rightarrow> bool" where
  "records_ok rows = (distinct (map r_id rows) \<and> distinct (map r_target_address rows))"

definition members_add :: "membership \<Rightarrow> membership list \<Rightarrow> membership list option" where
  "members_add m rows =
     (if list_ex (\<lambda>x. member_pair x = member_pair m) rows then None else Some (rows @ [m]))"

definition members_ok :: "membership list \<Rightarrow> bool" where
  "members_ok rows = distinct (map member_pair rows)"

definition webhooks_add :: "webhook_config \<Rightarrow> webhook_config list \<Rightarrow> webhook_config list option" where
  "webhooks_add w rows = (if list_ex (\<lambda>x. w_id x = w_id w) rows then None else Some (rows @ [w]))"

definition webhooks_ok :: "webhook_config list \<Rightarrow> bool" where
  "webhooks_ok rows = distinct (map w_id rows)"

definition executions_add :: "webhook_execution \<Rightarrow> webhook_execution list \<Rightarrow> webhook_execution list option" where
  "executions_add x rows = (if list_ex (\<lambda>y. x_id y = x_id x) rows then None else Some (rows @ [x]))"

definition executions_ok :: "webhook_execution list \<Rightarrow> bool" where
  "executions_ok rows = distinct (map x_id rows)"

definition audits_add :: "audit_log \<Rightarrow> audit_log list \<Rightarrow> audit_log list option" where
  "audits_add a rows = (if list_ex (\<lambda>y. a_id y = a_id a) rows then None else Some (rows @ [a]))"

definition audits_ok :: "audit_log list \<Rightarrow> bool" where
  "audits_ok rows = distinct (map a_id rows)"

lemmas table_defs = keys_add_def keys_ok_def groups_add_def groups_ok_def perms_add_def perms_ok_def
  records_add_def records_ok_def members_add_def members_ok_def webhooks_add_def webhooks_ok_def
  executions_add_def executions_ok_def audits_add_def audits_ok_def

lemmas store_run [run] = table_defs empty_db_def

lemma filter_none_masterI:
  "\<forall>x\<in>set rows. \<not> k_is_master x \<Longrightarrow> filter k_is_master rows = []"
  by simp

interpretation keys: keyed_table k_id keys_add keys_ok
proof unfold_locales
  show "keys_ok rows \<Longrightarrow> keys_ok (row_delete P rows)" for P rows
    using length_filter_row_delete [of k_is_master P rows]
    by (simp add: keys_ok_def distinct_row_delete)
  show "keys_ok rows \<Longrightarrow> keys_add r rows = Some rows' \<Longrightarrow> keys_ok rows'" for r rows rows'
    by (cases "k_is_master r")
      (auto simp: keys_ok_def keys_add_def list_ex_iff distinct_map_snoc filter_none_masterI
        simp del: map_append split: if_splits)
qed (auto simp: keys_ok_def keys_add_def list_ex_iff split: if_splits)

interpretation groups: keyed_table g_id groups_add groups_ok
  by unfold_locales
    (auto simp: groups_add_def groups_ok_def list_ex_iff distinct_map_snoc distinct_row_delete
      simp del: map_append split: if_splits)

interpretation perms: keyed_table perm_pair perms_add perms_ok
  by unfold_locales
    (auto simp: perms_add_def perms_ok_def list_ex_iff distinct_map_snoc distinct_row_delete
      simp del: map_append split: if_splits)

interpretation records: keyed_table r_id records_add records_ok
  by unfold_locales
    (auto simp: records_add_def records_ok_def list_ex_iff distinct_map_snoc distinct_row_delete
      simp del: map_append split: if_splits)

interpretation members: keyed_table member_pair members_add members_ok
  by unfold_locales
    (auto simp: members_add_def members_ok_def list_ex_iff distinct_map_snoc distinct_row_delete
      simp del: map_append split: if_splits)

interpretation hooks: keyed_table w_id webhooks_add webhooks_ok
  by unfold_locales
    (auto simp: webhooks_add_def webhooks_ok_def list_ex_iff distinct_map_snoc distinct_row_delete
      simp del: map_append split: if_splits)

interpretation execs: keyed_table x_id executions_add executions_ok
  by unfold_locales
    (auto simp: executions_add_def executions_ok_def list_ex_iff distinct_map_snoc distinct_row_delete
      simp del: map_append split: if_splits)

interpretation audits: keyed_table a_id audits_add audits_ok
  by unfold_locales
    (auto simp: audits_add_def audits_ok_def list_ex_iff distinct_map_snoc distinct_row_delete
      simp del: map_append split: if_splits)

end
