(* ===== verification/Database.thy ===== *)
theory Database
  imports Store
begin

text \<open>
  The statements of the handlers over the whole database: lookups, insertions with their
  unique and foreign-key checks, \<open>ON CONFLICT\<close> variants, updates by primary key and deletions
  with their cascades. \<open>db_ok\<close> is the conjunction of the schema's constraints; each statement
  keeps it (collection \<open>store_intros\<close>).
\<close>

subsection \<open>Constraints\<close>

definition refs_ok :: "db \<Rightarrow> bool" where
  "refs_ok db \<longleftrightarrow>
     (\<forall>p\<in>set (permissions db). p_api_key_id p \<in> k_id ` set (api_keys db) \<and> p_group_id p \<in> g_id ` set (ip_groups db)) \<and>
     (\<forall>m\<in>set (memberships db). m_ip_record_id m \<in> r_id ` set (ip_records db) \<and> m_group_id m \<in> g_id ` set (ip_groups db)) \<and>
     (\<forall>w\<in>set (webhook_configs db). w_group_id w \<in> g_id ` set (ip_groups db)) \<and>
     (\<forall>x\<in>set (webhook_executions db). x_webhook_id x \<in> w_id ` set (webhook_configs db)) \<and>
     (\<forall>a\<in>set (audit_logs db). \<forall>k. a_api_key_id a = Some k \<longrightarrow> k \<in> k_id ` set (api_keys db))"

definition db_ok :: "db \<Rightarrow> bool" where
  "db_ok db \<longleftrightarrow> keys_ok (api_keys db) \<and> groups_ok (ip_groups db) \<and> perms_ok (permissions db) \<and>
     records_ok (ip_records db) \<and> members_ok (memberships db) \<and> webhooks_ok (webhook_configs db) \<and>
     executions_ok (webhook_executions db) \<and> audits_ok (audit_logs db) \<and> refs_ok db"

subsection \<open>Lookups\<close>

definition find_key :: "uuid \<Rightarrow> db \<Rightarrow> api_key option" where
  "find_key i db = row_find k_id i (api_keys db)"

definition find_group :: "uuid \<Rightarrow> db \<Rightarrow> ip_group option" where
  "find_group i db = row_find g_id i (ip_groups db)"

definition find_group_by_name :: "string \<Rightarrow> db \<Rightarrow> ip_group option" where
  "find_group_by_name n db = row_find g_name n (ip_groups db)"

definition find_permission :: "uuid \<Rightarrow> uuid \<Rightarrow> db \<Rightarrow> group_permission option" where
  "find_permission k g db = row_find perm_pair (k, g) (permissions db)"

definition find_record :: "uuid \<Rightarrow> db \<Rightarrow> ip_record option" where
  "find_record i db = row_find r_id i (ip_records db)"

definition find_record_by_address :: "string \<Rightarrow> db \<Rightarrow> ip_record option" where
  "find_record_by_address a db = row_find r_target_address a (ip_records db)"

definition find_webhook :: "uuid \<Rightarrow> db \<Rightarrow> webhook_config option" where
  "find_webhook i db = row_find w_id i (webhook_configs db)"

definition find_execution :: "uuid \<Rightarrow> db \<Rightarrow> webhook_execution option" where
  "find_execution i db = row_find x_id i (webhook_executions db)"

lemmas find_defs = find_key_def find_group_def find_group_by_name_def find_permission_def
  find_record_def find_record_by_address_def find_webhook_def find_execution_def

subsection \<open>Insertions\<close>

definition insert_key :: "api_key \<Rightarrow> db \<Rightarrow> app_error + db" where
  "insert_key k db =
     (case keys_add k (api_keys db) of
        None \<Rightarrow> Inl (DbError unique_violation)
      | Some rows \<Rightarrow> Inr (db\<lparr>api_keys := rows\<rparr>))"

definition insert_group :: "ip_group \<Rightarrow> db \<Rightarrow> app_error + db" where
  "insert_group g db =
     (case groups_add g (ip_groups db) of
        None \<Rightarrow> Inl (DbError unique_violation)
      | Some rows \<Rightarrow> Inr (db\<lparr>ip_groups := rows\<rparr>))"

text \<open>\<open>ON CONFLICT (name) DO NOTHING\<close>: a taken name is not an error, a taken id is.\<close>

definition insert_group_or_ignore :: "ip_group \<Rightarrow> db \<Rightarrow> app_error + db" where
  "insert_group_or_ignore g db =
     (if find_group_by_name (g_name g) db \<noteq> None then Inr db else insert_group g db)"

definition insert_permission :: "group_permission \<Rightarrow> db \<Rightarrow> app_error + db" where
  "insert_permission p db =
     (case perms_add p (permissions db) of
        None \<Rightarrow> Inl (DbError unique_violation)
      | Some rows \<Rightarrow>
          (if find_key (p_api_key_id p) db = None \<or> find_group (p_group_id p) db = None
           then Inl (DbError foreign_key_violation)
           else Inr (db\<lparr>permissions := rows\<rparr>)))"

definition insert_permission_or_ignore :: "group_permission \<Rightarrow> db \<Rightarrow> app_error + db" where
  "insert_permission_or_ignore p db =
     (if find_permission (p_api_key_id p) (p_group_id p) db \<noteq> None then Inr db else insert_permission p db)"

text \<open>\<open>ON CONFLICT (api_key_id, group_id) DO UPDATE\<close> of the four verbs.\<close>

definition upsert_permission :: "group_permission \<Rightarrow> db \<Rightarrow> app_error + db" where
  "upsert_permission p db =
     (case find_permission (p_api_key_id p) (p_group_id p) db of
        Some old \<Rightarrow>
          Inr (db\<lparr>permissions := row_update perm_pair
                 (old\<lparr>p_can_read := p_can_read p, p_can_write := p_can_write p,
                      p_can_delete := p_can_delete p, p_can_manage := p_can_manage p\<rparr>)
                 (permissions db)\<rparr>)
      | None \<Rightarrow> insert_permission p db)"

definition insert_record :: "ip_record \<Rightarrow> db \<Rightarrow> app_error + db" where
  "insert_record r db =
     (case records_add r (ip_records db) of
        None \<Rightarrow> Inl (DbError unique_violation)
      | Some rows \<Rightarrow> Inr (db\<lparr>ip_records := rows\<rparr>))"

text \<open>
  The membership insertion with \<open>DO NOTHING\<close>: the number of rows affected (1 for a new link,
  0 for an existing one) beside the database.
\<close>

definition link_member :: "membership \<Rightarrow> db \<Rightarrow> app_error + nat \<times> db" where
  "link_member m db =
     (case members_add m (memberships db) of
        None \<Rightarrow> Inr (0, db)
      | Some rows \<Rightarrow>
          (if find_record (m_ip_record_id m) db = None \<or> find_group (m_group_id m) db = None
           then Inl (DbError foreign_key_violation)
           else Inr (1, db\<lparr>memberships := rows\<rparr>)))"

definition insert_webhook :: "webhook_config \<Rightarrow> db \<Rightarrow> app_error + db" where
  "insert_webhook w db =
     (case webhooks_add w (webhook_configs db) of
        None \<Rightarrow> Inl (DbError unique_violation)
      | Some rows \<Rightarrow>
          (if find_group (w_group_id w) db = None then Inl (DbError foreign_key_violation)
           else Inr (db\<lparr>webhook_configs := rows\<rparr>)))"

definition insert_execution :: "webhook_execution \<Rightarrow> db \<Rightarrow> app_error + db" where
  "insert_execution x db =
     (case executions_add x (webhook_executions db) of
        None \<Rightarrow> Inl (DbError unique_violation)
      | Some rows \<Rightarrow>
          (if find_webhook (x_webhook_id x) db = None then Inl (DbError foreign_key_violation)
           else Inr (db\<lparr>webhook_executions := rows\<rparr>)))"

definition insert_audit :: "audit_log \<Rightarrow> db \<Rightarrow> app_error + db" where
  "insert_audit a db =
     (case audits_add a (audit_logs db) of
        None \<Rightarrow> Inl (DbError unique_violation)
      | Some rows \<Rightarrow>
          (if (case a_api_key_id a of None \<Rightarrow> False | Some k \<Rightarrow> find_key k db = None)
           then Inl (DbError foreign_key_violation)
           else Inr (db\<lparr>audit_logs := rows\<rparr>)))"

subsection \<open>Updates by primary key\<close>

definition update_key :: "api_key \<Rightarrow> db \<Rightarrow> app_error + db" where
  "update_key k db =
     (if find_key (k_id k) db = None then Inl (DbError RecordNotUpdated)
      else if list_ex (\<lambda>x. k_id x \<noteq> k_id k \<and>
                 (k_key_hash x = k_key_hash k \<or> (k_is_master x \<and> k_is_master k))) (api_keys db)
      then Inl (DbError unique_violation)
      else Inr (db\<lparr>api_keys := row_update k_id k (api_keys db)\<rparr>))"

definition update_group :: "ip_group \<Rightarrow> db \<Rightarrow> app_error + db" where
  "update_group g db =
     (if find_group (g_id g) db = None then Inl (DbError RecordNotUpdated)
      else if list_ex (\<lambda>x. g_id x \<noteq> g_id g \<and> g_name x = g_name g) (ip_groups db)
      then Inl (DbError unique_violation)
      else Inr (db\<lparr>ip_groups := row_update g_id g (ip_groups db)\<rparr>))"

definition update_record :: "ip_record \<Rightarrow> db \<Rightarrow> app_error + db" where
  "update_record r db =
     (if find_record (r_id r) db = None then Inl (DbError RecordNotUpdated)
      else if list_ex (\<lambda>x. r_id x \<noteq> r_id r \<and> r_target_address x = r_target_address r) (ip_records db)
      then Inl (DbError unique_violation)
      else Inr (db\<lparr>ip_records := row_update r_id r (ip_records db)\<rparr>))"

definition update_webhook_row :: "webhook_config \<Rightarrow> db \<Rightarrow> app_error + db" where
  "update_webhook_row w db =
     (if find_webhook (w_id w) db = None then Inl (DbError RecordNotUpdated)
      else if find_group (w_group_id w) db = None then Inl (DbError foreign_key_violation)
      else Inr (db\<lparr>webhook_configs := row_update w_id w (webhook_configs db)\<rparr>))"

subsection \<open>Deletions and their cascades\<close>

definition delete_webhooks :: "(webhook_config \<Rightarrow> bool) \<Rightarrow> db \<Rightarrow> db" where
  "delete_webhooks P db =
     (let gone = w_id ` set (filter P (webhook_configs db)) in
      db\<lparr>webhook_configs := row_delete P (webhook_configs db),
         webhook_executions := row_delete (\<lambda>x. x_webhook_id x \<in> gone) (webhook_executions db)\<rparr>)"

definition delete_group :: "uuid \<Rightarrow> db \<Rightarrow> db" where
  "delete_group i db =
     (let db1 = delete_webhooks (\<lambda>w. w_group_id w = i) db in
      db1\<lparr>ip_groups := row_delete (\<lambda>g. g_id g = i) (ip_groups db1),
          permissions := row_delete (\<lambda>p. p_group_id p = i) (permissions db1),
          memberships := row_delete (\<lambda>m. m_group_id m = i) (memberships db1)\<rparr>)"

definition delete_keys :: "uuid set \<Rightarrow> db \<Rightarrow> db" where
  "delete_keys ids db =
     db\<lparr>api_keys := row_delete (\<lambda>k. k_id k \<in> ids) (api_keys db),
        permissions := row_delete (\<lambda>p. p_api_key_id p \<in> ids) (permissions db),
        audit_logs := map (\<lambda>a. case a_api_key_id a of
            Some k \<Rightarrow> (if k \<in> ids then a\<lparr>a_api_key_id := None\<rparr> else a) | None \<Rightarrow> a) (audit_logs db)\<rparr>"

definition delete_records :: "(ip_record \<Rightarrow> bool) \<Rightarrow> db \<Rightarrow> db" where
  "delete_records P db =
     (let gone = r_id ` set (filter P (ip_records db)) in
      db\<lparr>ip_records := row_delete P (ip_records db),
         memberships := row_delete (\<lambda>m. m_ip_record_id m \<in> gone) (memberships db)\<rparr>)"

definition delete_permission :: "uuid \<Rightarrow> uuid \<Rightarrow> db \<Rightarrow> db" where
  "delete_permission k g db =
     db\<lparr>permissions := row_delete (\<lambda>p. perm_pair p = (k, g)) (permissions db)\<rparr>"

definition delete_member :: "uuid \<Rightarrow> uuid \<Rightarrow> db \<Rightarrow> db" where
  "delete_member r g db =
     db\<lparr>memberships := row_delete (\<lambda>m. member_pair m = (r, g)) (memberships db)\<rparr>"

definition delete_executions :: "(webhook_execution \<Rightarrow> bool) \<Rightarrow> db \<Rightarrow> db" where
  "delete_executions P db =
     db\<lparr>webhook_executions := row_delete P (webhook_executions db)\<rparr>"

text \<open>\<open>rows_affected\<close> of a deletion.\<close>
definition count_rows :: "('r \<Rightarrow> bool) \<Rightarrow> 'r list \<Rightarrow> nat" where
  "count_rows P rows = length (filter P rows)"

lemmas database_run [run] = find_defs insert_key_def insert_group_def insert_group_or_ignore_def
  insert_permission_def insert_permission_or_ignore_def upsert_permission_def insert_record_def
  link_member_def insert_webhook_def insert_execution_def insert_audit_def update_key_def
  update_group_def update_record_def update_webhook_row_def delete_webhooks_def delete_group_def
  delete_keys_def delete_records_def delete_permission_def delete_member_def delete_executions_def
  count_rows_def

end
