(* ===== verification/Database_Laws.thy ===== *)
theory Database_Laws
  imports Database
begin

text \<open>
  Every statement keeps the schema's constraints, and what each leaves of the tables it does not
  name: the facts the handlers' proofs are made of.
\<close>

subsection \<open>Lookups under the constraints\<close>

lemma db_ok_tables:
  assumes "db_ok db"
  shows "keys_ok (api_keys db)" "groups_ok (ip_groups db)" "perms_ok (permissions db)"
    "records_ok (ip_records db)" "members_ok (memberships db)" "webhooks_ok (webhook_configs db)"
    "executions_ok (webhook_executions db)" "audits_ok (audit_logs db)" "refs_ok db"
  using assms by (auto simp: db_ok_def)

lemma find_key_SomeD: "find_key i db = Some k \<Longrightarrow> k \<in> set (api_keys db) \<and> k_id k = i"
  unfolding find_key_def by (rule row_find_SomeD)

lemma find_group_SomeD: "find_group i db = Some g \<Longrightarrow> g \<in> set (ip_groups db) \<and> g_id g = i"
  unfolding find_group_def by (rule row_find_SomeD)

lemma find_group_by_name_SomeD:
  "find_group_by_name n db = Some g \<Longrightarrow> g \<in> set (ip_groups db) \<and> g_name g = n"
  unfolding find_group_by_name_def by (rule row_find_SomeD)

lemma find_permission_SomeD:
  "find_permission k g db = Some p \<Longrightarrow> p \<in> set (permissions db) \<and> p_api_key_id p = k \<and> p_group_id p = g"
  unfolding find_permission_def by (drule row_find_SomeD) simp

lemma find_record_SomeD: "find_record i db = Some r \<Longrightarrow> r \<in> set (ip_records db) \<and> r_id r = i"
  unfolding find_record_def by (rule row_find_SomeD)

lemma find_record_by_address_SomeD:
  "find_record_by_address a db = Some r \<Longrightarrow> r \<in> set (ip_records db) \<and> r_target_address r = a"
  unfolding find_record_by_address_def by (rule row_find_SomeD)

lemma find_webhook_SomeD: "find_webhook i db = Some w \<Longrightarrow> w \<in> set (webhook_configs db) \<and> w_id w = i"
  unfolding find_webhook_def by (rule row_find_SomeD)

lemma find_key_None_iff: "find_key i db = None \<longleftrightarrow> i \<notin> k_id ` set (api_keys db)"
  unfolding find_key_def by (rule row_find_None_iff)

lemma find_group_None_iff: "find_group i db = None \<longleftrightarrow> i \<notin> g_id ` set (ip_groups db)"
  unfolding find_group_def by (rule row_find_None_iff)

lemma find_record_None_iff: "find_record i db = None \<longleftrightarrow> i \<notin> r_id ` set (ip_records db)"
  unfolding find_record_def by (rule row_find_None_iff)

lemma find_webhook_None_iff: "find_webhook i db = None \<longleftrightarrow> i \<notin> w_id ` set (webhook_configs db)"
  unfolding find_webhook_def by (rule row_find_None_iff)

lemma find_permission_None_iff:
  "find_permission k g db = None \<longleftrightarrow> (k, g) \<notin> perm_pair ` set (permissions db)"
  unfolding find_permission_def by (rule row_find_None_iff)

lemma find_permission_in:
  "db_ok db \<Longrightarrow> p \<in> set (permissions db) \<Longrightarrow> find_permission (p_api_key_id p) (p_group_id p) db = Some p"
  unfolding find_permission_def by (rule perms.find_in) (auto simp: db_ok_def)

lemma find_key_in: "db_ok db \<Longrightarrow> k \<in> set (api_keys db) \<Longrightarrow> find_key (k_id k) db = Some k"
  unfolding find_key_def by (rule keys.find_in) (auto simp: db_ok_def)

lemmas find_SomeD = find_key_SomeD find_group_SomeD find_group_by_name_SomeD find_permission_SomeD
  find_record_SomeD find_record_by_address_SomeD find_webhook_SomeD

lemmas find_None_iffs = find_key_None_iff find_group_None_iff find_record_None_iff
  find_webhook_None_iff find_permission_None_iff

subsection \<open>Insertions\<close>

lemma insert_key_InrD:
  "insert_key k db = Inr db' \<Longrightarrow> keys_add k (api_keys db) = Some (api_keys db @ [k]) \<and>
     db' = db\<lparr>api_keys := api_keys db @ [k]\<rparr>"
  by (auto simp: insert_key_def keys_add_def split: option.splits if_splits)

lemma insert_group_InrD:
  "insert_group g db = Inr db' \<Longrightarrow> groups_add g (ip_groups db) = Some (ip_groups db @ [g]) \<and>
     db' = db\<lparr>ip_groups := ip_groups db @ [g]\<rparr>"
  by (auto simp: insert_group_def groups_add_def split: option.splits if_splits)

lemma insert_permission_InrD:
  "insert_permission p db = Inr db' \<Longrightarrow>
     perms_add p (permissions db) = Some (permissions db @ [p]) \<and>
     p_api_key_id p \<in> k_id ` set (api_keys db) \<and> p_group_id p \<in> g_id ` set (ip_groups db) \<and>
     db' = db\<lparr>permissions := permissions db @ [p]\<rparr>"
  by (auto simp: insert_permission_def perms_add_def find_None_iffs split: option.splits if_splits)

lemma insert_record_InrD:
  "insert_record r db = Inr db' \<Longrightarrow> records_add r (ip_records db) = Some (ip_records db @ [r]) \<and>
     db' = db\<lparr>ip_records := ip_records db @ [r]\<rparr>"
  by (auto simp: insert_record_def records_add_def split: option.splits if_splits)

lemma link_member_InrD:
  "link_member m db = Inr (n, db') \<Longrightarrow>
     (n = 0 \<and> db' = db \<and> member_pair m \<in> member_pair ` set (memberships db)) \<or>
     (n = 1 \<and> members_add m (memberships db) = Some (memberships db @ [m]) \<and>
      m_ip_record_id m \<in> r_id ` set (ip_records db) \<and> m_group_id m \<in> g_id ` set (ip_groups db) \<and>
      db' = db\<lparr>memberships := memberships db @ [m]\<rparr>)"
  by (auto simp: link_member_def members_add_def find_None_iffs list_ex_iff rev_image_eqI
      split: option.splits if_splits)

lemma insert_webhook_InrD:
  "insert_webhook w db = Inr db' \<Longrightarrow>
     webhooks_add w (webhook_configs db) = Some (webhook_configs db @ [w]) \<and>
     w_group_id w \<in> g_id ` set (ip_groups db) \<and>
     db' = db\<lparr>webhook_configs := webhook_configs db @ [w]\<rparr>"
  by (auto simp: insert_webhook_def webhooks_add_def find_None_iffs split: option.splits if_splits)

lemma insert_execution_InrD:
  "insert_execution x db = Inr db' \<Longrightarrow>
     executions_add x (webhook_executions db) = Some (webhook_executions db @ [x]) \<and>
     x_webhook_id x \<in> w_id ` set (webhook_configs db) \<and>
     db' = db\<lparr>webhook_executions := webhook_executions db @ [x]\<rparr>"
  by (auto simp: insert_execution_def executions_add_def find_None_iffs split: option.splits if_splits)

lemma insert_audit_InrD:
  "insert_audit a db = Inr db' \<Longrightarrow>
     audits_add a (audit_logs db) = Some (audit_logs db @ [a]) \<and>
     (\<forall>k. a_api_key_id a = Some k \<longrightarrow> k \<in> k_id ` set (api_keys db)) \<and>
     db' = db\<lparr>audit_logs := audit_logs db @ [a]\<rparr>"
  by (auto simp: insert_audit_def audits_add_def find_None_iffs split: option.splits if_splits)

lemma db_ok_insert_key [rotated, store_steps]:
  "db_ok db \<Longrightarrow> insert_key k db = Inr db' \<Longrightarrow> db_ok db'"
  by (drule insert_key_InrD) (auto simp: db_ok_def refs_ok_def dest: keys.ok_add)

lemma db_ok_insert_group [rotated, store_steps]:
  "db_ok db \<Longrightarrow> insert_group g db = Inr db' \<Longrightarrow> db_ok db'"
  by (drule insert_group_InrD) (auto simp: db_ok_def refs_ok_def dest: groups.ok_add)

lemma db_ok_insert_permission [rotated, store_steps]:
  "db_ok db \<Longrightarrow> insert_permission p db = Inr db' \<Longrightarrow> db_ok db'"
  by (drule insert_permission_InrD) (auto simp: db_ok_def refs_ok_def dest: perms.ok_add)

lemma db_ok_insert_record [rotated, store_steps]:
  "db_ok db \<Longrightarrow> insert_record r db = Inr db' \<Longrightarrow> db_ok db'"
  by (drule insert_record_InrD) (auto simp: db_ok_def refs_ok_def dest: records.ok_add)

lemma db_ok_link_member [rotated, store_steps]:
  "db_ok db \<Longrightarrow> link_member m db = Inr (n, db') \<Longrightarrow> db_ok db'"
  by (drule link_member_InrD) (auto simp: db_ok_def refs_ok_def dest: members.ok_add)

lemma db_ok_insert_webhook [rotated, store_steps]:
  "db_ok db \<Longrightarrow> insert_webhook w db = Inr db' \<Longrightarrow> db_ok db'"
  by (drule insert_webhook_InrD) (auto simp: db_ok_def refs_ok_def dest: hooks.ok_add)

lemma db_ok_insert_execution [rotated, store_steps]:
  "db_ok db \<Longrightarrow> insert_execution x db = Inr db' \<Longrightarrow> db_ok db'"
  by (drule insert_execution_InrD) (auto simp: db_ok_def refs_ok_def dest: execs.ok_add)

lemma db_ok_insert_audit [rotated, store_steps]:
  "db_ok db \<Longrightarrow> insert_audit a db = Inr db' \<Longrightarrow> db_ok db'"
  by (drule insert_audit_InrD) (auto simp: db_ok_def refs_ok_def dest: audits.ok_add)

lemma db_ok_insert_group_or_ignore [rotated, store_steps]:
  "db_ok db \<Longrightarrow> insert_group_or_ignore g db = Inr db' \<Longrightarrow> db_ok db'"
  by (auto simp: insert_group_or_ignore_def split: if_splits intro: db_ok_insert_group)

lemma db_ok_insert_permission_or_ignore [rotated, store_steps]:
  "db_ok db \<Longrightarrow> insert_permission_or_ignore p db = Inr db' \<Longrightarrow> db_ok db'"
  by (auto simp: insert_permission_or_ignore_def split: if_splits intro: db_ok_insert_permission)

lemma db_ok_upsert_permission [rotated, store_steps]:
  assumes "db_ok db" "upsert_permission p db = Inr db'"
  shows "db_ok db'"
proof (cases "find_permission (p_api_key_id p) (p_group_id p) db")
  case None
  with assms show ?thesis by (simp add: upsert_permission_def db_ok_insert_permission)
next
  case (Some old)
  define new where "new = old\<lparr>p_can_read := p_can_read p, p_can_write := p_can_write p,
    p_can_delete := p_can_delete p, p_can_manage := p_can_manage p\<rparr>"
  have old: "old \<in> set (permissions db)" using find_permission_SomeD [OF Some] by simp
  have ids: "p_id new = p_id old" "perm_pair new = perm_pair old" by (simp_all add: new_def)
  have "map p_id (row_update perm_pair new (permissions db)) = map p_id (permissions db)"
    using old ids assms(1) perms.unique_row [OF db_ok_tables(3) [OF assms(1)] _ old]
    by (auto simp: row_update_def)
  moreover have "db' = db\<lparr>permissions := row_update perm_pair new (permissions db)\<rparr>"
    using assms(2) Some by (simp add: upsert_permission_def new_def)
  moreover have "\<forall>x\<in>set (row_update perm_pair new (permissions db)).
      p_api_key_id x \<in> k_id ` set (api_keys db) \<and> p_group_id x \<in> g_id ` set (ip_groups db)"
    using old ids assms(1) by (auto simp: db_ok_def refs_ok_def dest!: in_row_updateD)
  ultimately show ?thesis
    using assms(1) by (simp add: db_ok_def refs_ok_def perms_ok_def)
qed

subsection \<open>Updates\<close>

lemma update_key_InrD:
  "update_key k db = Inr db' \<Longrightarrow>
     k_id k \<in> k_id ` set (api_keys db) \<and>
     (\<forall>x\<in>set (api_keys db). k_id x \<noteq> k_id k \<longrightarrow> k_key_hash x \<noteq> k_key_hash k \<and> \<not> (k_is_master x \<and> k_is_master k)) \<and>
     db' = db\<lparr>api_keys := row_update k_id k (api_keys db)\<rparr>"
  by (auto simp: update_key_def find_None_iffs list_ex_iff split: if_splits)

lemma update_group_InrD:
  "update_group g db = Inr db' \<Longrightarrow>
     g_id g \<in> g_id ` set (ip_groups db) \<and>
     (\<forall>x\<in>set (ip_groups db). g_id x \<noteq> g_id g \<longrightarrow> g_name x \<noteq> g_name g) \<and>
     db' = db\<lparr>ip_groups := row_update g_id g (ip_groups db)\<rparr>"
  by (auto simp: update_group_def find_None_iffs list_ex_iff split: if_splits)

lemma update_record_InrD:
  "update_record r db = Inr db' \<Longrightarrow>
     r_id r \<in> r_id ` set (ip_records db) \<and>
     (\<forall>x\<in>set (ip_records db). r_id x \<noteq> r_id r \<longrightarrow> r_target_address x \<noteq> r_target_address r) \<and>
     db' = db\<lparr>ip_records := row_update r_id r (ip_records db)\<rparr>"
  by (auto simp: update_record_def find_None_iffs list_ex_iff split: if_splits)

lemma update_webhook_row_InrD:
  "update_webhook_row w db = Inr db' \<Longrightarrow>
     w_id w \<in> w_id ` set (webhook_configs db) \<and> w_group_id w \<in> g_id ` set (ip_groups db) \<and>
     db' = db\<lparr>webhook_configs := row_update w_id w (webhook_configs db)\<rparr>"
  by (auto simp: update_webhook_row_def find_None_iffs split: if_splits)

lemma row_update_absent: "pk r \<notin> pk ` set rows \<Longrightarrow> row_update pk r rows = rows"
  by (induction rows) (auto simp: row_update_def)

text \<open>An update that leaves a unique column distinct: the new row repeats no other row's value.\<close>

lemma distinct_row_update:
  assumes "distinct (map pk rows)" "distinct (map f rows)"
    and "\<And>x. x \<in> set rows \<Longrightarrow> pk x \<noteq> pk r \<Longrightarrow> f x \<noteq> f r"
  shows "distinct (map f (row_update pk r rows))"
  using assms
proof (induction rows)
  case (Cons x rows)
  show ?case
  proof (cases "pk x = pk r")
    case True
    then have "row_update pk r rows = rows"
      using Cons.prems(1) by (intro row_update_absent) simp
    moreover have "\<And>y. y \<in> set rows \<Longrightarrow> f y \<noteq> f r"
      using Cons.prems(1,3) True by (metis distinct.simps(2) image_eqI list.set_intros(2) list.simps(9) list.set_map)
    then have "f r \<notin> f ` set rows" by (metis imageE)
    ultimately show ?thesis
      using Cons.prems(2) True by (simp add: row_update_def)
  next
    case False
    have "f x \<notin> f ` set (row_update pk r rows)"
      using Cons.prems(2,3) False by (auto simp: row_update_def)
    then show ?thesis
      using Cons False by (simp add: row_update_Cons)
  qed
qed (simp add: row_update_def)

lemma length_filter_row_update:
  assumes "distinct (map pk rows)" "length (filter Q rows) \<le> 1"
    and "\<And>x. x \<in> set rows \<Longrightarrow> pk x \<noteq> pk r \<Longrightarrow> \<not> (Q x \<and> Q r)"
  shows "length (filter Q (row_update pk r rows)) \<le> 1"
  using assms
proof (induction rows)
  case (Cons x rows)
  show ?case
  proof (cases "pk x = pk r")
    case True
    then have same: "row_update pk r rows = rows"
      using Cons.prems(1) by (intro row_update_absent) simp
    have "Q r \<Longrightarrow> y \<in> set rows \<Longrightarrow> \<not> Q y" for y
      using Cons.prems(1,3) True by (metis distinct.simps(2) image_eqI list.set_intros(2) list.simps(9) list.set_map)
    then have "Q r \<Longrightarrow> filter Q rows = []"
      by (simp add: filter_empty_conv)
    then show ?thesis
      using Cons.prems(2) True same by (auto simp: row_update_def split: if_splits)
  next
    case False
    show ?thesis
    proof (cases "Q x")
      case True
      then have "filter Q (row_update pk r rows) = []"
        using Cons.prems(2,3) False by (auto simp: filter_empty_conv row_update_def)
      then show ?thesis using True False by (simp add: row_update_def)
    next
      case Q: False
      have "length (filter Q (row_update pk r rows)) \<le> 1"
        using Cons Q by simp
      then show ?thesis using Q False by (simp add: row_update_def)
    qed
  qed
qed (simp add: row_update_def)

lemma image_pk_row_update [simp]: "pk ` set (row_update pk r rows) = pk ` set rows"
  by (metis map_pk_row_update set_map)

lemma db_ok_update_key [rotated, store_steps]:
  "db_ok db \<Longrightarrow> update_key k db = Inr db' \<Longrightarrow> db_ok db'"
  by (drule update_key_InrD)
    (auto simp: db_ok_def refs_ok_def keys_ok_def intro!: distinct_row_update length_filter_row_update
      simp del: One_nat_def)

lemma db_ok_update_group [rotated, store_steps]:
  "db_ok db \<Longrightarrow> update_group g db = Inr db' \<Longrightarrow> db_ok db'"
  by (drule update_group_InrD)
    (auto simp: db_ok_def refs_ok_def groups_ok_def intro!: distinct_row_update)

lemma db_ok_update_record [rotated, store_steps]:
  "db_ok db \<Longrightarrow> update_record r db = Inr db' \<Longrightarrow> db_ok db'"
  by (drule update_record_InrD)
    (auto simp: db_ok_def refs_ok_def records_ok_def intro!: distinct_row_update)

lemma db_ok_update_webhook_row [rotated, store_steps]:
  "db_ok db \<Longrightarrow> update_webhook_row w db = Inr db' \<Longrightarrow> db_ok db'"
  by (drule update_webhook_row_InrD)
    (auto simp: db_ok_def refs_ok_def webhooks_ok_def dest!: in_row_updateD)

subsection \<open>Deletions\<close>

lemma surviving_ref: "y \<in> f ` A \<Longrightarrow> y \<notin> f ` {a \<in> A. P a} \<Longrightarrow> y \<in> f ` {a \<in> A. \<not> P a}"
  by auto

lemma surviving_key: "y \<in> f ` A \<Longrightarrow> y \<notin> B \<Longrightarrow> y \<in> f ` {a \<in> A. f a \<notin> B}"
  by auto

lemma db_ok_delete_webhooks [store_intros]:
  assumes "db_ok db" shows "db_ok (delete_webhooks P db)"
proof -
  have "refs_ok (delete_webhooks P db)"
    using assms unfolding db_ok_def refs_ok_def delete_webhooks_def Let_def
    by (simp add: surviving_ref)
  then show ?thesis
    using assms by (simp add: db_ok_def delete_webhooks_def Let_def hooks.ok_delete execs.ok_delete)
qed

lemma db_ok_delete_group [store_intros]:
  assumes "db_ok db" shows "db_ok (delete_group i db)"
proof -
  define db1 where "db1 = delete_webhooks (\<lambda>w. w_group_id w = i) db"
  have db1: "db_ok db1"
    unfolding db1_def using assms by (rule db_ok_delete_webhooks)
  have hooks1: "\<forall>w\<in>set (webhook_configs db1). w_group_id w \<noteq> i"
    by (simp add: db1_def delete_webhooks_def Let_def)
  have eq: "delete_group i db =
      db1\<lparr>ip_groups := row_delete (\<lambda>g. g_id g = i) (ip_groups db1),
          permissions := row_delete (\<lambda>p. p_group_id p = i) (permissions db1),
          memberships := row_delete (\<lambda>m. m_group_id m = i) (memberships db1)\<rparr>"
    by (simp add: delete_group_def db1_def Let_def)
  have "refs_ok (delete_group i db)"
    unfolding eq using db1 hooks1
    by (auto simp: db_ok_def refs_ok_def intro: surviving_key [where B = "{i}", simplified])
  then show ?thesis
    using db1 unfolding eq by (simp add: db_ok_def groups.ok_delete perms.ok_delete members.ok_delete)
qed

lemma a_id_audits_delete_keys: "map a_id (audit_logs (delete_keys ids db)) = map a_id (audit_logs db)"
  by (auto simp: delete_keys_def split: option.splits)

lemma audit_key_after_delete_keys:
  "a \<in> set (audit_logs (delete_keys ids db)) \<Longrightarrow> a_api_key_id a = Some k \<Longrightarrow>
     k \<notin> ids \<and> (\<exists>a'\<in>set (audit_logs db). a_api_key_id a' = Some k)"
  by (auto simp: delete_keys_def split: option.splits if_splits)

lemma db_ok_delete_keys [store_intros]:
  assumes "db_ok db" shows "db_ok (delete_keys ids db)"
proof -
  have audits: "\<forall>a\<in>set (audit_logs (delete_keys ids db)). \<forall>k. a_api_key_id a = Some k \<longrightarrow>
      k \<in> k_id ` set (api_keys (delete_keys ids db))"
  proof (intro ballI allI impI)
    fix a k
    assume "a \<in> set (audit_logs (delete_keys ids db))" "a_api_key_id a = Some k"
    from audit_key_after_delete_keys [OF this] have "k \<notin> ids" "k \<in> k_id ` set (api_keys db)"
      using assms by (auto simp: db_ok_def refs_ok_def)
    then show "k \<in> k_id ` set (api_keys (delete_keys ids db))"
      by (auto simp: delete_keys_def intro: surviving_key)
  qed
  have tables: "ip_groups (delete_keys ids db) = ip_groups db"
      "ip_records (delete_keys ids db) = ip_records db" "memberships (delete_keys ids db) = memberships db"
      "webhook_configs (delete_keys ids db) = webhook_configs db"
      "webhook_executions (delete_keys ids db) = webhook_executions db"
      "api_keys (delete_keys ids db) = row_delete (\<lambda>k. k_id k \<in> ids) (api_keys db)"
      "permissions (delete_keys ids db) = row_delete (\<lambda>p. p_api_key_id p \<in> ids) (permissions db)"
    by (simp_all add: delete_keys_def)
  show ?thesis
    using assms audits
    by (auto simp: db_ok_def refs_ok_def tables audits_ok_def a_id_audits_delete_keys
        intro: keys.ok_delete perms.ok_delete surviving_key)
qed

lemma db_ok_delete_records [store_intros]:
  assumes "db_ok db" shows "db_ok (delete_records P db)"
proof -
  have "refs_ok (delete_records P db)"
    using assms unfolding db_ok_def refs_ok_def delete_records_def Let_def
    by (simp add: surviving_ref)
  then show ?thesis
    using assms by (simp add: db_ok_def delete_records_def Let_def records.ok_delete members.ok_delete)
qed

lemma db_ok_delete_permission [store_intros]: "db_ok db \<Longrightarrow> db_ok (delete_permission k g db)"
  by (auto simp: db_ok_def refs_ok_def delete_permission_def intro: perms.ok_delete)

lemma db_ok_delete_member [store_intros]: "db_ok db \<Longrightarrow> db_ok (delete_member r g db)"
  by (auto simp: db_ok_def refs_ok_def delete_member_def intro: members.ok_delete)

lemma db_ok_delete_executions [store_intros]: "db_ok db \<Longrightarrow> db_ok (delete_executions P db)"
  by (auto simp: db_ok_def refs_ok_def delete_executions_def intro: execs.ok_delete)

subsection \<open>The empty database\<close>

lemma db_ok_empty [store_intros]: "db_ok empty_db"
  by (simp add: db_ok_def empty_db_def refs_ok_def table_defs)

end
