(* ===== verification/Guards.thy ===== *)
theory Guards
  imports Database_Laws
begin

text \<open>
  The authorization guards (\<open>src/api/guards.rs\<close>): every function decides one question of
  the access model and returns unit or a refusal. The messages are the source's. The lemmas
  characterise when each guard admits, in terms of the set of verbs a permission row carries.
\<close>

subsection \<open>Verbs\<close>

datatype verb = Read | Write | Delete | Manage

instantiation verb :: enum
begin

definition "enum_verb = [Read, Write, Delete, Manage]"
definition "enum_all_verb P = (P Read \<and> P Write \<and> P Delete \<and> P Manage)"
definition "enum_ex_verb P = (P Read \<or> P Write \<or> P Delete \<or> P Manage)"

instance
proof
  show "(UNIV :: verb set) = set Enum.enum"
    by (auto simp: enum_verb_def) (metis verb.exhaust)
  show "distinct (Enum.enum :: verb list)" by (simp add: enum_verb_def)
  show "Enum.enum_all P = Ball UNIV P" for P :: "verb \<Rightarrow> bool"
    by (simp add: enum_all_verb_def) (metis verb.exhaust)
  show "Enum.enum_ex P = Bex UNIV P" for P :: "verb \<Rightarrow> bool"
    by (simp add: enum_ex_verb_def) (metis verb.exhaust)
qed

end

definition perm_verbs :: "group_permission \<Rightarrow> verb set" where
  "perm_verbs p = (if p_can_read p then {Read} else {}) \<union> (if p_can_write p then {Write} else {}) \<union>
     (if p_can_delete p then {Delete} else {}) \<union> (if p_can_manage p then {Manage} else {})"

text \<open>\<open>GroupPermInput\<close>, the payload of a grant.\<close>
record group_perm_input =
  i_group_id :: "string option"
  i_group_name :: "string option"
  i_can_read :: bool
  i_can_write :: bool
  i_can_delete :: bool
  i_can_manage :: bool

definition input_verbs :: "group_perm_input \<Rightarrow> verb set" where
  "input_verbs i = (if i_can_read i then {Read} else {}) \<union> (if i_can_write i then {Write} else {}) \<union>
     (if i_can_delete i then {Delete} else {}) \<union> (if i_can_manage i then {Manage} else {})"

lemma perm_verbs_iff [simp]:
  "Read \<in> perm_verbs p \<longleftrightarrow> p_can_read p" "Write \<in> perm_verbs p \<longleftrightarrow> p_can_write p"
  "Delete \<in> perm_verbs p \<longleftrightarrow> p_can_delete p" "Manage \<in> perm_verbs p \<longleftrightarrow> p_can_manage p"
  by (simp_all add: perm_verbs_def)

lemma input_verbs_iff [simp]:
  "Read \<in> input_verbs p \<longleftrightarrow> i_can_read p" "Write \<in> input_verbs p \<longleftrightarrow> i_can_write p"
  "Delete \<in> input_verbs p \<longleftrightarrow> i_can_delete p" "Manage \<in> input_verbs p \<longleftrightarrow> i_can_manage p"
  by (simp_all add: input_verbs_def)

lemma all_verb_iff: "(\<forall>v. P v) \<longleftrightarrow> P Read \<and> P Write \<and> P Delete \<and> P Manage"
  by (metis verb.exhaust)

lemma verb_subset_iff:
  "A \<subseteq> B \<longleftrightarrow> (Read \<in> A \<longrightarrow> Read \<in> B) \<and> (Write \<in> A \<longrightarrow> Write \<in> B) \<and>
     (Delete \<in> A \<longrightarrow> Delete \<in> B) \<and> (Manage \<in> A \<longrightarrow> Manage \<in> B)" for A B :: "verb set"
  by (simp add: subset_iff all_verb_iff)

subsection \<open>Messages\<close>

definition msg_permission_denied :: string where
  "msg_permission_denied = ''Permission denied''"

definition msg_not_owner :: "string \<Rightarrow> string \<Rightarrow> string" where
  "msg_not_owner resource action =
     ''Permission denied: only the master key or this '' @ resource @ [CHR 0x27] @ ''s owner may '' @ action @
     '' it. Managing its permissions or holding read/write/delete on its contents confers no authority over the '' @
     resource @ '' itself.''"

definition msg_cannot_manage :: "string \<Rightarrow> string \<Rightarrow> string" where
  "msg_cannot_manage action group_name =
     ''Permission denied: you cannot '' @ action @ '' permissions on group '' @ [CHR 0x27] @ group_name @ [CHR 0x27] @
     ''. Managing a group'' @ [CHR 0x27] @ ''s permissions requires both the global can_manage_keys scope and can_manage = true on your own grant for that group; neither alone is sufficient.''"

definition msg_cannot_act :: "string \<Rightarrow> string \<Rightarrow> string" where
  "msg_cannot_act action group_name =
     ''Permission denied: you cannot '' @ action @ '' permissions on group '' @ [CHR 0x27] @ group_name @ [CHR 0x27]"

definition msg_beyond_own :: "string \<Rightarrow> string \<Rightarrow> string" where
  "msg_beyond_own action group_name = msg_cannot_act action group_name @ '' beyond your own''"

definition msg_master_scope :: "string \<Rightarrow> string" where
  "msg_master_scope name = ''Only a master key can grant '' @ [CHR 0x27] @ name @ [CHR 0x27]"

definition msg_master_target :: string where
  "msg_master_target = ''Only a master key can modify, rotate, or delete another master key''"

definition msg_master_immutable :: "string \<Rightarrow> string" where
  "msg_master_immutable operation =
     ''The master key is immutable through the API and cannot be '' @ operation @
     ''. Only its own bound_ips may be edited, by itself. To re-mint it, delete the row directly in the database and restart the service.''"

definition msg_no_such_owner :: string where
  "msg_no_such_owner = ''No such key to assign ownership to''"

definition msg_master_owner :: string where
  "msg_master_owner = ''The master key cannot be a resource owner; leave owner_key_id null instead, which already means master-only''"

subsection \<open>The guards\<close>

definition caller_group_permission :: "db \<Rightarrow> uuid \<Rightarrow> uuid \<Rightarrow> group_permission option" where
  "caller_group_permission db key_id group_id = find_permission key_id group_id db"

definition resource_owner :: "api_key \<Rightarrow> uuid option" where
  "resource_owner creator = (if \<not> k_is_master creator then Some (k_id creator) else None)"

definition guard_resource_lifecycle ::
  "api_key \<Rightarrow> uuid option \<Rightarrow> string \<Rightarrow> string \<Rightarrow> app_error + unit" where
  "guard_resource_lifecycle caller owner_key_id resource action =
     (if k_is_master caller \<or> (case owner_key_id of None \<Rightarrow> False | Some owner \<Rightarrow> owner = k_id caller)
      then Inr () else Inl (Forbidden (msg_not_owner resource action)))"

definition resolve_owner_assignment :: "db \<Rightarrow> uuid option \<Rightarrow> app_error + uuid option" where
  "resolve_owner_assignment db requested =
     (case requested of
        None \<Rightarrow> Inr None
      | Some owner_id \<Rightarrow>
          try_then (ok_or (InvalidInput msg_no_such_owner) (find_key owner_id db)) (\<lambda>owner.
            if k_is_master owner then Inl (InvalidInput msg_master_owner) else Inr (Some owner_id)))"

definition guard_group_manage ::
  "api_key \<Rightarrow> group_permission option \<Rightarrow> string \<Rightarrow> string \<Rightarrow> app_error + unit" where
  "guard_group_manage caller caller_perm group_name action =
     (if k_is_master caller then Inr ()
      else if k_can_manage_keys caller \<and> (case caller_perm of None \<Rightarrow> False | Some p \<Rightarrow> p_can_manage p)
      then Inr ()
      else Inl (Forbidden (msg_cannot_manage action group_name)))"

definition holds_any_group_manage :: "db \<Rightarrow> uuid \<Rightarrow> bool" where
  "holds_any_group_manage db key_id =
     (List.find (\<lambda>p. p_api_key_id p = key_id \<and> p_can_manage p) (permissions db) \<noteq> None)"

definition guard_may_administer_any_group :: "db \<Rightarrow> api_key \<Rightarrow> app_error + unit" where
  "guard_may_administer_any_group db caller =
     (if k_is_master caller then Inr ()
      else if k_can_manage_keys caller \<and> holds_any_group_manage db (k_id caller) then Inr ()
      else Inl (Forbidden msg_permission_denied))"

definition widens_permissions :: "group_perm_input \<Rightarrow> group_permission option \<Rightarrow> bool" where
  "widens_permissions requested target_perm =
     (case target_perm of
        None \<Rightarrow> True
      | Some held \<Rightarrow>
          (i_can_read requested \<and> \<not> p_can_read held) \<or>
          (i_can_write requested \<and> \<not> p_can_write held) \<or>
          (i_can_delete requested \<and> \<not> p_can_delete held) \<or>
          (i_can_manage requested \<and> \<not> p_can_manage held))"

definition guard_delegated_group_grant ::
  "api_key \<Rightarrow> group_permission option \<Rightarrow> string \<Rightarrow> string \<Rightarrow> group_perm_input \<Rightarrow> app_error + unit" where
  "guard_delegated_group_grant caller caller_perm group_name action requested =
     try_then (guard_group_manage caller caller_perm group_name action) (\<lambda>_.
       if k_is_master caller then Inr ()
       else (case caller_perm of
               None \<Rightarrow> Inl (Forbidden (msg_cannot_act action group_name))
             | Some held \<Rightarrow>
                 (if (i_can_read requested \<and> \<not> p_can_read held) \<or>
                     (i_can_write requested \<and> \<not> p_can_write held) \<or>
                     (i_can_delete requested \<and> \<not> p_can_delete held) \<or>
                     (i_can_manage requested \<and> \<not> p_can_manage held)
                  then Inl (Forbidden (msg_beyond_own action group_name))
                  else Inr ())))"

definition MASTER_ONLY_SCOPES :: "string list" where
  "MASTER_ONLY_SCOPES = [''can_manage_keys'', ''can_create_groups'', ''can_manage_webhooks'']"

definition guard_scope_elevation :: "api_key \<Rightarrow> bool option list \<Rightarrow> bool list \<Rightarrow> app_error + unit" where
  "guard_scope_elevation caller requested held =
     (if k_is_master caller then Inr ()
      else (case List.find (\<lambda>((request, current), name). request = Some True \<and> \<not> current)
                   (zip (zip requested held) MASTER_ONLY_SCOPES) of
              Some (_, name) \<Rightarrow> Inl (Forbidden (msg_master_scope name))
            | None \<Rightarrow> Inr ()))"

definition guard_master_target :: "api_key \<Rightarrow> api_key \<Rightarrow> app_error + unit" where
  "guard_master_target caller target =
     (if k_is_master target \<and> \<not> k_is_master caller then Inl (Forbidden msg_master_target) else Inr ())"

definition guard_master_immutable :: "api_key \<Rightarrow> string \<Rightarrow> app_error + unit" where
  "guard_master_immutable target operation =
     (if \<not> k_is_master target then Inr () else Inl (Forbidden (msg_master_immutable operation)))"

subsection \<open>When each guard admits\<close>

lemma guard_resource_lifecycle_admits:
  "guard_resource_lifecycle caller owner resource action = Inr u \<longleftrightarrow>
     k_is_master caller \<or> owner = Some (k_id caller)"
  by (auto simp: guard_resource_lifecycle_def split: option.splits)

lemma guard_group_manage_admits:
  "guard_group_manage caller perm name action = Inr u \<longleftrightarrow>
     k_is_master caller \<or> (k_can_manage_keys caller \<and> (\<exists>p. perm = Some p \<and> Manage \<in> perm_verbs p))"
  by (auto simp: guard_group_manage_def split: option.splits)

lemma guard_delegated_group_grant_admits:
  "guard_delegated_group_grant caller perm name action requested = Inr u \<longleftrightarrow>
     k_is_master caller \<or>
     (k_can_manage_keys caller \<and>
      (\<exists>p. perm = Some p \<and> Manage \<in> perm_verbs p \<and> input_verbs requested \<subseteq> perm_verbs p))"
  by (cases perm)
    (auto simp: guard_delegated_group_grant_def guard_group_manage_def try_then_def verb_subset_iff)

lemma widens_permissions_iff:
  "widens_permissions requested target \<longleftrightarrow>
     (case target of None \<Rightarrow> True | Some held \<Rightarrow> \<not> input_verbs requested \<subseteq> perm_verbs held)"
  by (auto simp: widens_permissions_def verb_subset_iff split: option.splits)

lemma holds_any_group_manage_iff:
  "holds_any_group_manage db k \<longleftrightarrow> (\<exists>p\<in>set (permissions db). p_api_key_id p = k \<and> p_can_manage p)"
  by (auto simp: holds_any_group_manage_def find_None_iff)

lemma guard_may_administer_any_group_admits:
  "guard_may_administer_any_group db caller = Inr u \<longleftrightarrow>
     k_is_master caller \<or> (k_can_manage_keys caller \<and>
       (\<exists>p\<in>set (permissions db). p_api_key_id p = k_id caller \<and> p_can_manage p))"
  by (auto simp: guard_may_administer_any_group_def holds_any_group_manage_iff)

lemma guard_scope_elevation_admits:
  "guard_scope_elevation caller [a, b, c] [x, y, z] = Inr u \<longleftrightarrow>
     k_is_master caller \<or> ((a = Some True \<longrightarrow> x) \<and> (b = Some True \<longrightarrow> y) \<and> (c = Some True \<longrightarrow> z))"
  by (auto simp: guard_scope_elevation_def MASTER_ONLY_SCOPES_def)

lemma guard_master_target_admits:
  "guard_master_target caller target = Inr u \<longleftrightarrow> (k_is_master target \<longrightarrow> k_is_master caller)"
  by (auto simp: guard_master_target_def)

lemma guard_master_immutable_admits:
  "guard_master_immutable target op = Inr u \<longleftrightarrow> \<not> k_is_master target"
  by (auto simp: guard_master_immutable_def)

lemma resolve_owner_assignment_InrD:
  "resolve_owner_assignment db requested = Inr owner \<Longrightarrow>
     owner = requested \<and>
     (\<forall>i. owner = Some i \<longrightarrow> (\<exists>k\<in>set (api_keys db). k_id k = i \<and> \<not> k_is_master k))"
  by (auto simp: resolve_owner_assignment_def split: option.splits if_splits
      elim!: try_then_InrE dest!: find_key_SomeD)

lemmas guard_admits = guard_resource_lifecycle_admits guard_group_manage_admits
  guard_delegated_group_grant_admits guard_may_administer_any_group_admits
  guard_scope_elevation_admits guard_master_target_admits guard_master_immutable_admits

subsection \<open>Rights held\<close>

text \<open>The verbs a key holds on a group, and the global scopes of a key.\<close>

definition verbs_of :: "db \<Rightarrow> uuid \<Rightarrow> uuid \<Rightarrow> verb set" where
  "verbs_of db k g = (case find_permission k g db of None \<Rightarrow> {} | Some p \<Rightarrow> perm_verbs p)"

datatype scope = Manage_Keys | Create_Groups | Manage_Webhooks

definition key_scopes :: "api_key \<Rightarrow> scope set" where
  "key_scopes k = (if k_can_manage_keys k then {Manage_Keys} else {}) \<union>
     (if k_can_create_groups k then {Create_Groups} else {}) \<union>
     (if k_can_manage_webhooks k then {Manage_Webhooks} else {})"

definition scopes_of :: "db \<Rightarrow> uuid \<Rightarrow> scope set" where
  "scopes_of db i = (case find_key i db of None \<Rightarrow> {} | Some k \<Rightarrow> key_scopes k)"

lemma key_scopes_iff [simp]:
  "Manage_Keys \<in> key_scopes k \<longleftrightarrow> k_can_manage_keys k" "Create_Groups \<in> key_scopes k \<longleftrightarrow> k_can_create_groups k"
  "Manage_Webhooks \<in> key_scopes k \<longleftrightarrow> k_can_manage_webhooks k"
  by (simp_all add: key_scopes_def)

lemma scope_subset_iff:
  "A \<subseteq> B \<longleftrightarrow> (Manage_Keys \<in> A \<longrightarrow> Manage_Keys \<in> B) \<and> (Create_Groups \<in> A \<longrightarrow> Create_Groups \<in> B) \<and>
     (Manage_Webhooks \<in> A \<longrightarrow> Manage_Webhooks \<in> B)" for A B :: "scope set"
proof -
  have "(\<forall>x. P x) \<longleftrightarrow> P Manage_Keys \<and> P Create_Groups \<and> P Manage_Webhooks" for P
    by (metis scope.exhaust)
  then show ?thesis by (simp add: subset_iff)
qed

lemma verbs_of_cong: "permissions db' = permissions db \<Longrightarrow> verbs_of db' = verbs_of db"
  by (intro ext) (simp add: verbs_of_def find_permission_def)

lemma scopes_of_cong: "api_keys db' = api_keys db \<Longrightarrow> scopes_of db' = scopes_of db"
  by (intro ext) (simp add: scopes_of_def find_key_def)

lemma verbs_of_insert_permission:
  assumes "insert_permission p db = Inr db'"
  shows "verbs_of db' k g = (if (k, g) = perm_pair p then perm_verbs p else verbs_of db k g)"
proof -
  have add: "perms_add p (permissions db) = Some (permissions db')"
    using insert_permission_InrD [OF assms] by simp
  show ?thesis
    using perms.find_after_add [OF add] perms.find_other_after_add [OF add, of "(k, g)"]
    by (auto simp: verbs_of_def find_permission_def)
qed

lemma verbs_of_upsert_permission:
  assumes "upsert_permission p db = Inr db'"
  shows "verbs_of db' k g = (if (k, g) = perm_pair p then perm_verbs p else verbs_of db k g)"
proof (cases "find_permission (p_api_key_id p) (p_group_id p) db")
  case None
  with assms have "insert_permission p db = Inr db'" by (simp add: upsert_permission_def)
  then show ?thesis by (rule verbs_of_insert_permission)
next
  case (Some old)
  from find_permission_SomeD [OF Some]
  have "perm_pair old = perm_pair p" "perm_pair p \<in> perm_pair ` set (permissions db)"
    by (auto intro!: rev_image_eqI)
  with assms Some show ?thesis
    by (auto simp: upsert_permission_def verbs_of_def find_permission_def row_find_update perm_verbs_def)
qed

lemma verbs_of_delete_permission:
  assumes "db_ok db"
  shows "verbs_of (delete_permission k g db) k' g' = (if (k', g') = (k, g) then {} else verbs_of db k' g')"
  using perms.find_after_delete [OF db_ok_tables(3) [OF assms], of "(k', g')" "\<lambda>p. perm_pair p = (k, g)"]
  by (auto simp: verbs_of_def find_permission_def delete_permission_def split: option.splits
      dest: row_find_SomeD)

lemma verbs_of_find: "find_permission k g db = Some p \<Longrightarrow> verbs_of db k g = perm_verbs p"
  by (simp add: verbs_of_def)

lemmas guards_run [run] = caller_group_permission_def resource_owner_def guard_resource_lifecycle_def
  resolve_owner_assignment_def guard_group_manage_def holds_any_group_manage_def
  guard_may_administer_any_group_def widens_permissions_def guard_delegated_group_grant_def
  MASTER_ONLY_SCOPES_def guard_scope_elevation_def guard_master_target_def guard_master_immutable_def

end
