(* ===== verification/Support.thy ===== *)
theory Support
  imports Guards
begin

text \<open>
  The helpers every handler shares (\<open>src/api/support.rs\<close>): keys and their hashes, the
  canonical spelling of an address, audit rows, find-or-create of a group and the resolution
  of a group reference.
\<close>

definition IP_EVENT_ACTIONS :: "string list" where
  "IP_EVENT_ACTIONS = [''IP_ADD'', ''IP_UPDATE'', ''IP_DELETE'']"

definition generate_random_key :: "lib \<Rightarrow> string \<Rightarrow> string" where
  "generate_random_key l bytes = l_hex_encode l bytes"

definition hash_key :: "lib \<Rightarrow> string \<Rightarrow> string" where
  "hash_key l key = l_hex_encode l (l_sha256 l key)"

definition is_ipv4 :: "ip_network \<Rightarrow> bool" where
  "is_ipv4 net = (case net_ip net of V4 _ \<Rightarrow> True | V6 _ \<Rightarrow> False)"

definition normalize_ip_or_cidr :: "lib \<Rightarrow> string \<Rightarrow> string" where
  "normalize_ip_or_cidr l input =
     (case l_net_parse l input of
        Some net \<Rightarrow>
          (if (is_ipv4 net \<and> net_prefix net = 32) \<or> (\<not> is_ipv4 net \<and> net_prefix net = 128)
           then l_ip_str l (net_ip net)
           else l_ip_str l (l_net_network l net) @ ''/'' @ dec (net_prefix net))
      | None \<Rightarrow> input)"

definition quote :: "string \<Rightarrow> string" where
  "quote s = [CHR 0x27] @ s @ [CHR 0x27]"

definition format_key_reference :: "lib \<Rightarrow> string \<Rightarrow> uuid \<Rightarrow> string" where
  "format_key_reference l name i = quote name @ '' ('' @ take 8 (l_uuid_str l i) @ ''...)''"

definition create_audit_log ::
  "env \<Rightarrow> uuid \<Rightarrow> api_key \<Rightarrow> string \<Rightarrow> string option \<Rightarrow> string option \<Rightarrow> string option \<Rightarrow> db \<Rightarrow> app_error + db" where
  "create_audit_log env new_id key action target_address group_names details db =
     insert_audit \<lparr>a_id = new_id, a_api_key_id = Some (k_id key), a_api_key_name = k_name key,
       a_api_key_prefix = k_prefix key, a_client_ip = e_client_ip env, a_action = action,
       a_target_address = target_address, a_group_names = group_names, a_details = details,
       a_timestamp = e_audit_now env\<rparr> db"

definition get_or_create_group ::
  "env \<Rightarrow> uuid \<Rightarrow> string \<Rightarrow> string \<Rightarrow> uuid option \<Rightarrow> db \<Rightarrow> app_error + ip_group \<times> db" where
  "get_or_create_group env new_id name default_group_type owner db =
     try_then (insert_group_or_ignore \<lparr>g_id = new_id, g_name = name, g_group_type = default_group_type,
                 g_description = None, g_owner_key_id = owner, g_created_at = e_now env\<rparr> db) (\<lambda>db1.
       try_then (ok_or Internal (find_group_by_name name db1)) (\<lambda>g. Inr (g, db1)))"

definition msg_both_group_refs :: string where
  "msg_both_group_refs = ''Provide either group_id or group_name, not both''"

definition msg_no_group_ref :: string where
  "msg_no_group_ref = ''Either group_id or group_name is required''"

definition resolve_group_ref :: "db \<Rightarrow> uuid option \<Rightarrow> string option \<Rightarrow> app_error + ip_group option" where
  "resolve_group_ref db group_id group_name =
     (case (group_id, group_name) of
        (Some _, Some _) \<Rightarrow> Inl (InvalidInput msg_both_group_refs)
      | (None, None) \<Rightarrow> Inl (InvalidInput msg_no_group_ref)
      | (Some gid, None) \<Rightarrow> Inr (find_group gid db)
      | (None, Some name) \<Rightarrow> Inr (find_group_by_name name db))"

definition resolve_group_by_identifier :: "lib \<Rightarrow> db \<Rightarrow> string \<Rightarrow> ip_group option" where
  "resolve_group_by_identifier l db identifier =
     (case (case l_uuid_parse l identifier of Some i \<Rightarrow> find_group i db | None \<Rightarrow> None) of
        Some g \<Rightarrow> Some g
      | None \<Rightarrow> find_group_by_name identifier db)"

definition resolve_group_ref_flexible ::
  "lib \<Rightarrow> db \<Rightarrow> string option \<Rightarrow> string option \<Rightarrow> app_error + ip_group option" where
  "resolve_group_ref_flexible l db group_id group_name =
     (case (group_id, group_name) of
        (Some _, Some _) \<Rightarrow> Inl (InvalidInput msg_both_group_refs)
      | (None, None) \<Rightarrow> Inl (InvalidInput msg_no_group_ref)
      | (Some identifier, None) \<Rightarrow> Inr (resolve_group_by_identifier l db identifier)
      | (None, Some name) \<Rightarrow> Inr (find_group_by_name name db))"

subsection \<open>What the helpers leave\<close>

lemma create_audit_log_InrD:
  assumes "create_audit_log env i key action t g d db = Inr db'"
  shows "api_keys db' = api_keys db" "ip_groups db' = ip_groups db" "permissions db' = permissions db"
    "ip_records db' = ip_records db" "memberships db' = memberships db"
    "webhook_configs db' = webhook_configs db" "webhook_executions db' = webhook_executions db"
  using insert_audit_InrD [OF assms [unfolded create_audit_log_def]] by auto

lemma create_audit_log_frame:
  "create_audit_log env i key action t g d db = Inr db' \<Longrightarrow>
     api_keys db' = api_keys db \<and> ip_groups db' = ip_groups db \<and> permissions db' = permissions db \<and>
     ip_records db' = ip_records db \<and> memberships db' = memberships db \<and>
     webhook_configs db' = webhook_configs db \<and> webhook_executions db' = webhook_executions db"
  using create_audit_log_InrD [of env i key action t g d db db'] by simp

text \<open>The audit table only ever grows by the new row, which names the caller and the action.\<close>

lemma create_audit_log_appends:
  "create_audit_log env i key action t g d db = Inr db' \<Longrightarrow>
     \<exists>a. audit_logs db' = audit_logs db @ [a] \<and> a_api_key_id a = Some (k_id key) \<and>
         a_api_key_name a = k_name key \<and> a_action a = action \<and> a_target_address a = t"
  unfolding create_audit_log_def by (drule insert_audit_InrD) auto

lemma db_ok_create_audit_log [rotated, store_steps]:
  "db_ok db \<Longrightarrow> create_audit_log env i key action t g d db = Inr db' \<Longrightarrow> db_ok db'"
  unfolding create_audit_log_def by (rule db_ok_insert_audit)

text \<open>An existing name is found unchanged; a new one is created with the given owner.\<close>

lemma get_or_create_group_InrD:
  assumes "get_or_create_group env i name ty owner db = Inr (g, db')"
  shows "(find_group_by_name name db = Some g \<and> db' = db) \<or>
    (find_group_by_name name db = None \<and> g_id g \<notin> g_id ` set (ip_groups db) \<and> g_id g = i \<and>
     g_name g = name \<and> g_group_type g = ty \<and> g_owner_key_id g = owner \<and>
     db' = db\<lparr>ip_groups := ip_groups db @ [g]\<rparr>)"
proof (cases "find_group_by_name name db")
  case (Some h)
  with assms show ?thesis
    by (auto simp: get_or_create_group_def insert_group_or_ignore_def elim!: try_then_InrE)
next
  case None
  then obtain db1 where ins: "insert_group \<lparr>g_id = i, g_name = name, g_group_type = ty,
        g_description = None, g_owner_key_id = owner, g_created_at = e_now env\<rparr> db = Inr db1"
      and g: "find_group_by_name name db1 = Some g" "db' = db1"
    using assms by (auto simp: get_or_create_group_def insert_group_or_ignore_def elim!: try_then_InrE)
  from insert_group_InrD [OF ins] None g show ?thesis
    by (auto simp: groups_add_def list_ex_iff find_group_by_name_def row_find_append row_find_Cons
        split: if_splits)
qed

lemma db_ok_get_or_create_group [rotated, store_steps]:
  "db_ok db \<Longrightarrow> get_or_create_group env i name ty owner db = Inr (g, db') \<Longrightarrow> db_ok db'"
  unfolding get_or_create_group_def
  by (auto elim!: try_then_InrE intro: db_ok_insert_group_or_ignore)

lemma resolve_group_by_identifier_SomeD:
  "resolve_group_by_identifier l db s = Some g \<Longrightarrow> g \<in> set (ip_groups db)"
  by (auto simp: resolve_group_by_identifier_def split: option.splits
      dest!: find_group_SomeD find_group_by_name_SomeD)

lemma resolve_group_ref_flexible_SomeD:
  "resolve_group_ref_flexible l db a b = Inr (Some g) \<Longrightarrow> g \<in> set (ip_groups db)"
  by (auto simp: resolve_group_ref_flexible_def split: option.splits
      dest!: find_group_by_name_SomeD resolve_group_by_identifier_SomeD)

lemma resolve_group_ref_SomeD:
  "resolve_group_ref db a b = Inr (Some g) \<Longrightarrow> g \<in> set (ip_groups db)"
  by (auto simp: resolve_group_ref_def split: option.splits
      dest!: find_group_SomeD find_group_by_name_SomeD)

lemma resolve_group_ref_None_name:
  "resolve_group_ref db a (Some n) = Inr None \<Longrightarrow> a = None \<and> find_group_by_name n db = None"
  by (auto simp: resolve_group_ref_def split: option.splits)

lemma resolve_group_ref_flexible_None_name:
  "resolve_group_ref_flexible l db a (Some n) = Inr None \<Longrightarrow> a = None \<and> find_group_by_name n db = None"
  by (auto simp: resolve_group_ref_flexible_def split: option.splits)

lemmas support_run [run] = IP_EVENT_ACTIONS_def create_audit_log_def get_or_create_group_def
  resolve_group_ref_def resolve_group_by_identifier_def resolve_group_ref_flexible_def

end
