(* ===== verification/Crypto.thy ===== *)
theory Crypto
  imports Support
begin

text \<open>
  Request signatures and secrets at rest (\<open>src/crypto.rs\<close>). HMAC, hex and the AEAD are the
  library's; the message construction, the parsing of the header and of a stored secret, and
  the choice of cipher from the environment are the program's. The interface
  \<open>secret_store\<close> is what the key handlers and the authentication rely on: a sealed secret opens
  to what was sealed.
\<close>

definition MAX_TIMESTAMP_SKEW_SECS :: int where "MAX_TIMESTAMP_SKEW_SECS = 300"
definition KEY_LEN :: nat where "KEY_LEN = 32"
definition NONCE_LEN :: nat where "NONCE_LEN = 24"
definition PLAINTEXT_PREFIX :: string where "PLAINTEXT_PREFIX = ''v1.plain.''"
definition SEALED_PREFIX :: string where "SEALED_PREFIX = ''v1.xchacha20poly1305.''"
definition SIGNATURE_PREFIX :: string where "SIGNATURE_PREFIX = ''sha256=''"

definition newline :: char where "newline = CHR 0x0A"

definition generate_signing_secret :: "lib \<Rightarrow> string \<Rightarrow> string" where
  "generate_signing_secret l bytes = l_hex_encode l bytes"

subsection \<open>Signatures\<close>

definition canonical_v1_payload :: "string \<Rightarrow> string \<Rightarrow> string \<Rightarrow> string \<Rightarrow> string" where
  "canonical_v1_payload method target timestamp body =
     method @ [newline] @ target @ [newline] @ timestamp @ [newline] @ body"

definition compute_signature :: "lib \<Rightarrow> string \<Rightarrow> string \<Rightarrow> string \<Rightarrow> string \<Rightarrow> string \<Rightarrow> app_error + string" where
  "compute_signature l secret method target timestamp body =
     Inr (SIGNATURE_PREFIX @ l_hex_encode l (l_hmac_sha256 l secret (canonical_v1_payload method target timestamp body)))"

definition verify_signature ::
  "lib \<Rightarrow> string \<Rightarrow> string \<Rightarrow> string \<Rightarrow> string \<Rightarrow> string \<Rightarrow> string \<Rightarrow> string option" where
  "verify_signature l secret method target timestamp body provided =
     (case strip_prefix SIGNATURE_PREFIX (trim provided) of
        None \<Rightarrow> None
      | Some digest \<Rightarrow>
          (case l_hex_decode l (trim digest) of
             None \<Rightarrow> None
           | Some provided_bytes \<Rightarrow>
               (if provided_bytes = l_hmac_sha256 l secret (canonical_v1_payload method target timestamp body)
                then Some provided_bytes else None)))"

subsection \<open>Secrets at rest\<close>

datatype crypto_error = InvalidKey | MalformedCiphertext | DecryptionFailed | EncryptionFailed

definition app_error_of_crypto :: "crypto_error \<Rightarrow> app_error" where
  "app_error_of_crypto e = Internal"

text \<open>\<open>Sealed\<close> carries the 32 bytes of the key the cipher was built with.\<close>
datatype secret_cipher = Plaintext | Sealed string

definition from_hex_key :: "lib \<Rightarrow> string \<Rightarrow> crypto_error + secret_cipher" where
  "from_hex_key l hex_key =
     (case l_hex_decode l hex_key of
        None \<Rightarrow> Inl InvalidKey
      | Some bytes \<Rightarrow> (if length bytes \<noteq> KEY_LEN then Inl InvalidKey else Inr (Sealed bytes)))"

text \<open>The two environment variables, \<open>VAULT_ENCRYPTION_KEY\<close> and its alias, as options.\<close>
definition cipher_from_env :: "lib \<Rightarrow> string option \<Rightarrow> string option \<Rightarrow> crypto_error + secret_cipher" where
  "cipher_from_env l primary alias =
     (let set_value = (\<lambda>v. case v of Some raw \<Rightarrow> (if trim raw = [] then None else Some raw) | None \<Rightarrow> None);
          configured = (case set_value primary of Some raw \<Rightarrow> Some raw | None \<Rightarrow> set_value alias) in
      (case configured of
         Some raw \<Rightarrow> from_hex_key l (trim raw)
       | None \<Rightarrow> Inr Plaintext))"

definition is_encrypting :: "secret_cipher \<Rightarrow> bool" where
  "is_encrypting c = (case c of Sealed _ \<Rightarrow> True | Plaintext \<Rightarrow> False)"

text \<open>\<open>nonce\<close> is the 24 random bytes a sealed secret draws.\<close>
definition seal :: "lib \<Rightarrow> secret_cipher \<Rightarrow> string \<Rightarrow> string \<Rightarrow> crypto_error + string" where
  "seal l c nonce plaintext =
     (case c of
        Plaintext \<Rightarrow> Inr (PLAINTEXT_PREFIX @ l_hex_encode l plaintext)
      | Sealed key \<Rightarrow>
          (case l_aead_encrypt l key nonce plaintext of
             None \<Rightarrow> Inl EncryptionFailed
           | Some ciphertext \<Rightarrow>
               Inr (SEALED_PREFIX @ l_hex_encode l nonce @ ''.'' @ l_hex_encode l ciphertext)))"

definition from_utf8 :: "lib \<Rightarrow> string \<Rightarrow> crypto_error + string" where
  "from_utf8 l bytes = (if l_utf8_valid l bytes then Inr bytes else Inl MalformedCiphertext)"

definition open_secret :: "lib \<Rightarrow> secret_cipher \<Rightarrow> string \<Rightarrow> crypto_error + string" where
  "open_secret l c stored =
     (case strip_prefix PLAINTEXT_PREFIX stored of
        Some encoded \<Rightarrow>
          try_then (ok_or MalformedCiphertext (l_hex_decode l encoded)) (from_utf8 l)
      | None \<Rightarrow>
          (case strip_prefix SEALED_PREFIX stored of
             None \<Rightarrow> Inl MalformedCiphertext
           | Some body \<Rightarrow>
               try_then (ok_or MalformedCiphertext (split_once (CHR ''.'') body)) (\<lambda>(nonce_hex, ciphertext_hex).
               try_then (ok_or MalformedCiphertext (l_hex_decode l nonce_hex)) (\<lambda>nonce.
                 if length nonce \<noteq> NONCE_LEN then Inl MalformedCiphertext
                 else try_then (ok_or MalformedCiphertext (l_hex_decode l ciphertext_hex)) (\<lambda>ciphertext.
                   (case c of
                      Plaintext \<Rightarrow> Inl DecryptionFailed
                    | Sealed key \<Rightarrow>
                        try_then (ok_or DecryptionFailed (l_aead_decrypt l key nonce ciphertext)) (from_utf8 l)))))))"

datatype key_canary = NoSealedSecrets | Verified

definition check_key_canary :: "lib \<Rightarrow> secret_cipher \<Rightarrow> string option \<Rightarrow> crypto_error + key_canary" where
  "check_key_canary l c sample =
     (case sample of
        None \<Rightarrow> Inr NoSealedSecrets
      | Some stored \<Rightarrow> try_then (open_secret l c stored) (\<lambda>_. Inr Verified))"

subsection \<open>Documented behaviour of the libraries\<close>

text \<open>
  \<open>hex\<close>: decoding inverts encoding, and the encoding holds only hexadecimal digits, so neither
  a dot nor a space. The AEAD: decryption under the same key and nonce inverts encryption.
\<close>

definition hex_laws :: "lib \<Rightarrow> bool" where
  "hex_laws l \<longleftrightarrow> (\<forall>b. l_hex_decode l (l_hex_encode l b) = Some b \<and>
     (\<forall>c\<in>set (l_hex_encode l b). is_ascii_hexdigit c))"

definition aead_laws :: "lib \<Rightarrow> bool" where
  "aead_laws l \<longleftrightarrow> (\<forall>k n p c. l_aead_encrypt l k n p = Some c \<longrightarrow> l_aead_decrypt l k n c = Some p)"

definition sealable :: "lib \<Rightarrow> secret_cipher \<Rightarrow> string \<Rightarrow> string \<Rightarrow> bool" where
  "sealable l c nonce s \<longleftrightarrow> hex_laws l \<and> aead_laws l \<and> l_utf8_valid l s \<and> length nonce = NONCE_LEN"

locale secret_store =
  fixes seal_with :: "'l \<Rightarrow> 'c \<Rightarrow> string \<Rightarrow> string \<Rightarrow> 'e + string"
    and open_with :: "'l \<Rightarrow> 'c \<Rightarrow> string \<Rightarrow> 'e + string"
    and good :: "'l \<Rightarrow> 'c \<Rightarrow> string \<Rightarrow> string \<Rightarrow> bool"
  assumes open_seal: "good l c n s \<Longrightarrow> seal_with l c n s = Inr t \<Longrightarrow> open_with l c t = Inr s"
begin

lemma sealed_injective:
  "good l c n s \<Longrightarrow> good l c n' s' \<Longrightarrow> seal_with l c n s = Inr t \<Longrightarrow> seal_with l c n' s' = Inr t \<Longrightarrow> s = s'"
  using open_seal [of l c n s t] open_seal [of l c n' s' t] by simp

end

lemma no_dot_in_hex: "hex_laws l \<Longrightarrow> CHR ''.'' \<notin> set (l_hex_encode l b)"
proof -
  assume "hex_laws l"
  moreover have "\<not> is_ascii_hexdigit (CHR ''.'')"
    by (simp add: is_ascii_hexdigit_def is_ascii_digit_def byte_def)
  ultimately show ?thesis unfolding hex_laws_def by blast
qed

lemma split_once_append: "c \<notin> set a \<Longrightarrow> split_once c (a @ c # b) = Some (a, b)"
  by (simp add: split_once_Some_iff)

lemma prefixes_differ: "strip_prefix PLAINTEXT_PREFIX (SEALED_PREFIX @ t) = None"
  by (simp add: PLAINTEXT_PREFIX_def SEALED_PREFIX_def strip_prefix_def)

interpretation vault: secret_store seal open_secret sealable
proof
  fix l c n s t
  assume good: "sealable l c n s" and sealed: "seal l c n s = Inr t"
  then have hex: "\<And>b. l_hex_decode l (l_hex_encode l b) = Some b" "hex_laws l"
    and utf8: "l_utf8_valid l s" and len: "length n = NONCE_LEN" and aead: "aead_laws l"
    by (auto simp: sealable_def hex_laws_def)
  show "open_secret l c t = Inr s"
  proof (cases c)
    case Plaintext
    then have "t = PLAINTEXT_PREFIX @ l_hex_encode l s"
      using sealed by (simp add: seal_def)
    then show ?thesis using hex utf8 by (simp add: open_secret_def from_utf8_def)
  next
    case (Sealed key)
    then obtain ct where ct: "l_aead_encrypt l key n s = Some ct"
        "t = SEALED_PREFIX @ l_hex_encode l n @ CHR ''.'' # l_hex_encode l ct"
      using sealed by (auto simp: seal_def split: option.splits)
    have "l_aead_decrypt l key n ct = Some s" using aead ct(1) by (simp add: aead_laws_def)
    then show ?thesis
      using Sealed ct(2) hex utf8 len no_dot_in_hex [OF hex(2)]
      by (simp add: open_secret_def from_utf8_def prefixes_differ split_once_append)
  qed
qed

subsection \<open>The signed message\<close>

lemma append_sep_inj:
  fixes c :: char
  assumes "c \<notin> set a" "c \<notin> set a'"
  shows "a @ c # b = a' @ c # b' \<longleftrightarrow> a = a' \<and> b = b'"
proof
  assume "a @ c # b = a' @ c # b'"
  then have "Some (a, b) = Some (a', b')"
    using split_once_append [OF assms(1), of b] split_once_append [OF assms(2), of b'] by argo
  then show "a = a' \<and> b = b'" by simp
qed simp

text \<open>
  Two requests whose method, target and timestamp hold no newline sign the same message only
  if they agree in all four parts.
\<close>

lemma canonical_v1_payload_inj:
  assumes "newline \<notin> set m" "newline \<notin> set m'" "newline \<notin> set t" "newline \<notin> set t'"
    and "newline \<notin> set s" "newline \<notin> set s'"
    and "canonical_v1_payload m t s b = canonical_v1_payload m' t' s' b'"
  shows "m = m' \<and> t = t' \<and> s = s' \<and> b = b'"
proof -
  have eq: "m @ newline # (t @ newline # (s @ newline # b)) =
      m' @ newline # (t' @ newline # (s' @ newline # b'))"
    using assms(7) by (simp add: canonical_v1_payload_def)
  have 1: "m = m'" and eq2: "t @ newline # (s @ newline # b) = t' @ newline # (s' @ newline # b')"
    using eq append_sep_inj [OF assms(1,2)] by blast+
  have 2: "t = t'" and eq3: "s @ newline # b = s' @ newline # b'"
    using eq2 append_sep_inj [OF assms(3,4)] by blast+
  have "s = s' \<and> b = b'"
    using eq3 append_sep_inj [OF assms(5,6)] by blast
  with 1 2 show ?thesis by blast
qed

text \<open>What the verifier accepts is exactly the HMAC of the canonical message, whatever its spelling.\<close>

lemma verify_signature_SomeD:
  "verify_signature l secret m t s b provided = Some d \<Longrightarrow>
     d = l_hmac_sha256 l secret (canonical_v1_payload m t s b)"
  by (auto simp: verify_signature_def split: option.splits if_splits)

lemma open_secret_error_cases:
  "open_secret l c stored = Inl e \<Longrightarrow> e = MalformedCiphertext \<or> e = DecryptionFailed"
  by (auto simp: open_secret_def from_utf8_def try_then_def ok_or_def
      split: option.splits if_splits sum.splits secret_cipher.splits)

text \<open>Without the key a sealed secret never opens; a plaintext row opens under every cipher.\<close>

lemma plaintext_cipher_never_opens_sealed:
  "open_secret l Plaintext (SEALED_PREFIX @ t) \<noteq> Inr s"
  by (auto simp: open_secret_def prefixes_differ try_then_def ok_or_def
      split: option.splits if_splits sum.splits)

lemmas crypto_run [run] = seal_def open_secret_def from_utf8_def KEY_LEN_def NONCE_LEN_def

end
