(* ===== verification/Key_Views.thy ===== *)
theory Key_Views
  imports Crypto
begin

text \<open>
  What a key may see of keys (\<open>src/api/keys.rs\<close>): its own view, the full and the minimal summary,
  the walk of its subtree, the resolution of a key it may administer, and the listing. The
  subtree is characterised as reachability over the parent pointers, and the lookup and the
  listing are shown to disclose nothing outside the scopes the access model allows.
\<close>

subsection \<open>Views\<close>

record me_permission =
  mp_group_id :: uuid
  mp_group_name :: string
  mp_can_read :: bool
  mp_can_write :: bool
  mp_can_delete :: bool
  mp_can_manage :: bool

record me_response =
  me_id :: uuid
  me_name :: string
  me_bound_ips :: "string option"
  me_is_master :: bool
  me_can_manage_keys :: bool
  me_can_manage_webhooks :: bool
  me_can_create_groups :: bool
  me_group_permissions :: "me_permission list"

record api_key_summary =
  s_id :: uuid
  s_name :: string
  s_view :: string
  s_prefix :: "string option"
  s_bound_ips :: "string option"
  s_is_master :: "bool option"
  s_can_manage_keys :: "bool option"
  s_can_manage_webhooks :: "bool option"
  s_can_create_groups :: "bool option"
  s_parent_key_id :: "uuid option"
  s_created_at :: "datetime option"
  s_group_permissions :: "me_permission list"

definition me_permission_of :: "group_permission \<Rightarrow> ip_group \<Rightarrow> me_permission" where
  "me_permission_of p g = \<lparr>mp_group_id = p_group_id p, mp_group_name = g_name g,
     mp_can_read = p_can_read p, mp_can_write = p_can_write p,
     mp_can_delete = p_can_delete p, mp_can_manage = p_can_manage p\<rparr>"

text \<open>\<open>find_also_related\<close>: each row with its group, rows without a group dropped.\<close>

definition key_group_permissions :: "db \<Rightarrow> uuid \<Rightarrow> uuid list option \<Rightarrow> me_permission list" where
  "key_group_permissions db key_id only_groups =
     List.map_filter (\<lambda>p. map_option (me_permission_of p) (find_group (p_group_id p) db))
       (filter (\<lambda>p. p_api_key_id p = key_id \<and>
            (case only_groups of None \<Rightarrow> True | Some groups \<Rightarrow> p_group_id p \<in> set groups)) (permissions db))"

definition get_me :: "api_key \<Rightarrow> db \<Rightarrow> me_response" where
  "get_me key db = \<lparr>me_id = k_id key, me_name = k_name key, me_bound_ips = k_bound_ips key,
     me_is_master = k_is_master key, me_can_manage_keys = k_can_manage_keys key,
     me_can_manage_webhooks = k_can_manage_webhooks key, me_can_create_groups = k_can_create_groups key,
     me_group_permissions =
       List.map_filter (\<lambda>p. map_option (me_permission_of p) (find_group (p_group_id p) db))
         (filter (\<lambda>p. p_api_key_id p = k_id key) (permissions db))\<rparr>"

definition full_api_key_summary :: "db \<Rightarrow> api_key \<Rightarrow> api_key_summary" where
  "full_api_key_summary db k = \<lparr>s_id = k_id k, s_name = k_name k, s_view = ''full'',
     s_prefix = Some (k_prefix k), s_bound_ips = k_bound_ips k, s_is_master = Some (k_is_master k),
     s_can_manage_keys = Some (k_can_manage_keys k), s_can_manage_webhooks = Some (k_can_manage_webhooks k),
     s_can_create_groups = Some (k_can_create_groups k), s_parent_key_id = k_parent_key_id k,
     s_created_at = Some (k_created_at k), s_group_permissions = key_group_permissions db (k_id k) None\<rparr>"

definition minimal_api_key_summary :: "db \<Rightarrow> api_key \<Rightarrow> uuid list \<Rightarrow> api_key_summary" where
  "minimal_api_key_summary db k visible_groups = \<lparr>s_id = k_id k, s_name = k_name k, s_view = ''minimal'',
     s_prefix = None, s_bound_ips = None, s_is_master = None, s_can_manage_keys = None,
     s_can_manage_webhooks = None, s_can_create_groups = None, s_parent_key_id = None, s_created_at = None,
     s_group_permissions = key_group_permissions db (k_id k) (Some visible_groups)\<rparr>"

subsection \<open>The subtree of a key\<close>

text \<open>
  Breadth first with a visited list, as the code has it. \<open>children_of\<close> is one \<open>IN\<close> query;
  \<open>fresh_children\<close> is the filter by \<open>visited.insert\<close>, which drops an id already seen and
  records every new one. Each round either stops or adds a key of the table, so the loop ends
  even if the parent pointers form a cycle.
\<close>

definition children_of :: "db \<Rightarrow> uuid list \<Rightarrow> uuid list" where
  "children_of db frontier =
     map k_id (filter (\<lambda>k. case k_parent_key_id k of None \<Rightarrow> False | Some p \<Rightarrow> p \<in> set frontier) (api_keys db))"

fun fresh_children :: "uuid list \<Rightarrow> uuid list \<Rightarrow> uuid list \<times> uuid list" where
  "fresh_children visited [] = ([], visited)"
| "fresh_children visited (i # is) =
     (if i \<in> set visited then fresh_children visited is
      else (let (new, v) = fresh_children (visited @ [i]) is in (i # new, v)))"

lemma fresh_children_seen: "i \<in> set visited \<Longrightarrow> fresh_children visited (i # is) = fresh_children visited is"
  by simp

lemma fresh_children_unseen:
  "i \<notin> set visited \<Longrightarrow> fresh_children visited (i # is) =
     (i # fst (fresh_children (visited @ [i]) is), snd (fresh_children (visited @ [i]) is))"
  by (simp add: Let_def split_beta)

lemma fresh_children_visited: "snd (fresh_children visited is) = visited @ fst (fresh_children visited is)"
proof (induction "is" arbitrary: visited)
  case (Cons i "is")
  show ?case
  proof (cases "i \<in> set visited")
    case True
    show ?thesis unfolding fresh_children_seen [OF True] by (rule Cons.IH)
  next
    case False
    show ?thesis unfolding fresh_children_unseen [OF False] by (simp add: Cons.IH)
  qed
qed simp

lemma fresh_children_new:
  "set (fst (fresh_children visited is)) = set is - set visited"
proof (induction "is" arbitrary: visited)
  case (Cons i "is")
  show ?case
  proof (cases "i \<in> set visited")
    case True
    show ?thesis unfolding fresh_children_seen [OF True] Cons.IH using True by auto
  next
    case False
    show ?thesis unfolding fresh_children_unseen [OF False] using False by (auto simp: Cons.IH)
  qed
qed simp

lemma fresh_children_distinct: "distinct (fst (fresh_children visited is))"
proof (induction "is" arbitrary: visited)
  case (Cons i "is")
  show ?case
  proof (cases "i \<in> set visited")
    case True
    show ?thesis unfolding fresh_children_seen [OF True] by (rule Cons.IH)
  next
    case False
    show ?thesis unfolding fresh_children_unseen [OF False] by (simp add: Cons.IH fresh_children_new)
  qed
qed simp

definition unvisited :: "db \<Rightarrow> uuid list \<Rightarrow> nat" where
  "unvisited db visited = card (k_id ` set (api_keys db) - set visited)"

lemma unvisited_decreases:
  assumes "fst (fresh_children visited (children_of db frontier)) \<noteq> []"
  shows "unvisited db (snd (fresh_children visited (children_of db frontier))) < unvisited db visited"
proof -
  let ?new = "fst (fresh_children visited (children_of db frontier))"
  have sub: "set ?new \<subseteq> k_id ` set (api_keys db) - set visited"
    by (auto simp: fresh_children_new children_of_def)
  then have "k_id ` set (api_keys db) - set (visited @ ?new) \<subset> k_id ` set (api_keys db) - set visited"
    using assms by (cases ?new) auto
  then show ?thesis
    unfolding unvisited_def fresh_children_visited by (intro psubset_card_mono) auto
qed

function subtree_loop :: "db \<Rightarrow> uuid list \<Rightarrow> uuid list \<Rightarrow> uuid list" where
  "subtree_loop db visited frontier =
     (if frontier = [] then visited
      else (let (new, visited') = fresh_children visited (children_of db frontier)
            in subtree_loop db visited' new))"
  by pat_completeness auto
termination
proof (relation "measures [\<lambda>(db, visited, frontier). unvisited db visited,
    \<lambda>(db, visited, frontier). length frontier]", goal_cases)
  case (2 db visited frontier x new visited')
  then have split: "new = fst (fresh_children visited (children_of db frontier))"
      "visited' = snd (fresh_children visited (children_of db frontier))"
    by (metis fst_conv, metis snd_conv)
  show ?case
  proof (cases "new = []")
    case True
    then have "visited' = visited"
      using split fresh_children_visited [of visited "children_of db frontier"] by simp
    with True 2(1) show ?thesis by simp
  next
    case False
    then have "unvisited db visited' < unvisited db visited"
      using split unvisited_decreases by simp
    then show ?thesis by simp
  qed
qed simp

declare subtree_loop.simps [simp del]
declare fresh_children.simps(2) [simp del]

definition collect_key_subtree :: "db \<Rightarrow> uuid \<Rightarrow> uuid list" where
  "collect_key_subtree db root = subtree_loop db [root] [root]"

definition groups_the_caller_manages :: "db \<Rightarrow> api_key \<Rightarrow> uuid list" where
  "groups_the_caller_manages db caller =
     (if \<not> k_can_manage_keys caller then []
      else map p_group_id (filter (\<lambda>p. p_api_key_id p = k_id caller \<and> p_can_manage p) (permissions db)))"

definition caller_can_administer_key :: "db \<Rightarrow> api_key \<Rightarrow> uuid \<Rightarrow> bool" where
  "caller_can_administer_key db caller target =
     (if k_is_master caller then True else target \<in> set (collect_key_subtree db (k_id caller)))"

definition find_administrable_key :: "db \<Rightarrow> api_key \<Rightarrow> uuid \<Rightarrow> app_error + api_key" where
  "find_administrable_key db caller target =
     try_then (ok_or NotFound (find_key target db)) (\<lambda>key.
       if \<not> caller_can_administer_key db caller target then Inl NotFound else Inr key)"

subsection \<open>Listing\<close>

text \<open>The second loop of the listing: each shared key once, and none that was already shown.\<close>
fun shared_summaries :: "db \<Rightarrow> uuid list \<Rightarrow> uuid list \<Rightarrow> uuid list \<Rightarrow> api_key_summary list" where
  "shared_summaries db managed seen [] = []"
| "shared_summaries db managed seen (i # is) =
     (if i \<in> set seen then shared_summaries db managed seen is
      else (case find_key i db of
              Some k \<Rightarrow> minimal_api_key_summary db k managed # shared_summaries db managed (i # seen) is
            | None \<Rightarrow> shared_summaries db managed (i # seen) is))"

definition list_api_keys :: "api_key \<Rightarrow> db \<Rightarrow> app_error + api_key_summary list" where
  "list_api_keys key db =
     (if \<not> k_is_master key \<and> \<not> k_can_manage_keys key then Inl (Forbidden msg_permission_denied)
      else if k_is_master key then Inr (map (full_api_key_summary db) (api_keys db))
      else
        (let subtree = collect_key_subtree db (k_id key);
             managed_groups = groups_the_caller_manages db key;
             shared = (if managed_groups = [] then []
                       else filter (\<lambda>i. i \<notin> set subtree)
                              (map p_api_key_id (filter (\<lambda>p. p_group_id p \<in> set managed_groups) (permissions db))));
             own = map (full_api_key_summary db) (List.map_filter (\<lambda>i. find_key i db) subtree)
         in Inr (own @ shared_summaries db managed_groups (map s_id own) shared)))"

subsection \<open>The walk computes reachability\<close>

definition child_rel :: "db \<Rightarrow> (uuid \<times> uuid) set" where
  "child_rel db = {(p, c). \<exists>k\<in>set (api_keys db). k_id k = c \<and> k_parent_key_id k = Some p}"

lemma set_children_of: "set (children_of db frontier) = child_rel db `` set frontier"
  by (auto simp: children_of_def child_rel_def split: option.splits intro!: image_eqI)

lemma rtrancl_closed_image: "R `` A \<subseteq> A \<Longrightarrow> R\<^sup>* `` A = A"
proof -
  assume closed: "R `` A \<subseteq> A"
  have "y \<in> A" if "(x, y) \<in> R\<^sup>*" "x \<in> A" for x y
    using that closed by (induction rule: rtrancl_induct) auto
  then show ?thesis by auto
qed

lemma rtrancl_image_absorb: "R\<^sup>* `` (A \<union> R `` B) = R\<^sup>* `` A" if "B \<subseteq> A"
  using that by (auto intro: converse_rtrancl_into_rtrancl)

lemma subtree_loop_reaches:
  assumes "set frontier \<subseteq> set visited" "child_rel db `` (set visited - set frontier) \<subseteq> set visited"
  shows "set (subtree_loop db visited frontier) = (child_rel db)\<^sup>* `` set visited"
  using assms
proof (induction db visited frontier rule: subtree_loop.induct)
  case (1 db visited frontier)
  show ?case
  proof (cases "frontier = []")
    case True
    with 1(3) show ?thesis by (simp add: subtree_loop.simps rtrancl_closed_image)
  next
    case False
    define new where "new = fst (fresh_children visited (children_of db frontier))"
    define visited' where "visited' = snd (fresh_children visited (children_of db frontier))"
    have step: "subtree_loop db visited frontier = subtree_loop db visited' new"
      using False by (simp add: subtree_loop.simps [of db visited frontier] new_def visited'_def split_beta)
    have new: "set new = child_rel db `` set frontier - set visited"
      by (simp add: new_def fresh_children_new set_children_of)
    have visited': "set visited' = set visited \<union> child_rel db `` set frontier"
      by (simp add: visited'_def fresh_children_visited new [unfolded new_def])
    have "set (subtree_loop db visited' new) = (child_rel db)\<^sup>* `` set visited'"
    proof (rule 1(1) [OF False _ refl])
      show "(new, visited') = fresh_children visited (children_of db frontier)"
        by (simp add: new_def visited'_def)
      show "set new \<subseteq> set visited'" using new visited' by auto
      show "child_rel db `` (set visited' - set new) \<subseteq> set visited'"
        using new visited' 1(2,3) by blast
    qed
    with step visited' show ?thesis
      by (simp add: rtrancl_image_absorb [OF 1(2)])
  qed
qed

lemma set_collect_key_subtree:
  "set (collect_key_subtree db root) = (child_rel db)\<^sup>* `` {root}"
  unfolding collect_key_subtree_def by (subst subtree_loop_reaches) auto

lemma subtree_loop_distinct: "distinct visited \<Longrightarrow> distinct (subtree_loop db visited frontier)"
proof (induction db visited frontier rule: subtree_loop.induct)
  case (1 db visited frontier)
  show ?case
  proof (cases "frontier = []")
    case True
    with 1(2) show ?thesis by (simp add: subtree_loop.simps)
  next
    case False
    obtain new visited' where split: "fresh_children visited (children_of db frontier) = (new, visited')"
      by (cases "fresh_children visited (children_of db frontier)")
    have "new = fst (fresh_children visited (children_of db frontier))" using split by simp
    then have "set new \<inter> set visited = {}" "distinct new"
      by (simp_all add: fresh_children_new fresh_children_distinct Int_commute Diff_disjoint)
    moreover have "visited' = visited @ new"
      using fresh_children_visited [of visited "children_of db frontier"] split by simp
    ultimately have "distinct visited'" using 1(2) by auto
    with 1(1) [OF False split [symmetric] refl] False split show ?thesis
      by (simp add: subtree_loop.simps [of db visited frontier])
  qed
qed

lemma distinct_collect_key_subtree: "distinct (collect_key_subtree db root)"
  by (simp add: collect_key_subtree_def subtree_loop_distinct)

lemma root_in_subtree: "root \<in> set (collect_key_subtree db root)"
  by (auto simp: set_collect_key_subtree)

lemma subtree_closed:
  "k \<in> set (api_keys db) \<Longrightarrow> k_parent_key_id k = Some p \<Longrightarrow> p \<in> set (collect_key_subtree db root) \<Longrightarrow>
     k_id k \<in> set (collect_key_subtree db root)"
  unfolding set_collect_key_subtree
  by (auto simp: child_rel_def intro: rtrancl_into_rtrancl)

lemma subtree_keys_exist:
  assumes "i \<in> set (collect_key_subtree db root)" "i \<noteq> root"
  shows "i \<in> k_id ` set (api_keys db)"
proof -
  have "(root, i) \<in> (child_rel db)\<^sup>*" using assms(1) by (auto simp: set_collect_key_subtree)
  with assms(2) obtain p where "(p, i) \<in> child_rel db" by (metis rtranclE)
  then show ?thesis by (auto simp: child_rel_def)
qed

text \<open>A key without a parent, such as the master, is in no other key's subtree.\<close>

lemma parentless_not_in_subtree:
  assumes "db_ok db" "k \<in> set (api_keys db)" "k_parent_key_id k = None"
    "k_id k \<in> set (collect_key_subtree db root)"
  shows "k_id k = root"
proof (rule ccontr)
  assume "k_id k \<noteq> root"
  moreover have "(root, k_id k) \<in> (child_rel db)\<^sup>*" using assms(4) by (auto simp: set_collect_key_subtree)
  ultimately obtain p where "(p, k_id k) \<in> child_rel db" by (metis rtranclE)
  then obtain k' where "k' \<in> set (api_keys db)" "k_id k' = k_id k" "k_parent_key_id k' = Some p"
    by (auto simp: child_rel_def)
  moreover from this have "k' = k"
    using keys.unique_row [OF db_ok_tables(1) [OF assms(1)]] assms(2) by blast
  ultimately show False using assms(3) by simp
qed

subsection \<open>What a caller may resolve and see\<close>

lemma find_administrable_key_InrD:
  "find_administrable_key db caller target = Inr k \<Longrightarrow>
     find_key target db = Some k \<and> k \<in> set (api_keys db) \<and> k_id k = target \<and>
     (k_is_master caller \<or> target \<in> set (collect_key_subtree db (k_id caller)))"
  by (auto simp: find_administrable_key_def caller_can_administer_key_def
      elim!: try_then_InrE split: if_splits dest!: find_key_SomeD)

lemma find_administrable_key_InlD:
  "find_administrable_key db caller target = Inl e \<Longrightarrow> e = NotFound"
  by (auto simp: find_administrable_key_def try_then_def ok_or_def split: option.splits if_splits sum.splits)

lemma set_key_group_permissions:
  "mp \<in> set (key_group_permissions db i only) \<Longrightarrow>
     \<exists>p\<in>set (permissions db). p_api_key_id p = i \<and> mp_group_id mp = p_group_id p \<and>
       (\<forall>gs. only = Some gs \<longrightarrow> mp_group_id mp \<in> set gs)"
  by (fastforce simp: key_group_permissions_def map_filter_def me_permission_of_def
      split: option.splits)

lemma set_shared_summaries:
  "s \<in> set (shared_summaries db managed seen is) \<Longrightarrow>
     \<exists>k\<in>set (api_keys db). s = minimal_api_key_summary db k managed \<and> k_id k \<in> set is \<and> k_id k \<notin> set seen"
  by (induction db managed seen "is" rule: shared_summaries.induct)
    (auto split: if_splits option.splits dest!: find_key_SomeD)

lemma groups_the_caller_manages_verbs:
  "db_ok db \<Longrightarrow> g \<in> set (groups_the_caller_manages db key) \<Longrightarrow>
     k_can_manage_keys key \<and> Manage \<in> verbs_of db (k_id key) g"
  by (auto simp: groups_the_caller_manages_def verbs_of_def dest: find_permission_in split: if_splits)

lemma minimal_view_fields:
  "s = minimal_api_key_summary db k groups \<Longrightarrow>
     s_id s = k_id k \<and> s_view s = ''minimal'' \<and> s_prefix s = None \<and> s_bound_ips s = None \<and> s_is_master s = None \<and>
     s_can_manage_keys s = None \<and> s_can_manage_webhooks s = None \<and> s_can_create_groups s = None \<and>
     s_parent_key_id s = None \<and> s_created_at s = None \<and> (\<forall>mp\<in>set (s_group_permissions s). mp_group_id mp \<in> set groups)"
  by (auto simp: minimal_api_key_summary_def dest!: set_key_group_permissions)

lemma full_view_fields:
  "s_id (full_api_key_summary db k) = k_id k" "s_view (full_api_key_summary db k) = ''full''"
  by (simp_all add: full_api_key_summary_def)

text \<open>The two parts of a delegated manager's listing.\<close>

lemma list_api_keys_parts:
  assumes "list_api_keys key db = Inr views" "\<not> k_is_master key" "s \<in> set views"
  shows "(s_view s = ''full'' \<and> s_id s \<in> set (collect_key_subtree db (k_id key))) \<or>
    (\<exists>k\<in>set (api_keys db). s = minimal_api_key_summary db k (groups_the_caller_manages db key) \<and>
       k_id k \<notin> set (collect_key_subtree db (k_id key)) \<and>
       (\<exists>p\<in>set (permissions db). p_api_key_id p = k_id k \<and> p_group_id p \<in> set (groups_the_caller_manages db key)))"
proof -
  let ?subtree = "collect_key_subtree db (k_id key)" and ?managed = "groups_the_caller_manages db key"
  let ?own = "map (full_api_key_summary db) (List.map_filter (\<lambda>i. find_key i db) ?subtree)"
  let ?shared = "filter (\<lambda>i. i \<notin> set ?subtree)
      (map p_api_key_id (filter (\<lambda>p. p_group_id p \<in> set ?managed) (permissions db)))"
  have "views = ?own @ shared_summaries db ?managed (map s_id ?own) (if ?managed = [] then [] else ?shared)"
    using assms(1,2) by (simp add: list_api_keys_def Let_def split: if_splits)
  then consider "s \<in> set ?own"
    | seen where "s \<in> set (shared_summaries db ?managed seen ?shared)"
    using assms(3) by (auto split: if_splits)
  then show ?thesis
  proof cases
    case 1
    then obtain i k where "i \<in> set ?subtree" "find_key i db = Some k" "s = full_api_key_summary db k"
      by (auto simp: map_filter_def)
    then show ?thesis using find_key_SomeD [of i db k] by (auto simp: full_view_fields)
  next
    case 2
    from set_shared_summaries [OF this] obtain k where
      k: "k \<in> set (api_keys db)" "s = minimal_api_key_summary db k ?managed" "k_id k \<in> set ?shared" by blast
    moreover from k(3) have "k_id k \<notin> set ?subtree"
      "\<exists>p\<in>set (permissions db). p_api_key_id p = k_id k \<and> p_group_id p \<in> set ?managed"
      by (simp, force)
    ultimately show ?thesis by blast
  qed
qed

lemmas key_views_run [run] = collect_key_subtree_def subtree_loop.simps fresh_children.simps
  children_of_def caller_can_administer_key_def find_administrable_key_def

end
