(* ===== verification/Keys.thy ===== *)
theory Keys
  imports Key_Views
begin

text \<open>
  The key handlers (\<open>src/api/keys.rs\<close>): creation, update, the two rotations, and granting and
  revoking a group permission. Every handler returns its response or error with the database it
  leaves; none of them runs in a transaction, so a write before a later failure stays. The
  payloads are the records serde builds (\<open>deny_unknown_fields\<close>: no other field exists).
\<close>

subsection \<open>Payloads and responses\<close>

record create_key_payload =
  ck_name :: string
  ck_bound_ips :: "string option"
  ck_can_manage_keys :: "bool option"
  ck_can_manage_webhooks :: "bool option"
  ck_can_create_groups :: "bool option"

record create_key_response =
  ckr_id :: uuid
  ckr_plaintext_key :: string
  ckr_signing_secret :: string
  ckr_name :: string
  ckr_bound_ips :: "string option"

record update_key_payload =
  uk_name :: "string option"
  uk_bound_ips :: "string option"
  uk_can_manage_keys :: "bool option"
  uk_can_manage_webhooks :: "bool option"
  uk_can_create_groups :: "bool option"

record rotate_key_response =
  rk_id :: uuid
  rk_plaintext_key :: string
  rk_signing_secret :: string

record rotate_secret_response =
  rs_id :: uuid
  rs_name :: string
  rs_signing_secret :: string

definition msg_invalid_cidr :: "string \<Rightarrow> string" where
  "msg_invalid_cidr cidr = ''Invalid CIDR: '' @ cidr"

text \<open>The loop over the comma-separated list: the first piece that is no network is the error.\<close>
definition check_cidrs :: "lib \<Rightarrow> string option \<Rightarrow> app_error + unit" where
  "check_cidrs l bound_ips =
     (case bound_ips of
        None \<Rightarrow> Inr ()
      | Some bips \<Rightarrow>
          (case List.find (\<lambda>cidr. l_net_parse l (trim cidr) = None) (split_on (CHR '','') bips) of
             Some cidr \<Rightarrow> Inl (InvalidInput (msg_invalid_cidr cidr))
           | None \<Rightarrow> Inr ()))"

text \<open>\<open>state.cipher.seal(..)?\<close>: a cipher error becomes the service's.\<close>
definition seal_secret :: "lib \<Rightarrow> secret_cipher \<Rightarrow> string \<Rightarrow> string \<Rightarrow> app_error + string" where
  "seal_secret l c nonce s =
     (case seal l c nonce s of Inl e \<Rightarrow> Inl (app_error_of_crypto e) | Inr t \<Rightarrow> Inr t)"

definition may_manage_keys :: "api_key \<Rightarrow> app_error + unit" where
  "may_manage_keys key =
     (if \<not> k_is_master key \<and> \<not> k_can_manage_keys key then Inl (Forbidden msg_permission_denied) else Inr ())"

subsection \<open>Creation\<close>

definition create_api_key ::
  "lib \<Rightarrow> secret_cipher \<Rightarrow> env \<Rightarrow> api_key \<Rightarrow> create_key_payload \<Rightarrow> db \<Rightarrow> create_key_response outcome" where
  "create_api_key l cipher env key payload db =
     attempt (may_manage_keys key) db (\<lambda>_.
     attempt (guard_scope_elevation key
         [ck_can_manage_keys payload, ck_can_create_groups payload, ck_can_manage_webhooks payload]
         [False, False, False]) db (\<lambda>_.
     attempt (check_cidrs l (ck_bound_ips payload)) db (\<lambda>_.
       let plaintext_key = generate_random_key l (e_random env 0);
           key_hash = hash_key l plaintext_key;
           prefix = take 8 plaintext_key;
           signing_secret = generate_signing_secret l (e_random env 1)
       in attempt (seal_secret l cipher (take NONCE_LEN (e_random env 2)) signing_secret) db (\<lambda>stored.
          attempt (insert_key \<lparr>k_id = e_uuid env 0, k_name = ck_name payload, k_key_hash = key_hash,
              k_signing_secret = Some stored, k_prefix = prefix, k_bound_ips = ck_bound_ips payload,
              k_is_master = False,
              k_can_manage_keys = unwrap_or False (ck_can_manage_keys payload),
              k_can_manage_webhooks = unwrap_or False (ck_can_manage_webhooks payload),
              k_can_create_groups = unwrap_or False (ck_can_create_groups payload),
              k_parent_key_id = Some (k_id key), k_created_at = e_now env, k_updated_at = e_now env\<rparr> db) db (\<lambda>db1.
          attempt (create_audit_log env (e_uuid env 1) key ''KEY_CREATE'' None None (Some (ck_name payload)) db1) db1 (\<lambda>db2.
            (Inr \<lparr>ckr_id = e_uuid env 0, ckr_plaintext_key = plaintext_key, ckr_signing_secret = signing_secret,
               ckr_name = ck_name payload, ckr_bound_ips = ck_bound_ips payload\<rparr>, db2)))))))"

subsection \<open>Update\<close>

definition msg_master_bound_ips :: string where
  "msg_master_bound_ips = ''Only the master key itself may edit its bound_ips''"

definition guard_master_update :: "api_key \<Rightarrow> api_key \<Rightarrow> update_key_payload \<Rightarrow> app_error + unit" where
  "guard_master_update key target payload =
     (if k_is_master target
      then try_then
             (if uk_name payload \<noteq> None \<or> uk_can_manage_keys payload \<noteq> None \<or>
                 uk_can_manage_webhooks payload \<noteq> None \<or> uk_can_create_groups payload \<noteq> None
              then guard_master_immutable target ''renamed or re-scoped'' else Inr ()) (\<lambda>_.
           if k_id key \<noteq> k_id target then Inl (Forbidden msg_master_bound_ips) else Inr ())
      else Inr ())"

definition apply_key_update :: "env \<Rightarrow> update_key_payload \<Rightarrow> api_key \<Rightarrow> api_key" where
  "apply_key_update env payload target = target\<lparr>
     k_name := unwrap_or (k_name target) (uk_name payload),
     k_bound_ips := (case uk_bound_ips payload of None \<Rightarrow> k_bound_ips target | Some b \<Rightarrow> Some b),
     k_can_manage_keys := unwrap_or (k_can_manage_keys target) (uk_can_manage_keys payload),
     k_can_manage_webhooks := unwrap_or (k_can_manage_webhooks target) (uk_can_manage_webhooks payload),
     k_can_create_groups := unwrap_or (k_can_create_groups target) (uk_can_create_groups payload),
     k_updated_at := e_now env\<rparr>"

definition update_api_key ::
  "lib \<Rightarrow> env \<Rightarrow> api_key \<Rightarrow> uuid \<Rightarrow> update_key_payload \<Rightarrow> db \<Rightarrow> api_key_summary outcome" where
  "update_api_key l env key key_id payload db =
     attempt (may_manage_keys key) db (\<lambda>_.
     attempt (find_administrable_key db key key_id) db (\<lambda>target.
     attempt (guard_master_target key target) db (\<lambda>_.
     attempt (guard_master_update key target payload) db (\<lambda>_.
     attempt (guard_scope_elevation key
         [uk_can_manage_keys payload, uk_can_create_groups payload, uk_can_manage_webhooks payload]
         [k_can_manage_keys target, k_can_create_groups target, k_can_manage_webhooks target]) db (\<lambda>_.
     attempt (check_cidrs l (uk_bound_ips payload)) db (\<lambda>_.
       let updated = apply_key_update env payload target in
       attempt (update_key updated db) db (\<lambda>db1.
       attempt (create_audit_log env (e_uuid env 0) key ''KEY_UPDATE'' None None
           (Some (''Updated key '' @ format_key_reference l (k_name updated) key_id)) db1) db1 (\<lambda>db2.
         (Inr (full_api_key_summary db2 updated), db2)))))))))"

subsection \<open>Rotation\<close>

definition rotate_api_key ::
  "lib \<Rightarrow> secret_cipher \<Rightarrow> env \<Rightarrow> api_key \<Rightarrow> uuid \<Rightarrow> db \<Rightarrow> rotate_key_response outcome" where
  "rotate_api_key l cipher env key key_id db =
     attempt (may_manage_keys key) db (\<lambda>_.
     attempt (find_administrable_key db key key_id) db (\<lambda>target.
     attempt (guard_master_target key target) db (\<lambda>_.
     attempt (guard_master_immutable target ''rotated'') db (\<lambda>_.
       let target_ref = format_key_reference l (k_name target) key_id;
           plaintext_key = generate_random_key l (e_random env 0);
           key_hash = hash_key l plaintext_key;
           prefix = take 8 plaintext_key;
           signing_secret = generate_signing_secret l (e_random env 1)
       in attempt (seal_secret l cipher (take NONCE_LEN (e_random env 2)) signing_secret) db (\<lambda>stored.
          attempt (update_key (target\<lparr>k_key_hash := key_hash, k_prefix := prefix,
              k_signing_secret := Some stored, k_updated_at := e_now env\<rparr>) db) db (\<lambda>db1.
          attempt (create_audit_log env (e_uuid env 0) key ''KEY_ROTATE'' None None
              (Some (''Rotated secret for key '' @ target_ref)) db1) db1 (\<lambda>db2.
            (Inr \<lparr>rk_id = key_id, rk_plaintext_key = plaintext_key, rk_signing_secret = signing_secret\<rparr>, db2))))))))"

definition rotate_signing_secret ::
  "lib \<Rightarrow> secret_cipher \<Rightarrow> env \<Rightarrow> api_key \<Rightarrow> uuid \<Rightarrow> db \<Rightarrow> rotate_secret_response outcome" where
  "rotate_signing_secret l cipher env key key_id db =
     attempt (may_manage_keys key) db (\<lambda>_.
     attempt (find_administrable_key db key key_id) db (\<lambda>target.
     attempt (guard_master_target key target) db (\<lambda>_.
     attempt (guard_master_immutable target ''re-keyed'') db (\<lambda>_.
       let target_ref = format_key_reference l (k_name target) key_id;
           signing_secret = generate_signing_secret l (e_random env 0)
       in attempt (seal_secret l cipher (take NONCE_LEN (e_random env 1)) signing_secret) db (\<lambda>stored.
          attempt (update_key (target\<lparr>k_signing_secret := Some stored, k_updated_at := e_now env\<rparr>) db) db (\<lambda>db1.
          attempt (create_audit_log env (e_uuid env 0) key ''KEY_SECRET_ROTATE'' None None
              (Some (''Rotated signing secret for key '' @ target_ref)) db1) db1 (\<lambda>db2.
            (Inr \<lparr>rs_id = key_id, rs_name = k_name target, rs_signing_secret = signing_secret\<rparr>, db2))))))))"

subsection \<open>Group permissions\<close>

definition msg_master_permissions :: string where
  "msg_master_permissions = ''Cannot configure M:N permissions on a master key''"

definition msg_read_required :: string where
  "msg_read_required = ''can_write or can_delete require can_read to be true''"

definition msg_cannot_create_group :: string where
  "msg_cannot_create_group = ''Permission denied: Target group does not exist and you cannot create groups''"

text \<open>
  The group a grant names: an existing one, or one that is created for the name, already written
  when the authority over it is checked afterwards. The result is the group with the database.
\<close>

definition resolve_or_create_target ::
  "lib \<Rightarrow> env \<Rightarrow> api_key \<Rightarrow> group_perm_input \<Rightarrow> db \<Rightarrow> app_error + ip_group \<times> db" where
  "resolve_or_create_target l env key payload db =
     try_then (resolve_group_ref_flexible l db (i_group_id payload) (i_group_name payload)) (\<lambda>existing.
       (case existing of
          Some g \<Rightarrow> Inr (g, db)
        | None \<Rightarrow>
            (case i_group_name payload of
               Some name \<Rightarrow>
                 (if \<not> k_is_master key \<and> \<not> k_can_create_groups key then Inl (Forbidden msg_cannot_create_group)
                  else get_or_create_group env (e_uuid env 0) name ''banlist'' (resource_owner key) db)
             | None \<Rightarrow> Inl NotFound)))"

definition guard_permission_change ::
  "api_key \<Rightarrow> group_permission option \<Rightarrow> group_permission option \<Rightarrow> string \<Rightarrow> group_perm_input \<Rightarrow> app_error + unit" where
  "guard_permission_change key caller_perm target_perm group_name payload =
     (if widens_permissions payload target_perm
      then guard_delegated_group_grant key caller_perm group_name ''grant'' payload
      else guard_group_manage key caller_perm group_name ''revoke'')"

definition update_key_group_permissions ::
  "lib \<Rightarrow> env \<Rightarrow> api_key \<Rightarrow> uuid \<Rightarrow> group_perm_input \<Rightarrow> db \<Rightarrow> unit outcome" where
  "update_key_group_permissions l env key key_id payload db =
     attempt (guard_may_administer_any_group db key) db (\<lambda>_.
     attempt (ok_or NotFound (find_key key_id db)) db (\<lambda>target_key.
       if k_is_master target_key then (Inl (InvalidInput msg_master_permissions), db)
       else if (i_can_write payload \<or> i_can_delete payload) \<and> \<not> i_can_read payload
       then (Inl (InvalidInput msg_read_required), db)
       else attempt (resolve_or_create_target l env key payload db) db (\<lambda>(group, db1).
         let caller_perm = caller_group_permission db1 (k_id key) (g_id group);
             target_perm = caller_group_permission db1 key_id (g_id group)
         in attempt (guard_permission_change key caller_perm target_perm (g_name group) payload) db1 (\<lambda>_.
            attempt (upsert_permission \<lparr>p_id = e_uuid env 1, p_api_key_id = key_id, p_group_id = g_id group,
                p_can_read = i_can_read payload, p_can_write = i_can_write payload,
                p_can_delete = i_can_delete payload, p_can_manage = i_can_manage payload,
                p_created_at = e_now env\<rparr> db1) db1 (\<lambda>db2.
            attempt (create_audit_log env (e_uuid env 2) key ''KEY_PERM_UPDATE'' None (Some (g_name group))
                (Some (''Updated permissions for key '' @ format_key_reference l (k_name target_key) key_id)) db2) db2 (\<lambda>db3.
              (Inr (), db3)))))))"

definition revoke_key_group_permission ::
  "lib \<Rightarrow> env \<Rightarrow> api_key \<Rightarrow> uuid \<Rightarrow> string \<Rightarrow> db \<Rightarrow> unit outcome" where
  "revoke_key_group_permission l env key key_id group_identifier db =
     attempt (guard_may_administer_any_group db key) db (\<lambda>_.
     attempt (ok_or NotFound (resolve_group_by_identifier l db group_identifier)) db (\<lambda>group.
       if caller_group_permission db key_id (g_id group) = None then (Inl NotFound, db)
       else attempt (guard_group_manage key (caller_group_permission db (k_id key) (g_id group))
                       (g_name group) ''revoke'') db (\<lambda>_.
         if count_rows (\<lambda>p. perm_pair p = (key_id, g_id group)) (permissions db) = 0 then (Inl NotFound, db)
         else (let db1 = delete_permission key_id (g_id group) db in
           attempt (ok_or NotFound (find_key key_id db1)) db1 (\<lambda>target.
           attempt (create_audit_log env (e_uuid env 0) key ''KEY_PERM_REVOKE'' None (Some (g_name group))
               (Some (''Revoked permissions for key '' @ format_key_reference l (k_name target) key_id)) db1) db1 (\<lambda>db2.
             (Inr (), db2)))))))"

lemmas keys_run [run] = check_cidrs_def seal_secret_def may_manage_keys_def create_api_key_def
  guard_master_update_def apply_key_update_def update_api_key_def rotate_api_key_def
  rotate_signing_secret_def resolve_or_create_target_def guard_permission_change_def
  update_key_group_permissions_def revoke_key_group_permission_def

end
