(* ===== verification/Key_Safety.thy ===== *)
theory Key_Safety
  imports Keys
begin

text \<open>
  What the key handlers guarantee: the effect of every successful call, the constraints kept by
  every call, the immutability of the master, the bounds on global scopes and on group verbs,
  and the uniform answer for keys outside the caller's subtree.
\<close>

subsection \<open>Effects of successful calls\<close>

lemma may_manage_keys_admits: "may_manage_keys key = Inr u \<longleftrightarrow> k_is_master key \<or> k_can_manage_keys key"
  by (auto simp: may_manage_keys_def)

lemma seal_secret_InrD: "seal_secret l c n s = Inr t \<Longrightarrow> seal l c n s = Inr t"
  by (auto simp: seal_secret_def split: sum.splits)

text \<open>The row a creation writes.\<close>
definition created_key ::
  "lib \<Rightarrow> env \<Rightarrow> api_key \<Rightarrow> create_key_payload \<Rightarrow> create_key_response \<Rightarrow> string \<Rightarrow> api_key" where
  "created_key l env key payload r stored =
     \<lparr>k_id = ckr_id r, k_name = ck_name payload, k_key_hash = hash_key l (ckr_plaintext_key r),
      k_signing_secret = Some stored, k_prefix = take 8 (ckr_plaintext_key r), k_bound_ips = ck_bound_ips payload,
      k_is_master = False, k_can_manage_keys = unwrap_or False (ck_can_manage_keys payload),
      k_can_manage_webhooks = unwrap_or False (ck_can_manage_webhooks payload),
      k_can_create_groups = unwrap_or False (ck_can_create_groups payload),
      k_parent_key_id = Some (k_id key), k_created_at = e_now env, k_updated_at = e_now env\<rparr>"

lemma create_api_key_after:
  "after (on_ok (\<lambda>r db'. (k_is_master key \<or> k_can_manage_keys key) \<and>
      guard_scope_elevation key [ck_can_manage_keys payload, ck_can_create_groups payload, ck_can_manage_webhooks payload]
        [False, False, False] = Inr () \<and>
      (\<exists>stored. seal l cipher (take NONCE_LEN (e_random env 2)) (ckr_signing_secret r) = Inr stored \<and>
        insert_key (created_key l env key payload r stored) db =
          Inr (db\<lparr>api_keys := api_keys db @ [created_key l env key payload r stored]\<rparr>) \<and>
        create_audit_log env (e_uuid env 1) key ''KEY_CREATE'' None None (Some (ck_name payload))
          (db\<lparr>api_keys := api_keys db @ [created_key l env key payload r stored]\<rparr>) = Inr db')))
    (create_api_key l cipher env key payload db)"
  unfolding create_api_key_def
proof (intro after_rules, goal_cases)
  case (7 u v w plain hash prefix secret stored db1 db2)
  then have "insert_key (created_key l env key payload \<lparr>ckr_id = e_uuid env 0, ckr_plaintext_key = plain,
        ckr_signing_secret = secret, ckr_name = ck_name payload, ckr_bound_ips = ck_bound_ips payload\<rparr> stored) db = Inr db1"
    by (simp add: created_key_def)
  from insert_key_InrD [OF this] this 7 show ?case
    by (auto simp: may_manage_keys_admits dest: seal_secret_InrD)
qed simp_all

text \<open>Update and rotation replace the one row they resolved; \<open>row\<close> is what they write.\<close>

definition key_replaced :: "env \<Rightarrow> api_key \<Rightarrow> string \<Rightarrow> string \<Rightarrow> uuid \<Rightarrow> api_key \<Rightarrow> api_key \<Rightarrow> db \<Rightarrow> db \<Rightarrow> bool" where
  "key_replaced env key action details key_id target row db db' \<longleftrightarrow>
     (k_is_master key \<or> k_can_manage_keys key) \<and>
     find_administrable_key db key key_id = Inr target \<and> k_id row = k_id target \<and>
     update_key row db = Inr (db\<lparr>api_keys := row_update k_id row (api_keys db)\<rparr>) \<and>
     create_audit_log env (e_uuid env 0) key action None None (Some details)
       (db\<lparr>api_keys := row_update k_id row (api_keys db)\<rparr>) = Inr db'"

lemma key_replacedI:
  assumes "may_manage_keys key = Inr u" "find_administrable_key db key key_id = Inr target"
    "k_id row = k_id target" "update_key row db = Inr db1"
    "create_audit_log env (e_uuid env 0) key action None None (Some details) db1 = Inr db'"
  shows "key_replaced env key action details key_id target row db db'"
  using assms update_key_InrD [OF assms(4)] by (auto simp: key_replaced_def may_manage_keys_admits)

lemma key_replacedD:
  assumes "key_replaced env key action details key_id target row db db'"
  shows "k_is_master key \<or> k_can_manage_keys key" "find_key key_id db = Some target"
    "k_id row = key_id" "target \<in> set (api_keys db)" "k_id target = key_id"
    "k_is_master key \<or> key_id \<in> set (collect_key_subtree db (k_id key))"
    "api_keys db' = row_update k_id row (api_keys db)" "find_key key_id db' = Some row"
    "i \<noteq> key_id \<Longrightarrow> find_key i db' = find_key i db"
    "permissions db' = permissions db" "ip_groups db' = ip_groups db" "webhook_configs db' = webhook_configs db"
    "ip_records db' = ip_records db" "memberships db' = memberships db"
proof -
  note found = find_administrable_key_InrD
  from assms have f: "find_administrable_key db key key_id = Inr target" and ids: "k_id row = k_id target"
    and audit: "create_audit_log env (e_uuid env 0) key action None None (Some details)
       (db\<lparr>api_keys := row_update k_id row (api_keys db)\<rparr>) = Inr db'"
    and rights: "k_is_master key \<or> k_can_manage_keys key"
    by (auto simp: key_replaced_def)
  note unchanged = create_audit_log_InrD [OF audit]
  show "k_is_master key \<or> k_can_manage_keys key" by (rule rights)
  show "find_key key_id db = Some target" "k_id row = key_id" "target \<in> set (api_keys db)" "k_id target = key_id"
    "k_is_master key \<or> key_id \<in> set (collect_key_subtree db (k_id key))"
    using found [OF f] ids by auto
  show rows: "api_keys db' = row_update k_id row (api_keys db)" using unchanged(1) by simp
  have key_id: "k_id row = key_id" "key_id \<in> k_id ` set (api_keys db)"
    using found [OF f] ids by (simp, metis imageI found [OF f])
  show "find_key key_id db' = Some row" "i \<noteq> key_id \<Longrightarrow> find_key i db' = find_key i db"
    unfolding find_key_def rows using key_id by (auto simp: row_find_update)
  show "permissions db' = permissions db" "ip_groups db' = ip_groups db" "webhook_configs db' = webhook_configs db"
    "ip_records db' = ip_records db" "memberships db' = memberships db"
    using unchanged by simp_all
qed

lemma apply_key_update_id [simp]:
  "k_id (apply_key_update env payload target) = k_id target"
  "k_is_master (apply_key_update env payload target) = k_is_master target"
  "k_key_hash (apply_key_update env payload target) = k_key_hash target"
  "k_parent_key_id (apply_key_update env payload target) = k_parent_key_id target"
  by (simp_all add: apply_key_update_def)

lemma update_api_key_after:
  "after (on_ok (\<lambda>r db'. \<exists>target.
      key_replaced env key ''KEY_UPDATE''
        (''Updated key '' @ format_key_reference l (k_name (apply_key_update env payload target)) key_id) key_id
        target (apply_key_update env payload target) db db' \<and>
      guard_master_target key target = Inr () \<and> guard_master_update key target payload = Inr () \<and>
      guard_scope_elevation key
        [uk_can_manage_keys payload, uk_can_create_groups payload, uk_can_manage_webhooks payload]
        [k_can_manage_keys target, k_can_create_groups target, k_can_manage_webhooks target] = Inr () \<and>
      r = full_api_key_summary db' (apply_key_update env payload target)))
    (update_api_key l env key key_id payload db)"
  unfolding update_api_key_def
proof (intro after_rules, goal_cases)
  case (9 u target v w x y updated db1 db2)
  have "key_replaced env key ''KEY_UPDATE''
        (''Updated key '' @ format_key_reference l (k_name updated) key_id) key_id target updated db db2"
    by (rule key_replacedI [OF 9(1,2) _ 9(8,9)]) (simp add: 9(7))
  with 9 show ?case by auto
qed simp_all

lemma rotate_api_key_after:
  "after (on_ok (\<lambda>r db'. \<exists>target stored. \<not> k_is_master target \<and> rk_id r = key_id \<and>
      seal l cipher (take NONCE_LEN (e_random env 2)) (rk_signing_secret r) = Inr stored \<and>
      rk_plaintext_key r = generate_random_key l (e_random env 0) \<and>
      key_replaced env key ''KEY_ROTATE'' (''Rotated secret for key '' @ format_key_reference l (k_name target) key_id)
        key_id target
        (target\<lparr>k_key_hash := hash_key l (rk_plaintext_key r), k_prefix := take 8 (rk_plaintext_key r),
           k_signing_secret := Some stored, k_updated_at := e_now env\<rparr>) db db'))
    (rotate_api_key l cipher env key key_id db)"
  unfolding rotate_api_key_def
proof (intro after_rules, goal_cases)
  case (8 u target v w ref plain hash prefix secret stored db1 db2)
  have "key_replaced env key ''KEY_ROTATE'' (''Rotated secret for key '' @ ref) key_id target
        (target\<lparr>k_key_hash := hash, k_prefix := prefix, k_signing_secret := Some stored, k_updated_at := e_now env\<rparr>) db db2"
    by (rule key_replacedI [OF 8(1,2) _ 8(11,12)]) simp
  with 8 show ?case
    by (auto simp: guard_master_immutable_admits dest: seal_secret_InrD)
qed simp_all

lemma rotate_signing_secret_after:
  "after (on_ok (\<lambda>r db'. \<exists>target stored. \<not> k_is_master target \<and> rs_id r = key_id \<and> rs_name r = k_name target \<and>
      seal l cipher (take NONCE_LEN (e_random env 1)) (rs_signing_secret r) = Inr stored \<and>
      key_replaced env key ''KEY_SECRET_ROTATE''
        (''Rotated signing secret for key '' @ format_key_reference l (k_name target) key_id)
        key_id target (target\<lparr>k_signing_secret := Some stored, k_updated_at := e_now env\<rparr>) db db'))
    (rotate_signing_secret l cipher env key key_id db)"
  unfolding rotate_signing_secret_def
proof (intro after_rules, goal_cases)
  case (8 u target v w ref secret stored db1 db2)
  have "key_replaced env key ''KEY_SECRET_ROTATE'' (''Rotated signing secret for key '' @ ref) key_id target
        (target\<lparr>k_signing_secret := Some stored, k_updated_at := e_now env\<rparr>) db db2"
    by (rule key_replacedI [OF 8(1,2) _ 8(8,9)]) simp
  with 8 show ?case
    by (auto simp: guard_master_immutable_admits dest: seal_secret_InrD)
qed simp_all

subsection \<open>The schema's constraints are kept\<close>

lemma db_ok_create_api_key [store_intros]:
  "db_ok db \<Longrightarrow> db_ok (snd (create_api_key l cipher env key payload db))"
  by (rule after_leavingD, unfold create_api_key_def, intro after_rules; unfold leaving_def; (hypsubst+)?)
    (erule store_steps | rule store_intros | assumption)+

lemma db_ok_update_api_key [store_intros]:
  "db_ok db \<Longrightarrow> db_ok (snd (update_api_key l env key key_id payload db))"
  by (rule after_leavingD, unfold update_api_key_def, intro after_rules; unfold leaving_def; (hypsubst+)?)
    (erule store_steps | rule store_intros | assumption)+

lemma db_ok_rotate_api_key [store_intros]:
  "db_ok db \<Longrightarrow> db_ok (snd (rotate_api_key l cipher env key key_id db))"
  by (rule after_leavingD, unfold rotate_api_key_def, intro after_rules; unfold leaving_def; (hypsubst+)?)
    (erule store_steps | rule store_intros | assumption)+

lemma db_ok_rotate_signing_secret [store_intros]:
  "db_ok db \<Longrightarrow> db_ok (snd (rotate_signing_secret l cipher env key key_id db))"
  by (rule after_leavingD, unfold rotate_signing_secret_def, intro after_rules; unfold leaving_def; (hypsubst+)?)
    (erule store_steps | rule store_intros | assumption)+

lemma resolve_or_create_target_InrD:
  assumes "resolve_or_create_target l env key payload db = Inr (g, db')"
  shows "g \<in> set (ip_groups db) \<and> db' = db \<or>
    (k_is_master key \<or> k_can_create_groups key) \<and> g_id g \<notin> g_id ` set (ip_groups db) \<and>
    g_owner_key_id g = resource_owner key \<and> db' = db\<lparr>ip_groups := ip_groups db @ [g]\<rparr>"
  using assms unfolding resolve_or_create_target_def
  by (auto elim!: try_then_InrE split: option.splits if_splits
      dest!: get_or_create_group_InrD resolve_group_ref_flexible_SomeD find_group_by_name_SomeD)

lemma db_ok_resolve_or_create_target [rotated, store_steps]:
  "db_ok db \<Longrightarrow> resolve_or_create_target l env key payload db = Inr (g, db') \<Longrightarrow> db_ok db'"
  unfolding resolve_or_create_target_def
  by (auto elim!: try_then_InrE split: option.splits if_splits intro: db_ok_get_or_create_group)

lemma db_ok_update_key_group_permissions [store_intros]:
  "db_ok db \<Longrightarrow> db_ok (snd (update_key_group_permissions l env key key_id payload db))"
  by (rule after_leavingD, unfold update_key_group_permissions_def, intro after_rules; unfold leaving_def; (hypsubst+)?)
    (erule store_steps | rule store_intros | assumption)+

lemma db_ok_revoke_key_group_permission [store_intros]:
  "db_ok db \<Longrightarrow> db_ok (snd (revoke_key_group_permission l env key key_id gi db))"
  by (rule after_leavingD, unfold revoke_key_group_permission_def, intro after_rules; unfold leaving_def; (hypsubst+)?)
    (erule store_steps | rule store_intros | assumption)+

subsection \<open>Global scopes and the master\<close>

lemma find_key_insert:
  assumes "insert_key k db = Inr db'"
  shows "find_key i db' = (if i = k_id k then Some k else find_key i db)"
  using keys.find_after_add [of k "api_keys db" "api_keys db'"]
    keys.find_other_after_add [of k "api_keys db" "api_keys db'" i] insert_key_InrD [OF assms]
  by (auto simp: find_key_def)

lemma find_key_audit: "create_audit_log env i key a t g d db = Inr db' \<Longrightarrow> find_key j db' = find_key j db"
  by (simp add: find_key_def create_audit_log_InrD(1))

lemma scopes_of_audit: "create_audit_log env i key a t g d db = Inr db' \<Longrightarrow> scopes_of db' j = scopes_of db j"
  by (simp add: scopes_of_def find_key_audit)

lemma scopes_of_insert:
  "insert_key k db = Inr db' \<Longrightarrow> scopes_of db' i = (if i = k_id k then key_scopes k else scopes_of db i)"
  by (simp add: scopes_of_def find_key_insert)

lemma scopes_of_update:
  "update_key k db = Inr db' \<Longrightarrow> scopes_of db' i = (if i = k_id k then key_scopes k else scopes_of db i)"
  by (drule update_key_InrD) (auto simp: scopes_of_def find_key_def row_find_update)

lemma apply_key_update_scopes:
  assumes "guard_scope_elevation key
      [uk_can_manage_keys payload, uk_can_create_groups payload, uk_can_manage_webhooks payload]
      [k_can_manage_keys target, k_can_create_groups target, k_can_manage_webhooks target] = Inr u"
    "\<not> k_is_master key"
  shows "key_scopes (apply_key_update env payload target) \<subseteq> key_scopes target"
  using assms
  by (cases "uk_can_manage_keys payload"; cases "uk_can_create_groups payload"; cases "uk_can_manage_webhooks payload")
    (auto simp: guard_scope_elevation_admits scope_subset_iff apply_key_update_def)

text \<open>The rows of the master keys, without the two columns an update by the master itself may touch.\<close>
definition frozen :: "api_key \<Rightarrow> api_key" where
  "frozen k = k\<lparr>k_bound_ips := None, k_updated_at := 0\<rparr>"

definition master_rows :: "db \<Rightarrow> api_key list" where
  "master_rows db = map frozen (filter k_is_master (api_keys db))"

lemma master_rows_cong: "api_keys db' = api_keys db \<Longrightarrow> master_rows db' = master_rows db"
  by (simp add: master_rows_def)

lemma master_rows_insert: "insert_key k db = Inr db' \<Longrightarrow> \<not> k_is_master k \<Longrightarrow> master_rows db' = master_rows db"
  by (drule insert_key_InrD) (simp add: master_rows_def)

lemma master_rows_update:
  assumes "db_ok db" "find_key i db = Some target" "update_key k db = Inr db'" "k_id k = i"
    and "k_is_master k = k_is_master target" "k_is_master target \<Longrightarrow> frozen k = frozen target"
  shows "master_rows db' = master_rows db"
proof -
  have target: "target \<in> set (api_keys db)" "k_id target = i" using find_key_SomeD [OF assms(2)] by simp_all
  have "map frozen (filter k_is_master (row_update k_id k rows)) = map frozen (filter k_is_master rows)"
    if "set rows \<subseteq> set (api_keys db)" for rows
    using that
  proof (induction rows)
    case (Cons r rows)
    show ?case
    proof (cases "k_id r = i")
      case True
      then have "r = target"
        using Cons.prems target keys.unique_row [OF db_ok_tables(1) [OF assms(1)]] by auto
      with Cons assms(4-6) target show ?thesis by (auto simp: row_update_Cons)
    qed (use Cons assms(4) in \<open>auto simp: row_update_Cons\<close>)
  qed (simp add: row_update_def)
  then show ?thesis
    using update_key_InrD [OF assms(3)] by (simp add: master_rows_def)
qed

lemma frozen_master_update:
  assumes "guard_master_update key target payload = Inr u" "k_is_master target"
  shows "frozen (apply_key_update env payload target) = frozen target"
  using assms
  by (auto simp: guard_master_update_def guard_master_immutable_def frozen_def apply_key_update_def
      elim!: try_then_InrE split: if_splits)

lemma master_rows_audit:
  "create_audit_log env j key a t g d db = Inr db' \<Longrightarrow> master_rows db = m \<Longrightarrow> master_rows db' = m"
  by (simp add: master_rows_cong [OF create_audit_log_InrD(1)])

lemma master_rows_insert_step:
  "insert_key k db = Inr db' \<Longrightarrow> \<not> k_is_master k \<Longrightarrow> master_rows db = m \<Longrightarrow> master_rows db' = m"
  by (simp add: master_rows_insert)

lemma master_rows_replace:
  assumes "update_key row db = Inr db'" "find_administrable_key db key i = Inr target" "db_ok db"
    and "k_id row = k_id target" "k_is_master row = k_is_master target"
    and "k_is_master target \<Longrightarrow> frozen row = frozen target"
  shows "master_rows db' = master_rows db"
  using find_administrable_key_InrD [OF assms(2)] assms
  by (intro master_rows_update [OF assms(3) _ assms(1), of i target]) auto

lemma master_rows_create_api_key:
  "master_rows (snd (create_api_key l cipher env key cp db)) = master_rows db"
  by (rule after_leavingD, unfold create_api_key_def, intro after_rules; unfold leaving_def; (hypsubst+)?)
    (rule refl | erule master_rows_audit | (erule master_rows_insert_step, simp))+

lemma master_rows_update_api_key:
  "db_ok db \<Longrightarrow> master_rows (snd (update_api_key l env key i up db)) = master_rows db"
  by (rule after_leavingD, unfold update_api_key_def, intro after_rules; unfold leaving_def; (hypsubst+)?)
    (rule refl | erule master_rows_audit | (erule master_rows_replace, assumption+, simp, simp, erule (1) frozen_master_update))+

lemma master_rows_rotate_api_key:
  "db_ok db \<Longrightarrow> master_rows (snd (rotate_api_key l cipher env key i db)) = master_rows db"
  by (rule after_leavingD, unfold rotate_api_key_def, intro after_rules; unfold leaving_def; (hypsubst+)?)
    (rule refl | erule master_rows_audit
      | (erule master_rows_replace, assumption+, simp, simp, simp add: guard_master_immutable_admits))+

lemma master_rows_rotate_signing_secret:
  "db_ok db \<Longrightarrow> master_rows (snd (rotate_signing_secret l cipher env key i db)) = master_rows db"
  by (rule after_leavingD, unfold rotate_signing_secret_def, intro after_rules; unfold leaving_def; (hypsubst+)?)
    (rule refl | erule master_rows_audit
      | (erule master_rows_replace, assumption+, simp, simp, simp add: guard_master_immutable_admits))+

lemma api_keys_resolve_or_create_target:
  "resolve_or_create_target l env key payload db = Inr (g, db') \<Longrightarrow>
     api_keys db' = api_keys db \<and> permissions db' = permissions db"
  by (drule resolve_or_create_target_InrD) auto

lemma upsert_permission_InrD:
  "upsert_permission p db = Inr db' \<Longrightarrow> \<exists>rows. db' = db\<lparr>permissions := rows\<rparr>"
  by (auto simp: upsert_permission_def split: option.splits dest!: insert_permission_InrD)

lemma api_keys_update_key_group_permissions:
  "api_keys (snd (update_key_group_permissions l env key i gp db)) = api_keys db"
  by (rule after_leavingD, unfold update_key_group_permissions_def, intro after_rules; unfold leaving_def; (hypsubst+)?)
    (auto dest!: create_audit_log_InrD(1) api_keys_resolve_or_create_target upsert_permission_InrD)

lemma api_keys_revoke_key_group_permission:
  "api_keys (snd (revoke_key_group_permission l env key i gi db)) = api_keys db"
  by (rule after_leavingD, unfold revoke_key_group_permission_def, intro after_rules; unfold leaving_def; (hypsubst+)?)
    (auto dest!: create_audit_log_InrD(1) simp: delete_permission_def)

text \<open>No key holds a scope it did not hold before.\<close>
definition scopes_within :: "db \<Rightarrow> db \<Rightarrow> bool" where
  "scopes_within db db' \<longleftrightarrow> (\<forall>j. scopes_of db' j \<subseteq> scopes_of db j)"

lemma scopes_within_refl: "scopes_within db db"
  by (simp add: scopes_within_def)

lemma scopes_within_replace:
  assumes "update_key row db = Inr db'" "find_administrable_key db key i = Inr target"
    and "k_id row = k_id target" "key_scopes row \<subseteq> key_scopes target"
  shows "scopes_within db db'"
proof -
  have "scopes_of db (k_id target) = key_scopes target"
    using find_administrable_key_InrD [OF assms(2)] by (auto simp: scopes_of_def)
  then show ?thesis
    using assms(3,4) by (simp add: scopes_within_def scopes_of_update [OF assms(1)])
qed

lemma scopes_within_audit:
  "create_audit_log env i key a t g d db1 = Inr db' \<Longrightarrow> scopes_within db db1 \<Longrightarrow> scopes_within db db'"
  by (simp add: scopes_within_def scopes_of_audit)

lemma scopes_within_insert:
  "insert_key k db = Inr db' \<Longrightarrow> key_scopes k = {} \<Longrightarrow> scopes_within db db'"
  by (simp add: scopes_within_def scopes_of_insert)

lemma created_key_without_scopes:
  "guard_scope_elevation key [a, b, c] [False, False, False] = Inr u \<Longrightarrow> \<not> k_is_master key \<Longrightarrow>
     \<not> unwrap_or False a \<and> \<not> unwrap_or False b \<and> \<not> unwrap_or False c"
  by (auto simp: guard_scope_elevation_admits unwrap_or_def split: option.splits)

lemma scopes_create_api_key:
  "\<not> k_is_master key \<Longrightarrow> scopes_within db (snd (create_api_key l cipher env key cp db))"
  by (rule after_leavingD, unfold create_api_key_def, intro after_rules; unfold leaving_def; (hypsubst+)?)
    (rule scopes_within_refl | erule scopes_within_audit
      | (erule scopes_within_insert, drule (1) created_key_without_scopes, simp add: key_scopes_def))+

lemma scopes_update_api_key:
  "\<not> k_is_master key \<Longrightarrow> scopes_within db (snd (update_api_key l env key i up db))"
  by (rule after_leavingD, unfold update_api_key_def, intro after_rules; unfold leaving_def; (hypsubst+)?)
    (rule scopes_within_refl | erule scopes_within_audit
      | (erule scopes_within_replace, assumption, simp, erule (1) apply_key_update_scopes))+

lemma scopes_rotate_api_key:
  "scopes_within db (snd (rotate_api_key l cipher env key i db))"
  by (rule after_leavingD, unfold rotate_api_key_def, intro after_rules; unfold leaving_def; (hypsubst+)?)
    (rule scopes_within_refl | erule scopes_within_audit
      | (erule scopes_within_replace, assumption, simp, simp add: key_scopes_def))+

lemma scopes_rotate_signing_secret:
  "scopes_within db (snd (rotate_signing_secret l cipher env key i db))"
  by (rule after_leavingD, unfold rotate_signing_secret_def, intro after_rules; unfold leaving_def; (hypsubst+)?)
    (rule scopes_within_refl | erule scopes_within_audit
      | (erule scopes_within_replace, assumption, simp, simp add: key_scopes_def))+

subsection \<open>Verbs on groups\<close>

text \<open>
  What a caller may change: the verbs of a key on a group change only if the caller has the
  global scope and manages that group, and then stay within what the key had and the caller has.
\<close>

definition verbs_bounded :: "api_key \<Rightarrow> db \<Rightarrow> db \<Rightarrow> bool" where
  "verbs_bounded key db db' \<longleftrightarrow>
     (\<forall>k g. verbs_of db' k g = verbs_of db k g \<or>
        (k_can_manage_keys key \<and> Manage \<in> verbs_of db (k_id key) g \<and>
         verbs_of db' k g \<subseteq> verbs_of db k g \<union> verbs_of db (k_id key) g))"

lemma verbs_bounded_same: "verbs_of db' = verbs_of db \<Longrightarrow> verbs_bounded key db db'"
  by (simp add: verbs_bounded_def)

lemma verbs_of_audit: "create_audit_log env i key a t g d db = Inr db' \<Longrightarrow> verbs_of db' = verbs_of db"
  by (rule verbs_of_cong) (rule create_audit_log_InrD(3))

lemma verbs_bounded_audit:
  "create_audit_log env i key' a t g d db1 = Inr db' \<Longrightarrow> verbs_bounded key db db1 \<Longrightarrow> verbs_bounded key db db'"
  by (simp add: verbs_bounded_def verbs_of_audit)

lemma guard_permission_change_admits:
  assumes "guard_permission_change key (find_permission (k_id key) g db) (find_permission k g db) name payload = Inr u"
    "\<not> k_is_master key"
  shows "k_can_manage_keys key \<and> Manage \<in> verbs_of db (k_id key) g \<and>
    input_verbs payload \<subseteq> verbs_of db k g \<union> verbs_of db (k_id key) g"
  using assms
  by (auto simp: guard_permission_change_def guard_admits widens_permissions_iff verbs_of_def
      split: if_splits option.splits)

lemma verbs_bounded_upsert:
  assumes "upsert_permission p db1 = Inr db'"
    and "guard_permission_change key (caller_group_permission db1 (k_id key) (p_group_id p))
        (caller_group_permission db1 (p_api_key_id p) (p_group_id p)) name payload = Inr u"
    and "\<not> k_is_master key" "perm_verbs p = input_verbs payload" "permissions db1 = permissions db"
  shows "verbs_bounded key db db'"
  using guard_permission_change_admits [OF assms(2) [unfolded caller_group_permission_def] assms(3)]
    verbs_of_cong [OF assms(5)]
  by (auto simp: verbs_bounded_def verbs_of_upsert_permission [OF assms(1)] assms(4))

lemma verbs_bounded_update_key_group_permissions:
  "\<not> k_is_master key \<Longrightarrow> verbs_bounded key db (snd (update_key_group_permissions l env key i gp db))"
  by (rule after_leavingD, unfold update_key_group_permissions_def, intro after_rules; unfold leaving_def; (hypsubst+)?)
    (rule verbs_bounded_same [OF refl] | erule verbs_bounded_audit
      | (erule verbs_bounded_upsert, simp, assumption, simp add: perm_verbs_def input_verbs_def,
         drule api_keys_resolve_or_create_target, simp)
      | (rule verbs_bounded_same, rule verbs_of_cong, drule api_keys_resolve_or_create_target, simp))+

lemma verbs_bounded_delete:
  assumes "guard_group_manage key (caller_group_permission db (k_id key) g) name act = Inr u"
    "\<not> k_is_master key" "db_ok db"
  shows "verbs_bounded key db (delete_permission k g db)"
  using assms(1,2)
  by (auto simp: verbs_bounded_def verbs_of_delete_permission [OF assms(3)] guard_admits
      caller_group_permission_def verbs_of_find)

lemma verbs_bounded_revoke_key_group_permission:
  "\<not> k_is_master key \<Longrightarrow> db_ok db \<Longrightarrow> verbs_bounded key db (snd (revoke_key_group_permission l env key i gi db))"
  by (rule after_leavingD, unfold revoke_key_group_permission_def, intro after_rules; unfold leaving_def; (hypsubst+)?)
    (rule verbs_bounded_same [OF refl] | erule verbs_bounded_audit | (erule verbs_bounded_delete, assumption+))+

lemma revoke_key_group_permission_after:
  "db_ok db \<Longrightarrow> after (on_ok (\<lambda>_ db'. \<exists>g. resolve_group_by_identifier l db gi = Some g \<and>
      find_permission i (g_id g) db \<noteq> None \<and>
      (k_is_master key \<or> (k_can_manage_keys key \<and> Manage \<in> verbs_of db (k_id key) (g_id g))) \<and>
      permissions db' = row_delete (\<lambda>p. perm_pair p = (i, g_id g)) (permissions db)))
    (revoke_key_group_permission l env key i gi db)"
  unfolding revoke_key_group_permission_def
proof (intro after_rules, goal_cases)
  case (8 u g v db1 target db2)
  then have "permissions db2 = permissions db1" by (simp add: create_audit_log_InrD(3))
  with 8 show ?case
    by (auto simp: delete_permission_def guard_admits caller_group_permission_def verbs_of_find)
qed simp_all

subsection \<open>Keys outside the subtree\<close>

lemma invisible_key:
  "\<not> k_is_master key \<Longrightarrow> i \<notin> set (collect_key_subtree db (k_id key)) \<Longrightarrow>
     find_administrable_key db key i = Inl NotFound"
  by (cases "find_administrable_key db key i")
    (auto dest: find_administrable_key_InlD find_administrable_key_InrD)

lemma update_api_key_invisible:
  "k_can_manage_keys key \<Longrightarrow> find_administrable_key db key i = Inl NotFound \<Longrightarrow>
     update_api_key l env key i up db = (Inl NotFound, db)"
  by (simp add: update_api_key_def may_manage_keys_def)

lemma rotate_api_key_invisible:
  "k_can_manage_keys key \<Longrightarrow> find_administrable_key db key i = Inl NotFound \<Longrightarrow>
     rotate_api_key l cipher env key i db = (Inl NotFound, db)"
  by (simp add: rotate_api_key_def may_manage_keys_def)

lemma rotate_signing_secret_invisible:
  "k_can_manage_keys key \<Longrightarrow> find_administrable_key db key i = Inl NotFound \<Longrightarrow>
     rotate_signing_secret l cipher env key i db = (Inl NotFound, db)"
  by (simp add: rotate_signing_secret_def may_manage_keys_def)

end
