(* ===== verification/Samples.thy ===== *)
theory Samples
  imports Crypto "HOL-Library.Code_Target_Nat"
begin

text \<open>
  A small installation the witnesses evaluate on: a library record with a real hexadecimal codec,
  real parsing of dotted quads, and concrete functions in the place of the primitives; one
  environment; a master key, a delegated key manager and its daughter, two groups and their
  permission rows.
\<close>

subsection \<open>A library\<close>

definition hex_digit :: "nat \<Rightarrow> char" where
  "hex_digit n = (if n < 10 then char_of (48 + n) else char_of (87 + n))"

definition hex_value :: "char \<Rightarrow> nat option" where
  "hex_value c = (let b = byte c in
     if 48 \<le> b \<and> b \<le> 57 then Some (b - 48)
     else if 97 \<le> b \<and> b \<le> 102 then Some (b - 87)
     else if 65 \<le> b \<and> b \<le> 70 then Some (b - 55) else None)"

fun hex_encode_bytes :: "string \<Rightarrow> string" where
  "hex_encode_bytes [] = []"
| "hex_encode_bytes (c # cs) = hex_digit (byte c div 16) # hex_digit (byte c mod 16) # hex_encode_bytes cs"

fun hex_decode_bytes :: "string \<Rightarrow> string option" where
  "hex_decode_bytes [] = Some []"
| "hex_decode_bytes [c] = None"
| "hex_decode_bytes (c # d # cs) =
     (case (hex_value c, hex_value d, hex_decode_bytes cs) of
        (Some x, Some y, Some rest) \<Rightarrow> Some (char_of (16 * x + y) # rest)
      | _ \<Rightarrow> None)"

lemma byte_char_of [simp]: "byte (char_of (n :: nat)) = n mod 256"
  by (simp add: byte_def)

lemma byte_less: "byte c < 256"
  unfolding byte_def by simp

lemma hex_value_digit: "n < 16 \<Longrightarrow> hex_value (hex_digit n) = Some n"
  by (auto simp: hex_digit_def hex_value_def Let_def)

lemma hex_digit_is_hexdigit: "n < 16 \<Longrightarrow> is_ascii_hexdigit (hex_digit n)"
  by (auto simp: hex_digit_def is_ascii_hexdigit_def is_ascii_digit_def)

lemma char_of_byte: "char_of (byte c) = c"
  by (simp add: byte_def)

lemma hex_round_trip: "hex_decode_bytes (hex_encode_bytes s) = Some s"
proof (induction s)
  case (Cons c cs)
  have "16 * (byte c div 16) + byte c mod 16 = byte c" by simp
  then show ?case
    using Cons byte_less [of c] by (simp add: hex_value_digit char_of_byte)
qed simp

lemma hex_digits_only: "c \<in> set (hex_encode_bytes s) \<Longrightarrow> is_ascii_hexdigit c"
  by (induction s) (auto simp: hex_digit_is_hexdigit byte_less less_mult_imp_div_less)

text \<open>Dotted quads, with one to three digits for an octet and no leading zero, as \<open>Ipv4Addr\<close>.\<close>

definition parse_octet :: "string \<Rightarrow> nat option" where
  "parse_octet s = (if s = [] \<or> length s > 3 \<or> (length s > 1 \<and> hd s = CHR ''0'') \<or> \<not> list_all is_ascii_digit s
     then None else parse_unsigned 256 s)"

definition parse_v4 :: "string \<Rightarrow> ip_addr option" where
  "parse_v4 s = (case map parse_octet (split_on (CHR ''.'') s) of
     [Some a, Some b, Some c, Some d] \<Rightarrow> Some (V4 (word_of_int (int (((a * 256 + b) * 256 + c) * 256 + d))))
   | _ \<Rightarrow> None)"

definition show_ip :: "ip_addr \<Rightarrow> string" where
  "show_ip a = (case a of
     V4 w \<Rightarrow> join_with ''.'' (map dec [octet 0 w, octet 1 w, octet 2 w, octet 3 w])
   | V6 w \<Rightarrow> ''v6:'' @ dec (unat w))"

definition parse_net :: "string \<Rightarrow> ip_network option" where
  "parse_net s = (if s = ''::/0'' then Some \<lparr>net_ip = V6 0, net_prefix = 0\<rparr> else case split_once (CHR ''/'') s of
     None \<Rightarrow> map_option (\<lambda>a. \<lparr>net_ip = a, net_prefix = 32\<rparr>) (parse_v4 s)
   | Some (addr, prefix) \<Rightarrow>
       (case (parse_v4 addr, parse_unsigned 33 prefix) of
          (Some a, Some n) \<Rightarrow> Some \<lparr>net_ip = a, net_prefix = n\<rparr> | _ \<Rightarrow> None))"

definition v4_value :: "ip_addr \<Rightarrow> nat" where
  "v4_value a = (case a of V4 w \<Rightarrow> unat w | V6 w \<Rightarrow> unat w)"

definition in_net :: "ip_network \<Rightarrow> ip_addr \<Rightarrow> bool" where
  "in_net n a = (case (net_ip n, a) of
     (V4 x, V4 y) \<Rightarrow> unat x div 2 ^ (32 - net_prefix n) = unat y div 2 ^ (32 - net_prefix n)
   | (V6 x, V6 y) \<Rightarrow> unat x div 2 ^ (128 - net_prefix n) = unat y div 2 ^ (128 - net_prefix n)
   | _ \<Rightarrow> False)"

definition net_base :: "ip_network \<Rightarrow> ip_addr" where
  "net_base n = (case net_ip n of
     V4 x \<Rightarrow> V4 (word_of_int (int (unat x div 2 ^ (32 - net_prefix n) * 2 ^ (32 - net_prefix n))))
   | V6 x \<Rightarrow> V6 x)"

definition sample_path :: "string \<Rightarrow> string \<times> string option" where
  "sample_path s = (case split_once (CHR 0x3F) s of Some (path, query) \<Rightarrow> (path, Some query) | None \<Rightarrow> (s, None))"

definition sample_url :: "string \<Rightarrow> url option" where
  "sample_url s = (case strip_prefix ''https://'' s of
     Some rest \<Rightarrow>
       (case split_once (CHR ''/'') rest of
          Some (host, path) \<Rightarrow> Some \<lparr>url_scheme = ''https'', url_host = Some host, url_path = CHR ''/'' # fst (sample_path path),
            url_query = snd (sample_path path), url_port = Some 443\<rparr>
        | None \<Rightarrow> Some \<lparr>url_scheme = ''https'', url_host = Some rest, url_path = ''/'', url_query = None, url_port = Some 443\<rparr>)
   | None \<Rightarrow> None)"

definition demo_lib :: lib where
  "demo_lib = \<lparr>l_sha256 = rev, l_hmac_sha256 = (\<lambda>k m. k @ m), l_hex_encode = hex_encode_bytes,
     l_hex_decode = hex_decode_bytes, l_utf8_valid = (\<lambda>s. True),
     l_aead_encrypt = (\<lambda>k n p. Some (rev p)), l_aead_decrypt = (\<lambda>k n c. Some (rev c)),
     l_uuid_parse = (\<lambda>s. map_option (\<lambda>n. word_of_int (int n)) (parse_unsigned (2 ^ 128) s)), l_uuid_str = (\<lambda>i. dec (unat i)),
     l_ip_parse = parse_v4, l_ip_str = show_ip, l_net_parse = parse_net, l_net_network = net_base,
     l_net_contains = in_net, l_url_parse = sample_url,
     l_from_timestamp = (\<lambda>s. if \<bar>s\<bar> < 8000000000000 then Some (s * 1000000000) else None),
     l_minus_days = (\<lambda>t d. if \<bar>d\<bar> < 100000000 then Some (t - d * 86400000000000) else None),
     l_minus_secs = (\<lambda>t s. Some (t - s * 1000000000)),
     l_minus_hours = (\<lambda>t h. Some (t - h * 3600000000000)),
     l_like = contains_str,
     l_net_of_ip = (\<lambda>a. \<lparr>net_ip = a, net_prefix = (case a of V4 _ \<Rightarrow> 32 | V6 _ \<Rightarrow> 128)\<rparr>),
     l_header_name = (\<lambda>s. if s = [] \<or> list_ex (\<lambda>c. ascii_space c \<or> c = CHR '':'') s then None else Some (map to_ascii_lower s)),
     l_header_value_error = (\<lambda>s. if list_all (\<lambda>c. 32 \<le> byte c \<and> byte c \<noteq> 127) s then None else Some ''failed to parse header value''),
     l_json_map = (\<lambda>s. if s = ''{}'' then Some [] else None), l_url_error = (\<lambda>s. ''relative URL without a base''),
     l_debug_str = (\<lambda>s. [CHR 0x22] @ s @ [CHR 0x22])\<rparr>"

lemma demo_hex_laws: "hex_laws demo_lib"
  by (simp add: hex_laws_def demo_lib_def hex_round_trip hex_digits_only)

lemma demo_aead_laws: "aead_laws demo_lib"
  by (simp add: aead_laws_def demo_lib_def)

lemma demo_sealable: "length n = NONCE_LEN \<Longrightarrow> sealable demo_lib c n s"
  by (simp add: sealable_def demo_hex_laws demo_aead_laws) (simp add: demo_lib_def)

subsection \<open>An environment and an installation\<close>

definition demo_env :: env where
  "demo_env = \<lparr>e_now = 1800000000000000000, e_audit_now = 1800000000000000000,
     e_uuid = (\<lambda>n. word_of_int (1000 + int n)), e_random = (\<lambda>n. replicate 32 (char_of (65 + n))),
     e_client_ip = ''192.0.2.7''\<rparr>"

definition sample_key :: "uuid \<Rightarrow> string \<Rightarrow> bool \<Rightarrow> bool \<Rightarrow> uuid option \<Rightarrow> api_key" where
  "sample_key i name master manages parent = \<lparr>k_id = i, k_name = name, k_key_hash = ''hash-'' @ name,
     k_signing_secret = Some ''v1.plain.7365637265742d30'', k_prefix = ''abcd1234'', k_bound_ips = None,
     k_is_master = master, k_can_manage_keys = manages, k_can_manage_webhooks = False,
     k_can_create_groups = master, k_parent_key_id = parent, k_created_at = 0, k_updated_at = 0\<rparr>"

definition root_key :: api_key where "root_key = sample_key 1 ''root'' True True None"
definition manager_key :: api_key where "manager_key = sample_key 2 ''manager'' False True (Some 1)"
definition daughter_key :: api_key where "daughter_key = sample_key 3 ''daughter'' False False (Some 2)"
definition stranger_key :: api_key where "stranger_key = sample_key 4 ''stranger'' False False (Some 1)"

definition sample_group :: "uuid \<Rightarrow> string \<Rightarrow> uuid option \<Rightarrow> ip_group" where
  "sample_group i name owner = \<lparr>g_id = i, g_name = name, g_group_type = ''banlist'', g_description = None,
     g_owner_key_id = owner, g_created_at = 0\<rparr>"

definition sample_permission :: "uuid \<Rightarrow> uuid \<Rightarrow> uuid \<Rightarrow> bool \<Rightarrow> bool \<Rightarrow> group_permission" where
  "sample_permission i k g writes manages = \<lparr>p_id = i, p_api_key_id = k, p_group_id = g, p_can_read = True,
     p_can_write = writes, p_can_delete = False, p_can_manage = manages, p_created_at = 0\<rparr>"

definition sample_webhook :: "uuid \<Rightarrow> uuid \<Rightarrow> uuid option \<Rightarrow> webhook_config" where
  "sample_webhook i g owner = \<lparr>w_id = i, w_name = ''hook'', w_target_url = ''https://hooks.example/in'',
     w_secret_token = ''v1.plain.7365637265742d30'', w_auth_mode = ''HMAC_ONLY'', w_api_key = None,
     w_hmac_template = None, w_signature_header = None, w_signature_prefix = None, w_headers_json = None,
     w_payload_template = ''{}'', w_group_id = g, w_is_active = True, w_events = None,
     w_owner_key_id = owner, w_created_at = 0\<rparr>"

definition demo_db :: db where
  "demo_db = empty_db\<lparr>
     api_keys := [root_key, manager_key, daughter_key, stranger_key],
     ip_groups := [sample_group 10 ''ssh'' (Some 3), sample_group 11 ''web'' None],
     permissions := [sample_permission 20 2 10 True True, sample_permission 21 4 10 False False]\<rparr>"

lemmas sample_defs = root_key_def manager_key_def daughter_key_def stranger_key_def sample_key_def
  sample_group_def sample_permission_def sample_webhook_def

lemma sample_key_facts [simp]:
  "k_id root_key = 1" "k_id manager_key = 2" "k_id daughter_key = 3" "k_id stranger_key = 4"
  "k_is_master root_key" "\<not> k_is_master manager_key" "\<not> k_is_master daughter_key" "\<not> k_is_master stranger_key"
  "k_can_manage_keys root_key" "k_can_manage_keys manager_key" "\<not> k_can_manage_keys daughter_key"
  "\<not> k_can_manage_keys stranger_key" "k_can_create_groups root_key" "\<not> k_can_create_groups manager_key"
  "\<not> k_can_create_groups daughter_key" "\<not> k_can_create_groups stranger_key"
  "\<not> k_can_manage_webhooks root_key" "\<not> k_can_manage_webhooks manager_key"
  "\<not> k_can_manage_webhooks daughter_key" "\<not> k_can_manage_webhooks stranger_key"
  by (simp_all add: sample_defs)

lemmas sample_run [run] = sample_defs demo_db_def demo_env_def Let_def

lemmas codec_run = demo_lib_def hash_key_def generate_random_key_def generate_signing_secret_def
  hex_digit_def byte_def

lemma demo_db_ok: "db_ok demo_db"
  by (simp add: db_ok_def refs_ok_def table_defs demo_db_def empty_db_def sample_defs)

end
