(* ===== verification/Key_Properties.thy ===== *)
theory Key_Properties
  imports Key_Safety Samples
begin

text \<open>
  The properties of the key handlers, each with a witness on the sample installation: bounded
  creation, the untouchable master, confinement to the caller's subtree, the non-amplification
  of group verbs and global scopes, rotation, revocation, and the scopes of the listing.
\<close>

subsection \<open>Creation\<close>

text \<open>
  A created key is appended to the table as a daughter of its creator, is never a master,
  carries a global scope only if a master created it, is stored as the hash of the key that is
  returned, and changes no permission, group, record or webhook.
\<close>

theorem created_key_is_bounded:
  assumes "create_api_key l cipher env key payload db = (Inr r, db')"
  shows "(k_is_master key \<or> k_can_manage_keys key) \<and>
    (\<exists>k. api_keys db' = api_keys db @ [k] \<and> k_id k = ckr_id r \<and> \<not> k_is_master k \<and>
       k_parent_key_id k = Some (k_id key) \<and> k_key_hash k = hash_key l (ckr_plaintext_key r) \<and>
       (key_scopes k \<noteq> {} \<longrightarrow> k_is_master key)) \<and>
    permissions db' = permissions db \<and> ip_groups db' = ip_groups db \<and>
    ip_records db' = ip_records db \<and> webhook_configs db' = webhook_configs db"
proof -
  from after_on_okD [OF create_api_key_after assms] obtain stored where
    rights: "k_is_master key \<or> k_can_manage_keys key"
    and scope: "guard_scope_elevation key [ck_can_manage_keys payload, ck_can_create_groups payload,
        ck_can_manage_webhooks payload] [False, False, False] = Inr ()"
    and audit: "create_audit_log env (e_uuid env 1) key ''KEY_CREATE'' None None (Some (ck_name payload))
        (db\<lparr>api_keys := api_keys db @ [created_key l env key payload r stored]\<rparr>) = Inr db'"
    by blast
  let ?k = "created_key l env key payload r stored"
  have "key_scopes ?k \<noteq> {} \<longrightarrow> k_is_master key"
    using scope
    by (auto simp: guard_scope_elevation_admits key_scopes_def created_key_def unwrap_or_def
        split: option.splits if_splits)
  then show ?thesis
    using rights create_audit_log_InrD [OF audit]
    by (intro conjI exI [of _ ?k]) (auto simp: created_key_def)
qed

definition sample_creation :: create_key_payload where
  "sample_creation = \<lparr>ck_name = ''ci'', ck_bound_ips = None, ck_can_manage_keys = None,
     ck_can_manage_webhooks = None, ck_can_create_groups = None\<rparr>"

lemma sample_creation_succeeds:
  "create_api_key demo_lib Plaintext demo_env manager_key sample_creation demo_db =
     (Inr \<lparr>ckr_id = 1000, ckr_plaintext_key = generate_random_key demo_lib (e_random demo_env 0),
        ckr_signing_secret = generate_signing_secret demo_lib (e_random demo_env 1),
        ckr_name = ''ci'', ckr_bound_ips = None\<rparr>,
      snd (create_api_key demo_lib Plaintext demo_env manager_key sample_creation demo_db))"
  by (simp add: run sample_creation_def codec_run) code_simp

theorem created_key_is_bounded_witness:
  "\<exists>k. api_keys (snd (create_api_key demo_lib Plaintext demo_env manager_key sample_creation demo_db)) =
      api_keys demo_db @ [k] \<and> k_parent_key_id k = Some 2 \<and> key_scopes k = {}"
  using created_key_is_bounded [OF sample_creation_succeeds] by auto

subsection \<open>Master and global scopes\<close>

text \<open>
  No key operation mints, promotes, deletes or re-keys a master: whatever the caller, the input
  and the outcome, the master rows are the same afterwards up to \<open>bound_ips\<close> and
  \<open>updated_at\<close>, the only columns the master may edit on itself.
\<close>

theorem key_operations_leave_master:
  assumes "db_ok db"
  shows "master_rows (snd (create_api_key l cipher env key cp db)) = master_rows db \<and>
    master_rows (snd (update_api_key l env key i up db)) = master_rows db \<and>
    master_rows (snd (rotate_api_key l cipher env key i db)) = master_rows db \<and>
    master_rows (snd (rotate_signing_secret l cipher env key i db)) = master_rows db \<and>
    master_rows (snd (update_key_group_permissions l env key i gp db)) = master_rows db \<and>
    master_rows (snd (revoke_key_group_permission l env key i gi db)) = master_rows db"
  using assms
  by (simp add: master_rows_create_api_key master_rows_update_api_key master_rows_rotate_api_key
      master_rows_rotate_signing_secret master_rows_cong [OF api_keys_update_key_group_permissions]
      master_rows_cong [OF api_keys_revoke_key_group_permission])

theorem key_operations_leave_master_witness:
  "master_rows (snd (rotate_api_key demo_lib Plaintext demo_env manager_key 3 demo_db)) = [frozen root_key]"
proof -
  have "master_rows demo_db = [frozen root_key]" by (simp add: master_rows_def run)
  then show ?thesis
    using key_operations_leave_master [OF demo_db_ok, of demo_lib Plaintext demo_env manager_key _ 3] by simp
qed

text \<open>
  C7 A caller that is no master raises no global scope of any key, its own included: through every
  key operation and on every outcome a key holds at most the scopes it held before.
\<close>

theorem scopes_never_raised_by_non_master:
  assumes "\<not> k_is_master key"
  shows "scopes_within db (snd (create_api_key l cipher env key cp db)) \<and>
    scopes_within db (snd (update_api_key l env key i up db)) \<and>
    scopes_within db (snd (rotate_api_key l cipher env key i db)) \<and>
    scopes_within db (snd (rotate_signing_secret l cipher env key i db))"
  using assms
  by (simp add: scopes_create_api_key scopes_update_api_key scopes_rotate_api_key scopes_rotate_signing_secret)

definition sample_escalation :: update_key_payload where
  "sample_escalation = \<lparr>uk_name = None, uk_bound_ips = None, uk_can_manage_keys = None,
     uk_can_manage_webhooks = Some True, uk_can_create_groups = None\<rparr>"

theorem scopes_never_raised_by_non_master_witness:
  "scopes_of (snd (update_api_key demo_lib demo_env manager_key 2 sample_escalation demo_db)) 2 \<subseteq> {Manage_Keys} \<and>
   fst (update_api_key demo_lib demo_env manager_key 2 sample_escalation demo_db) =
     Inl (Forbidden (msg_master_scope ''can_manage_webhooks''))"
proof
  have "scopes_of demo_db 2 = {Manage_Keys}" by (simp add: scopes_of_def run key_scopes_def)
  moreover have "scopes_within demo_db (snd (update_api_key demo_lib demo_env manager_key 2 sample_escalation demo_db))"
    using scopes_never_raised_by_non_master [of manager_key demo_db] by simp
  ultimately show "scopes_of (snd (update_api_key demo_lib demo_env manager_key 2 sample_escalation demo_db)) 2 \<subseteq> {Manage_Keys}"
    unfolding scopes_within_def by metis
qed (simp add: run sample_escalation_def)

subsection \<open>Group permissions\<close>

text \<open>
  C6 Non-amplification: when a caller that is no master grants or revokes, on any outcome, the
  verbs of every key on every group are unchanged, or the caller has \<open>can_manage_keys\<close> and
  manages that group, and every verb afterwards was held before by the key or by the caller.
\<close>

theorem group_verbs_never_amplified:
  assumes "\<not> k_is_master key" "db_ok db"
  shows "verbs_bounded key db (snd (update_key_group_permissions l env key i gp db)) \<and>
    verbs_bounded key db (snd (revoke_key_group_permission l env key i gi db))"
  using assms by (simp add: verbs_bounded_update_key_group_permissions verbs_bounded_revoke_key_group_permission)

definition sample_grant :: "bool \<Rightarrow> group_perm_input" where
  "sample_grant deletes = \<lparr>i_group_id = None, i_group_name = Some ''ssh'', i_can_read = True, i_can_write = True,
     i_can_delete = deletes, i_can_manage = False\<rparr>"

theorem group_verbs_never_amplified_witness:
  "verbs_bounded manager_key demo_db
     (snd (update_key_group_permissions demo_lib demo_env manager_key 3 (sample_grant False) demo_db)) \<and>
   fst (update_key_group_permissions demo_lib demo_env manager_key 3 (sample_grant False) demo_db) = Inr () \<and>
   fst (update_key_group_permissions demo_lib demo_env manager_key 3 (sample_grant True) demo_db) =
     Inl (Forbidden (msg_beyond_own ''grant'' ''ssh''))"
proof (intro conjI)
  show "verbs_bounded manager_key demo_db
     (snd (update_key_group_permissions demo_lib demo_env manager_key 3 (sample_grant False) demo_db))"
    using group_verbs_never_amplified [OF _ demo_db_ok, of manager_key] by simp
qed (simp_all add: run sample_grant_def)

text \<open>
  A successful revocation removes exactly the permission row of that key and group, required
  the manage conjunction or the master, and required nothing about the verbs removed.
\<close>

theorem revocation_removes_one_row:
  assumes "db_ok db" "revoke_key_group_permission l env key i gi db = (Inr (), db')"
  shows "\<exists>g. resolve_group_by_identifier l db gi = Some g \<and> find_permission i (g_id g) db \<noteq> None \<and>
    (k_is_master key \<or> (k_can_manage_keys key \<and> Manage \<in> verbs_of db (k_id key) (g_id g))) \<and>
    permissions db' = row_delete (\<lambda>p. perm_pair p = (i, g_id g)) (permissions db)"
  using after_on_okD [OF revoke_key_group_permission_after [OF assms(1)] assms(2)] .

theorem revocation_removes_one_row_witness:
  "permissions (snd (revoke_key_group_permission demo_lib demo_env manager_key 4 ''ssh'' demo_db)) =
     [sample_permission 20 2 10 True True]"
proof -
  let ?h = "revoke_key_group_permission demo_lib demo_env manager_key 4 ''ssh'' demo_db"
  have uuid: "l_uuid_parse demo_lib ''ssh'' = None" by code_simp
  have "?h = (Inr (), snd ?h)" by (simp add: run uuid)
  from revocation_removes_one_row [OF demo_db_ok this] show ?thesis
    by (auto simp: run uuid)
qed

subsection \<open>Visibility\<close>

text \<open>
  C8 For a caller that is no master, update and both rotations of a key outside its subtree answer
  as for an id that does not exist, and write nothing: existence is not disclosed.
\<close>

theorem keys_outside_subtree_look_absent:
  assumes "\<not> k_is_master key" "k_can_manage_keys key"
    and "i \<notin> set (collect_key_subtree db (k_id key)) \<or> find_key i db = None"
  shows "update_api_key l env key i up db = (Inl NotFound, db) \<and>
    rotate_api_key l cipher env key i db = (Inl NotFound, db) \<and>
    rotate_signing_secret l cipher env key i db = (Inl NotFound, db)"
proof -
  have "find_administrable_key db key i = Inl NotFound"
    using assms(1,3) invisible_key by (auto simp: find_administrable_key_def)
  with assms(2) show ?thesis
    by (simp add: update_api_key_invisible rotate_api_key_invisible rotate_signing_secret_invisible)
qed

theorem keys_outside_subtree_look_absent_witness:
  "rotate_api_key demo_lib Plaintext demo_env manager_key 4 demo_db = (Inl NotFound, demo_db) \<and>
   rotate_api_key demo_lib Plaintext demo_env manager_key 99 demo_db = (Inl NotFound, demo_db)"
proof -
  have "collect_key_subtree demo_db (k_id manager_key) = [2, 3]" by (simp add: run)
  then show ?thesis
    using keys_outside_subtree_look_absent [of manager_key 4 demo_db demo_lib demo_env _ Plaintext]
      keys_outside_subtree_look_absent [of manager_key 99 demo_db demo_lib demo_env _ Plaintext]
    by simp
qed

text \<open>
  C9 The walk over \<open>parent_key_id\<close> ends on every table, cycles included, lists each key once, and
  computes exactly the keys reachable from the root by parent pointers.
\<close>

theorem subtree_walk_is_reachability:
  "set (collect_key_subtree db root) = (child_rel db)\<^sup>* `` {root} \<and> distinct (collect_key_subtree db root)"
  by (simp add: set_collect_key_subtree distinct_collect_key_subtree)

text \<open>
  The listing a delegated manager gets shows its own subtree in full, and of any other key only
  the minimal view: no flag, prefix, address list, parent or date, only keys with a permission
  row on a group the caller manages, and only those keys' rights on groups the caller manages.
\<close>

theorem listing_is_scoped:
  assumes "db_ok db" "list_api_keys key db = Inr views" "\<not> k_is_master key" "s \<in> set views"
  shows "(s_view s = ''full'' \<and> s_id s \<in> set (collect_key_subtree db (k_id key))) \<or>
    (s_view s = ''minimal'' \<and> s_prefix s = None \<and> s_bound_ips s = None \<and> s_is_master s = None \<and>
     s_can_manage_keys s = None \<and> s_can_manage_webhooks s = None \<and> s_can_create_groups s = None \<and>
     s_parent_key_id s = None \<and> s_created_at s = None \<and>
     (\<exists>p\<in>set (permissions db). p_api_key_id p = s_id s \<and> Manage \<in> verbs_of db (k_id key) (p_group_id p)) \<and>
     (\<forall>mp\<in>set (s_group_permissions s). Manage \<in> verbs_of db (k_id key) (mp_group_id mp)))"
  using list_api_keys_parts [OF assms(2-4)]
proof
  assume "\<exists>k\<in>set (api_keys db). s = minimal_api_key_summary db k (groups_the_caller_manages db key) \<and>
       k_id k \<notin> set (collect_key_subtree db (k_id key)) \<and>
       (\<exists>p\<in>set (permissions db). p_api_key_id p = k_id k \<and> p_group_id p \<in> set (groups_the_caller_manages db key))"
  then obtain k p where s: "s = minimal_api_key_summary db k (groups_the_caller_manages db key)"
    and p: "p \<in> set (permissions db)" "p_api_key_id p = k_id k" "p_group_id p \<in> set (groups_the_caller_manages db key)"
    by blast
  show ?thesis
    using minimal_view_fields [OF s] p groups_the_caller_manages_verbs [OF assms(1), of _ key] by auto
qed simp

theorem listing_is_scoped_witness:
  "\<exists>s\<in>set (projr (list_api_keys manager_key demo_db)). s_id s = 4 \<and> s_view s = ''minimal'' \<and> s_is_master s = None"
proof -
  define views where "views = projr (list_api_keys manager_key demo_db)"
  define s where "s = minimal_api_key_summary demo_db stranger_key [10]"
  have views: "list_api_keys manager_key demo_db = Inr views" "s \<in> set views"
    by (simp_all add: views_def s_def list_api_keys_def groups_the_caller_manages_def map_filter_def
        full_api_key_summary_def run)
  have "s_id s = 4" "s_view s = ''minimal''" by (simp_all add: s_def minimal_api_key_summary_def run)
  with listing_is_scoped [OF demo_db_ok views(1) _ views(2)] views show ?thesis
    unfolding views_def by auto
qed

subsection \<open>Rotation\<close>

text \<open>
  A rotation replaces both credentials of the one key it names and nothing else: the stored hash
  is that of the key returned, the stored secret opens to the secret returned, the key keeps its
  name, addresses, scopes, parent and master flag, and no other key or permission changes.
\<close>

theorem rotation_replaces_credentials:
  assumes "rotate_api_key l cipher env key i db = (Inr r, db')"
    and "sealable l cipher (take NONCE_LEN (e_random env 2)) (rk_signing_secret r)"
  shows "\<exists>old new stored. find_key i db = Some old \<and> find_key i db' = Some new \<and>
    k_key_hash new = hash_key l (rk_plaintext_key r) \<and> k_signing_secret new = Some stored \<and>
    open_secret l cipher stored = Inr (rk_signing_secret r) \<and>
    k_name new = k_name old \<and> k_bound_ips new = k_bound_ips old \<and> key_scopes new = key_scopes old \<and>
    k_parent_key_id new = k_parent_key_id old \<and> \<not> k_is_master old \<and> \<not> k_is_master new \<and>
    (\<forall>j. j \<noteq> i \<longrightarrow> find_key j db' = find_key j db) \<and> permissions db' = permissions db"
proof -
  from after_on_okD [OF rotate_api_key_after assms(1)] obtain target stored ref new where
    target: "\<not> k_is_master target"
    and sealed: "seal l cipher (take NONCE_LEN (e_random env 2)) (rk_signing_secret r) = Inr stored"
    and new: "new = target\<lparr>k_key_hash := hash_key l (rk_plaintext_key r), k_prefix := take 8 (rk_plaintext_key r),
        k_signing_secret := Some stored, k_updated_at := e_now env\<rparr>"
    and replaced: "key_replaced env key ''KEY_ROTATE'' ref i target new db db'"
    by blast
  have "open_secret l cipher stored = Inr (rk_signing_secret r)"
    by (rule vault.open_seal [OF assms(2) sealed])
  then show ?thesis
    using key_replacedD [OF replaced] target
    by (intro exI [of _ target] exI [of _ new] exI [of _ stored]) (auto simp: new key_scopes_def)
qed

theorem rotation_replaces_credentials_witness:
  "\<exists>new stored. find_key 3 (snd (rotate_api_key demo_lib (Sealed ''k'') demo_env manager_key 3 demo_db)) = Some new \<and>
     k_signing_secret new = Some stored \<and>
     open_secret demo_lib (Sealed ''k'') stored = Inr (hex_encode_bytes (replicate 32 (CHR ''B'')))"
proof -
  let ?h = "rotate_api_key demo_lib (Sealed ''k'') demo_env manager_key 3 demo_db"
  have "?h = (Inr \<lparr>rk_id = 3, rk_plaintext_key = generate_random_key demo_lib (e_random demo_env 0),
      rk_signing_secret = hex_encode_bytes (replicate 32 (CHR ''B''))\<rparr>, snd ?h)"
    by (simp add: run codec_run) code_simp
  from rotation_replaces_credentials [OF this demo_sealable] show ?thesis
    by (auto simp: demo_env_def NONCE_LEN_def)
qed

end
