(* ===== verification/Crypto_Properties.thy ===== *)
theory Crypto_Properties
  imports Samples
begin

text \<open>
  The properties of the request signature and of secrets at rest: the round trips, the
  injectivity of the signed message, and the refusals.
\<close>

lemma plain_not_space: "is_ascii_hexdigit c \<Longrightarrow> \<not> ascii_space c \<and> byte c < 128"
  by (auto simp: is_ascii_hexdigit_def is_ascii_digit_def ascii_space_def Let_def)

lemma trim_start_plain: "\<forall>c\<in>set s. \<not> ascii_space c \<and> byte c < 128 \<Longrightarrow> trim_start s = s"
  by (cases s rule: trim_start.cases) (auto simp: space2_def space3_def Let_def split: list.splits)

lemma trim_rev_plain: "\<forall>c\<in>set s. \<not> ascii_space c \<and> byte c < 128 \<Longrightarrow> trim_rev s = s"
  by (cases s rule: trim_rev.cases) (auto simp: space2_def space3_def Let_def split: list.splits)

lemma trim_plain: "\<forall>c\<in>set s. \<not> ascii_space c \<and> byte c < 128 \<Longrightarrow> trim s = s"
  by (simp add: trim_def trim_start_plain trim_rev_plain)

lemma signature_prefix_plain: "\<forall>c\<in>set SIGNATURE_PREFIX. \<not> ascii_space c \<and> byte c < 128"
  by (simp add: SIGNATURE_PREFIX_def ascii_space_def byte_def)

lemma trim_hex: "hex_laws l \<Longrightarrow> trim (l_hex_encode l b) = l_hex_encode l b"
  using plain_not_space by (intro trim_plain) (auto simp: hex_laws_def)

lemma trim_signature: "hex_laws l \<Longrightarrow> trim (SIGNATURE_PREFIX @ l_hex_encode l b) = SIGNATURE_PREFIX @ l_hex_encode l b"
  using plain_not_space signature_prefix_plain by (intro trim_plain) (auto simp: hex_laws_def)

lemma signature_verifies:
  assumes "hex_laws l" "compute_signature l secret m t s b = Inr h"
  shows "verify_signature l secret m t s b h = Some (l_hmac_sha256 l secret (canonical_v1_payload m t s b))"
  using assms by (auto simp: compute_signature_def verify_signature_def trim_signature trim_hex) (simp_all add: hex_laws_def)

text \<open>
  C10 The header \<open>compute_signature\<close> builds is accepted by \<open>verify_signature\<close> for the same
  secret and request, and whatever header is accepted carries, behind the mandatory algorithm
  tag, the hexadecimal text of exactly the HMAC of the canonical message.
\<close>

theorem signature_accepts_exactly_hmac:
  assumes "hex_laws l"
  shows "(\<exists>h. compute_signature l secret m t s b = Inr h \<and>
       verify_signature l secret m t s b h = Some (l_hmac_sha256 l secret (canonical_v1_payload m t s b))) \<and>
    (\<forall>p d. verify_signature l secret m t s b p = Some d \<longrightarrow>
       d = l_hmac_sha256 l secret (canonical_v1_payload m t s b) \<and>
       (\<exists>x. trim p = SIGNATURE_PREFIX @ x \<and> l_hex_decode l (trim x) = Some d))"
proof
  have "l_hex_decode l (l_hex_encode l b) = Some b" for b using assms by (simp add: hex_laws_def)
  then show "\<exists>h. compute_signature l secret m t s b = Inr h \<and>
       verify_signature l secret m t s b h = Some (l_hmac_sha256 l secret (canonical_v1_payload m t s b))"
    by (simp add: compute_signature_def verify_signature_def trim_signature [OF assms] trim_hex [OF assms])
qed (auto simp: verify_signature_def strip_prefix_Some_iff split: option.splits if_splits)

theorem signature_accepts_exactly_hmac_witness:
  "verify_signature demo_lib ''k'' ''GET'' ''/api/ips'' ''1'' [] ''sha256=6b4745540a2f6170692f6970730a310a'' =
     Some (''k'' @ canonical_v1_payload ''GET'' ''/api/ips'' ''1'' []) \<and>
   verify_signature demo_lib ''k'' ''GET'' ''/api/ips'' ''1'' [] ''6b4745540a2f6170692f6970730a310a'' = None"
proof
  have "compute_signature demo_lib ''k'' ''GET'' ''/api/ips'' ''1'' [] = Inr ''sha256=6b4745540a2f6170692f6970730a310a''"
    by code_simp
  with signature_accepts_exactly_hmac [OF demo_hex_laws, of "''k''" "''GET''" "''/api/ips''" "''1''" "[]"]
  show "verify_signature demo_lib ''k'' ''GET'' ''/api/ips'' ''1'' [] ''sha256=6b4745540a2f6170692f6970730a310a'' =
     Some (''k'' @ canonical_v1_payload ''GET'' ''/api/ips'' ''1'' [])"
    by (simp add: demo_lib_def)
qed code_simp

text \<open>
  The signed message determines the request: two requests whose method, target and timestamp
  hold no newline have the same canonical message only if all four parts agree.
\<close>

theorem canonical_payload_injective:
  assumes "newline \<notin> set m" "newline \<notin> set m'" "newline \<notin> set t" "newline \<notin> set t'"
    and "newline \<notin> set s" "newline \<notin> set s'"
    and "canonical_v1_payload m t s b = canonical_v1_payload m' t' s' b'"
  shows "m = m' \<and> t = t' \<and> s = s' \<and> b = b'"
  using assms by (rule canonical_v1_payload_inj)

theorem canonical_payload_injective_witness:
  "canonical_v1_payload ''POST'' ''/api/ban'' ''1'' [] \<noteq> canonical_v1_payload ''POS'' ''T/api/ban'' ''1'' []"
  using canonical_payload_injective [of "''POST''" "''POS''" "''/api/ban''" "''T/api/ban''" "''1''" "''1''" "[]" "[]"]
  by (auto simp: newline_def)

text \<open>
  A signing secret survives storage: what \<open>seal\<close> stores, under either cipher, \<open>open\<close> recovers
  verbatim, provided the codec and the AEAD invert themselves and the nonce has its width.
\<close>

theorem sealed_secret_opens:
  assumes "hex_laws l" "aead_laws l" "l_utf8_valid l s" "length nonce = NONCE_LEN" "seal l c nonce s = Inr t"
  shows "open_secret l c t = Inr s"
  using assms by (intro vault.open_seal [of l c nonce s t]) (simp_all add: sealable_def)

theorem sealed_secret_opens_witness:
  "open_secret demo_lib (Sealed ''key'') (projr (seal demo_lib (Sealed ''key'') (replicate 24 (CHR ''n'')) ''secret'')) = Inr ''secret''"
proof (rule sealed_secret_opens [OF demo_hex_laws demo_aead_laws])
  show "seal demo_lib (Sealed ''key'') (replicate 24 (CHR ''n'')) ''secret'' =
      Inr (projr (seal demo_lib (Sealed ''key'') (replicate 24 (CHR ''n'')) ''secret''))"
    by (simp add: seal_def demo_lib_def)
qed (simp_all add: demo_lib_def NONCE_LEN_def)



end
