(* ===== verification/Key_Delete.thy ===== *)
theory Key_Delete
  imports Key_Safety
begin

text \<open>
  Deleting a key (\<open>delete_api_key\<close> and \<open>inventory_owned_entities\<close> in \<open>src/api/keys.rs\<close>): the
  inventory of everything the doomed subtree owns, the checks of the resolution map, the
  application of the resolutions and the cascade over the subtree. The code keeps the resolutions
  and the subtree in hash containers; where it reports one of several faults the model reports
  the first in the order of the request.
\<close>

subsection \<open>Inventory\<close>

definition owner_name_in :: "db \<Rightarrow> uuid list \<Rightarrow> uuid \<Rightarrow> string" where
  "owner_name_in db subtree i =
     (case List.find (\<lambda>k. k_id k = i \<and> k_id k \<in> set subtree) (api_keys db) of
        Some k \<Rightarrow> k_name k | None \<Rightarrow> ''<deleted>'')"

definition owned_by :: "uuid list \<Rightarrow> uuid option \<Rightarrow> bool" where
  "owned_by subtree owner = (case owner of None \<Rightarrow> False | Some i \<Rightarrow> i \<in> set subtree)"

definition group_entity :: "db \<Rightarrow> uuid list \<Rightarrow> ip_group \<Rightarrow> owned_entity" where
  "group_entity db subtree g = (let owner = unwrap_or 0 (g_owner_key_id g) in
     \<lparr>oe_type = ''group'', oe_id = g_id g, oe_name = g_name g, oe_owner_key_id = owner,
      oe_owner_name = owner_name_in db subtree owner\<rparr>)"

definition webhook_entity :: "db \<Rightarrow> uuid list \<Rightarrow> webhook_config \<Rightarrow> owned_entity" where
  "webhook_entity db subtree w = (let owner = unwrap_or 0 (w_owner_key_id w) in
     \<lparr>oe_type = ''webhook'', oe_id = w_id w, oe_name = w_name w, oe_owner_key_id = owner,
      oe_owner_name = owner_name_in db subtree owner\<rparr>)"

definition inventory_owned_entities :: "db \<Rightarrow> uuid list \<Rightarrow> owned_entity list" where
  "inventory_owned_entities db subtree =
     map (group_entity db subtree) (filter (\<lambda>g. owned_by subtree (g_owner_key_id g)) (ip_groups db)) @
     map (webhook_entity db subtree) (filter (\<lambda>w. owned_by subtree (w_owner_key_id w)) (webhook_configs db))"

subsection \<open>Resolutions\<close>

datatype resolution = Destroy | Reassign uuid

record resolution_entry =
  re_type :: string
  re_id :: uuid
  re_resolution :: resolution

definition re_pair :: "resolution_entry \<Rightarrow> string \<times> uuid" where
  "re_pair e = (re_type e, re_id e)"

definition oe_pair :: "owned_entity \<Rightarrow> string \<times> uuid" where
  "oe_pair e = (oe_type e, oe_id e)"

definition lookup_resolution :: "resolution_entry list \<Rightarrow> string \<times> uuid \<Rightarrow> resolution option" where
  "lookup_resolution rs p = map_option re_resolution (List.find (\<lambda>e. re_pair e = p) rs)"

definition ies :: "nat \<Rightarrow> string" where
  "ies n = (if n = 1 then ''y'' else ''ies'')"

definition ellipsis :: string where
  "ellipsis = [CHR 0xE2, CHR 0x80, CHR 0xA6]"

definition msg_delete_self :: string where
  "msg_delete_self = ''Cannot delete yourself''"

definition msg_parent_cycle :: string where
  "msg_parent_cycle = ''Refusing to delete: the subtree of this key contains your own key, which indicates a              cycle in parent_key_id. Resolve it directly in the database.''"

definition msg_needs_resolution :: "string \<Rightarrow> nat \<Rightarrow> string" where
  "msg_needs_resolution target_ref n =
     ''Refusing to delete '' @ target_ref @ '': '' @ dec n @ '' owned entit'' @ ies n @
     '' in its subtree need an explicit                  resolution. Resubmit this request with a `resolutions` array assigning each one                  either {\"action\":\"delete\"} or {\"action\":\"reassign\",\"owner_key_id\":\"'' @
     ellipsis @ ''\"}.''"

definition msg_incomplete :: "string \<Rightarrow> nat \<Rightarrow> string" where
  "msg_incomplete target_ref n =
     ''Refusing to delete '' @ target_ref @ '': the resolution map is incomplete '' @ [CHR 0xE2, CHR 0x80, CHR 0x94] @
     '' '' @ dec n @ '' entit'' @ (if n = 1 then ''y is'' else ''ies are'') @
     ''                  unresolved. Partial maps are not applied.''"

definition msg_duplicate :: "lib \<Rightarrow> string \<times> uuid \<Rightarrow> string" where
  "msg_duplicate l p = ''Duplicate resolution for '' @ fst p @ '' '' @ l_uuid_str l (snd p)"

definition msg_extra :: "lib \<Rightarrow> string \<times> uuid \<Rightarrow> string" where
  "msg_extra l p = ''Resolution names '' @ fst p @ '' '' @ l_uuid_str l (snd p) @
     '', which is not owned by any key in this subtree''"

definition msg_doomed_owner :: "lib \<Rightarrow> uuid \<Rightarrow> string" where
  "msg_doomed_owner l i = ''Cannot reassign to key '' @ l_uuid_str l i @
     '': it is itself inside the subtree being                      deleted, so the entity would be orphaned the moment this request completes''"

fun check_duplicates :: "lib \<Rightarrow> (string \<times> uuid) list \<Rightarrow> resolution_entry list \<Rightarrow> app_error + unit" where
  "check_duplicates l seen [] = Inr ()"
| "check_duplicates l seen (e # es) =
     (if re_pair e \<in> set seen then Inl (InvalidInput (msg_duplicate l (re_pair e)))
      else check_duplicates l (re_pair e # seen) es)"

fun validate_reassignments :: "lib \<Rightarrow> db \<Rightarrow> uuid list \<Rightarrow> resolution_entry list \<Rightarrow> app_error + unit" where
  "validate_reassignments l db doomed [] = Inr ()"
| "validate_reassignments l db doomed (e # es) =
     (case re_resolution e of
        Destroy \<Rightarrow> validate_reassignments l db doomed es
      | Reassign owner \<Rightarrow>
          try_then (resolve_owner_assignment db (Some owner)) (\<lambda>_.
            if owner \<in> set doomed then Inl (InvalidInput (msg_doomed_owner l owner))
            else validate_reassignments l db doomed es))"

text \<open>Every check of the map, before the first write, in the order of the code.\<close>

definition check_resolutions ::
  "lib \<Rightarrow> db \<Rightarrow> string \<Rightarrow> uuid list \<Rightarrow> owned_entity list \<Rightarrow> resolution_entry list \<Rightarrow> app_error + unit" where
  "check_resolutions l db target_ref subtree inventory rs =
     (if inventory \<noteq> [] \<and> rs = []
      then Inl (ConflictWithDetails (msg_needs_resolution target_ref (length inventory))
                  (SubtreeInventory (length subtree) inventory))
      else try_then (check_duplicates l [] rs) (\<lambda>_.
        let missing = filter (\<lambda>e. lookup_resolution rs (oe_pair e) = None) inventory in
        if missing \<noteq> [] then Inl (ConflictWithDetails (msg_incomplete target_ref (length missing)) (Unresolved missing))
        else (case List.find (\<lambda>e. re_pair e \<notin> set (map oe_pair inventory)) rs of
                Some e \<Rightarrow> Inl (InvalidInput (msg_extra l (re_pair e)))
              | None \<Rightarrow> validate_reassignments l db subtree rs)))"

subsection \<open>Application\<close>

definition set_group_owner :: "uuid \<Rightarrow> uuid \<Rightarrow> db \<Rightarrow> db" where
  "set_group_owner i owner db = db\<lparr>ip_groups :=
     map (\<lambda>g. if g_id g = i then g\<lparr>g_owner_key_id := Some owner\<rparr> else g) (ip_groups db)\<rparr>"

definition set_webhook_owner :: "uuid \<Rightarrow> uuid \<Rightarrow> db \<Rightarrow> db" where
  "set_webhook_owner i owner db = db\<lparr>webhook_configs :=
     map (\<lambda>w. if w_id w = i then w\<lparr>w_owner_key_id := Some owner\<rparr> else w) (webhook_configs db)\<rparr>"

text \<open>One entity: the database and whether it was reassigned.\<close>

definition apply_resolution :: "owned_entity \<Rightarrow> resolution \<Rightarrow> db \<Rightarrow> (db \<times> bool) option" where
  "apply_resolution e r db =
     (if oe_type e = ''group'' then
        (case r of Destroy \<Rightarrow> Some (delete_group (oe_id e) db, False)
         | Reassign owner \<Rightarrow> Some (set_group_owner (oe_id e) owner db, True))
      else if oe_type e = ''webhook'' then
        (case r of Destroy \<Rightarrow> Some (delete_webhooks (\<lambda>w. w_id w = oe_id e) db, False)
         | Reassign owner \<Rightarrow> Some (set_webhook_owner (oe_id e) owner db, True))
      else None)"

text \<open>
  The loop over the inventory with its two counters. Indexing the map with an absent key panics
  in the code; the checks exclude it, and the model answers with the internal error there.
\<close>

fun apply_resolutions ::
  "resolution_entry list \<Rightarrow> owned_entity list \<Rightarrow> nat \<Rightarrow> nat \<Rightarrow> db \<Rightarrow> (nat \<times> nat) outcome" where
  "apply_resolutions rs [] deleted reassigned db = (Inr (deleted, reassigned), db)"
| "apply_resolutions rs (e # es) deleted reassigned db =
     (case lookup_resolution rs (oe_pair e) of
        None \<Rightarrow> (Inl Internal, db)
      | Some r \<Rightarrow>
          (case apply_resolution e r db of
             None \<Rightarrow> (Inl Internal, db)
           | Some (db1, moved) \<Rightarrow>
               (if moved then apply_resolutions rs es deleted (reassigned + 1) db1
                else apply_resolutions rs es (deleted + 1) reassigned db1)))"

definition key_delete_details :: "string \<Rightarrow> nat \<Rightarrow> nat \<Rightarrow> nat \<Rightarrow> string" where
  "key_delete_details target_ref descendants deleted reassigned =
     ''Deleted key '' @ target_ref @ '' and '' @ dec descendants @ '' descendant key(s); '' @ dec deleted @
     '' owned entit(y/ies) deleted, '' @ dec reassigned @ '' reassigned''"

definition delete_api_key ::
  "lib \<Rightarrow> env \<Rightarrow> api_key \<Rightarrow> uuid \<Rightarrow> resolution_entry list \<Rightarrow> db \<Rightarrow> unit outcome" where
  "delete_api_key l env key key_id resolutions db =
     attempt (may_manage_keys key) db (\<lambda>_.
       if key_id = k_id key then (Inl (Forbidden msg_delete_self), db)
       else attempt (find_administrable_key db key key_id) db (\<lambda>target.
       attempt (guard_master_target key target) db (\<lambda>_.
       attempt (guard_master_immutable target ''deleted'') db (\<lambda>_.
         let target_ref = format_key_reference l (k_name target) key_id;
             subtree = collect_key_subtree db key_id
         in if k_id key \<in> set subtree then (Inl (Conflict msg_parent_cycle), db)
            else let inventory = inventory_owned_entities db subtree in
              attempt (check_resolutions l db target_ref subtree inventory resolutions) db (\<lambda>_.
                case apply_resolutions resolutions inventory 0 0 db of
                  (Inl e, db1) \<Rightarrow> (Inl e, db1)
                | (Inr (deleted, reassigned), db1) \<Rightarrow>
                    (if count_rows (\<lambda>k. k_id k \<in> set subtree) (api_keys db1) = 0 then (Inl NotFound, db1)
                     else let db2 = delete_keys (set subtree) db1 in
                       attempt (create_audit_log env (e_uuid env 0) key ''KEY_DELETE'' None None
                           (Some (key_delete_details target_ref (length subtree - 1) deleted reassigned)) db2) db2 (\<lambda>db3.
                         (Inr (), db3))))))))"

subsection \<open>The checks\<close>

lemma check_duplicates_InrD:
  "check_duplicates l seen rs = Inr u \<Longrightarrow> distinct (map re_pair rs) \<and> set seen \<inter> re_pair ` set rs = {}"
  by (induction l seen rs rule: check_duplicates.induct) (auto split: if_splits)

lemma validate_reassignments_InrD:
  "validate_reassignments l db doomed rs = Inr u \<Longrightarrow> e \<in> set rs \<Longrightarrow> re_resolution e = Reassign owner \<Longrightarrow>
     owner \<notin> set doomed \<and> (\<exists>k\<in>set (api_keys db). k_id k = owner \<and> \<not> k_is_master k)"
proof (induction l db doomed rs rule: validate_reassignments.induct)
  case (2 l db doomed x es)
  show ?case
  proof (cases "re_resolution x")
    case Destroy
    with 2 show ?thesis by auto
  next
    case (Reassign o1)
    then obtain v where "resolve_owner_assignment db (Some o1) = Inr v" "o1 \<notin> set doomed"
      "validate_reassignments l db doomed es = Inr u"
      using 2(3) by (auto elim!: try_then_InrE split: if_splits)
    with 2(2) [OF Reassign] 2(4,5) Reassign show ?thesis
      by (auto dest!: resolve_owner_assignment_InrD)
  qed
qed simp

lemma lookup_resolution_SomeD:
  "lookup_resolution rs p = Some r \<Longrightarrow> \<exists>e\<in>set rs. re_pair e = p \<and> re_resolution e = r"
  by (auto simp: lookup_resolution_def find_Some_iff)

lemma lookup_resolution_None: "lookup_resolution rs p = None \<longleftrightarrow> p \<notin> re_pair ` set rs"
  by (auto simp: lookup_resolution_def find_None_iff)

lemma check_resolutions_InrD:
  assumes "check_resolutions l db ref subtree ents rs = Inr u"
  shows "distinct (map re_pair rs)" "re_pair ` set rs = oe_pair ` set ents"
    "lookup_resolution rs p = Some (Reassign owner) \<Longrightarrow>
       owner \<notin> set subtree \<and> (\<exists>k\<in>set (api_keys db). k_id k = owner \<and> \<not> k_is_master k)"
proof -
  from assms have dup: "check_duplicates l [] rs = Inr ()"
    and missing: "filter (\<lambda>e. lookup_resolution rs (oe_pair e) = None) ents = []"
    and extra: "List.find (\<lambda>e. re_pair e \<notin> set (map oe_pair ents)) rs = None"
    and valid: "validate_reassignments l db subtree rs = Inr ()"
    unfolding check_resolutions_def Let_def
    by (auto elim!: try_then_InrE split: if_splits option.splits)
  show "distinct (map re_pair rs)" using check_duplicates_InrD [OF dup] by simp
  have "oe_pair ` set ents \<subseteq> re_pair ` set rs"
    using missing by (auto simp: filter_empty_conv lookup_resolution_None)
  moreover have "re_pair ` set rs \<subseteq> oe_pair ` set ents"
    using extra by (auto simp: find_None_iff)
  ultimately show "re_pair ` set rs = oe_pair ` set ents" by blast
  show "lookup_resolution rs p = Some (Reassign owner) \<Longrightarrow>
       owner \<notin> set subtree \<and> (\<exists>k\<in>set (api_keys db). k_id k = owner \<and> \<not> k_is_master k)"
    using validate_reassignments_InrD [OF valid] by (auto dest: lookup_resolution_SomeD)
qed

end
