(* ===== verification/Key_Delete_Safety.thy ===== *)
theory Key_Delete_Safety
  imports Key_Delete Samples
begin

text \<open>
  Deletion never destroys data implicitly: a refusal writes nothing, an accepted call carries one
  decision for every entity the subtree owns, and afterwards exactly the subtree is gone, no
  surviving row names a deleted key, and only what a decision named was deleted or moved.
\<close>

subsection \<open>One resolution\<close>

lemma apply_resolution_cases:
  assumes "apply_resolution e r db = Some (db1, m)"
  obtains (group_gone) "oe_type e = ''group''" "r = Destroy" "db1 = delete_group (oe_id e) db"
  | (group_moved) ow where "oe_type e = ''group''" "r = Reassign ow" "db1 = set_group_owner (oe_id e) ow db"
  | (webhook_gone) "oe_type e = ''webhook''" "r = Destroy" "db1 = delete_webhooks (\<lambda>w. w_id w = oe_id e) db"
  | (webhook_moved) ow where "oe_type e = ''webhook''" "r = Reassign ow" "db1 = set_webhook_owner (oe_id e) ow db"
  using assms by (auto simp: apply_resolution_def split: if_splits resolution.splits)

lemma apply_resolution_other:
  assumes "apply_resolution e r db = Some (db1, m)"
  shows "api_keys db1 = api_keys db" "ip_records db1 = ip_records db" "audit_logs db1 = audit_logs db"
  using assms
  by (cases rule: apply_resolution_cases;
      simp add: delete_group_def delete_webhooks_def set_group_owner_def set_webhook_owner_def Let_def)+

lemmas entity_defs = delete_group_def delete_webhooks_def set_group_owner_def set_webhook_owner_def Let_def oe_pair_def

lemma apply_resolution_group:
  assumes "apply_resolution e r db = Some (db1, m)" "g1 \<in> set (ip_groups db1)"
  shows "\<exists>g\<in>set (ip_groups db). g_id g = g_id g1 \<and>
    (if oe_pair e = (''group'', g_id g) then \<exists>ow. r = Reassign ow \<and> g_owner_key_id g1 = Some ow else g1 = g)"
  using assms(1)
proof (cases rule: apply_resolution_cases)
  case (group_moved ow)
  then obtain g where "g \<in> set (ip_groups db)" "g1 = (if g_id g = oe_id e then g\<lparr>g_owner_key_id := Some ow\<rparr> else g)"
    using assms(2) by (auto simp: entity_defs)
  with group_moved show ?thesis by (intro bexI [of _ g]) (auto simp: oe_pair_def)
qed (use assms(2) in \<open>auto simp: entity_defs intro!: bexI [of _ g1]\<close>)

lemma apply_resolution_webhook:
  assumes "apply_resolution e r db = Some (db1, m)" "w1 \<in> set (webhook_configs db1)"
  shows "\<exists>w\<in>set (webhook_configs db). w_id w = w_id w1 \<and>
    (if oe_pair e = (''webhook'', w_id w) then \<exists>ow. r = Reassign ow \<and> w_owner_key_id w1 = Some ow else w1 = w)"
  using assms(1)
proof (cases rule: apply_resolution_cases)
  case (webhook_moved ow)
  then obtain w where "w \<in> set (webhook_configs db)" "w1 = (if w_id w = oe_id e then w\<lparr>w_owner_key_id := Some ow\<rparr> else w)"
    using assms(2) by (auto simp: entity_defs)
  with webhook_moved show ?thesis by (intro bexI [of _ w]) (auto simp: oe_pair_def)
qed (use assms(2) in \<open>auto simp: entity_defs intro!: bexI [of _ w1]\<close>)

lemma apply_resolution_keeps_group:
  assumes "apply_resolution e r db = Some (db1, m)" "g \<in> set (ip_groups db)"
    "\<not> (oe_pair e = (''group'', g_id g) \<and> r = Destroy)"
  shows "g_id g \<in> g_id ` set (ip_groups db1)"
  using assms(1)
proof (cases rule: apply_resolution_cases)
  case (group_moved ow)
  then show ?thesis
    using assms(2) by (intro image_eqI [of _ _ "if g_id g = oe_id e then g\<lparr>g_owner_key_id := Some ow\<rparr> else g"])
      (auto simp: entity_defs)
qed (use assms(2,3) in \<open>auto simp: entity_defs intro!: image_eqI [of _ _ g]\<close>)

lemma map_map_same: "(\<And>x. f (h x) = f x) \<Longrightarrow> map f (map h xs) = map f xs"
  by simp

lemma db_ok_with_groups:
  "db_ok db \<Longrightarrow> map g_id gs = map g_id (ip_groups db) \<Longrightarrow> map g_name gs = map g_name (ip_groups db) \<Longrightarrow>
     db_ok (db\<lparr>ip_groups := gs\<rparr>)"
proof -
  assume ok: "db_ok db" and same: "map g_id gs = map g_id (ip_groups db)" "map g_name gs = map g_name (ip_groups db)"
  have "g_id ` set gs = g_id ` set (ip_groups db)" using same(1) by (metis set_map)
  with ok same show ?thesis by (simp add: db_ok_def refs_ok_def groups_ok_def)
qed

lemma webhooks_have_groups:
  "db_ok db \<Longrightarrow> w \<in> set (webhook_configs db) \<Longrightarrow> w_group_id w \<in> g_id ` set (ip_groups db)"
  by (simp add: db_ok_def refs_ok_def)

lemma db_ok_with_webhooks:
  "db_ok db \<Longrightarrow> map w_id ws = map w_id (webhook_configs db) \<Longrightarrow> map w_group_id ws = map w_group_id (webhook_configs db) \<Longrightarrow>
     db_ok (db\<lparr>webhook_configs := ws\<rparr>)"
proof -
  assume ok: "db_ok db" and same: "map w_id ws = map w_id (webhook_configs db)"
    "map w_group_id ws = map w_group_id (webhook_configs db)"
  have "w_id ` set ws = w_id ` set (webhook_configs db)" using same(1) by (metis set_map)
  moreover have "w_group_id ` set ws = w_group_id ` set (webhook_configs db)" using same(2) by (metis set_map)
  then have "w_group_id ` set ws \<subseteq> g_id ` set (ip_groups db)"
    using webhooks_have_groups [OF ok] by (simp add: image_subset_iff)
  then have "\<forall>w\<in>set ws. w_group_id w \<in> g_id ` set (ip_groups db)" by (simp add: image_subset_iff)
  ultimately show ?thesis
    using ok same(1) by (simp add: db_ok_def refs_ok_def webhooks_ok_def)
qed

lemma db_ok_set_group_owner [store_intros]: "db_ok db \<Longrightarrow> db_ok (set_group_owner i owner db)"
  unfolding set_group_owner_def by (erule db_ok_with_groups; rule map_map_same; simp)

lemma db_ok_set_webhook_owner [store_intros]: "db_ok db \<Longrightarrow> db_ok (set_webhook_owner i owner db)"
  unfolding set_webhook_owner_def by (erule db_ok_with_webhooks; rule map_map_same; simp)

lemma db_ok_apply_resolution:
  "db_ok db \<Longrightarrow> apply_resolution e r db = Some (db1, m) \<Longrightarrow> db_ok db1"
  by (auto simp: apply_resolution_def split: if_splits resolution.splits intro: store_intros)

subsection \<open>The loop\<close>

lemma apply_resolutions_Inr_cases:
  assumes "apply_resolutions rs (e # es) d m db = (Inr x, db')"
  obtains r db1 moved d' m' where "lookup_resolution rs (oe_pair e) = Some r"
    "apply_resolution e r db = Some (db1, moved)" "apply_resolutions rs es d' m' db1 = (Inr x, db')"
  using assms by (auto split: option.splits prod.splits if_splits)

lemma apply_resolutions_other:
  assumes "apply_resolutions rs es d m db = (Inr x, db')"
  shows "api_keys db' = api_keys db \<and> ip_records db' = ip_records db"
  using assms
proof (induction es arbitrary: d m db)
  case (Cons e es)
  from Cons.prems obtain r db1 moved d' m' where "apply_resolution e r db = Some (db1, moved)"
    "apply_resolutions rs es d' m' db1 = (Inr x, db')" by (rule apply_resolutions_Inr_cases)
  with Cons.IH [OF this(2)] apply_resolution_other [OF this(1)] show ?case by simp
qed simp

lemma apply_resolutions_group:
  assumes "apply_resolutions rs es d m db = (Inr x, db')" "g' \<in> set (ip_groups db')"
  shows "\<exists>g\<in>set (ip_groups db). g_id g = g_id g' \<and>
    (if (''group'', g_id g) \<in> oe_pair ` set es
     then \<exists>ow. lookup_resolution rs (''group'', g_id g) = Some (Reassign ow) \<and> g_owner_key_id g' = Some ow
     else g' = g)"
  using assms
proof (induction es arbitrary: d m db)
  case (Cons e es)
  from Cons.prems(1) obtain r db1 moved d' m' where r: "lookup_resolution rs (oe_pair e) = Some r"
    and step: "apply_resolution e r db = Some (db1, moved)"
    and rest: "apply_resolutions rs es d' m' db1 = (Inr x, db')" by (rule apply_resolutions_Inr_cases)
  obtain g1 where g1: "g1 \<in> set (ip_groups db1)" "g_id g1 = g_id g'"
    "if (''group'', g_id g1) \<in> oe_pair ` set es
     then \<exists>ow. lookup_resolution rs (''group'', g_id g1) = Some (Reassign ow) \<and> g_owner_key_id g' = Some ow
     else g' = g1"
    using Cons.IH [OF rest Cons.prems(2)] by blast
  from apply_resolution_group [OF step g1(1)] obtain g where g: "g \<in> set (ip_groups db)" "g_id g = g_id g1"
    "if oe_pair e = (''group'', g_id g) then \<exists>ow. r = Reassign ow \<and> g_owner_key_id g1 = Some ow else g1 = g" by blast
  show ?case
  proof (intro bexI [OF _ g(1)] conjI)
    show "g_id g = g_id g'" using g(2) g1(2) by simp
    show "if (''group'', g_id g) \<in> oe_pair ` set (e # es)
      then \<exists>ow. lookup_resolution rs (''group'', g_id g) = Some (Reassign ow) \<and> g_owner_key_id g' = Some ow
      else g' = g"
    proof (cases "(''group'', g_id g) \<in> oe_pair ` set es")
      case True
      with g1(3) g(2) show ?thesis by simp
    next
      case False
      with g1(3) g(2) have "g' = g1" by simp
      with g(3) r False show ?thesis by (cases "oe_pair e = (''group'', g_id g)") auto
    qed
  qed
qed auto

lemma apply_resolutions_webhook:
  assumes "apply_resolutions rs es d m db = (Inr x, db')" "w' \<in> set (webhook_configs db')"
  shows "\<exists>w\<in>set (webhook_configs db). w_id w = w_id w' \<and>
    (if (''webhook'', w_id w) \<in> oe_pair ` set es
     then \<exists>ow. lookup_resolution rs (''webhook'', w_id w) = Some (Reassign ow) \<and> w_owner_key_id w' = Some ow
     else w' = w)"
  using assms
proof (induction es arbitrary: d m db)
  case (Cons e es)
  from Cons.prems(1) obtain r db1 moved d' m' where r: "lookup_resolution rs (oe_pair e) = Some r"
    and step: "apply_resolution e r db = Some (db1, moved)"
    and rest: "apply_resolutions rs es d' m' db1 = (Inr x, db')" by (rule apply_resolutions_Inr_cases)
  obtain w1 where w1: "w1 \<in> set (webhook_configs db1)" "w_id w1 = w_id w'"
    "if (''webhook'', w_id w1) \<in> oe_pair ` set es
     then \<exists>ow. lookup_resolution rs (''webhook'', w_id w1) = Some (Reassign ow) \<and> w_owner_key_id w' = Some ow
     else w' = w1"
    using Cons.IH [OF rest Cons.prems(2)] by blast
  from apply_resolution_webhook [OF step w1(1)] obtain w where w: "w \<in> set (webhook_configs db)" "w_id w = w_id w1"
    "if oe_pair e = (''webhook'', w_id w) then \<exists>ow. r = Reassign ow \<and> w_owner_key_id w1 = Some ow else w1 = w" by blast
  show ?case
  proof (intro bexI [OF _ w(1)] conjI)
    show "w_id w = w_id w'" using w(2) w1(2) by simp
    show "if (''webhook'', w_id w) \<in> oe_pair ` set (e # es)
      then \<exists>ow. lookup_resolution rs (''webhook'', w_id w) = Some (Reassign ow) \<and> w_owner_key_id w' = Some ow
      else w' = w"
    proof (cases "(''webhook'', w_id w) \<in> oe_pair ` set es")
      case True
      with w1(3) w(2) show ?thesis by simp
    next
      case False
      with w1(3) w(2) have "w' = w1" by simp
      with w(3) r False show ?thesis by (cases "oe_pair e = (''webhook'', w_id w)") auto
    qed
  qed
qed auto

lemma apply_resolutions_keeps_group:
  assumes "apply_resolutions rs es d m db = (Inr x, db')" "g \<in> set (ip_groups db)"
    "lookup_resolution rs (''group'', g_id g) \<noteq> Some Destroy"
  shows "g_id g \<in> g_id ` set (ip_groups db')"
  using assms
proof (induction es arbitrary: d m db g)
  case (Cons e es)
  from Cons.prems(1) obtain r db1 moved d' m' where r: "lookup_resolution rs (oe_pair e) = Some r"
    and step: "apply_resolution e r db = Some (db1, moved)"
    and rest: "apply_resolutions rs es d' m' db1 = (Inr x, db')" by (rule apply_resolutions_Inr_cases)
  have "g_id g \<in> g_id ` set (ip_groups db1)"
    using r Cons.prems(3) by (intro apply_resolution_keeps_group [OF step Cons.prems(2)]) auto
  then obtain g1 where "g1 \<in> set (ip_groups db1)" "g_id g1 = g_id g" by auto
  with Cons.IH [OF rest \<open>g1 \<in> _\<close>] Cons.prems(3) show ?case by simp
qed auto

lemma db_ok_apply_resolutions [store_intros]:
  "db_ok db \<Longrightarrow> db_ok (snd (apply_resolutions rs es d m db))"
proof (induction es arbitrary: d m db)
  case (Cons e es)
  show ?case
  proof (cases "lookup_resolution rs (oe_pair e)")
    case (Some r)
    show ?thesis
    proof (cases "apply_resolution e r db")
      case step: (Some p)
      obtain db1 moved where p: "p = (db1, moved)" by (cases p)
      then have "db_ok db1" using db_ok_apply_resolution Cons.prems step by blast
      then show ?thesis using Some step p Cons.IH by simp
    qed (simp add: Some Cons.prems)
  qed (simp add: Cons.prems)
qed simp

text \<open>With a decision for every entity and entities of the two kinds the loop does not fail.\<close>

lemma apply_resolution_total:
  "oe_type e \<in> {''group'', ''webhook''} \<Longrightarrow> apply_resolution e r db \<noteq> None"
  by (cases r) (auto simp: apply_resolution_def)

lemma apply_resolutions_total:
  assumes "\<forall>e\<in>set es. lookup_resolution rs (oe_pair e) \<noteq> None \<and> oe_type e \<in> {''group'', ''webhook''}"
  shows "\<exists>x. fst (apply_resolutions rs es d m db) = Inr x"
  using assms
proof (induction es arbitrary: d m db)
  case (Cons e es)
  then obtain r where "lookup_resolution rs (oe_pair e) = Some r" by auto
  moreover obtain db1 moved where "apply_resolution e r db = Some (db1, moved)"
    using Cons.prems apply_resolution_total [of e r db] by auto
  ultimately show ?case using Cons by simp
qed simp

lemma oe_pair_entities [simp]:
  "oe_pair (group_entity db subtree g) = (''group'', g_id g)"
  "oe_pair (webhook_entity db subtree w) = (''webhook'', w_id w)"
  "oe_type (group_entity db subtree g) = ''group''" "oe_type (webhook_entity db subtree w) = ''webhook''"
  by (simp_all add: group_entity_def webhook_entity_def Let_def oe_pair_def)

lemma inventory_types: "e \<in> set (inventory_owned_entities db subtree) \<Longrightarrow> oe_type e \<in> {''group'', ''webhook''}"
  by (auto simp: inventory_owned_entities_def)

lemma inventory_pairs:
  "(''group'', i) \<in> oe_pair ` set (inventory_owned_entities db subtree) \<longleftrightarrow>
     (\<exists>g\<in>set (ip_groups db). g_id g = i \<and> owned_by subtree (g_owner_key_id g))"
  "(''webhook'', i) \<in> oe_pair ` set (inventory_owned_entities db subtree) \<longleftrightarrow>
     (\<exists>w\<in>set (webhook_configs db). w_id w = i \<and> owned_by subtree (w_owner_key_id w))"
  by (auto simp: inventory_owned_entities_def image_Un image_image)

subsection \<open>The handler\<close>

lemma accepted_resolutions_apply:
  assumes "check_resolutions l db ref subtree (inventory_owned_entities db subtree) rs = Inr u"
  shows "\<exists>x. fst (apply_resolutions rs (inventory_owned_entities db subtree) d m db) = Inr x"
proof (rule apply_resolutions_total, intro ballI conjI)
  fix e assume e: "e \<in> set (inventory_owned_entities db subtree)"
  then show "oe_type e \<in> {''group'', ''webhook''}" by (rule inventory_types)
  have "oe_pair e \<in> re_pair ` set rs" using e check_resolutions_InrD(2) [OF assms] by simp
  then show "lookup_resolution rs (oe_pair e) \<noteq> None" by (simp add: lookup_resolution_None)
qed

lemma create_audit_log_InlD: "create_audit_log env i key a t g d db = Inl e \<Longrightarrow> \<exists>c. e = DbError c"
  by (auto simp: create_audit_log_def insert_audit_def split: option.splits if_splits)

text \<open>What an accepted deletion went through, and a refused one.\<close>

lemma delete_api_key_after:
  "after (\<lambda>res db'. case res of
      Inl e \<Rightarrow> db' = db \<or> (\<exists>c target. e = DbError c \<and> find_key key_id db = Some target \<and> \<not> k_is_master target \<and>
        api_keys db' = row_delete (\<lambda>k. k_id k \<in> set (collect_key_subtree db key_id)) (api_keys db))
    | Inr _ \<Rightarrow> (\<exists>target ref d m db1.
        (k_is_master key \<or> k_can_manage_keys key) \<and> key_id \<noteq> k_id key \<and>
        find_administrable_key db key key_id = Inr target \<and> \<not> k_is_master target \<and>
        k_id key \<notin> set (collect_key_subtree db key_id) \<and>
        check_resolutions l db ref (collect_key_subtree db key_id)
          (inventory_owned_entities db (collect_key_subtree db key_id)) rs = Inr () \<and>
        apply_resolutions rs (inventory_owned_entities db (collect_key_subtree db key_id)) 0 0 db = (Inr (d, m), db1) \<and>
        create_audit_log env (e_uuid env 0) key ''KEY_DELETE'' None None
          (Some (key_delete_details ref (length (collect_key_subtree db key_id) - 1) d m))
          (delete_keys (set (collect_key_subtree db key_id)) db1) = Inr db'))
    (delete_api_key l env key key_id rs db)"
  unfolding delete_api_key_def
proof (intro after_rules, goal_cases)
  case (8 u target v w ref subtree inventory x p db1 e)
  have "fst (apply_resolutions rs inventory 0 0 db) = Inl e" using 8 by simp
  then show ?case using accepted_resolutions_apply [of l db ref subtree rs x 0 0] 8 by auto
next
  case (9 u target v w ref subtree inventory x p db1 c d m)
  then have "api_keys db1 = api_keys db" using apply_resolutions_other by fastforce
  moreover have "target \<in> set (api_keys db)" "k_id target \<in> set subtree"
    using find_administrable_key_InrD [OF 9(3)] 9(7) root_in_subtree by auto
  ultimately have "count_rows (\<lambda>k. k_id k \<in> set subtree) (api_keys db1) \<noteq> 0"
    by (auto simp: count_rows_def filter_empty_conv)
  with 9 show ?case by simp
next
  case (10 u target v w ref subtree inventory x p db1 c d m db2 e)
  then have "api_keys db1 = api_keys db" using apply_resolutions_other by fastforce
  with 10 find_administrable_key_InrD [OF 10(3)] show ?case
    by (auto dest: create_audit_log_InlD simp: delete_keys_def guard_master_immutable_admits)
next
  case (11 u target v w ref subtree inventory x p db1 c d m db2 db3)
  then show ?case by (auto simp: may_manage_keys_admits guard_master_immutable_admits)
qed simp_all

lemma apply_resolutions_ok [store_steps]:
  "apply_resolutions rs es d m db = (x, db1) \<Longrightarrow> db_ok db \<Longrightarrow> db_ok db1"
  using db_ok_apply_resolutions [of db rs es d m] by simp

lemma db_ok_delete_api_key [store_intros]:
  "db_ok db \<Longrightarrow> db_ok (snd (delete_api_key l env key key_id rs db))"
  by (rule after_leavingD, unfold delete_api_key_def, intro after_rules; unfold leaving_def; (hypsubst+)?)
    (erule store_steps | rule store_intros | assumption)+

end
