(* ===== verification/Key_Delete_Properties.thy ===== *)
theory Key_Delete_Properties
  imports Key_Delete_Safety
begin

text \<open>
  The properties of deletion with their witnesses, and one behaviour the code does not intend:
  a webhook the request asks to reassign is destroyed with its group.
\<close>

subsection \<open>Refusals\<close>

lemma delete_api_key_unresolved:
  assumes "e \<in> set (inventory_owned_entities db (collect_key_subtree db key_id))" "oe_pair e \<notin> re_pair ` set rs"
  shows "after (\<lambda>res db'. (\<exists>err. res = Inl err) \<and> db' = db) (delete_api_key l env key key_id rs db)"
proof -
  have no: False if "check_resolutions l db ref (collect_key_subtree db key_id)
      (inventory_owned_entities db (collect_key_subtree db key_id)) rs = Inr x" for ref x
    using check_resolutions_InrD(2) [OF that] assms by blast
  show ?thesis
    unfolding delete_api_key_def by (intro after_rules) (use no in \<open>auto\<close>)
qed

text \<open>
  Data is never destroyed implicitly: as long as one group or webhook owned inside the doomed
  subtree has no decision in the request, the deletion is refused and nothing is written, and
  any other refusal writes nothing either, save for a failing audit insertion at the very end.
\<close>

theorem deletion_needs_every_decision:
  assumes "delete_api_key l env key key_id rs db = (res, db')"
  shows "((\<exists>e\<in>set (inventory_owned_entities db (collect_key_subtree db key_id)). oe_pair e \<notin> re_pair ` set rs) \<longrightarrow>
      (\<exists>err. res = Inl err) \<and> db' = db) \<and>
    (\<forall>err. res = Inl err \<longrightarrow> db' = db \<or> (\<exists>c. err = DbError c))"
proof -
  have "(\<exists>err. res = Inl err) \<and> db' = db"
    if "\<exists>e\<in>set (inventory_owned_entities db (collect_key_subtree db key_id)). oe_pair e \<notin> re_pair ` set rs"
    using that delete_api_key_unresolved [of _ db key_id rs l env key] assms by (auto simp: after_def)
  moreover have "db' = db \<or> (\<exists>c. err = DbError c)" if "res = Inl err" for err
    using delete_api_key_after [where key = key and key_id = key_id and db = db and l = l and rs = rs and env = env] assms that
    by (auto simp: after_def)
  ultimately show ?thesis by blast
qed

lemma sample_inventory:
  "inventory_owned_entities demo_db (collect_key_subtree demo_db 3) =
     [\<lparr>oe_type = ''group'', oe_id = 10, oe_name = ''ssh'', oe_owner_key_id = 3, oe_owner_name = ''daughter''\<rparr>]"
  by (simp add: inventory_owned_entities_def group_entity_def owner_name_in_def owned_by_def run)

theorem deletion_needs_every_decision_witness:
  "snd (delete_api_key demo_lib demo_env manager_key 3 [] demo_db) = demo_db \<and>
   (\<exists>err. fst (delete_api_key demo_lib demo_env manager_key 3 [] demo_db) = Inl err)"
  using deletion_needs_every_decision [OF prod.collapse [symmetric],
    where l = demo_lib and env = demo_env and key = manager_key and key_id = 3 and rs = "[]" and db = demo_db]
  by (simp add: sample_inventory)

subsection \<open>Accepted deletions\<close>

lemma delete_api_key_InrD:
  assumes "delete_api_key l env key key_id rs db = (Inr u, db')"
  obtains target ref db1 x where "k_is_master key \<or> k_can_manage_keys key" "find_key key_id db = Some target"
    "\<not> k_is_master target" "k_id key \<notin> set (collect_key_subtree db key_id)"
    "check_resolutions l db ref (collect_key_subtree db key_id)
       (inventory_owned_entities db (collect_key_subtree db key_id)) rs = Inr ()"
    "apply_resolutions rs (inventory_owned_entities db (collect_key_subtree db key_id)) 0 0 db = (Inr x, db1)"
    "api_keys db' = row_delete (\<lambda>k. k_id k \<in> set (collect_key_subtree db key_id)) (api_keys db)"
    "ip_groups db' = ip_groups db1" "webhook_configs db' = webhook_configs db1" "ip_records db' = ip_records db"
proof -
  from delete_api_key_after [where key = key and key_id = key_id and db = db and l = l and rs = rs and env = env] assms obtain target ref d m db1 where
    facts: "k_is_master key \<or> k_can_manage_keys key" "find_administrable_key db key key_id = Inr target"
      "\<not> k_is_master target" "k_id key \<notin> set (collect_key_subtree db key_id)"
      "check_resolutions l db ref (collect_key_subtree db key_id)
         (inventory_owned_entities db (collect_key_subtree db key_id)) rs = Inr ()"
    and applied: "apply_resolutions rs (inventory_owned_entities db (collect_key_subtree db key_id)) 0 0 db = (Inr (d, m), db1)"
    and audit: "create_audit_log env (e_uuid env 0) key ''KEY_DELETE'' None None
          (Some (key_delete_details ref (length (collect_key_subtree db key_id) - 1) d m))
          (delete_keys (set (collect_key_subtree db key_id)) db1) = Inr db'"
    unfolding after_def by auto
  have "api_keys db1 = api_keys db" "ip_records db1 = ip_records db"
    using apply_resolutions_other [OF applied] by simp_all
  with that [OF facts(1) _ facts(3-5) applied] create_audit_log_InrD [OF audit] find_administrable_key_InrD [OF facts(2)]
  show ?thesis by (simp add: delete_keys_def)
qed


definition sample_move :: "resolution_entry list" where
  "sample_move = [\<lparr>re_type = ''group'', re_id = 10, re_resolution = Reassign 2\<rparr>]"

lemmas delete_run = delete_api_key_def sample_inventory check_resolutions_def lookup_resolution_def
  re_pair_def oe_pair_def apply_resolution_def set_group_owner_def set_webhook_owner_def delete_keys_def

lemma sample_deletion_succeeds:
  "delete_api_key demo_lib demo_env manager_key 3 sample_move demo_db =
     (Inr (), snd (delete_api_key demo_lib demo_env manager_key 3 sample_move demo_db))"
proof -
  have walk: "collect_key_subtree demo_db 3 = [3]" "collect_key_subtree demo_db 2 = [2, 3]" by (simp_all add: run)
  have "find_administrable_key demo_db manager_key 3 = Inr daughter_key"
    by (simp add: find_administrable_key_def caller_can_administer_key_def walk) (simp add: run)
  then have "fst (delete_api_key demo_lib demo_env manager_key 3 sample_move demo_db) = Inr ()"
    using sample_inventory unfolding walk
    by (simp add: delete_api_key_def walk check_resolutions_def lookup_resolution_def re_pair_def oe_pair_def
        sample_move_def apply_resolution_def set_group_owner_def run)
  then show ?thesis by (metis prod.collapse)
qed


text \<open>
  C18 After an accepted deletion no surviving key, group or webhook names a deleted key as its
  parent or owner.
\<close>

theorem deletion_leaves_no_dangling_owner:
  assumes "delete_api_key l env key key_id rs db = (Inr (), db')" "i \<in> set (collect_key_subtree db key_id)"
  shows "(\<forall>k\<in>set (api_keys db'). k_id k \<noteq> i \<and> k_parent_key_id k \<noteq> Some i) \<and>
    (\<forall>g\<in>set (ip_groups db'). g_owner_key_id g \<noteq> Some i) \<and>
    (\<forall>w\<in>set (webhook_configs db'). w_owner_key_id w \<noteq> Some i)"
proof -
  let ?subtree = "collect_key_subtree db key_id"
  from assms(1) obtain target ref db1 x where
    check: "check_resolutions l db ref ?subtree (inventory_owned_entities db ?subtree) rs = Inr ()"
    and applied: "apply_resolutions rs (inventory_owned_entities db ?subtree) 0 0 db = (Inr x, db1)"
    and keys: "api_keys db' = row_delete (\<lambda>k. k_id k \<in> set ?subtree) (api_keys db)"
    and rows: "ip_groups db' = ip_groups db1" "webhook_configs db' = webhook_configs db1"
    by (rule delete_api_key_InrD)
  note moved = check_resolutions_InrD(3) [OF check]
  have "g_owner_key_id g' \<noteq> Some i" if "g' \<in> set (ip_groups db1)" for g'
    using apply_resolutions_group [OF applied that] moved assms(2)
    by (auto simp: inventory_pairs owned_by_def split: if_splits)
  moreover have "w_owner_key_id w' \<noteq> Some i" if "w' \<in> set (webhook_configs db1)" for w'
    using apply_resolutions_webhook [OF applied that] moved assms(2)
    by (auto simp: inventory_pairs owned_by_def split: if_splits)
  moreover have "k_id k \<noteq> i \<and> k_parent_key_id k \<noteq> Some i" if "k \<in> set (api_keys db')" for k
    using that keys assms(2) subtree_closed [of k db i key_id] by auto
  ultimately show ?thesis using rows by simp
qed

theorem deletion_leaves_no_dangling_owner_witness:
  "Some 3 \<notin> g_owner_key_id ` set (ip_groups (snd (delete_api_key demo_lib demo_env manager_key 3 sample_move demo_db)))"
  using deletion_leaves_no_dangling_owner [OF sample_deletion_succeeds root_in_subtree] by (auto simp: image_iff)

text \<open>A master has no parent, so no deletion of another key reaches it.\<close>

lemma deletion_spares_master:
  assumes "db_ok db" "\<forall>k\<in>set (api_keys db). k_is_master k \<longrightarrow> k_parent_key_id k = None"
  shows "master_rows (snd (delete_api_key l env key key_id rs db)) = master_rows db"
proof (cases "delete_api_key l env key key_id rs db")
  case (Pair res db')
  have spared: "filter k_is_master (row_delete (\<lambda>k. k_id k \<in> set (collect_key_subtree db key_id)) (api_keys db)) =
      filter k_is_master (api_keys db)"
    if "find_key key_id db = Some target" "\<not> k_is_master target" for target
  proof -
    have "k_id k \<notin> set (collect_key_subtree db key_id)" if k: "k \<in> set (api_keys db)" "k_is_master k" for k
    proof
      assume "k_id k \<in> set (collect_key_subtree db key_id)"
      then have "k_id k = key_id" using parentless_not_in_subtree [OF assms(1) k(1)] assms(2) k by blast
      then show False
        using find_key_in [OF assms(1) k(1)] \<open>find_key key_id db = Some target\<close> \<open>\<not> k_is_master target\<close> k(2) by simp
    qed
    then show ?thesis
      by (auto simp: row_delete_def filter_filter intro!: filter_cong)
  qed
  show ?thesis
    using Pair
  proof (cases res)
    case (Inr u)
    with Pair have "delete_api_key l env key key_id rs db = (Inr u, db')" by simp
    then show ?thesis
      by (rule delete_api_key_InrD) (use Pair spared in \<open>auto simp: master_rows_def\<close>)
  next
    case (Inl e)
    with delete_api_key_after [where key = key and key_id = key_id and db = db and l = l and rs = rs and env = env] Pair
    show ?thesis using spared by (auto simp: after_def master_rows_def)
  qed
qed

subsection \<open>A decision that is not honoured\<close>

text \<open>
  Deleting a group cascades over its webhooks. When the request deletes a group and reassigns a
  webhook of that group, the webhook is destroyed, and the audit row still counts it as reassigned.
\<close>

definition doomed_webhook_db :: db where
  "doomed_webhook_db = demo_db\<lparr>webhook_configs := [sample_webhook 30 10 (Some 3)]\<rparr>"

definition mixed_decisions :: "resolution_entry list" where
  "mixed_decisions = [\<lparr>re_type = ''group'', re_id = 10, re_resolution = Destroy\<rparr>,
     \<lparr>re_type = ''webhook'', re_id = 30, re_resolution = Reassign 2\<rparr>]"

lemma reassigned_webhook_destroyed_with_group:
  "fst (delete_api_key demo_lib demo_env manager_key 3 mixed_decisions doomed_webhook_db) = Inr () \<and>
   webhook_configs (snd (delete_api_key demo_lib demo_env manager_key 3 mixed_decisions doomed_webhook_db)) = [] \<and>
   map a_details (audit_logs (snd (delete_api_key demo_lib demo_env manager_key 3 mixed_decisions doomed_webhook_db))) =
     [Some (key_delete_details (format_key_reference demo_lib ''daughter'' 3) 0 1 1)]"
proof -
  have walk: "collect_key_subtree doomed_webhook_db 3 = [3]" "collect_key_subtree doomed_webhook_db 2 = [2, 3]"
    by (simp_all add: doomed_webhook_db_def run)
  have found: "find_administrable_key doomed_webhook_db manager_key 3 = Inr daughter_key"
    by (simp add: find_administrable_key_def caller_can_administer_key_def walk) (simp add: doomed_webhook_db_def run)
  have ents: "inventory_owned_entities doomed_webhook_db [3] =
     [\<lparr>oe_type = ''group'', oe_id = 10, oe_name = ''ssh'', oe_owner_key_id = 3, oe_owner_name = ''daughter''\<rparr>,
      \<lparr>oe_type = ''webhook'', oe_id = 30, oe_name = ''hook'', oe_owner_key_id = 3, oe_owner_name = ''daughter''\<rparr>]"
    by (simp add: inventory_owned_entities_def group_entity_def webhook_entity_def owner_name_in_def owned_by_def
        doomed_webhook_db_def run)
  have owner: "resolve_owner_assignment doomed_webhook_db (Some 2) = Inr (Some 2)"
    by (simp add: doomed_webhook_db_def run)
  show ?thesis
    by (simp add: delete_api_key_def walk found ents owner may_manage_keys_def check_resolutions_def
        lookup_resolution_def re_pair_def oe_pair_def mixed_decisions_def apply_resolution_def)
      (simp add: doomed_webhook_db_def set_webhook_owner_def run)
qed

end
