(* ===== verification/Ip_Groups.thy ===== *)
theory Ip_Groups
  imports Key_Safety
begin

text \<open>
  Group endpoints (\<open>src/api/groups.rs\<close>): creation, listing, deletion and reassignment of the
  owner, with what each leaves of the database.
\<close>

subsection \<open>Handlers\<close>

record create_group_payload =
  cg_name :: string
  cg_group_type :: "string option"

record create_group_response =
  cgr_id :: uuid
  cgr_name :: string
  cgr_group_type :: string

definition msg_group_exists :: "string \<Rightarrow> string" where
  "msg_group_exists name = ''A group named '' @ quote name @ '' already exists''"

definition group_type_of :: "string option \<Rightarrow> string" where
  "group_type_of requested = (if requested = Some ''whitelist'' then ''whitelist'' else ''banlist'')"

text \<open>A unique violation of the insertion becomes a conflict, any other error stays.\<close>
definition insert_named_group :: "ip_group \<Rightarrow> db \<Rightarrow> app_error + db" where
  "insert_named_group g db =
     (case insert_group g db of
        Inl (DbError err) \<Rightarrow>
          (if is_unique_violation err then Inl (Conflict (msg_group_exists (g_name g))) else Inl (DbError err))
      | r \<Rightarrow> r)"

text \<open>The row a non-master gets on the group it creates: every verb but the management of it.\<close>
definition creator_permission :: "uuid \<Rightarrow> uuid \<Rightarrow> uuid \<Rightarrow> datetime \<Rightarrow> group_permission" where
  "creator_permission new_id key_id grp_id now = \<lparr>p_id = new_id, p_api_key_id = key_id, p_group_id = grp_id,
     p_can_read = True, p_can_write = True, p_can_delete = True, p_can_manage = False, p_created_at = now\<rparr>"

definition create_ip_group ::
  "env \<Rightarrow> api_key \<Rightarrow> create_group_payload \<Rightarrow> db \<Rightarrow> create_group_response outcome" where
  "create_ip_group env key payload db =
     (if \<not> k_is_master key \<and> \<not> k_can_create_groups key then (Inl (Forbidden msg_permission_denied), db)
      else let group_type = group_type_of (cg_group_type payload); new_id = e_uuid env 0 in
        attempt (insert_named_group \<lparr>g_id = new_id, g_name = cg_name payload, g_group_type = group_type,
            g_description = None, g_owner_key_id = resource_owner key, g_created_at = e_now env\<rparr> db) db (\<lambda>db1.
        attempt (if \<not> k_is_master key
                 then insert_permission (creator_permission (e_uuid env 1) (k_id key) new_id (e_now env)) db1
                 else Inr db1) db1 (\<lambda>db2.
        attempt (create_audit_log env (e_uuid env 2) key ''GROUP_CREATE'' None (Some (cg_name payload)) None db2) db2 (\<lambda>db3.
          (Inr \<lparr>cgr_id = new_id, cgr_name = cg_name payload, cgr_group_type = group_type\<rparr>, db3)))))"

definition accessible_groups :: "db \<Rightarrow> uuid \<Rightarrow> uuid list" where
  "accessible_groups db key_id = map p_group_id (filter (\<lambda>p. p_api_key_id p = key_id \<and>
     (p_can_read p \<or> p_can_write p \<or> p_can_delete p \<or> p_can_manage p)) (permissions db))"

definition list_ip_groups :: "api_key \<Rightarrow> db \<Rightarrow> ip_group list" where
  "list_ip_groups key db =
     (if \<not> k_is_master key
      then (let accessible = accessible_groups db (k_id key) in
            if accessible = [] then [] else filter (\<lambda>g. g_id g \<in> set accessible) (ip_groups db))
      else ip_groups db)"

definition delete_ip_group :: "lib \<Rightarrow> env \<Rightarrow> api_key \<Rightarrow> uuid \<Rightarrow> db \<Rightarrow> unit outcome" where
  "delete_ip_group l env key grp_id db =
     attempt (ok_or NotFound (find_group grp_id db)) db (\<lambda>g.
     attempt (guard_resource_lifecycle key (g_owner_key_id g) ''group'' ''delete'') db (\<lambda>_.
       if count_rows (\<lambda>x. g_id x = grp_id) (ip_groups db) = 0 then (Inl NotFound, db)
       else let db1 = delete_group grp_id db in
         attempt (create_audit_log env (e_uuid env 0) key ''GROUP_DELETE'' None None
             (Some (l_uuid_str l grp_id)) db1) db1 (\<lambda>db2. (Inr (), db2))))"

definition msg_only_master_reassigns :: string where
  "msg_only_master_reassigns = ''Only the master key can reassign resource ownership''"

definition owner_details :: "lib \<Rightarrow> uuid option \<Rightarrow> string" where
  "owner_details l owner = (case owner of
     Some i \<Rightarrow> ''Owner set to '' @ l_uuid_str l i | None \<Rightarrow> ''Owner cleared (master-only)'')"

definition reassign_group_owner ::
  "lib \<Rightarrow> env \<Rightarrow> api_key \<Rightarrow> uuid \<Rightarrow> uuid option \<Rightarrow> db \<Rightarrow> (uuid \<times> uuid option) outcome" where
  "reassign_group_owner l env key grp_id requested db =
     (if \<not> k_is_master key then (Inl (Forbidden msg_only_master_reassigns), db)
      else attempt (ok_or NotFound (find_group grp_id db)) db (\<lambda>g.
        attempt (resolve_owner_assignment db requested) db (\<lambda>owner.
        attempt (update_group (g\<lparr>g_owner_key_id := owner\<rparr>) db) db (\<lambda>db1.
        attempt (create_audit_log env (e_uuid env 0) key ''GROUP_OWNER_REASSIGN'' None (Some (g_name g))
            (Some (owner_details l owner)) db1) db1 (\<lambda>db2.
          (Inr (grp_id, owner), db2))))))"

subsection \<open>What the handlers leave\<close>

lemma insert_named_group_InrD: "insert_named_group g db = Inr db' \<Longrightarrow> insert_group g db = Inr db'"
  by (auto simp: insert_named_group_def split: sum.splits app_error.splits if_splits)

lemma db_ok_insert_named_group [store_steps]:
  "insert_named_group g db = Inr db' \<Longrightarrow> db_ok db \<Longrightarrow> db_ok db'"
  by (drule insert_named_group_InrD) (erule store_steps)

lemma insert_named_group_taken:
  "find_group_by_name (g_name g) db \<noteq> None \<Longrightarrow> insert_named_group g db = Inl (Conflict (msg_group_exists (g_name g)))"
  by (auto simp: insert_named_group_def insert_group_def groups_add_def list_ex_iff
      dest!: find_group_by_name_SomeD split: option.splits)

lemma db_ok_create_ip_group [store_intros]:
  "db_ok db \<Longrightarrow> db_ok (snd (create_ip_group env key payload db))"
  by (rule after_leavingD, unfold create_ip_group_def, intro after_rules; unfold leaving_def; (hypsubst+)?)
    (erule store_steps | rule store_intros | assumption | simp split: if_split_asm)+

lemma db_ok_delete_ip_group [store_intros]:
  "db_ok db \<Longrightarrow> db_ok (snd (delete_ip_group l env key grp_id db))"
  by (rule after_leavingD, unfold delete_ip_group_def, intro after_rules; unfold leaving_def; (hypsubst+)?)
    (erule store_steps | rule store_intros | assumption)+

lemma db_ok_reassign_group_owner [store_intros]:
  "db_ok db \<Longrightarrow> db_ok (snd (reassign_group_owner l env key grp_id requested db))"
  by (rule after_leavingD, unfold reassign_group_owner_def, intro after_rules; unfold leaving_def; (hypsubst+)?)
    (erule store_steps | rule store_intros | assumption)+

lemma set_accessible_groups:
  assumes "db_ok db"
  shows "g \<in> set (accessible_groups db k) \<longleftrightarrow> verbs_of db k g \<noteq> {}"
proof -
  have "perm_verbs p \<noteq> {} \<longleftrightarrow> p_can_read p \<or> p_can_write p \<or> p_can_delete p \<or> p_can_manage p" for p
    by (auto simp: perm_verbs_def)
  then show ?thesis
    unfolding accessible_groups_def verbs_of_def
    using find_permission_in [OF assms]
    by (auto split: option.splits dest!: find_permission_SomeD) (metis option.distinct(1) option.inject)+
qed

lemmas groups_run [run] = group_type_of_def insert_named_group_def creator_permission_def create_ip_group_def
  accessible_groups_def list_ip_groups_def delete_ip_group_def reassign_group_owner_def

text \<open>Who may do what to a group, and the verbs that creation provisions.\<close>

lemma verbs_of_audit_step:
  "create_audit_log env i key' a t g d db1 = Inr db' \<Longrightarrow> verbs_of db1 = v \<Longrightarrow> verbs_of db' = v"
  by (simp add: verbs_of_audit)

lemma create_ip_group_after:
  "after (on_ok (\<lambda>r db'. (k_is_master key \<or> k_can_create_groups key) \<and>
      (\<exists>g db1. g_id g = cgr_id r \<and> g_name g = cg_name payload \<and> g_owner_key_id g = resource_owner key \<and>
        insert_group g db = Inr db1 \<and> ip_groups db' = ip_groups db @ [g] \<and>
        verbs_of db' = (if k_is_master key then verbs_of db
          else (\<lambda>k h. if (k, h) = (k_id key, g_id g) then {Read, Write, Delete} else verbs_of db k h)))))
    (create_ip_group env key payload db)"
  unfolding create_ip_group_def
proof (intro after_rules, goal_cases)
  case (5 ty new_id db1 db2 db3)
  define g where "g = \<lparr>g_id = new_id, g_name = cg_name payload, g_group_type = ty, g_description = None,
    g_owner_key_id = resource_owner key, g_created_at = e_now env\<rparr>"
  have ins: "insert_group g db = Inr db1" using insert_named_group_InrD [OF 5(4)] by (simp add: g_def)
  have rows: "ip_groups db1 = ip_groups db @ [g]" "permissions db1 = permissions db"
    using insert_group_InrD [OF ins] by auto
  have "verbs_of db2 = (if k_is_master key then verbs_of db
      else (\<lambda>k h. if (k, h) = (k_id key, g_id g) then {Read, Write, Delete} else verbs_of db k h))"
    "ip_groups db2 = ip_groups db1"
  proof -
    show "ip_groups db2 = ip_groups db1"
      using 5(5) by (auto split: if_splits dest!: insert_permission_InrD)
    show "verbs_of db2 = (if k_is_master key then verbs_of db
      else (\<lambda>k h. if (k, h) = (k_id key, g_id g) then {Read, Write, Delete} else verbs_of db k h))"
    proof (cases "k_is_master key")
      case False
      then have "insert_permission (creator_permission (e_uuid env 1) (k_id key) new_id (e_now env)) db1 = Inr db2"
        using 5(5) by simp
      note same = verbs_of_insert_permission [OF this]
      show ?thesis
        using False verbs_of_cong [OF rows(2)]
        by (intro ext) (simp add: same, auto simp: creator_permission_def perm_verbs_def g_def)
    qed (use 5(5) verbs_of_cong [OF rows(2)] in simp)
  qed
  then show ?case
    using 5 ins rows verbs_of_audit [OF 5(6)] create_audit_log_InrD(2) [OF 5(6)]
    by (auto simp: g_def intro!: exI [of _ g] exI [of _ db1])
qed simp_all

lemma delete_ip_group_after:
  "after (on_ok (\<lambda>r db'. \<exists>g. find_group grp_id db = Some g \<and>
      (k_is_master key \<or> g_owner_key_id g = Some (k_id key)) \<and>
      create_audit_log env (e_uuid env 0) key ''GROUP_DELETE'' None None (Some (l_uuid_str l grp_id))
        (delete_group grp_id db) = Inr db'))
    (delete_ip_group l env key grp_id db)"
  unfolding delete_ip_group_def
  by (intro after_rules) (auto simp: guard_admits)

lemma delete_group_rows:
  "api_keys (delete_group i db) = api_keys db"
  "ip_groups (delete_group i db) = row_delete (\<lambda>g. g_id g = i) (ip_groups db)"
  "permissions (delete_group i db) = row_delete (\<lambda>p. p_group_id p = i) (permissions db)"
  "memberships (delete_group i db) = row_delete (\<lambda>m. m_group_id m = i) (memberships db)"
  "ip_records (delete_group i db) = ip_records db"
  "webhook_configs (delete_group i db) = row_delete (\<lambda>w. w_group_id w = i) (webhook_configs db)"
  by (simp_all add: delete_group_def delete_webhooks_def Let_def)

end
