(* ===== verification/Group_Properties.thy ===== *)
theory Group_Properties
  imports Ip_Groups Samples
begin

text \<open>The properties of the group endpoints with their witnesses.\<close>

text \<open>
  Creating a group adds one group with the requested name, which no group had, owned by the
  creator (by nobody for a master), and provisions a non-master creator with read, write and
  delete on that group alone: nobody gains the management of it, and no other right changes.
\<close>

theorem group_creation_provisions_no_management:
  assumes "create_ip_group env key payload db = (Inr r, db')"
  shows "(k_is_master key \<or> k_can_create_groups key) \<and>
    (\<exists>g. ip_groups db' = ip_groups db @ [g] \<and> g_id g = cgr_id r \<and> g_name g = cg_name payload \<and>
       g_name g \<notin> g_name ` set (ip_groups db) \<and> g_id g \<notin> g_id ` set (ip_groups db) \<and>
       g_owner_key_id g = (if k_is_master key then None else Some (k_id key))) \<and>
    (\<forall>k h. verbs_of db' k h = (if \<not> k_is_master key \<and> k = k_id key \<and> h = cgr_id r then {Read, Write, Delete}
       else verbs_of db k h))"
proof -
  from after_on_okD [OF create_ip_group_after assms] obtain g db1 where
    facts: "k_is_master key \<or> k_can_create_groups key" "g_id g = cgr_id r" "g_name g = cg_name payload"
      "g_owner_key_id g = resource_owner key" "ip_groups db' = ip_groups db @ [g]"
      "verbs_of db' = (if k_is_master key then verbs_of db
          else (\<lambda>k h. if (k, h) = (k_id key, g_id g) then {Read, Write, Delete} else verbs_of db k h))"
    and ins: "insert_group g db = Inr db1" by blast
  have "g_name g \<notin> g_name ` set (ip_groups db)" "g_id g \<notin> g_id ` set (ip_groups db)"
    using insert_group_InrD [OF ins] by (auto simp: groups_add_def list_ex_iff split: if_splits)
  with facts show ?thesis by (auto simp: resource_owner_def)
qed

definition sample_creator :: api_key where
  "sample_creator = manager_key\<lparr>k_can_create_groups := True\<rparr>"

definition sample_new_group :: create_group_payload where
  "sample_new_group = \<lparr>cg_name = ''mail'', cg_group_type = Some ''other''\<rparr>"

lemma sample_group_creation:
  "create_ip_group demo_env sample_creator sample_new_group demo_db =
     (Inr \<lparr>cgr_id = 1000, cgr_name = ''mail'', cgr_group_type = ''banlist''\<rparr>,
      snd (create_ip_group demo_env sample_creator sample_new_group demo_db))"
  by (simp add: run sample_creator_def sample_new_group_def)

theorem group_creation_provisions_no_management_witness:
  "verbs_of (snd (create_ip_group demo_env sample_creator sample_new_group demo_db)) 2 1000 = {Read, Write, Delete}"
  using group_creation_provisions_no_management [OF sample_group_creation] by (simp add: sample_creator_def)

text \<open>
  Only a master or the recorded owner deletes a group. The deletion removes the group, the
  permissions on it, its memberships, its webhooks and their executions, and nothing else: no
  record, no other group and no key.
\<close>

theorem group_deletion_is_owner_only_and_exact:
  assumes "delete_ip_group l env key grp_id db = (Inr (), db')"
  shows "(\<exists>g. find_group grp_id db = Some g \<and> (k_is_master key \<or> g_owner_key_id g = Some (k_id key))) \<and>
    ip_groups db' = filter (\<lambda>g. g_id g \<noteq> grp_id) (ip_groups db) \<and>
    permissions db' = filter (\<lambda>p. p_group_id p \<noteq> grp_id) (permissions db) \<and>
    memberships db' = filter (\<lambda>m. m_group_id m \<noteq> grp_id) (memberships db) \<and>
    webhook_configs db' = filter (\<lambda>w. w_group_id w \<noteq> grp_id) (webhook_configs db) \<and>
    ip_records db' = ip_records db \<and> api_keys db' = api_keys db"
proof -
  from after_on_okD [OF delete_ip_group_after assms] obtain g where
    g: "find_group grp_id db = Some g" "k_is_master key \<or> g_owner_key_id g = Some (k_id key)"
    and audit: "create_audit_log env (e_uuid env 0) key ''GROUP_DELETE'' None None (Some (l_uuid_str l grp_id))
        (delete_group grp_id db) = Inr db'" by blast
  show ?thesis
    using g create_audit_log_InrD [OF audit] by (simp add: delete_group_rows row_delete_def)
qed

lemma sample_group_deletion:
  "delete_ip_group demo_lib demo_env daughter_key 10 demo_db =
     (Inr (), snd (delete_ip_group demo_lib demo_env daughter_key 10 demo_db))"
  by (simp add: run)

theorem group_deletion_is_owner_only_and_exact_witness:
  "permissions (snd (delete_ip_group demo_lib demo_env daughter_key 10 demo_db)) = [] \<and>
   fst (delete_ip_group demo_lib demo_env manager_key 10 demo_db) = Inl (Forbidden (msg_not_owner ''group'' ''delete''))"
proof
  show "permissions (snd (delete_ip_group demo_lib demo_env daughter_key 10 demo_db)) = []"
    using group_deletion_is_owner_only_and_exact [OF sample_group_deletion] by (simp add: demo_db_def sample_defs)
qed (simp add: run)

text \<open>
  A caller that is no master is shown exactly the groups on which it holds some verb; a master is
  shown all of them whether or not a permission row exists.
\<close>

theorem group_listing_is_exact:
  assumes "db_ok db"
  shows "set (list_ip_groups key db) =
    {g \<in> set (ip_groups db). k_is_master key \<or> verbs_of db (k_id key) (g_id g) \<noteq> {}}"
  using set_accessible_groups [OF assms, of _ "k_id key"]
  by (auto simp: list_ip_groups_def Let_def)

theorem group_listing_is_exact_witness:
  "set (list_ip_groups stranger_key demo_db) = {sample_group 10 ''ssh'' (Some 3)} \<and>
   set (list_ip_groups root_key demo_db) = set (ip_groups demo_db)"
  using group_listing_is_exact [OF demo_db_ok, of stranger_key] group_listing_is_exact [OF demo_db_ok, of root_key]
  by (auto simp: verbs_of_def run perm_verbs_def)

end
