(* ===== verification/App_State.thy ===== *)
theory App_State
  imports Support
begin

text \<open>
  The shared application state (\<open>src/state.rs\<close>) as far as handlers change it: the database and
  the bounded channel to the webhook dispatcher. Sending never blocks and never fails a request:
  a full or closed channel drops the event.
\<close>

record webhook_event =
  ev_action :: string
  ev_address :: string
  ev_is_whitelist :: bool
  ev_group_id :: "uuid option"
  ev_group_name :: "string option"
  ev_cause :: "string option"

record app =
  a_db :: db
  a_queue :: "webhook_event list"
  a_capacity :: nat
  a_closed :: bool

definition enqueue_webhook :: "webhook_event \<Rightarrow> app \<Rightarrow> app" where
  "enqueue_webhook event app =
     (if a_closed app \<or> a_capacity app \<le> length (a_queue app) then app
      else app\<lparr>a_queue := a_queue app @ [event]\<rparr>)"

text \<open>Several events in order.\<close>
definition enqueue_all :: "webhook_event list \<Rightarrow> app \<Rightarrow> app" where
  "enqueue_all events app = fold enqueue_webhook events app"

text \<open>
  A handler that works on the database and raises events on success: the events follow the
  commit, and an error raises none.
\<close>

definition with_events :: "(db \<Rightarrow> ('a \<times> webhook_event list) outcome) \<Rightarrow> app \<Rightarrow> (app_error + 'a) \<times> app" where
  "with_events h app =
     (case h (a_db app) of
        (Inl e, db) \<Rightarrow> (Inl e, app\<lparr>a_db := db\<rparr>)
      | (Inr (x, events), db) \<Rightarrow> (Inr x, enqueue_all events (app\<lparr>a_db := db\<rparr>)))"

lemma enqueue_webhook_db [simp]: "a_db (enqueue_webhook ev app) = a_db app"
  by (simp add: enqueue_webhook_def)

lemma enqueue_all_db [simp]: "a_db (enqueue_all evs app) = a_db app"
  unfolding enqueue_all_def by (induction evs arbitrary: app) simp_all

lemma enqueue_webhook_other [simp]:
  "a_capacity (enqueue_webhook ev app) = a_capacity app" "a_closed (enqueue_webhook ev app) = a_closed app"
  by (simp_all add: enqueue_webhook_def)

lemma enqueue_bounded:
  "length (a_queue app) \<le> a_capacity app \<Longrightarrow> length (a_queue (enqueue_webhook ev app)) \<le> a_capacity app"
  by (simp add: enqueue_webhook_def)

lemma enqueue_all_bounded:
  "length (a_queue app) \<le> a_capacity app \<Longrightarrow> length (a_queue (enqueue_all evs app)) \<le> a_capacity app"
proof (induction evs arbitrary: app)
  case (Cons ev evs)
  then show ?case
    using Cons.IH [of "enqueue_webhook ev app"] enqueue_bounded [OF Cons.prems, of ev]
    by (simp add: enqueue_all_def)
qed (simp add: enqueue_all_def)

text \<open>What is queued is kept in order: sending only appends a subsequence of the events.\<close>

lemma enqueue_all_appends:
  "\<exists>sent. a_queue (enqueue_all evs app) = a_queue app @ sent \<and> set sent \<subseteq> set evs"
proof (induction evs arbitrary: app)
  case (Cons ev evs)
  from Cons [of "enqueue_webhook ev app"] obtain sent where
    "a_queue (enqueue_all evs (enqueue_webhook ev app)) = a_queue (enqueue_webhook ev app) @ sent" "set sent \<subseteq> set evs"
    by blast
  then show ?case
    by (cases "a_closed app \<or> a_capacity app \<le> length (a_queue app)")
      (auto simp: enqueue_all_def enqueue_webhook_def)
qed (simp add: enqueue_all_def)

lemma with_events_db [simp]: "a_db (snd (with_events h app)) = snd (h (a_db app))"
  by (auto simp: with_events_def split: sum.splits prod.splits)

lemma with_events_fst: "fst (with_events h app) = (case fst (h (a_db app)) of Inl e \<Rightarrow> Inl e | Inr (x, _) \<Rightarrow> Inr x)"
  by (auto simp: with_events_def split: sum.splits prod.splits)

lemma with_events_error_queue:
  "fst (with_events h app) = Inl e \<Longrightarrow> a_queue (snd (with_events h app)) = a_queue app"
  by (auto simp: with_events_def split: sum.splits prod.splits)

end
