(* ===== verification/Retention.thy ===== *)
theory Retention
  imports Support
begin

text \<open>
  The retention sweeps (\<open>src/retention.rs\<close>): the windows read from the environment, the purge of
  soft-deleted records and of webhook executions, and the workers as runs over a sequence of
  clock readings. Subtracting a window that chrono cannot represent panics; the library function
  says so with \<open>None\<close>, and a panic is \<open>None\<close> here too.
\<close>

definition DEFAULT_RETENTION_DAYS :: int where "DEFAULT_RETENTION_DAYS = 92"
definition DEFAULT_SWEEP_SECONDS :: nat where "DEFAULT_SWEEP_SECONDS = 3600"
definition DEFAULT_EXECUTION_RETENTION_SUCCESS_HOURS :: int where "DEFAULT_EXECUTION_RETENTION_SUCCESS_HOURS = 24"
definition DEFAULT_EXECUTION_RETENTION_FAILURE_HOURS :: int where "DEFAULT_EXECUTION_RETENTION_FAILURE_HOURS = 168"

definition non_negative_or :: "int \<Rightarrow> string option \<Rightarrow> int" where
  "non_negative_or fallback var =
     (case var of
        Some raw \<Rightarrow> (case parse_i64 (trim raw) of Some n \<Rightarrow> (if 0 \<le> n then n else fallback) | None \<Rightarrow> fallback)
      | None \<Rightarrow> fallback)"

definition retention_days_from_env :: "string option \<Rightarrow> int" where
  "retention_days_from_env var = non_negative_or DEFAULT_RETENTION_DAYS var"

definition execution_retention_hours_from_env :: "string option \<Rightarrow> int \<Rightarrow> int" where
  "execution_retention_hours_from_env var fallback = non_negative_or fallback var"

definition sweep_seconds_from_env :: "string option \<Rightarrow> nat" where
  "sweep_seconds_from_env var =
     (case var of
        Some raw \<Rightarrow> max 1 (case parse_unsigned (2 ^ 64) (trim raw) of Some n \<Rightarrow> n | None \<Rightarrow> DEFAULT_SWEEP_SECONDS)
      | None \<Rightarrow> DEFAULT_SWEEP_SECONDS)"

definition expired_record :: "datetime \<Rightarrow> ip_record \<Rightarrow> bool" where
  "expired_record threshold r =
     (r_is_deleted r \<and> (case r_deleted_at r of None \<Rightarrow> False | Some t \<Rightarrow> t < threshold))"

definition purge_expired_ip_records :: "lib \<Rightarrow> datetime \<Rightarrow> int \<Rightarrow> db \<Rightarrow> (nat \<times> db) option" where
  "purge_expired_ip_records l now retention_days db =
     (if retention_days \<le> 0 then Some (0, db)
      else (case l_minus_days l now retention_days of
              None \<Rightarrow> None
            | Some threshold \<Rightarrow>
                Some (count_rows (expired_record threshold) (ip_records db), delete_records (expired_record threshold) db)))"

definition purge_executions_with :: "bool \<Rightarrow> lib \<Rightarrow> datetime \<Rightarrow> int \<Rightarrow> db \<Rightarrow> (nat \<times> db) option" where
  "purge_executions_with outcome l now hours db =
     (if hours \<le> 0 then Some (0, db)
      else (case l_minus_hours l now hours of
              None \<Rightarrow> None
            | Some threshold \<Rightarrow>
                (let gone = (\<lambda>x. x_is_success x = outcome \<and> x_created_at x < threshold) in
                 Some (count_rows gone (webhook_executions db), delete_executions gone db))))"

definition purge_expired_webhook_executions :: "lib \<Rightarrow> datetime \<Rightarrow> int \<Rightarrow> int \<Rightarrow> db \<Rightarrow> (nat \<times> db) option" where
  "purge_expired_webhook_executions l now success_hours failure_hours db =
     (case purge_executions_with True l now success_hours db of
        None \<Rightarrow> None
      | Some (n, db1) \<Rightarrow>
          (case purge_executions_with False l now failure_hours db1 of
             None \<Rightarrow> None
           | Some (m, db2) \<Rightarrow> Some (n + m, db2)))"

subsection \<open>The workers\<close>

text \<open>One sweep per tick, each at its own clock reading, until the shutdown after the last tick.\<close>

fun sweep_records :: "lib \<Rightarrow> int \<Rightarrow> datetime list \<Rightarrow> db \<Rightarrow> db option" where
  "sweep_records l days [] db = Some db"
| "sweep_records l days (now # ticks) db =
     (case purge_expired_ip_records l now days db of
        None \<Rightarrow> None | Some (_, db1) \<Rightarrow> sweep_records l days ticks db1)"

definition run_retention_worker :: "lib \<Rightarrow> string option \<Rightarrow> datetime list \<Rightarrow> db \<Rightarrow> db option" where
  "run_retention_worker l var ticks db =
     (let days = retention_days_from_env var in if days \<le> 0 then Some db else sweep_records l days ticks db)"

fun sweep_executions :: "lib \<Rightarrow> int \<Rightarrow> int \<Rightarrow> datetime list \<Rightarrow> db \<Rightarrow> db option" where
  "sweep_executions l s f [] db = Some db"
| "sweep_executions l s f (now # ticks) db =
     (case purge_expired_webhook_executions l now s f db of
        None \<Rightarrow> None | Some (_, db1) \<Rightarrow> sweep_executions l s f ticks db1)"

definition run_webhook_execution_retention_worker ::
  "lib \<Rightarrow> string option \<Rightarrow> string option \<Rightarrow> datetime list \<Rightarrow> db \<Rightarrow> db option" where
  "run_webhook_execution_retention_worker l success_var failure_var ticks db =
     (let s = execution_retention_hours_from_env success_var DEFAULT_EXECUTION_RETENTION_SUCCESS_HOURS;
          f = execution_retention_hours_from_env failure_var DEFAULT_EXECUTION_RETENTION_FAILURE_HOURS
      in if s \<le> 0 \<and> f \<le> 0 then Some db else sweep_executions l s f ticks db)"

subsection \<open>What a sweep removes\<close>

lemma non_negative_or_bound: "0 \<le> fallback \<Longrightarrow> 0 \<le> non_negative_or fallback var"
  by (auto simp: non_negative_or_def split: option.splits)

lemma purge_expired_ip_records_SomeD:
  assumes "purge_expired_ip_records l now days db = Some (n, db')"
  shows "(days \<le> 0 \<and> n = 0 \<and> db' = db) \<or>
    (0 < days \<and> (\<exists>threshold. l_minus_days l now days = Some threshold \<and>
       ip_records db' = filter (\<lambda>r. \<not> expired_record threshold r) (ip_records db) \<and>
       n = length (filter (expired_record threshold) (ip_records db)) \<and>
       db' = delete_records (expired_record threshold) db))"
  using assms
  by (auto simp: purge_expired_ip_records_def delete_records_def Let_def row_delete_def count_rows_def
      split: if_splits option.splits)

lemma db_ok_purge_expired_ip_records [store_steps]:
  "purge_expired_ip_records l now days db = Some (n, db') \<Longrightarrow> db_ok db \<Longrightarrow> db_ok db'"
  by (drule purge_expired_ip_records_SomeD) (auto intro: db_ok_delete_records)

lemma purge_expired_ip_records_keys:
  "purge_expired_ip_records l now days db = Some (n, db') \<Longrightarrow>
     api_keys db' = api_keys db \<and> permissions db' = permissions db \<and> ip_groups db' = ip_groups db \<and>
     webhook_configs db' = webhook_configs db"
  by (auto simp: purge_expired_ip_records_def delete_records_def Let_def split: if_splits option.splits)

lemma sweep_records_ok: "sweep_records l days ticks db = Some db' \<Longrightarrow> db_ok db \<Longrightarrow> db_ok db'"
  by (induction ticks arbitrary: db) (auto split: option.splits dest: db_ok_purge_expired_ip_records)

lemma sweep_records_keeps_live:
  "sweep_records l days ticks db = Some db' \<Longrightarrow> r \<in> set (ip_records db) \<Longrightarrow> \<not> r_is_deleted r \<Longrightarrow> r \<in> set (ip_records db')"
proof (induction ticks arbitrary: db)
  case (Cons now ticks)
  then obtain n db1 where step: "purge_expired_ip_records l now days db = Some (n, db1)"
    "sweep_records l days ticks db1 = Some db'" by (auto split: option.splits)
  have "r \<in> set (ip_records db1)"
    using purge_expired_ip_records_SomeD [OF step(1)] Cons.prems(2,3) by (auto simp: expired_record_def)
  with Cons.IH [OF step(2)] Cons.prems(3) show ?case by simp
qed simp

end
