(* ===== verification/Records.thy ===== *)
theory Records
  imports App_State Retention Ip_Groups
begin

text \<open>
  The record endpoints (\<open>src/api/records.rs\<close>) but the listing and the batch: registration of an
  address (ban and whitelist), deletion of a record or of one membership, restoration and purge.
  The work inside a database transaction is a step that returns the new database or an error; on
  an error the handler keeps the database it had before the transaction.
\<close>

subsection \<open>Addresses that are never banned\<close>

definition msg_ban_loopback :: string where
  "msg_ban_loopback = ''Cannot ban loopback or unspecified addresses''"
definition msg_ban_private_v4 :: string where
  "msg_ban_private_v4 = ''Cannot ban private or link-local IPv4 addresses''"
definition msg_ban_local_v6 :: string where
  "msg_ban_local_v6 = ''Cannot ban link-local or unique-local IPv6 addresses''"

definition guard_bannable_address :: "lib \<Rightarrow> ip_network \<Rightarrow> app_error + unit" where
  "guard_bannable_address l network =
     (let ip = l_net_network l network in
      if ip_is_loopback ip \<or> ip_is_unspecified ip then Inl (InvalidInput msg_ban_loopback)
      else (case ip of
              V4 v4 \<Rightarrow> (if v4_is_private v4 \<or> v4_is_link_local v4 then Inl (InvalidInput msg_ban_private_v4) else Inr ())
            | V6 v6 \<Rightarrow>
                (let is_link_local = (Bit_Operations.and (segment 0 v6) 0xffc0 = 0xfe80);
                     is_unique_local = (Bit_Operations.and (segment 0 v6) 0xfe00 = 0xfc00)
                 in if is_link_local \<or> is_unique_local then Inl (InvalidInput msg_ban_local_v6) else Inr ())))"

subsection \<open>Registration\<close>

record ban_white_payload =
  bw_target_address :: string
  bw_group_id :: "uuid option"
  bw_group_name :: "string option"
  bw_cause :: "string option"

definition msg_invalid_address :: string where
  "msg_invalid_address = ''Invalid IP or CIDR format''"
definition msg_no_write :: string where
  "msg_no_write = ''Permission denied: You do not have write access to this group''"
definition msg_not_mapped :: string where
  "msg_not_mapped = ''Permission denied: You have no access strictly mapped to this group''"
definition msg_whitelist_into_banlist :: "string \<Rightarrow> string" where
  "msg_whitelist_into_banlist name = ''Cannot whitelist IP into group '' @ quote name @ '': group type is '' @
     quote ''banlist'' @ ''. Use /api/ban or target a whitelist group.''"
definition msg_ban_into_whitelist :: "string \<Rightarrow> string" where
  "msg_ban_into_whitelist name = ''Cannot ban IP into group '' @ quote name @ '': group type is '' @
     quote ''whitelist'' @ ''. Use /api/white or target a banlist group.''"
definition msg_protected :: string where
  "msg_protected = ''This IP is protected and cannot be modified''"

definition check_write_access :: "db \<Rightarrow> api_key \<Rightarrow> ip_group \<Rightarrow> app_error + unit" where
  "check_write_access db key g =
     (if k_is_master key then Inr ()
      else (case find_permission (k_id key) (g_id g) db of
              Some p \<Rightarrow> (if \<not> p_can_write p then Inl (Forbidden msg_no_write) else Inr ())
            | None \<Rightarrow> Inl (Forbidden msg_not_mapped)))"

definition check_group_type :: "bool \<Rightarrow> ip_group \<Rightarrow> app_error + unit" where
  "check_group_type is_whitelist g =
     (if is_whitelist \<and> g_group_type g = ''banlist'' then Inl (InvalidInput (msg_whitelist_into_banlist (g_name g)))
      else if \<not> is_whitelist \<and> g_group_type g = ''whitelist'' then Inl (InvalidInput (msg_ban_into_whitelist (g_name g)))
      else Inr ())"

text \<open>The group of a registration: an existing one the caller may write, or a new one with the creator's row.\<close>

definition resolve_upsert_group ::
  "env \<Rightarrow> api_key \<Rightarrow> ban_white_payload \<Rightarrow> bool \<Rightarrow> db \<Rightarrow> ip_group outcome" where
  "resolve_upsert_group env key payload is_whitelist db =
     attempt (resolve_group_ref db (bw_group_id payload) (bw_group_name payload)) db (\<lambda>existing.
       (case existing of
          Some g \<Rightarrow>
            attempt (check_write_access db key g) db (\<lambda>_.
            attempt (check_group_type is_whitelist g) db (\<lambda>_. (Inr g, db)))
        | None \<Rightarrow>
            (case bw_group_name payload of
               Some name \<Rightarrow>
                 (if \<not> k_is_master key \<and> \<not> k_can_create_groups key then (Inl (Forbidden msg_cannot_create_group), db)
                  else attempt (get_or_create_group env (e_uuid env 0) name
                           (if is_whitelist then ''whitelist'' else ''banlist'') (resource_owner key) db) db (\<lambda>(g, db1).
                         if \<not> k_is_master key
                         then attempt (insert_permission_or_ignore
                                 (creator_permission (e_uuid env 1) (k_id key) (g_id g) (e_now env)) db1) db1 (\<lambda>db2. (Inr g, db2))
                         else (Inr g, db1)))
             | None \<Rightarrow> (Inl NotFound, db))))"

text \<open>A record seen again: refreshed, brought back when it was deleted, its cause replaced if given.\<close>
definition refresh_record :: "datetime \<Rightarrow> string option \<Rightarrow> ip_record \<Rightarrow> ip_record" where
  "refresh_record now cause r =
     (let r1 = r\<lparr>r_last_seen_at := now, r_updated_at := now\<rparr>;
          r2 = (if r_is_deleted r then r1\<lparr>r_is_deleted := False, r_deleted_at := None, r_deleted_by := None\<rparr> else r1)
      in (case cause of Some c \<Rightarrow> r2\<lparr>r_cause := Some c\<rparr> | None \<Rightarrow> r2))"

definition new_record :: "uuid \<Rightarrow> string \<Rightarrow> string option \<Rightarrow> datetime \<Rightarrow> ip_record" where
  "new_record new_id address cause now = \<lparr>r_id = new_id, r_target_address = address, r_cause = cause,
     r_is_locked = False, r_created_at = now, r_updated_at = now, r_last_seen_at = now,
     r_is_deleted = False, r_deleted_at = None, r_deleted_by = None\<rparr>"

text \<open>
  The loop: an insertion that meets a unique violation goes round again with the next fresh id.
  \<open>ids\<close> are the ids the loop may draw; with none left the model gives up, which one id that is
  not in the table rules out.
\<close>

fun upsert_record :: "uuid list \<Rightarrow> string \<Rightarrow> string option \<Rightarrow> datetime \<Rightarrow> db \<Rightarrow> app_error + uuid \<times> db" where
  "upsert_record ids address cause now db =
     (case find_record_by_address address db of
        Some r \<Rightarrow>
          (if r_is_locked r then Inl (Forbidden msg_protected)
           else try_then (update_record (refresh_record now cause r) db) (\<lambda>db1. Inr (r_id r, db1)))
      | None \<Rightarrow>
          (case ids of
             [] \<Rightarrow> Inl Internal
           | i # rest \<Rightarrow>
               (case insert_record (new_record i address cause now) db of
                  Inr db1 \<Rightarrow> Inr (i, db1)
                | Inl (DbError err) \<Rightarrow>
                    (if is_unique_violation err then upsert_record rest address cause now db else Inl (DbError err))
                | Inl e \<Rightarrow> Inl e)))"

declare upsert_record.simps [simp del]

definition upsert_details :: "bool \<Rightarrow> string" where
  "upsert_details is_whitelist = ''Added IP to group. Whitelist: '' @ (if is_whitelist then ''true'' else ''false'')"

text \<open>The transaction: the record, the membership and the audit row, or none of them.\<close>

definition upsert_transaction ::
  "env \<Rightarrow> uuid list \<Rightarrow> api_key \<Rightarrow> string \<Rightarrow> string option \<Rightarrow> bool \<Rightarrow> ip_group \<Rightarrow> db \<Rightarrow> app_error + string \<times> db" where
  "upsert_transaction env ids key address cause is_whitelist g db =
     try_then (upsert_record ids address cause (e_now env) db) (\<lambda>(record_id, db1).
     try_then (link_member \<lparr>m_ip_record_id = record_id, m_group_id = g_id g\<rparr> db1) (\<lambda>(affected, db2).
       let action = (if affected > 0 then ''IP_ADD'' else ''IP_UPDATE'') in
       try_then (create_audit_log env (e_uuid env 2) key action (Some address) (Some (g_name g))
           (Some (upsert_details is_whitelist)) db2) (\<lambda>db3. Inr (action, db3))))"

definition ip_upsert ::
  "lib \<Rightarrow> env \<Rightarrow> uuid list \<Rightarrow> api_key \<Rightarrow> ban_white_payload \<Rightarrow> bool \<Rightarrow> db \<Rightarrow> (unit \<times> webhook_event list) outcome" where
  "ip_upsert l env ids key payload is_whitelist db =
     attempt (ok_or (InvalidInput msg_invalid_address) (l_net_parse l (bw_target_address payload))) db (\<lambda>network.
       let address = normalize_ip_or_cidr l (bw_target_address payload) in
       attempt (if \<not> is_whitelist then guard_bannable_address l network else Inr ()) db (\<lambda>_.
         case resolve_upsert_group env key payload is_whitelist db of
           (Inl e, db1) \<Rightarrow> (Inl e, db1)
         | (Inr g, db1) \<Rightarrow>
             attempt (upsert_transaction env ids key address (bw_cause payload) is_whitelist g db1) db1 (\<lambda>(action, db2).
               (Inr ((), [\<lparr>ev_action = action, ev_address = address, ev_is_whitelist = is_whitelist,
                  ev_group_id = Some (g_id g), ev_group_name = Some (g_name g), ev_cause = bw_cause payload\<rparr>]), db2))))"

definition handle_ip_upsert ::
  "lib \<Rightarrow> env \<Rightarrow> uuid list \<Rightarrow> api_key \<Rightarrow> ban_white_payload \<Rightarrow> bool \<Rightarrow> app \<Rightarrow> (app_error + unit) \<times> app" where
  "handle_ip_upsert l env ids key payload is_whitelist = with_events (ip_upsert l env ids key payload is_whitelist)"

definition handle_ban ::
  "lib \<Rightarrow> env \<Rightarrow> uuid list \<Rightarrow> api_key \<Rightarrow> ban_white_payload \<Rightarrow> app \<Rightarrow> (app_error + unit) \<times> app" where
  "handle_ban l env ids key payload = handle_ip_upsert l env ids key payload False"

definition handle_white ::
  "lib \<Rightarrow> env \<Rightarrow> uuid list \<Rightarrow> api_key \<Rightarrow> ban_white_payload \<Rightarrow> app \<Rightarrow> (app_error + unit) \<times> app" where
  "handle_white l env ids key payload = handle_ip_upsert l env ids key payload True"

subsection \<open>Deleting, restoring and purging a record\<close>

definition msg_no_delete_record :: string where
  "msg_no_delete_record = ''Permission denied: you have no delete access to any group holding this record''"
definition msg_protected_delete :: string where
  "msg_protected_delete = ''Protected records cannot be deleted''"
definition msg_master_hard_delete :: string where
  "msg_master_hard_delete = ''Only a master key can permanently delete an IP record''"
definition msg_master_restore :: string where
  "msg_master_restore = ''Only a master key can restore a deleted IP record''"
definition msg_nothing_to_restore :: string where
  "msg_nothing_to_restore = ''This IP record is not deleted; nothing to restore''"
definition msg_master_purge :: string where
  "msg_master_purge = ''Only a master key can purge deleted IP records''"
definition msg_purge_days :: "int \<Rightarrow> string" where
  "msg_purge_days days = ''older_than_days must be a positive number of days, got '' @ dec_int days"

definition groups_of_record :: "db \<Rightarrow> uuid \<Rightarrow> uuid list" where
  "groups_of_record db record_id = map m_group_id (filter (\<lambda>m. m_ip_record_id m = record_id) (memberships db))"

definition caller_may_delete_record :: "db \<Rightarrow> api_key \<Rightarrow> uuid \<Rightarrow> bool" where
  "caller_may_delete_record db key record_id =
     (if k_is_master key then True
      else let group_ids = groups_of_record db record_id in
        if group_ids = [] then False
        else List.find (\<lambda>p. p_api_key_id p = k_id key \<and> p_group_id p \<in> set group_ids \<and> p_can_delete p)
               (permissions db) \<noteq> None)"

text \<open>The response: id, address, \<open>permanent\<close> or \<open>soft\<close>, and whether it was deleted already.\<close>
record delete_record_response =
  dr_id :: uuid
  dr_target_address :: string
  dr_deleted :: string
  dr_already_deleted :: "bool option"

definition soft_deleted :: "datetime \<Rightarrow> string \<Rightarrow> ip_record \<Rightarrow> ip_record" where
  "soft_deleted now by r = r\<lparr>r_is_deleted := True, r_deleted_at := Some now, r_deleted_by := Some by,
     r_updated_at := now\<rparr>"

definition delete_ip_record ::
  "lib \<Rightarrow> env \<Rightarrow> api_key \<Rightarrow> uuid \<Rightarrow> bool option \<Rightarrow> db \<Rightarrow> delete_record_response outcome" where
  "delete_ip_record l env key record_id hard_param db =
     attempt (ok_or NotFound (find_record record_id db)) db (\<lambda>r.
       if \<not> caller_may_delete_record db key record_id then (Inl (Forbidden msg_no_delete_record), db)
       else if r_is_locked r then (Inl (Forbidden msg_protected_delete), db)
       else let hard = unwrap_or False hard_param in
         if hard \<and> \<not> k_is_master key then (Inl (Forbidden msg_master_hard_delete), db)
         else let address = r_target_address r in
           if hard then
             (let db1 = delete_records (\<lambda>x. r_id x = record_id) db in
              attempt (create_audit_log env (e_uuid env 0) key ''IP_HARD_DELETE'' (Some address) None
                  (Some ''Permanently deleted'') db1) db1 (\<lambda>db2.
                (Inr \<lparr>dr_id = record_id, dr_target_address = address, dr_deleted = ''permanent'', dr_already_deleted = None\<rparr>, db2)))
           else if r_is_deleted r then
             (Inr \<lparr>dr_id = record_id, dr_target_address = address, dr_deleted = ''soft'', dr_already_deleted = Some True\<rparr>, db)
           else
             attempt (update_record (soft_deleted (e_now env) (l_uuid_str l (k_id key)) r) db) db (\<lambda>db1.
             attempt (create_audit_log env (e_uuid env 0) key ''IP_SOFT_DELETE'' (Some address) None
                 (Some (''Soft-deleted by key '' @ format_key_reference l (k_name key) (k_id key))) db1) db1 (\<lambda>db2.
               (Inr \<lparr>dr_id = record_id, dr_target_address = address, dr_deleted = ''soft'', dr_already_deleted = Some False\<rparr>, db2))))"

definition restored_record :: "datetime \<Rightarrow> ip_record \<Rightarrow> ip_record" where
  "restored_record now r = r\<lparr>r_is_deleted := False, r_deleted_at := None, r_deleted_by := None, r_updated_at := now\<rparr>"

definition restore_ip_record :: "env \<Rightarrow> api_key \<Rightarrow> uuid \<Rightarrow> db \<Rightarrow> (uuid \<times> string) outcome" where
  "restore_ip_record env key record_id db =
     (if \<not> k_is_master key then (Inl (Forbidden msg_master_restore), db)
      else attempt (ok_or NotFound (find_record record_id db)) db (\<lambda>r.
        if \<not> r_is_deleted r then (Inl (InvalidInput msg_nothing_to_restore), db)
        else attempt (update_record (restored_record (e_now env) r) db) db (\<lambda>db1.
          attempt (create_audit_log env (e_uuid env 0) key ''IP_RESTORE'' (Some (r_target_address r)) None
              (Some ''Restored from soft delete'') db1) db1 (\<lambda>db2.
            (Inr (r_id r, r_target_address r), db2)))))"

text \<open>\<open>older_than_days\<close> is the parsed body, \<open>var\<close> the environment variable; \<open>None\<close> is a panic.\<close>

definition purge_days :: "int option \<Rightarrow> string option \<Rightarrow> app_error + int" where
  "purge_days older_than_days var =
     (case older_than_days of
        None \<Rightarrow> Inr (retention_days_from_env var)
      | Some days \<Rightarrow> (if days > 0 then Inr days else Inl (InvalidInput (msg_purge_days days))))"

definition purge_ip_records ::
  "lib \<Rightarrow> env \<Rightarrow> api_key \<Rightarrow> int option \<Rightarrow> string option \<Rightarrow> db \<Rightarrow> (nat \<times> int) outcome option" where
  "purge_ip_records l env key older_than_days var db =
     (if \<not> k_is_master key then Some (Inl (Forbidden msg_master_purge), db)
      else (case purge_days older_than_days var of
              Inl e \<Rightarrow> Some (Inl e, db)
            | Inr days \<Rightarrow>
                (case purge_expired_ip_records l (e_now env) days db of
                   None \<Rightarrow> None
                 | Some (purged, db1) \<Rightarrow>
                     Some (attempt (create_audit_log env (e_uuid env 0) key ''IP_PURGE'' None None
                         (Some (''Purged '' @ dec purged @ '' record(s) soft-deleted over '' @ dec_int days @ '' days ago'')) db1) db1 (\<lambda>db2.
                       (Inr (purged, days), db2))))))"

subsection \<open>Removing an address from one group\<close>

record delete_ip_query =
  dq_target_address :: "string option"
  dq_group_id :: "uuid option"
  dq_group_name :: "string option"

definition or_option :: "'a option \<Rightarrow> 'a option \<Rightarrow> 'a option" where
  "or_option a b = (case a of Some x \<Rightarrow> Some x | None \<Rightarrow> b)"

definition merge_delete_query :: "delete_ip_query \<Rightarrow> delete_ip_query \<Rightarrow> delete_ip_query" where
  "merge_delete_query self other =
     \<lparr>dq_target_address = or_option (dq_target_address self) (dq_target_address other),
      dq_group_id = or_option (dq_group_id self) (dq_group_id other),
      dq_group_name = or_option (dq_group_name self) (dq_group_name other)\<rparr>"

definition msg_target_required :: string where
  "msg_target_required = ''target_address is required (query or JSON body)''"
definition msg_no_delete_group :: string where
  "msg_no_delete_group = ''Permission denied: You do not have delete permissions over this group''"

definition check_delete_access :: "db \<Rightarrow> api_key \<Rightarrow> ip_group \<Rightarrow> app_error + unit" where
  "check_delete_access db key g =
     (if k_is_master key then Inr ()
      else (case find_permission (k_id key) (g_id g) db of
              Some p \<Rightarrow> (if \<not> p_can_delete p then Inl (Forbidden msg_no_delete_group) else Inr ())
            | None \<Rightarrow> Inl (Forbidden msg_permission_denied)))"

definition unlink_transaction :: "env \<Rightarrow> api_key \<Rightarrow> string \<Rightarrow> ip_group \<Rightarrow> db \<Rightarrow> app_error + ip_record \<times> db" where
  "unlink_transaction env key address g db =
     try_then (ok_or NotFound (find_record_by_address address db)) (\<lambda>r.
       if r_is_locked r then Inl (Forbidden msg_protected_delete)
       else if count_rows (\<lambda>m. member_pair m = (r_id r, g_id g)) (memberships db) = 0 then Inl NotFound
       else let db1 = delete_member (r_id r) (g_id g) db in
         try_then (create_audit_log env (e_uuid env 0) key ''IP_DELETE'' (Some address) (Some (g_name g)) None db1)
           (\<lambda>db2. Inr (r, db2)))"

text \<open>The merged parameters; the JSON of the body is parsed before.\<close>

definition ip_delete ::
  "lib \<Rightarrow> env \<Rightarrow> api_key \<Rightarrow> delete_ip_query \<Rightarrow> db \<Rightarrow> (unit \<times> webhook_event list) outcome" where
  "ip_delete l env key params db =
     attempt (ok_or (InvalidInput msg_target_required)
         (case dq_target_address params of Some s \<Rightarrow> (if s \<noteq> [] then Some s else None) | None \<Rightarrow> None)) db (\<lambda>raw.
       let address = normalize_ip_or_cidr l raw in
       attempt (resolve_group_ref db (dq_group_id params) (dq_group_name params)) db (\<lambda>found.
       attempt (ok_or NotFound found) db (\<lambda>g.
       attempt (check_delete_access db key g) db (\<lambda>_.
       attempt (unlink_transaction env key address g db) db (\<lambda>(r, db1).
         (Inr ((), [\<lparr>ev_action = ''IP_DELETE'', ev_address = r_target_address r,
            ev_is_whitelist = (g_group_type g = ''whitelist''), ev_group_id = Some (g_id g),
            ev_group_name = Some (g_name g), ev_cause = Some ''Deleted via API''\<rparr>]), db1))))))"

definition delete_ip ::
  "lib \<Rightarrow> env \<Rightarrow> api_key \<Rightarrow> delete_ip_query \<Rightarrow> delete_ip_query \<Rightarrow> app \<Rightarrow> (app_error + unit) \<times> app" where
  "delete_ip l env key query_params body_params =
     with_events (ip_delete l env key (merge_delete_query query_params body_params))"

lemmas records_run [run] = check_write_access_def check_group_type_def resolve_upsert_group_def
  refresh_record_def new_record_def upsert_record.simps upsert_transaction_def ip_upsert_def
  groups_of_record_def caller_may_delete_record_def soft_deleted_def delete_ip_record_def
  restored_record_def restore_ip_record_def purge_days_def purge_ip_records_def or_option_def
  merge_delete_query_def check_delete_access_def unlink_transaction_def ip_delete_def

subsection \<open>The schema's constraints are kept\<close>

lemma db_ok_resolve_upsert_group [store_intros]:
  "db_ok db \<Longrightarrow> db_ok (snd (resolve_upsert_group env key payload w db))"
  by (rule after_leavingD, unfold resolve_upsert_group_def, intro after_rules; unfold leaving_def; (hypsubst+)?)
    (erule store_steps | rule store_intros | assumption)+

lemma db_ok_resolve_upsert_group_step [store_steps]:
  "resolve_upsert_group env key payload w db = (r, db1) \<Longrightarrow> db_ok db \<Longrightarrow> db_ok db1"
  using db_ok_resolve_upsert_group [of db env key payload w] by simp

lemma upsert_record_InrD:
  assumes "upsert_record ids address cause now db = Inr (i, db')"
  shows "(\<exists>r. find_record_by_address address db = Some r \<and> \<not> r_is_locked r \<and> i = r_id r \<and>
      update_record (refresh_record now cause r) db = Inr db') \<or>
    (find_record_by_address address db = None \<and> i \<in> set ids \<and>
      insert_record (new_record i address cause now) db = Inr db')"
  using assms
proof (induction ids)
  case Nil
  then show ?case by (subst (asm) upsert_record.simps) (auto elim!: try_then_InrE split: option.splits if_splits)
next
  case (Cons x ids)
  then show ?case
    by (subst (asm) (2) upsert_record.simps)
      (auto elim!: try_then_InrE split: option.splits if_splits sum.splits app_error.splits)
qed

lemma db_ok_upsert_record [store_steps]:
  "upsert_record ids address cause now db = Inr (i, db') \<Longrightarrow> db_ok db \<Longrightarrow> db_ok db'"
  by (drule upsert_record_InrD) (auto intro: db_ok_update_record db_ok_insert_record)

lemma db_ok_upsert_transaction [store_steps]:
  "upsert_transaction env ids key address cause w g db = Inr (a, db') \<Longrightarrow> db_ok db \<Longrightarrow> db_ok db'"
  unfolding upsert_transaction_def Let_def
  by (elim try_then_InrE) (clarsimp elim!: try_then_InrE, (erule store_steps | assumption)+)

lemma db_ok_ip_upsert [store_intros]:
  "db_ok db \<Longrightarrow> db_ok (snd (ip_upsert l env ids key payload w db))"
  by (rule after_leavingD, unfold ip_upsert_def, intro after_rules; unfold leaving_def; (hypsubst+)?)
    (erule store_steps | rule store_intros | assumption)+

lemma db_ok_delete_ip_record [store_intros]:
  "db_ok db \<Longrightarrow> db_ok (snd (delete_ip_record l env key i hard db))"
  by (rule after_leavingD, unfold delete_ip_record_def, intro after_rules; unfold leaving_def; (hypsubst+)?)
    (erule store_steps | rule store_intros | assumption)+

lemma db_ok_restore_ip_record [store_intros]:
  "db_ok db \<Longrightarrow> db_ok (snd (restore_ip_record env key i db))"
  by (rule after_leavingD, unfold restore_ip_record_def, intro after_rules; unfold leaving_def; (hypsubst+)?)
    (erule store_steps | rule store_intros | assumption)+

lemma db_ok_unlink_transaction [store_steps]:
  "unlink_transaction env key address g db = Inr (r, db') \<Longrightarrow> db_ok db \<Longrightarrow> db_ok db'"
  unfolding unlink_transaction_def Let_def
  by (auto elim!: try_then_InrE split: if_splits intro: db_ok_create_audit_log db_ok_delete_member)

lemma db_ok_ip_delete [store_intros]:
  "db_ok db \<Longrightarrow> db_ok (snd (ip_delete l env key params db))"
  by (rule after_leavingD, unfold ip_delete_def, intro after_rules; unfold leaving_def; (hypsubst+)?)
    (erule store_steps | rule store_intros | assumption)+

end
