(* ===== verification/Record_Safety.thy ===== *)
theory Record_Safety
  imports Records Samples
begin

text \<open>
  What each record operation does to the tables, on success and on failure: the facts behind the
  properties of the record endpoints and behind the invariants over request sequences.
\<close>

subsection \<open>Resolution of the group\<close>

lemma insert_permission_or_ignore_frame:
  "insert_permission_or_ignore p db = Inr db' \<Longrightarrow> \<exists>rows. db' = db\<lparr>permissions := rows\<rparr>"
  by (auto simp: insert_permission_or_ignore_def split: if_splits dest!: insert_permission_InrD)
    (metis db.surjective db.update_convs(3))

lemma resolve_upsert_group_frame:
  assumes "resolve_upsert_group env key payload w db = (res, db')"
  shows "ip_records db' = ip_records db \<and> memberships db' = memberships db \<and> api_keys db' = api_keys db \<and>
    webhook_configs db' = webhook_configs db \<and> audit_logs db' = audit_logs db"
proof -
  let ?P = "\<lambda>d. ip_records d = ip_records db \<and> memberships d = memberships db \<and> api_keys d = api_keys db \<and>
    webhook_configs d = webhook_configs db \<and> audit_logs d = audit_logs db"
  have "after (leaving ?P) (resolve_upsert_group env key payload w db)"
    unfolding resolve_upsert_group_def
    by (intro after_rules) (auto simp: leaving_def dest!: get_or_create_group_InrD insert_permission_or_ignore_frame)
  then show ?thesis using assms by (simp add: after_def leaving_def)
qed

lemma resolve_upsert_group_InrD:
  assumes "resolve_upsert_group env key payload w db = (Inr g, db')"
  shows "(g \<in> set (ip_groups db) \<and> db' = db \<and> (k_is_master key \<or> Write \<in> verbs_of db (k_id key) (g_id g)) \<and>
       check_group_type w g = Inr ()) \<or>
    (g_id g \<notin> g_id ` set (ip_groups db) \<and> (k_is_master key \<or> k_can_create_groups key) \<and>
       g_owner_key_id g = resource_owner key \<and> ip_groups db' = ip_groups db @ [g])"
proof -
  let ?A = "\<lambda>g db'. g \<in> set (ip_groups db) \<and> db' = db \<and> (k_is_master key \<or> Write \<in> verbs_of db (k_id key) (g_id g)) \<and>
       check_group_type w g = Inr ()"
  let ?B = "\<lambda>g db'. g_id g \<notin> g_id ` set (ip_groups db) \<and> (k_is_master key \<or> k_can_create_groups key) \<and>
       g_owner_key_id g = resource_owner key \<and> ip_groups db' = ip_groups db @ [g]"
  have writes: "check_write_access db key g = Inr u \<Longrightarrow> k_is_master key \<or> Write \<in> verbs_of db (k_id key) (g_id g)" for g u
    by (auto simp: check_write_access_def verbs_of_def split: if_splits option.splits)
  have fresh: "?B g d" if "get_or_create_group env i name ty (resource_owner key) db = Inr (g, d)"
      "bw_group_name payload = Some name" "resolve_group_ref db (bw_group_id payload) (bw_group_name payload) = Inr None"
      "\<not> (\<not> k_is_master key \<and> \<not> k_can_create_groups key)" for g d i ty name
    using get_or_create_group_InrD [OF that(1)] resolve_group_ref_None_name [of db "bw_group_id payload" name] that
    by auto
  have "after (on_ok (\<lambda>g db'. ?A g db' \<or> ?B g db')) (resolve_upsert_group env key payload w db)"
    unfolding resolve_upsert_group_def
  proof (intro after_rules, goal_cases)
    case (6 found name p g db1 db2)
    then have "?B g db1" using fresh by blast
    moreover have "ip_groups db2 = ip_groups db1" using 6 insert_permission_or_ignore_frame by fastforce
    ultimately show ?case by simp
  next
    case (7 found name p g db1)
    then show ?case using fresh by (simp only: on_ok_simps) blast
  next
    case (10 found g u v)
    then show ?case using resolve_group_ref_SomeD writes by simp
  qed simp_all
  from after_on_okD [OF this assms] show ?thesis .
qed

subsection \<open>The transaction of a registration\<close>

lemma record_unique:
  "db_ok db \<Longrightarrow> r \<in> set (ip_records db) \<Longrightarrow> r' \<in> set (ip_records db) \<Longrightarrow> r_id r = r_id r' \<Longrightarrow> r = r'"
  by (rule records.unique_row [OF db_ok_tables(4)])

lemma record_address_unique:
  assumes "db_ok db" "r \<in> set (ip_records db)"
  shows "find_record_by_address (r_target_address r) db = Some r"
proof -
  have "distinct (map r_target_address (ip_records db))"
    using assms(1) by (simp add: db_ok_def records_ok_def)
  then show ?thesis unfolding find_record_by_address_def using assms(2) by (rule row_find_distinct)
qed

lemma update_record_effect:
  assumes "db_ok db" "r \<in> set (ip_records db)" "update_record r' db = Inr db'"
    "r_id r' = r_id r" "r_target_address r' = r_target_address r"
  shows "find_record_by_address (r_target_address r) db' = Some r'"
    "a \<noteq> r_target_address r \<Longrightarrow> find_record_by_address a db' = find_record_by_address a db"
    "x \<in> set (ip_records db) \<Longrightarrow> r_id x \<noteq> r_id r \<Longrightarrow> x \<in> set (ip_records db')"
    "map r_id (ip_records db') = map r_id (ip_records db)"
    "memberships db' = memberships db" "api_keys db' = api_keys db" "permissions db' = permissions db"
    "ip_groups db' = ip_groups db" "webhook_configs db' = webhook_configs db" "audit_logs db' = audit_logs db"
proof -
  have rows: "db' = db\<lparr>ip_records := row_update r_id r' (ip_records db)\<rparr>" using update_record_InrD [OF assms(3)] by simp
  have same: "r_target_address x = r_target_address r'" if "x \<in> set (ip_records db)" "r_id x = r_id r'" for x
    using record_unique [OF assms(1) that(1) assms(2)] that(2) assms(4,5) by simp
  have find: "row_find r_target_address k (row_update r_id r' (ip_records db)) =
    (case row_find r_target_address k (ip_records db) of None \<Rightarrow> None | Some x \<Rightarrow> Some (if r_id x = r_id r' then r' else x))" for k
    by (rule row_find_update_other) (rule same)
  show "find_record_by_address (r_target_address r) db' = Some r'"
    using record_address_unique [OF assms(1,2)] assms(4) by (simp add: rows find_record_by_address_def find)
  show "find_record_by_address a db' = find_record_by_address a db" if "a \<noteq> r_target_address r"
  proof (cases "find_record_by_address a db")
    case (Some x)
    then have "r_id x \<noteq> r_id r'" using find_record_by_address_SomeD [OF Some] same that assms(5) by auto
    with Some show ?thesis by (simp add: rows find_record_by_address_def find)
  qed (simp add: rows find_record_by_address_def find)
  show "x \<in> set (ip_records db')" if "x \<in> set (ip_records db)" "r_id x \<noteq> r_id r"
    using that assms(4) by (simp add: rows set_row_update)
qed (use update_record_InrD [OF assms(3)] in \<open>simp_all\<close>)

lemma insert_record_effect:
  assumes "insert_record r db = Inr db'"
  shows "find_record_by_address (r_target_address r) db' = Some r"
    "a \<noteq> r_target_address r \<Longrightarrow> find_record_by_address a db' = find_record_by_address a db"
    "ip_records db' = ip_records db @ [r]"
    "memberships db' = memberships db" "api_keys db' = api_keys db" "permissions db' = permissions db"
    "ip_groups db' = ip_groups db" "webhook_configs db' = webhook_configs db" "audit_logs db' = audit_logs db"
proof -
  note ins = insert_record_InrD [OF assms]
  then have "r_target_address r \<notin> r_target_address ` set (ip_records db)"
    by (auto simp: records_add_def list_ex_iff split: if_splits)
  then have "row_find r_target_address (r_target_address r) (ip_records db) = None" by (simp add: row_find_None_iff)
  with ins show "find_record_by_address (r_target_address r) db' = Some r"
    "a \<noteq> r_target_address r \<Longrightarrow> find_record_by_address a db' = find_record_by_address a db"
    by (auto simp: find_record_by_address_def row_find_append row_find_Cons split: option.splits)
qed (use insert_record_InrD [OF assms] in \<open>simp_all\<close>)

lemma refresh_record_fields [simp]:
  "r_id (refresh_record now cause r) = r_id r" "r_target_address (refresh_record now cause r) = r_target_address r"
  "\<not> r_is_deleted (refresh_record now cause r)" "r_is_locked (refresh_record now cause r) = r_is_locked r"
  "r_created_at (refresh_record now cause r) = r_created_at r"
  by (simp_all add: refresh_record_def Let_def split: option.splits)

lemma refresh_record_cause:
  "r_cause (refresh_record now cause r) = (case cause of None \<Rightarrow> r_cause r | Some c \<Rightarrow> Some c)"
  by (simp add: refresh_record_def Let_def split: option.splits)

lemma new_record_fields [simp]:
  "r_id (new_record i a c now) = i" "r_target_address (new_record i a c now) = a" "\<not> r_is_deleted (new_record i a c now)"
  "\<not> r_is_locked (new_record i a c now)" "r_cause (new_record i a c now) = c"
  by (simp_all add: new_record_def)

lemma upsert_record_effect:
  assumes "db_ok db" "upsert_record ids address cause now db = Inr (i, db')"
  shows "\<exists>r. find_record_by_address address db' = Some r \<and> r_id r = i \<and> \<not> r_is_deleted r \<and> \<not> r_is_locked r"
    "a \<noteq> address \<Longrightarrow> find_record_by_address a db' = find_record_by_address a db"
    "x \<in> set (ip_records db) \<Longrightarrow> r_target_address x \<noteq> address \<Longrightarrow> x \<in> set (ip_records db')"
    "x \<in> set (ip_records db) \<Longrightarrow> r_target_address x = address \<Longrightarrow> \<not> r_is_locked x"
    "memberships db' = memberships db \<and> api_keys db' = api_keys db \<and> permissions db' = permissions db \<and>
     ip_groups db' = ip_groups db \<and> webhook_configs db' = webhook_configs db \<and> audit_logs db' = audit_logs db"
proof -
  consider (old) r where "find_record_by_address address db = Some r" "\<not> r_is_locked r" "i = r_id r"
      "update_record (refresh_record now cause r) db = Inr db'"
    | (fresh) "find_record_by_address address db = None" "insert_record (new_record i address cause now) db = Inr db'"
    using upsert_record_InrD [OF assms(2)] that by (elim disjE exE conjE) simp_all
  then have "(\<exists>r. find_record_by_address address db' = Some r \<and> r_id r = i \<and> \<not> r_is_deleted r \<and> \<not> r_is_locked r) \<and>
    (\<forall>a. a \<noteq> address \<longrightarrow> find_record_by_address a db' = find_record_by_address a db) \<and>
    (\<forall>x\<in>set (ip_records db). r_target_address x \<noteq> address \<longrightarrow> x \<in> set (ip_records db')) \<and>
    (\<forall>x\<in>set (ip_records db). r_target_address x = address \<longrightarrow> \<not> r_is_locked x) \<and>
    memberships db' = memberships db \<and> api_keys db' = api_keys db \<and> permissions db' = permissions db \<and>
     ip_groups db' = ip_groups db \<and> webhook_configs db' = webhook_configs db \<and> audit_logs db' = audit_logs db"
  proof cases
    case old
    note r = find_record_by_address_SomeD [OF old(1)]
    have only: "x = r" if "x \<in> set (ip_records db)" "r_target_address x = address" for x
      using record_address_unique [OF assms(1) that(1)] that(2) old(1) by simp
    note eff = update_record_effect [OF assms(1) r [THEN conjunct1] old(4) refresh_record_fields(1,2)]
    have ids: "r_id x \<noteq> r_id r" if "x \<in> set (ip_records db)" "r_target_address x \<noteq> address" for x
      using record_unique [OF assms(1) that(1) r [THEN conjunct1]] that(2) r by auto
    have "find_record_by_address address db' = Some (refresh_record now cause r)" using eff(1) r by simp
    moreover have "\<forall>a. a \<noteq> address \<longrightarrow> find_record_by_address a db' = find_record_by_address a db" using eff(2) r by simp
    moreover have "\<forall>x\<in>set (ip_records db). r_target_address x \<noteq> address \<longrightarrow> x \<in> set (ip_records db')"
      using eff(3) ids by blast
    moreover have "\<forall>x\<in>set (ip_records db). r_target_address x = address \<longrightarrow> \<not> r_is_locked x"
      using only old(2) by blast
    ultimately show ?thesis using eff(5-) old(2,3) by simp
  next
    case fresh
    then have "x \<in> set (ip_records db) \<Longrightarrow> r_target_address x \<noteq> address" for x
      by (auto simp: find_record_by_address_def row_find_None_iff)
    then show ?thesis using insert_record_effect [OF fresh(2)] by auto
  qed
  then show "\<exists>r. find_record_by_address address db' = Some r \<and> r_id r = i \<and> \<not> r_is_deleted r \<and> \<not> r_is_locked r"
    "a \<noteq> address \<Longrightarrow> find_record_by_address a db' = find_record_by_address a db"
    "x \<in> set (ip_records db) \<Longrightarrow> r_target_address x \<noteq> address \<Longrightarrow> x \<in> set (ip_records db')"
    "x \<in> set (ip_records db) \<Longrightarrow> r_target_address x = address \<Longrightarrow> \<not> r_is_locked x"
    "memberships db' = memberships db \<and> api_keys db' = api_keys db \<and> permissions db' = permissions db \<and>
     ip_groups db' = ip_groups db \<and> webhook_configs db' = webhook_configs db \<and> audit_logs db' = audit_logs db"
    by blast+
qed

text \<open>One fresh id is enough for the loop to end without giving up.\<close>

lemma upsert_record_ends:
  assumes "i \<in> set ids" "i \<notin> r_id ` set (ip_records db)"
  shows "upsert_record ids address cause now db \<noteq> Inl Internal"
  using assms
proof (induction ids)
  case (Cons x ids)
  show ?case
  proof (cases "find_record_by_address address db")
    case (Some r)
    then show ?thesis
      by (subst upsert_record.simps) (auto simp: try_then_def update_record_def split: sum.splits)
  next
    case None
    then have addr: "address \<notin> r_target_address ` set (ip_records db)"
      by (simp add: find_record_by_address_def row_find_None_iff)
    show ?thesis
    proof (cases "x \<in> r_id ` set (ip_records db)")
      case True
      with Cons have "upsert_record ids address cause now db \<noteq> Inl Internal" by auto
      with None show ?thesis
        by (subst upsert_record.simps) (auto simp: insert_record_def split: option.splits)
    next
      case False
      with addr have "insert_record (new_record x address cause now) db = Inr (db\<lparr>ip_records := ip_records db @ [new_record x address cause now]\<rparr>)"
        by (auto simp: insert_record_def records_add_def list_ex_iff)
      with None show ?thesis by (subst upsert_record.simps) simp
    qed
  qed
qed simp

lemma member_pair_inj: "member_pair m = member_pair x \<Longrightarrow> m = x"
  by (cases m; cases x) simp

lemma link_member_effect:
  assumes "link_member m db = Inr (n, db')"
  shows "set (memberships db') = insert m (set (memberships db))" "n > 0 \<longleftrightarrow> m \<notin> set (memberships db)"
    "ip_records db' = ip_records db" "api_keys db' = api_keys db" "permissions db' = permissions db"
    "ip_groups db' = ip_groups db" "webhook_configs db' = webhook_configs db"
proof -
  have pair: "member_pair m \<in> member_pair ` set (memberships db) \<longleftrightarrow> m \<in> set (memberships db)"
  proof
    assume "member_pair m \<in> member_pair ` set (memberships db)"
    then obtain x where "x \<in> set (memberships db)" "member_pair m = member_pair x" by blast
    with member_pair_inj show "m \<in> set (memberships db)" by blast
  qed blast
  show "set (memberships db') = insert m (set (memberships db))" "n > 0 \<longleftrightarrow> m \<notin> set (memberships db)"
    "ip_records db' = ip_records db" "api_keys db' = api_keys db" "permissions db' = permissions db"
    "ip_groups db' = ip_groups db" "webhook_configs db' = webhook_configs db"
    using link_member_InrD [OF assms] pair
    by (auto simp: members_add_def list_ex_iff split: if_splits)
qed

lemma upsert_transaction_effect:
  assumes "db_ok db" "upsert_transaction env ids key address cause w g db = Inr (action, db')"
  shows "\<exists>r. find_record_by_address address db' = Some r \<and> \<not> r_is_deleted r \<and> \<not> r_is_locked r \<and>
      set (memberships db') = insert \<lparr>m_ip_record_id = r_id r, m_group_id = g_id g\<rparr> (set (memberships db)) \<and>
      action = (if \<lparr>m_ip_record_id = r_id r, m_group_id = g_id g\<rparr> \<in> set (memberships db) then ''IP_UPDATE'' else ''IP_ADD'')"
    "\<forall>x\<in>set (ip_records db). r_target_address x \<noteq> address \<or> r_is_locked x \<longrightarrow> x \<in> set (ip_records db')"
    "api_keys db' = api_keys db" "permissions db' = permissions db" "ip_groups db' = ip_groups db"
    "webhook_configs db' = webhook_configs db"
proof -
  from assms(2) obtain i db1 n db2 where up: "upsert_record ids address cause (e_now env) db = Inr (i, db1)"
    and link: "link_member \<lparr>m_ip_record_id = i, m_group_id = g_id g\<rparr> db1 = Inr (n, db2)"
    and action: "action = (if n > 0 then ''IP_ADD'' else ''IP_UPDATE'')"
    and audit: "create_audit_log env (e_uuid env 2) key action (Some address) (Some (g_name g)) (Some (upsert_details w)) db2 = Inr db'"
    unfolding upsert_transaction_def Let_def by (auto elim!: try_then_InrE)
  note up = upsert_record_effect [OF assms(1) up] and link = link_member_effect [OF link]
    and audit = create_audit_log_InrD [OF audit]
  have "find_record_by_address address db' = find_record_by_address address db1"
    using link audit by (simp add: find_record_by_address_def)
  then show "\<exists>r. find_record_by_address address db' = Some r \<and> \<not> r_is_deleted r \<and> \<not> r_is_locked r \<and>
      set (memberships db') = insert \<lparr>m_ip_record_id = r_id r, m_group_id = g_id g\<rparr> (set (memberships db)) \<and>
      action = (if \<lparr>m_ip_record_id = r_id r, m_group_id = g_id g\<rparr> \<in> set (memberships db) then ''IP_UPDATE'' else ''IP_ADD'')"
    using up(1,5) link audit action by auto
  show "\<forall>x\<in>set (ip_records db). r_target_address x \<noteq> address \<or> r_is_locked x \<longrightarrow> x \<in> set (ip_records db')"
    using up(3,4) link audit by auto
  show "api_keys db' = api_keys db" "permissions db' = permissions db" "ip_groups db' = ip_groups db"
    "webhook_configs db' = webhook_configs db"
    using up(5) link audit by simp_all
qed

text \<open>A registration as a whole: on success the address is live in the group, with one event.\<close>

lemma ip_upsert_after:
  assumes "db_ok db"
  shows "after (\<lambda>res db'. case res of
      Inl e \<Rightarrow> ip_records db' = ip_records db \<and> memberships db' = memberships db
    | Inr (u, events) \<Rightarrow> (\<exists>g db1 action network. resolve_upsert_group env key payload w db = (Inr g, db1) \<and>
        l_net_parse l (bw_target_address payload) = Some network \<and>
        (w \<or> guard_bannable_address l network = Inr ()) \<and>
        upsert_transaction env ids key (normalize_ip_or_cidr l (bw_target_address payload)) (bw_cause payload) w g db1 = Inr (action, db') \<and>
        events = [\<lparr>ev_action = action, ev_address = normalize_ip_or_cidr l (bw_target_address payload),
          ev_is_whitelist = w, ev_group_id = Some (g_id g), ev_group_name = Some (g_name g), ev_cause = bw_cause payload\<rparr>]))
    (ip_upsert l env ids key payload w db)"
  unfolding ip_upsert_def
  by (intro after_rules) (auto dest: resolve_upsert_group_frame split: if_splits)

lemma locked_survives_ip_upsert:
  assumes "db_ok db" "r \<in> set (ip_records db)" "r_is_locked r"
  shows "r \<in> set (ip_records (snd (ip_upsert l env ids key payload w db)))"
proof (cases "ip_upsert l env ids key payload w db")
  case (Pair res db')
  show ?thesis
  proof (cases res)
    case (Inl e)
    with ip_upsert_after [OF assms(1), of env key payload w l ids] Pair assms(2) show ?thesis by (simp add: after_def)
  next
    case (Inr x)
    with ip_upsert_after [OF assms(1), of env key payload w l ids] Pair obtain g db1 action where
      "resolve_upsert_group env key payload w db = (Inr g, db1)"
      "upsert_transaction env ids key (normalize_ip_or_cidr l (bw_target_address payload)) (bw_cause payload) w g db1 = Inr (action, db')"
      by (auto simp: after_def split: prod.splits)
    with upsert_transaction_effect(2) [OF db_ok_resolve_upsert_group_step [OF this(1) assms(1)] this(2)] assms(2,3)
      resolve_upsert_group_frame [OF this(1)] Pair
    show ?thesis by auto
  qed
qed

lemma locked_survives_delete_ip_record:
  assumes "db_ok db" "r \<in> set (ip_records db)" "r_is_locked r"
  shows "r \<in> set (ip_records (snd (delete_ip_record l env key i hard db)))"
proof (rule after_leavingD [where P = "\<lambda>d. r \<in> set (ip_records d)"], unfold delete_ip_record_def, intro after_rules; unfold leaving_def)
  have other: "r_id x \<noteq> r_id r" if "find_record i db = Some x" "\<not> r_is_locked x" for x
    using record_unique [OF assms(1) _ assms(2)] find_record_SomeD [OF that(1)] that(2) assms(3) by blast
  fix x assume x: "ok_or NotFound (find_record i db) = Inr x" "\<not> r_is_locked x"
  then have ne: "r_id x \<noteq> r_id r" "r_id x = i" using other find_record_SomeD [of i db x] by auto
  then have hard: "r \<in> set (ip_records (delete_records (\<lambda>x. r_id x = i) db))"
    using assms(2) by (auto simp: delete_records_def Let_def)
  have soft: "r \<in> set (ip_records d)" if "update_record (soft_deleted t b x) db = Inr d" for d t b
    using update_record_InrD [OF that] assms(2) ne by (auto simp: set_row_update soft_deleted_def)
  show "r \<in> set (ip_records d)" if "d = delete_records (\<lambda>x. r_id x = i) db" for d using hard that by simp
  show "r \<in> set (ip_records d2)" if "d = delete_records (\<lambda>x. r_id x = i) db"
    "create_audit_log env (e_uuid env 0) key a t g dt d = Inr d2" for d d2 a t g dt
    using hard that create_audit_log_InrD(4) [OF that(2)] by simp
  show "r \<in> set (ip_records d)" if "update_record (soft_deleted t b x) db = Inr d" for d t b using soft that .
  show "r \<in> set (ip_records d2)" if "update_record (soft_deleted t b x) db = Inr d"
    "create_audit_log env (e_uuid env 0) key a tt g dt d = Inr d2" for d d2 t b a tt g dt
    using soft [OF that(1)] create_audit_log_InrD(4) [OF that(2)] by simp
qed (use assms(2) in simp_all)

lemma ip_delete_records:
  "ip_records (snd (ip_delete l env key params db)) = ip_records db"
  by (rule after_leavingD, unfold ip_delete_def unlink_transaction_def Let_def, intro after_rules; unfold leaving_def)
    (auto elim!: try_then_InrE split: if_splits dest!: create_audit_log_InrD(4) simp: delete_member_def)

end
