(* ===== verification/Record_Properties.thy ===== *)
theory Record_Properties
  imports Record_Safety
begin

text \<open>The properties of the record endpoints with their witnesses.\<close>

definition sample_ban :: ban_white_payload where
  "sample_ban = \<lparr>bw_target_address = ''8.8.8.8/32'', bw_group_id = None, bw_group_name = Some ''ssh'', bw_cause = Some ''scan''\<rparr>"

text \<open>The address as the sample library reads and canonicalises it.\<close>

lemma sample_address:
  "l_net_parse demo_lib ''8.8.8.8/32'' = Some \<lparr>net_ip = V4 0x08080808, net_prefix = 32\<rparr>"
  "normalize_ip_or_cidr demo_lib ''8.8.8.8/32'' = ''8.8.8.8''"
  "guard_bannable_address demo_lib \<lparr>net_ip = V4 0x08080808, net_prefix = 32\<rparr> = Inr ()"
  by code_simp+

subsection \<open>Registration\<close>

text \<open>
  C20 An accepted registration leaves the canonical address live, neither deleted nor locked, linked
  to the group the caller may write (or has created), and raises exactly one event, \<open>IP_ADD\<close> when
  the link is new and \<open>IP_UPDATE\<close> otherwise; no link is removed and every other record stays.
\<close>

theorem registration_makes_address_live:
  assumes "db_ok db" "ip_upsert l env ids key payload w db = (Inr (u, events), db')"
  shows "\<exists>g r. g \<in> set (ip_groups db') \<and>
    (k_is_master key \<or> Write \<in> verbs_of db (k_id key) (g_id g) \<or>
      (k_can_create_groups key \<and> g_id g \<notin> g_id ` set (ip_groups db))) \<and>
    find_record_by_address (normalize_ip_or_cidr l (bw_target_address payload)) db' = Some r \<and>
    \<not> r_is_deleted r \<and> \<not> r_is_locked r \<and>
    set (memberships db') = insert \<lparr>m_ip_record_id = r_id r, m_group_id = g_id g\<rparr> (set (memberships db)) \<and>
    map ev_action events =
      [if \<lparr>m_ip_record_id = r_id r, m_group_id = g_id g\<rparr> \<in> set (memberships db) then ''IP_UPDATE'' else ''IP_ADD''] \<and>
    (\<forall>x\<in>set (ip_records db). r_target_address x \<noteq> normalize_ip_or_cidr l (bw_target_address payload) \<longrightarrow>
       x \<in> set (ip_records db'))"
proof -
  from ip_upsert_after [OF assms(1), of env key payload w l ids] assms(2) obtain g db1 action where
    g: "resolve_upsert_group env key payload w db = (Inr g, db1)"
    and txn: "upsert_transaction env ids key (normalize_ip_or_cidr l (bw_target_address payload)) (bw_cause payload) w g db1 =
      Inr (action, db')"
    and events: "map ev_action events = [action]"
    by (auto simp: after_def)
  note ok = db_ok_resolve_upsert_group_step [OF g assms(1)]
  have frame: "ip_records db1 = ip_records db" "memberships db1 = memberships db"
    using resolve_upsert_group_frame [OF g] by simp_all
  have "g \<in> set (ip_groups db1)" using resolve_upsert_group_InrD [OF g] by auto
  moreover have "k_is_master key \<or> Write \<in> verbs_of db (k_id key) (g_id g) \<or>
      (k_can_create_groups key \<and> g_id g \<notin> g_id ` set (ip_groups db))"
    using resolve_upsert_group_InrD [OF g] by blast
  moreover note effect = upsert_transaction_effect [OF ok txn]
  from effect(1) obtain r where
    "find_record_by_address (normalize_ip_or_cidr l (bw_target_address payload)) db' = Some r"
    "\<not> r_is_deleted r" "\<not> r_is_locked r"
    "set (memberships db') = insert \<lparr>m_ip_record_id = r_id r, m_group_id = g_id g\<rparr> (set (memberships db))"
    "action = (if \<lparr>m_ip_record_id = r_id r, m_group_id = g_id g\<rparr> \<in> set (memberships db) then ''IP_UPDATE'' else ''IP_ADD'')"
    unfolding frame by blast
  ultimately show ?thesis
    using effect(2,5) frame events by (intro exI [of _ g] exI [of _ r]) simp
qed

lemma sample_registration:
  "ip_upsert demo_lib demo_env [500] manager_key sample_ban False demo_db =
     (Inr ((), [\<lparr>ev_action = ''IP_ADD'', ev_address = ''8.8.8.8'', ev_is_whitelist = False, ev_group_id = Some 10,
        ev_group_name = Some ''ssh'', ev_cause = Some ''scan''\<rparr>]),
      snd (ip_upsert demo_lib demo_env [500] manager_key sample_ban False demo_db))"
  by (simp add: run sample_ban_def sample_address)

theorem registration_makes_address_live_witness:
  "\<exists>r. find_record_by_address ''8.8.8.8'' (snd (ip_upsert demo_lib demo_env [500] manager_key sample_ban False demo_db)) = Some r \<and>
     \<not> r_is_deleted r"
  using registration_makes_address_live [OF demo_db_ok sample_registration]
  by (auto simp: sample_ban_def sample_address)

text \<open>
  Registration is all or nothing: when it fails, no record and no membership has changed, and
  nothing was queued for the dispatcher.
\<close>

theorem failed_registration_changes_nothing:
  assumes "db_ok (a_db app)" "handle_ip_upsert l env ids key payload w app = (Inl e, app')"
  shows "ip_records (a_db app') = ip_records (a_db app) \<and> memberships (a_db app') = memberships (a_db app) \<and>
    a_queue app' = a_queue app"
proof -
  obtain res d where h: "ip_upsert l env ids key payload w (a_db app) = (res, d)" by (cases "ip_upsert l env ids key payload w (a_db app)")
  have d: "a_db app' = d" "fst (handle_ip_upsert l env ids key payload w app) = Inl e" "app' = snd (handle_ip_upsert l env ids key payload w app)"
    using assms(2) with_events_db [of "ip_upsert l env ids key payload w" app] h by (simp_all add: handle_ip_upsert_def)
  have "res = Inl e" using d(2) h by (auto simp: handle_ip_upsert_def with_events_fst split: sum.splits)
  with ip_upsert_after [OF assms(1), of env key payload w l ids] h
  have "ip_records d = ip_records (a_db app) \<and> memberships d = memberships (a_db app)" by (simp add: after_def)
  moreover have "a_queue app' = a_queue app"
    using with_events_error_queue [of "ip_upsert l env ids key payload w" app e] d(2,3) by (simp add: handle_ip_upsert_def)
  ultimately show ?thesis using d(1) by simp
qed

definition demo_app :: app where
  "demo_app = \<lparr>a_db = demo_db, a_queue = [], a_capacity = 4, a_closed = False\<rparr>"

theorem failed_registration_changes_nothing_witness:
  "fst (handle_ban demo_lib demo_env [500] stranger_key sample_ban demo_app) = Inl (Forbidden msg_no_write) \<and>
   a_queue (snd (handle_ban demo_lib demo_env [500] stranger_key sample_ban demo_app)) = []"
proof -
  have "fst (handle_ban demo_lib demo_env [500] stranger_key sample_ban demo_app) = Inl (Forbidden msg_no_write)"
    by (simp add: handle_ban_def handle_ip_upsert_def with_events_fst demo_app_def run sample_ban_def sample_address)
  moreover from this have "handle_ip_upsert demo_lib demo_env [500] stranger_key sample_ban False demo_app =
      (Inl (Forbidden msg_no_write), snd (handle_ban demo_lib demo_env [500] stranger_key sample_ban demo_app))"
    unfolding handle_ban_def by (metis prod.collapse)
  from failed_registration_changes_nothing [OF _ this]
  have "a_queue (snd (handle_ban demo_lib demo_env [500] stranger_key sample_ban demo_app)) = []"
    by (simp add: demo_app_def demo_db_ok)
  ultimately show ?thesis by blast
qed

text \<open>
  The retry loop of a registration ends: as soon as one of the ids it may draw is not in the
  table it does not give up.
\<close>

theorem registration_loop_ends:
  assumes "i \<in> set ids" "i \<notin> r_id ` set (ip_records db)"
  shows "upsert_record ids address cause now db \<noteq> Inl Internal"
  using assms by (rule upsert_record_ends)

theorem registration_loop_ends_witness:
  "upsert_record [7, 8] ''1.1.1.1'' None 0 (demo_db\<lparr>ip_records := [new_record 7 ''2.2.2.2'' None 0]\<rparr>) \<noteq> Inl Internal"
  by (rule registration_loop_ends [of 8]) simp_all

subsection \<open>Protected records\<close>

text \<open>
  C21 A locked record is out of reach of registration and of both deletions: whoever calls, with
  whatever outcome, its row is unchanged.
\<close>

theorem locked_records_untouched:
  assumes "db_ok db" "r \<in> set (ip_records db)" "r_is_locked r"
  shows "r \<in> set (ip_records (snd (ip_upsert l env ids key payload w db))) \<and>
    r \<in> set (ip_records (snd (delete_ip_record l env key i hard db))) \<and>
    r \<in> set (ip_records (snd (ip_delete l env key params db)))"
  using locked_survives_ip_upsert [OF assms] locked_survives_delete_ip_record [OF assms] assms(2)
  by (simp add: ip_delete_records)

definition locked_record :: ip_record where
  "locked_record = (new_record 7 ''8.8.8.8'' None 0)\<lparr>r_is_locked := True\<rparr>"

theorem locked_records_untouched_witness:
  "locked_record \<in> set (ip_records (snd (delete_ip_record demo_lib demo_env root_key 7 (Some True) (demo_db\<lparr>ip_records := [locked_record]\<rparr>)))) \<and>
   fst (delete_ip_record demo_lib demo_env root_key 7 (Some True) (demo_db\<lparr>ip_records := [locked_record]\<rparr>)) =
     Inl (Forbidden msg_protected_delete)"
proof
  have ok: "db_ok (demo_db\<lparr>ip_records := [locked_record]\<rparr>)"
    by (simp add: db_ok_def refs_ok_def table_defs demo_db_def empty_db_def sample_defs locked_record_def)
  show "locked_record \<in> set (ip_records (snd (delete_ip_record demo_lib demo_env root_key 7 (Some True) (demo_db\<lparr>ip_records := [locked_record]\<rparr>))))"
    using locked_records_untouched [OF ok, of locked_record] by (simp add: locked_record_def)
qed (simp add: run locked_record_def new_record_def)

end
