(* ===== verification/Record_Delete_Properties.thy ===== *)
theory Record_Delete_Properties
  imports Record_Properties
begin

text \<open>
  Deletion, restoration and purge of a record: who may remove what, that a soft deletion is
  undone by a restoration, and that only expired deleted rows are ever purged.
\<close>

lemma caller_may_delete_recordD:
  assumes "db_ok db" "caller_may_delete_record db key i" "\<not> k_is_master key"
  shows "\<exists>g. \<lparr>m_ip_record_id = i, m_group_id = g\<rparr> \<in> set (memberships db) \<and> Delete \<in> verbs_of db (k_id key) g"
proof -
  from assms(2,3) obtain p where p: "p \<in> set (permissions db)" "p_api_key_id p = k_id key" "p_can_delete p"
    and g: "p_group_id p \<in> set (groups_of_record db i)"
    by (auto simp: caller_may_delete_record_def Let_def find_None_iff split: if_splits)
  from g obtain m where m: "m \<in> set (memberships db)" "m_ip_record_id m = i" "m_group_id m = p_group_id p"
    by (auto simp: groups_of_record_def)
  have "m = \<lparr>m_ip_record_id = i, m_group_id = p_group_id p\<rparr>" using m(2,3) by (cases m) simp
  moreover have "find_permission (k_id key) (p_group_id p) db = Some p"
    using perms.find_in [OF db_ok_tables(3) [OF assms(1)] p(1)] p(2) by (simp add: find_permission_def)
  ultimately show ?thesis using m(1) p(3) by (auto simp: verbs_of_def)
qed

text \<open>What a soft deletion does: nothing when the row is deleted already, else it marks the row.\<close>

lemma soft_delete_effect:
  assumes "delete_ip_record l env key i hard db = (Inr resp, db')" "hard \<noteq> Some True"
  shows "\<exists>r. find_record i db = Some r \<and> caller_may_delete_record db key i \<and> \<not> r_is_locked r \<and>
    dr_deleted resp = ''soft'' \<and> dr_already_deleted resp = Some (r_is_deleted r) \<and> memberships db' = memberships db \<and>
    ip_records db' = (if r_is_deleted r then ip_records db
      else row_update r_id (soft_deleted (e_now env) (l_uuid_str l (k_id key)) r) (ip_records db))"
proof -
  have hard: "unwrap_or False hard = False" using assms(2) by (cases hard) (auto simp: unwrap_or_def)
  have "after (on_ok (\<lambda>resp db'. \<exists>r. find_record i db = Some r \<and> caller_may_delete_record db key i \<and> \<not> r_is_locked r \<and>
    dr_deleted resp = ''soft'' \<and> dr_already_deleted resp = Some (r_is_deleted r) \<and> memberships db' = memberships db \<and>
    ip_records db' = (if r_is_deleted r then ip_records db
      else row_update r_id (soft_deleted (e_now env) (l_uuid_str l (k_id key)) r) (ip_records db))))
    (delete_ip_record l env key i hard db)"
    unfolding delete_ip_record_def hard
    by (intro after_rules) (auto dest!: update_record_InrD create_audit_log_frame)
  from after_on_okD [OF this assms(1)] show ?thesis .
qed

lemma hard_delete_needs_master:
  assumes "delete_ip_record l env key i (Some True) db = (Inr resp, db')"
  shows "k_is_master key"
proof -
  have "after (on_ok (\<lambda>resp db'. k_is_master key)) (delete_ip_record l env key i (Some True) db)"
    unfolding delete_ip_record_def by (intro after_rules) (auto simp: unwrap_or_def)
  from after_on_okD [OF this assms] show ?thesis .
qed

lemma restore_effect:
  assumes "restore_ip_record env key i db = (Inr x, db')"
  shows "k_is_master key \<and> (\<exists>r. find_record i db = Some r \<and> r_is_deleted r \<and> x = (r_id r, r_target_address r) \<and>
    memberships db' = memberships db \<and>
    ip_records db' = row_update r_id (restored_record (e_now env) r) (ip_records db))"
proof -
  have "after (on_ok (\<lambda>x db'. k_is_master key \<and> (\<exists>r. find_record i db = Some r \<and> r_is_deleted r \<and>
    x = (r_id r, r_target_address r) \<and> memberships db' = memberships db \<and>
    ip_records db' = row_update r_id (restored_record (e_now env) r) (ip_records db))))
    (restore_ip_record env key i db)"
    unfolding restore_ip_record_def
    by (intro after_rules) (auto dest!: update_record_InrD create_audit_log_frame)
  from after_on_okD [OF this assms] show ?thesis .
qed

subsection \<open>Who may delete\<close>

text \<open>
  C23 A key that is not a master deletes a record only with the delete verb on a group that holds
  it, and only softly: the row keeps its id, address, cause and creation time, its memberships
  stay, a row deleted before is left as it is, and every other row is the same.
\<close>

theorem non_master_deletes_softly:
  assumes "db_ok db" "\<not> k_is_master key" "delete_ip_record l env key i hard db = (Inr resp, db')"
  shows "\<exists>r r'. r \<in> set (ip_records db) \<and> r_id r = i \<and> \<not> r_is_locked r \<and>
    (\<exists>g. \<lparr>m_ip_record_id = i, m_group_id = g\<rparr> \<in> set (memberships db) \<and> Delete \<in> verbs_of db (k_id key) g) \<and>
    r_is_deleted r' \<and> (r_is_deleted r \<longrightarrow> r' = r) \<and> r_id r' = i \<and> r_target_address r' = r_target_address r \<and>
    r_cause r' = r_cause r \<and> r_created_at r' = r_created_at r \<and>
    set (ip_records db') = insert r' (set (ip_records db) - {r}) \<and> memberships db' = memberships db"
proof -
  have "hard \<noteq> Some True" using hard_delete_needs_master assms(2,3) by blast
  from soft_delete_effect [OF assms(3) this] obtain r where r: "find_record i db = Some r"
    "caller_may_delete_record db key i" "\<not> r_is_locked r" "memberships db' = memberships db"
    "ip_records db' = (if r_is_deleted r then ip_records db
      else row_update r_id (soft_deleted (e_now env) (l_uuid_str l (k_id key)) r) (ip_records db))" by blast
  note row = find_record_SomeD [OF r(1)]
  define r' where "r' = (if r_is_deleted r then r else soft_deleted (e_now env) (l_uuid_str l (k_id key)) r)"
  have others: "{x \<in> set (ip_records db). r_id x \<noteq> r_id r} = set (ip_records db) - {r}"
    using record_unique [OF assms(1)] row by blast
  have "set (ip_records db') = insert r' (set (ip_records db) - {r})"
    using r(5) row others by (auto simp: r'_def set_row_update soft_deleted_def)
  then show ?thesis
    using row r(3,4) caller_may_delete_recordD [OF assms(1) r(2) assms(2)]
    by (intro exI [of _ r] exI [of _ r']) (auto simp: r'_def soft_deleted_def)
qed

definition sample_record :: ip_record where
  "sample_record = new_record 7 ''8.8.8.8'' None 0"

text \<open>The sample installation with one record, in a group where the stranger may delete.\<close>

definition removal_db :: db where
  "removal_db = demo_db\<lparr>ip_records := [sample_record], memberships := [\<lparr>m_ip_record_id = 7, m_group_id = 10\<rparr>],
     permissions := [sample_permission 20 2 10 True True, (sample_permission 21 4 10 False False)\<lparr>p_can_delete := True\<rparr>]\<rparr>"

lemmas removal_run = run removal_db_def sample_record_def

lemma removal_db_ok: "db_ok removal_db"
  by (simp add: db_ok_def refs_ok_def table_defs removal_db_def demo_db_def empty_db_def sample_defs sample_record_def new_record_def)

theorem non_master_deletes_softly_witness:
  "fst (delete_ip_record demo_lib demo_env stranger_key 7 None removal_db) =
     Inr \<lparr>dr_id = 7, dr_target_address = ''8.8.8.8'', dr_deleted = ''soft'', dr_already_deleted = Some False\<rparr> \<and>
   (\<exists>r'. r_is_deleted r' \<and> set (ip_records (snd (delete_ip_record demo_lib demo_env stranger_key 7 None removal_db))) = {r'})"
proof -
  have res: "fst (delete_ip_record demo_lib demo_env stranger_key 7 None removal_db) =
     Inr \<lparr>dr_id = 7, dr_target_address = ''8.8.8.8'', dr_deleted = ''soft'', dr_already_deleted = Some False\<rparr>"
    by (simp add: removal_run unwrap_or_def)
  then have "delete_ip_record demo_lib demo_env stranger_key 7 None removal_db =
     (Inr \<lparr>dr_id = 7, dr_target_address = ''8.8.8.8'', dr_deleted = ''soft'', dr_already_deleted = Some False\<rparr>,
      snd (delete_ip_record demo_lib demo_env stranger_key 7 None removal_db))" by (metis prod.collapse)
  from non_master_deletes_softly [OF removal_db_ok _ this] res show ?thesis
    by (auto simp: removal_db_def)
qed

subsection \<open>Restoration\<close>

text \<open>
  A restoration undoes a soft deletion: the row is what it was but for \<open>updated_at\<close>, and the
  memberships, which the deletion kept, still put it in the same groups. Only a master restores.
\<close>

theorem restore_undoes_soft_deletion:
  assumes "db_ok db" "r \<in> set (ip_records db)" "\<not> r_is_deleted r" "r_deleted_at r = None" "r_deleted_by r = None"
    "delete_ip_record l env key (r_id r) hard db = (Inr resp, db1)" "hard \<noteq> Some True"
    "restore_ip_record env' key' (r_id r) db1 = (Inr x, db2)"
  shows "k_is_master key' \<and> x = (r_id r, r_target_address r) \<and> memberships db2 = memberships db \<and>
    ip_records db2 = row_update r_id (r\<lparr>r_updated_at := e_now env'\<rparr>) (ip_records db)"
proof -
  have found: "find_record (r_id r) db = Some r"
    unfolding find_record_def by (rule records.find_in [OF db_ok_tables(4) [OF assms(1)] assms(2)])
  let ?s = "soft_deleted (e_now env) (l_uuid_str l (k_id key)) r"
  from soft_delete_effect [OF assms(6,7)] found assms(3) have del: "memberships db1 = memberships db"
    "ip_records db1 = row_update r_id ?s (ip_records db)" by auto
  have "find_record (r_id r) db1 = Some ?s"
    using assms(2) by (simp add: find_record_def del(2) row_find_update soft_deleted_def)
  with restore_effect [OF assms(8)] del have res: "k_is_master key'" "x = (r_id r, r_target_address r)"
    "memberships db2 = memberships db"
    "ip_records db2 = row_update r_id (restored_record (e_now env') ?s) (row_update r_id ?s (ip_records db))"
    by (auto simp: soft_deleted_def)
  moreover have "restored_record (e_now env') ?s = r\<lparr>r_updated_at := e_now env'\<rparr>"
    using assms(3-5) by (simp add: restored_record_def soft_deleted_def)
  moreover have "row_update r_id (r\<lparr>r_updated_at := e_now env'\<rparr>) (row_update r_id ?s (ip_records db)) =
      row_update r_id (r\<lparr>r_updated_at := e_now env'\<rparr>) (ip_records db)"
    by (simp add: row_update_def soft_deleted_def)
  ultimately show ?thesis by simp
qed

definition trashed_db :: db where
  "trashed_db = snd (delete_ip_record demo_lib demo_env stranger_key 7 None removal_db)"

theorem restore_undoes_soft_deletion_witness:
  "ip_records (snd (restore_ip_record (demo_env\<lparr>e_uuid := \<lambda>n. 2000\<rparr>) root_key 7 trashed_db)) =
     [sample_record\<lparr>r_updated_at := e_now demo_env\<rparr>]"
proof -
  have del: "delete_ip_record demo_lib demo_env stranger_key (r_id sample_record) None removal_db =
    (Inr \<lparr>dr_id = 7, dr_target_address = ''8.8.8.8'', dr_deleted = ''soft'', dr_already_deleted = Some False\<rparr>, trashed_db)"
    by (simp add: removal_run unwrap_or_def trashed_db_def)
  have res: "restore_ip_record (demo_env\<lparr>e_uuid := \<lambda>n. 2000\<rparr>) root_key (r_id sample_record) trashed_db =
    (Inr (7, ''8.8.8.8''), snd (restore_ip_record (demo_env\<lparr>e_uuid := \<lambda>n. 2000\<rparr>) root_key 7 trashed_db))"
    by (simp add: removal_run unwrap_or_def trashed_db_def)
  from restore_undoes_soft_deletion [OF removal_db_ok _ _ _ _ del _ res] show ?thesis
    by (simp add: removal_run)
qed

subsection \<open>Purge\<close>

lemma purge_expired_keeps_live:
  assumes "db_ok db" "purge_expired_ip_records l now days db = Some (n, db1)"
  shows "\<forall>r\<in>set (ip_records db). \<not> r_is_deleted r \<longrightarrow> r \<in> set (ip_records db1) \<and>
      (\<forall>m\<in>set (memberships db). m_ip_record_id m = r_id r \<longrightarrow> m \<in> set (memberships db1))"
proof (intro ballI impI)
  fix r assume r: "r \<in> set (ip_records db)" "\<not> r_is_deleted r"
  show "r \<in> set (ip_records db1) \<and> (\<forall>m\<in>set (memberships db). m_ip_record_id m = r_id r \<longrightarrow> m \<in> set (memberships db1))"
  proof (cases "days \<le> 0")
    case True
    then show ?thesis using purge_expired_ip_records_SomeD [OF assms(2)] r(1) by auto
  next
    case False
    then obtain t where db1: "db1 = delete_records (expired_record t) db"
      using purge_expired_ip_records_SomeD [OF assms(2)] by auto
    have "\<not> expired_record t r" using r(2) by (simp add: expired_record_def)
    moreover have "x = r" if "x \<in> set (ip_records db)" "r_id x = r_id r" for x
      using record_unique [OF assms(1) that(1) r(1) that(2)] .
    ultimately show ?thesis unfolding db1 delete_records_def Let_def using r(1) by auto
  qed
qed

lemma purge_expired_exact:
  assumes "purge_expired_ip_records l now days db = Some (n, db1)"
  shows "n = length (ip_records db) - length (ip_records db1) \<and>
      (if days \<le> 0 then ip_records db1 = ip_records db
       else \<exists>threshold. l_minus_days l now days = Some threshold \<and>
         ip_records db1 = filter (\<lambda>r. \<not> (r_is_deleted r \<and> (\<exists>t. r_deleted_at r = Some t \<and> t < threshold))) (ip_records db))"
proof (cases "days \<le> 0")
  case True
  then show ?thesis using purge_expired_ip_records_SomeD [OF assms] by auto
next
  case False
  then obtain t where t: "l_minus_days l now days = Some t"
    "ip_records db1 = filter (\<lambda>r. \<not> expired_record t r) (ip_records db)"
    "n = length (filter (expired_record t) (ip_records db))"
    using purge_expired_ip_records_SomeD [OF assms] by auto
  have "expired_record t = (\<lambda>r. r_is_deleted r \<and> (\<exists>d. r_deleted_at r = Some d \<and> d < t))"
    by (rule ext) (auto simp: expired_record_def split: option.splits)
  with False t sum_length_filter_compl [of "expired_record t" "ip_records db"] show ?thesis by simp
qed

text \<open>
  The manual purge is a master's, and removes exactly the rows that are soft-deleted with a
  deletion time before the threshold the requested days give: it reports their number, and a live
  row stays with its memberships whatever the request says.
\<close>

theorem purge_removes_only_expired:
  assumes "db_ok db" "purge_ip_records l env key older var db = Some (res, db')"
  shows "(\<not> k_is_master key \<longrightarrow> res = Inl (Forbidden msg_master_purge) \<and> db' = db) \<and>
    (\<forall>n days. res = Inr (n, days) \<longrightarrow> n = length (ip_records db) - length (ip_records db') \<and>
      (if days \<le> 0 then ip_records db' = ip_records db
       else \<exists>threshold. l_minus_days l (e_now env) days = Some threshold \<and>
         ip_records db' = filter (\<lambda>r. \<not> (r_is_deleted r \<and> (\<exists>t. r_deleted_at r = Some t \<and> t < threshold))) (ip_records db))) \<and>
    (\<forall>r\<in>set (ip_records db). \<not> r_is_deleted r \<longrightarrow> r \<in> set (ip_records db') \<and>
      (\<forall>m\<in>set (memberships db). m_ip_record_id m = r_id r \<longrightarrow> m \<in> set (memberships db')))"
proof (cases "k_is_master key")
  case False
  then show ?thesis using assms(2) by (auto simp: purge_ip_records_def)
next
  case True
  show ?thesis
  proof (cases "purge_days older var")
    case (Inl e)
    then show ?thesis using True assms(2) by (auto simp: purge_ip_records_def)
  next
    case (Inr days)
    with True assms(2) obtain n db1 where step: "purge_expired_ip_records l (e_now env) days db = Some (n, db1)"
      and audit: "attempt (create_audit_log env (e_uuid env 0) key ''IP_PURGE'' None None
         (Some (''Purged '' @ dec n @ '' record(s) soft-deleted over '' @ dec_int days @ '' days ago'')) db1) db1 (\<lambda>db2.
                       (Inr (n, days), db2)) = (res, db')"
      by (auto simp: purge_ip_records_def split: option.splits)
    have frame: "ip_records db' = ip_records db1" "memberships db' = memberships db1" "\<And>k d. res = Inr (k, d) \<Longrightarrow> k = n \<and> d = days"
      using audit by (auto simp: attempt_def split: sum.splits dest!: create_audit_log_frame)
    have live: "\<forall>r\<in>set (ip_records db). \<not> r_is_deleted r \<longrightarrow> r \<in> set (ip_records db') \<and>
      (\<forall>m\<in>set (memberships db). m_ip_record_id m = r_id r \<longrightarrow> m \<in> set (memberships db'))"
      using purge_expired_keeps_live [OF assms(1) step] frame(1,2) by simp
    have exact: "n = length (ip_records db) - length (ip_records db') \<and>
      (if days \<le> 0 then ip_records db' = ip_records db
       else \<exists>threshold. l_minus_days l (e_now env) days = Some threshold \<and>
         ip_records db' = filter (\<lambda>r. \<not> (r_is_deleted r \<and> (\<exists>t. r_deleted_at r = Some t \<and> t < threshold))) (ip_records db))"
      using purge_expired_exact [OF step] unfolding frame(1) .
    show ?thesis using True live exact frame(3) by blast
  qed
qed

definition expired_db :: db where
  "expired_db = removal_db\<lparr>ip_records := [sample_record\<lparr>r_is_deleted := True, r_deleted_at := Some 0\<rparr>]\<rparr>"

lemma expired_db_ok: "db_ok expired_db"
  by (simp add: db_ok_def refs_ok_def table_defs expired_db_def removal_db_def demo_db_def empty_db_def sample_defs
      sample_record_def new_record_def)

theorem purge_removes_only_expired_witness:
  "\<exists>res db'. purge_ip_records demo_lib demo_env root_key (Some 1) None expired_db = Some (res, db') \<and>
     res = Inr (1, 1) \<and> ip_records db' = []"
proof -
  obtain res db' where run: "purge_ip_records demo_lib demo_env root_key (Some 1) None expired_db = Some (res, db')"
    and res: "res = Inr (1, 1)"
    by (simp add: removal_run expired_db_def purge_expired_ip_records_def expired_record_def demo_lib_def)
  have "length (ip_records db') = 0"
    using purge_removes_only_expired [OF expired_db_ok run] res
    by (auto simp: expired_db_def sample_record_def demo_lib_def demo_env_def)
  with run res show ?thesis by auto
qed

text \<open>
  However many sweeps the retention worker makes and whatever its clock reads, a record that is
  not deleted stays and the schema's constraints hold; a retention of zero days disables it.
\<close>

theorem retention_worker_spares_live:
  assumes "db_ok db" "run_retention_worker l var ticks db = Some db'"
  shows "db_ok db' \<and> (\<forall>r\<in>set (ip_records db). \<not> r_is_deleted r \<longrightarrow> r \<in> set (ip_records db')) \<and>
    (retention_days_from_env var \<le> 0 \<longrightarrow> db' = db)"
  using assms sweep_records_ok sweep_records_keeps_live
  by (auto simp: run_retention_worker_def Let_def split: if_splits)

theorem retention_worker_spares_live_witness:
  "run_retention_worker demo_lib (Some ''0'') [1, 2] removal_db = Some removal_db \<and> db_ok removal_db"
proof -
  have off: "retention_days_from_env (Some ''0'') = 0" by code_simp
  have run: "run_retention_worker demo_lib (Some ''0'') [1, 2] removal_db = Some removal_db"
    by (simp add: run_retention_worker_def off)
  then show ?thesis using retention_worker_spares_live [OF removal_db_ok run] by simp
qed

end
