(* ===== verification/Master_Pin.thy ===== *)
theory Master_Pin
  imports Database_Laws
begin

text \<open>
  The master identity fixed at boot (\<open>src/master.rs\<close>). The pin is a write-once cell, \<open>None\<close> until
  it is set; every operation returns the cell it leaves. Whether the uniqueness index is there is
  read from the engine's catalogue, so it is an argument, with the error that reading it may give.
\<close>

datatype master_pin_error =
    NoMaster
  | MultipleMasters "uuid list"
  | MissingUniquenessIndex
  | PinQuery db_err

type_synonym pin = "uuid option"

definition new_pin :: pin where "new_pin = None"

definition pinned_to :: "uuid \<Rightarrow> pin" where "pinned_to i = Some i"

definition sole_master :: "db \<Rightarrow> master_pin_error + uuid" where
  "sole_master db =
     (case map k_id (filter k_is_master (api_keys db)) of
        [only] \<Rightarrow> Inr only
      | [] \<Rightarrow> Inl NoMaster
      | many \<Rightarrow> Inl (MultipleMasters many))"

definition pin_at_boot :: "db_err + bool \<Rightarrow> db \<Rightarrow> pin \<Rightarrow> (master_pin_error + uuid) \<times> pin" where
  "pin_at_boot has_index db cell =
     (case cell of
        Some pinned \<Rightarrow> (Inr pinned, cell)
      | None \<Rightarrow>
          (case sole_master db of
             Inl e \<Rightarrow> (Inl e, cell)
           | Inr pinned \<Rightarrow>
               (case has_index of
                  Inl e \<Rightarrow> (Inl (PinQuery e), cell)
                | Inr False \<Rightarrow> (Inl MissingUniquenessIndex, cell)
                | Inr True \<Rightarrow> (Inr pinned, Some pinned))))"

definition resolve_pin :: "db_err + bool \<Rightarrow> db \<Rightarrow> pin \<Rightarrow> uuid option \<times> pin" where
  "resolve_pin has_index db cell =
     (case pin_at_boot has_index db cell of
        (Inr i, cell1) \<Rightarrow> (Some i, cell1)
      | (Inl e, cell1) \<Rightarrow> (None, cell1))"

definition authenticate_pin :: "db_err + bool \<Rightarrow> db \<Rightarrow> pin \<Rightarrow> api_key \<Rightarrow> api_key \<times> pin" where
  "authenticate_pin has_index db cell key =
     (if \<not> k_is_master key then (key, cell)
      else (case resolve_pin has_index db cell of
              (Some pinned, cell1) \<Rightarrow>
                (if pinned = k_id key then (key, cell1) else (key\<lparr>k_is_master := False\<rparr>, cell1))
            | (None, cell1) \<Rightarrow> (key\<lparr>k_is_master := False\<rparr>, cell1)))"

lemmas pin_run [run] = sole_master_def pin_at_boot_def resolve_pin_def authenticate_pin_def

lemma pin_set_kept [simp]:
  "pin_at_boot ix db (Some i) = (Inr i, Some i)"
  "resolve_pin ix db (Some i) = (Some i, Some i)"
  "snd (authenticate_pin ix db (Some i) key) = Some i"
  by (simp_all add: pin_run)

lemma sole_master_Inr:
  "sole_master db = Inr i \<Longrightarrow> \<exists>k. filter k_is_master (api_keys db) = [k] \<and> k_id k = i"
  by (auto simp: sole_master_def split: list.splits)

lemma pin_at_boot_cases:
  assumes "pin_at_boot ix db None = (r, cell)"
  shows "(\<exists>i. r = Inr i \<and> cell = Some i \<and> sole_master db = Inr i \<and> ix = Inr True) \<or> (\<exists>e. r = Inl e \<and> cell = None)"
proof (cases "sole_master db")
  case (Inl e)
  with assms have "r = Inl e" "cell = None" by (auto simp: pin_at_boot_def)
  then show ?thesis by blast
next
  case (Inr i)
  then show ?thesis using assms by (auto simp: pin_at_boot_def split: sum.splits bool.splits)
qed

lemma resolve_pin_cell: "resolve_pin ix db cell = (r, cell1) \<Longrightarrow> r = cell1"
  by (cases cell) (auto simp: resolve_pin_def split: prod.splits sum.splits dest!: pin_at_boot_cases)

text \<open>After authentication a key is a master exactly when it claims to be one and is the pinned one.\<close>

lemma authenticate_pin_key:
  assumes "authenticate_pin ix db cell key = (key', cell')"
  shows "key' = key\<lparr>k_is_master := (k_is_master key \<and> cell' = Some (k_id key))\<rparr>"
proof (cases "k_is_master key")
  case True
  then show ?thesis
    using assms by (cases key) (auto simp: authenticate_pin_def split: prod.splits option.splits if_splits dest!: resolve_pin_cell)
qed (use assms in \<open>cases key; auto simp: authenticate_pin_def\<close>)

lemma authenticate_pin_cell:
  "authenticate_pin ix db cell key = (key', cell') \<Longrightarrow> cell = Some i \<Longrightarrow> cell' = Some i"
  using pin_set_kept(3) [of ix db i key] by simp

end
