(* ===== verification/Proxies.thy ===== *)
theory Proxies
  imports Crypto
begin

text \<open>
  The trusted proxies and the client address (\<open>src/config.rs\<close>): the parsing of \<open>TRUSTED_PROXIES\<close>, the
  cache of resolved hostnames with its two lifetimes, and the choice of the client address from
  the peer and the two forwarding headers. Name resolution is an argument; instants are
  nanoseconds of the monotonic clock.
\<close>

subsection \<open>The specification\<close>

datatype proxy_matcher = Network ip_network | Hostname string

record invalid_proxy_entry =
  ipe_entry :: string
  ipe_reason :: string

definition reason_empty :: string where "reason_empty = ''empty''"
definition reason_long :: string where "reason_long = ''longer than the 253-character limit on a DNS name''"
definition reason_syntax :: string where
  "reason_syntax = ''contains '' @ quote ''/'' @ '' or '' @ quote '':'' @ '', which appear only in CIDR and IPv6 syntax, so this is a malformed address rather than a hostname''"
definition reason_edges :: string where "reason_edges = ''a hostname must begin and end with a letter or a digit''"
definition reason_digits :: string where
  "reason_digits = ''made only of digits and dots, so this is a malformed IPv4 literal''"
definition reason_chars :: string where "reason_chars = ''contains characters that cannot appear in a DNS name''"

definition hostname_rejection :: "string \<Rightarrow> string option" where
  "hostname_rejection entry =
     (if entry = [] then Some reason_empty
      else if length entry > 253 then Some reason_long
      else if CHR ''/'' \<in> set entry \<or> CHR '':'' \<in> set entry then Some reason_syntax
      else if \<not> (is_ascii_alphanumeric (hd entry) \<and> is_ascii_alphanumeric (last entry)) then Some reason_edges
      else if list_all (\<lambda>c. is_ascii_digit c \<or> c = CHR ''.'') entry then Some reason_digits
      else if \<not> list_all (\<lambda>c. is_ascii_alphanumeric c \<or> c = CHR ''-'' \<or> c = CHR ''.'' \<or> c = CHR ''_'') entry
      then Some reason_chars
      else None)"

definition proxy_entries :: "string \<Rightarrow> string list" where
  "proxy_entries raw = filter (\<lambda>e. e \<noteq> []) (map trim (split_on (CHR '','') raw))"

definition parse_entry :: "lib \<Rightarrow> string \<Rightarrow> invalid_proxy_entry + proxy_matcher" where
  "parse_entry l entry =
     (case l_net_parse l entry of
        Some net \<Rightarrow> Inr (Network net)
      | None \<Rightarrow>
          (case l_ip_parse l entry of
             Some addr \<Rightarrow> Inr (Network (l_net_of_ip l addr))
           | None \<Rightarrow>
               (case hostname_rejection entry of
                  None \<Rightarrow> Inr (Hostname entry)
                | Some reason \<Rightarrow> Inl \<lparr>ipe_entry = entry, ipe_reason = reason\<rparr>)))"

fun split_results :: "('e + 'a) list \<Rightarrow> 'a list \<times> 'e list" where
  "split_results [] = ([], [])"
| "split_results (Inr x # rs) = (let (good, bad) = split_results rs in (x # good, bad))"
| "split_results (Inl e # rs) = (let (good, bad) = split_results rs in (good, e # bad))"

definition parse_trusted_proxies :: "lib \<Rightarrow> string \<Rightarrow> invalid_proxy_entry list + proxy_matcher list" where
  "parse_trusted_proxies l raw =
     (let (matchers, invalid) = split_results (map (parse_entry l) (proxy_entries raw)) in
      if invalid = [] then Inr matchers else Inl invalid)"

record trusted_proxies =
  tp_matchers :: "proxy_matcher list"
  tp_networks :: "ip_network list"
  tp_hostnames :: "string list"
  tp_positive_ttl :: nat
  tp_negative_ttl :: nat

definition POSITIVE_TTL :: nat where "POSITIVE_TTL = 30 * 1000000000"
definition NEGATIVE_TTL :: nat where "NEGATIVE_TTL = 5 * 1000000000"

definition new_proxies :: "proxy_matcher list \<Rightarrow> trusted_proxies" where
  "new_proxies matchers =
     \<lparr>tp_matchers = matchers,
      tp_networks = List.map_filter (\<lambda>m. case m of Network net \<Rightarrow> Some net | Hostname _ \<Rightarrow> None) matchers,
      tp_hostnames = List.map_filter (\<lambda>m. case m of Hostname name \<Rightarrow> Some name | Network _ \<Rightarrow> None) matchers,
      tp_positive_ttl = POSITIVE_TTL, tp_negative_ttl = NEGATIVE_TTL\<rparr>"

text \<open>An unset variable is the default value: nothing is trusted.\<close>
definition proxies_from_env :: "lib \<Rightarrow> string option \<Rightarrow> invalid_proxy_entry list + trusted_proxies" where
  "proxies_from_env l var =
     (case var of
        None \<Rightarrow> Inr \<lparr>tp_matchers = [], tp_networks = [], tp_hostnames = [], tp_positive_ttl = 0, tp_negative_ttl = 0\<rparr>
      | Some raw \<Rightarrow> (case parse_trusted_proxies l raw of Inr matchers \<Rightarrow> Inr (new_proxies matchers) | Inl entries \<Rightarrow> Inl entries))"

subsection \<open>The cache of resolved names\<close>

record hostname_state =
  hs_addresses :: "ip_network list"
  hs_attempted_at :: nat
  hs_resolved :: bool

definition is_fresh :: "trusted_proxies \<Rightarrow> nat \<Rightarrow> hostname_state \<Rightarrow> bool" where
  "is_fresh tp now s = (now - hs_attempted_at s < (if hs_resolved s then tp_positive_ttl tp else tp_negative_ttl tp))"

record resolution_cache =
  rc_snapshot :: "ip_network list"
  rc_hosts :: "string \<rightharpoonup> hostname_state"
  rc_built :: bool

definition empty_cache :: resolution_cache where
  "empty_cache = \<lparr>rc_snapshot = [], rc_hosts = (\<lambda>_. None), rc_built = False\<rparr>"

text \<open>
  One refresh: for each name the clock when its freshness is looked at, what the resolver answers
  (nothing on a failure) and the clock when it has answered.
\<close>

record lookups =
  lk_now :: "string \<Rightarrow> nat"
  lk_answer :: "string \<Rightarrow> ip_addr list"
  lk_done :: "string \<Rightarrow> nat"

definition normalize_ip :: "ip_addr \<Rightarrow> ip_addr" where
  "normalize_ip ip =
     (case ip of
        V6 v6 \<Rightarrow> (case to_ipv4_mapped v6 of Some v4 \<Rightarrow> V4 v4 | None \<Rightarrow> V6 v6)
      | V4 v4 \<Rightarrow> V4 v4)"

definition resolve_hostname :: "lib \<Rightarrow> lookups \<Rightarrow> string \<Rightarrow> ip_network list" where
  "resolve_hostname l lk name = map (\<lambda>a. l_net_of_ip l (normalize_ip a)) (lk_answer lk name)"

definition fresh_in :: "trusted_proxies \<Rightarrow> nat \<Rightarrow> (string \<rightharpoonup> hostname_state) \<Rightarrow> string \<Rightarrow> bool" where
  "fresh_in tp now hosts name = (case hosts name of Some s \<Rightarrow> is_fresh tp now s | None \<Rightarrow> False)"

definition refresh_host :: "lib \<Rightarrow> trusted_proxies \<Rightarrow> lookups \<Rightarrow> string \<Rightarrow> (string \<rightharpoonup> hostname_state) \<Rightarrow> (string \<rightharpoonup> hostname_state)" where
  "refresh_host l tp lk name hosts =
     (if fresh_in tp (lk_now lk name) hosts name then hosts
      else (let addresses = resolve_hostname l lk name in
        hosts(name \<mapsto> \<lparr>hs_addresses = addresses, hs_attempted_at = lk_done lk name, hs_resolved = (addresses \<noteq> [])\<rparr>)))"

definition refresh_locked :: "lib \<Rightarrow> trusted_proxies \<Rightarrow> lookups \<Rightarrow> resolution_cache \<Rightarrow> resolution_cache" where
  "refresh_locked l tp lk cache =
     (let hosts = fold (refresh_host l tp lk) (tp_hostnames tp) (rc_hosts cache);
          merged = tp_networks tp @ concat (map (\<lambda>name. case hosts name of Some s \<Rightarrow> hs_addresses s | None \<Rightarrow> []) (tp_hostnames tp))
      in \<lparr>rc_snapshot = merged, rc_hosts = hosts, rc_built = True\<rparr>)"

text \<open>\<open>now\<close> is the clock of the check under the read lock.\<close>
definition resolved :: "lib \<Rightarrow> trusted_proxies \<Rightarrow> nat \<Rightarrow> lookups \<Rightarrow> resolution_cache \<Rightarrow> ip_network list \<times> resolution_cache" where
  "resolved l tp now lk cache =
     (if tp_hostnames tp = [] then (tp_networks tp, cache)
      else if rc_built cache \<and> list_all (fresh_in tp now (rc_hosts cache)) (tp_hostnames tp)
      then (rc_snapshot cache, cache)
      else (let cache1 = refresh_locked l tp lk cache in (rc_snapshot cache1, cache1)))"

definition prime :: "lib \<Rightarrow> trusted_proxies \<Rightarrow> lookups \<Rightarrow> resolution_cache \<Rightarrow> string list \<times> resolution_cache" where
  "prime l tp lk cache =
     (if tp_hostnames tp = [] then ([], cache)
      else (let cache1 = refresh_locked l tp lk (cache\<lparr>rc_hosts := (\<lambda>_. None)\<rparr>) in
        (filter (\<lambda>name. \<not> (case rc_hosts cache1 name of Some s \<Rightarrow> hs_resolved s | None \<Rightarrow> False)) (tp_hostnames tp), cache1)))"

text \<open>The detached task of the boot: a second attempt, at later lookups, only if the first left a name unresolved.\<close>
definition prime_with_grace :: "lib \<Rightarrow> trusted_proxies \<Rightarrow> lookups \<Rightarrow> lookups \<Rightarrow> resolution_cache \<Rightarrow> string list \<times> resolution_cache" where
  "prime_with_grace l tp lk1 lk2 cache =
     (case prime l tp lk1 cache of
        ([], cache1) \<Rightarrow> ([], cache1)
      | (_ # _, cache1) \<Rightarrow> prime l tp lk2 cache1)"

subsection \<open>The client address\<close>

definition is_trusted :: "lib \<Rightarrow> ip_addr \<Rightarrow> ip_network list \<Rightarrow> bool" where
  "is_trusted l ip trusted = list_ex (\<lambda>net. l_net_contains l net ip) trusted"

definition forwarded_client :: "lib \<Rightarrow> ip_network list \<Rightarrow> string \<Rightarrow> ip_addr option" where
  "forwarded_client l trusted forwarded =
     List.find (\<lambda>ip. \<not> is_trusted l ip trusted)
       (rev (map normalize_ip (List.map_filter (l_ip_parse l)
          (filter (\<lambda>s. s \<noteq> []) (map trim (split_on (CHR '','') forwarded))))))"

text \<open>The two headers are \<open>None\<close> when they are absent or not visible ASCII.\<close>
definition resolve_client_ip ::
  "lib \<Rightarrow> ip_addr \<Rightarrow> string option \<Rightarrow> string option \<Rightarrow> ip_network list \<Rightarrow> ip_addr" where
  "resolve_client_ip l raw_peer forwarded real_ip trusted =
     (let peer = normalize_ip raw_peer in
      if \<not> is_trusted l peer trusted then peer
      else (case (case forwarded of Some h \<Rightarrow> forwarded_client l trusted h | None \<Rightarrow> None) of
              Some client \<Rightarrow> client
            | None \<Rightarrow>
                (case (case real_ip of Some h \<Rightarrow> l_ip_parse l (trim h) | None \<Rightarrow> None) of
                   Some ip \<Rightarrow> normalize_ip ip
                 | None \<Rightarrow> peer)))"

lemmas proxies_run [run] = new_proxies_def is_trusted_def normalize_ip_def fresh_in_def is_fresh_def
  resolve_hostname_def refresh_host_def refresh_locked_def resolved_def

subsection \<open>Parsing\<close>

lemma split_results_set:
  "set (fst (split_results rs)) = {x. Inr x \<in> set rs}" "set (snd (split_results rs)) = {e. Inl e \<in> set rs}"
  by (induction rs rule: split_results.induct) (auto split: prod.splits)

lemma split_results_all_ok: "snd (split_results rs) = [] \<longleftrightarrow> (\<forall>r\<in>set rs. is_ok r)"
  by (induction rs rule: split_results.induct) (auto split: prod.splits)

lemma parse_entry_error:
  "parse_entry l e = Inl i \<longleftrightarrow>
     l_net_parse l e = None \<and> l_ip_parse l e = None \<and> ipe_entry i = e \<and> hostname_rejection e = Some (ipe_reason i)"
  by (cases i) (auto simp: parse_entry_def split: option.splits)

lemma parse_trusted_proxies_Inl:
  "parse_trusted_proxies l raw = Inl bad \<Longrightarrow>
     bad \<noteq> [] \<and> set bad = {i. \<exists>e\<in>set (proxy_entries raw). parse_entry l e = Inl i}"
  using split_results_set(2) [of "map (parse_entry l) (proxy_entries raw)"]
  by (auto simp: parse_trusted_proxies_def image_iff split: prod.splits if_splits) metis+

lemma parse_trusted_proxies_Inr:
  assumes "parse_trusted_proxies l raw = Inr ms"
  shows "(\<forall>e\<in>set (proxy_entries raw). \<exists>m. parse_entry l e = Inr m) \<and>
     set ms = {m. \<exists>e\<in>set (proxy_entries raw). parse_entry l e = Inr m}"
proof -
  let ?rs = "map (parse_entry l) (proxy_entries raw)"
  from assms have ok: "snd (split_results ?rs) = []" and ms: "ms = fst (split_results ?rs)"
    by (auto simp: parse_trusted_proxies_def split: prod.splits if_splits)
  have "\<exists>m. parse_entry l e = Inr m" if "e \<in> set (proxy_entries raw)" for e
    using ok [unfolded split_results_all_ok] that by (cases "parse_entry l e") auto
  moreover have "set ms = {m. \<exists>e\<in>set (proxy_entries raw). parse_entry l e = Inr m}"
    using split_results_set(1) [of ?rs] ms by (auto simp: image_iff) metis+
  ultimately show ?thesis by blast
qed

subsection \<open>The cache\<close>

definition cache_ok :: "resolution_cache \<Rightarrow> bool" where
  "cache_ok cache \<longleftrightarrow> (\<forall>name s. rc_hosts cache name = Some s \<longrightarrow> hs_resolved s = (hs_addresses s \<noteq> []))"

lemma refresh_host_other: "name' \<noteq> name \<Longrightarrow> refresh_host l tp lk name hosts name' = hosts name'"
  by (simp add: refresh_host_def Let_def)

lemma fold_refresh_notin:
  "name \<notin> set names \<Longrightarrow> fold (refresh_host l tp lk) names hosts name = hosts name"
  by (induction names arbitrary: hosts) (simp_all add: refresh_host_other)

text \<open>A refresh asks for exactly the names whose last attempt has expired.\<close>

definition state_after :: "lib \<Rightarrow> trusted_proxies \<Rightarrow> lookups \<Rightarrow> (string \<rightharpoonup> hostname_state) \<Rightarrow> string \<Rightarrow> hostname_state" where
  "state_after l tp lk hosts name =
     (case hosts name of
        Some s \<Rightarrow> (if is_fresh tp (lk_now lk name) s then s
          else \<lparr>hs_addresses = resolve_hostname l lk name, hs_attempted_at = lk_done lk name,
            hs_resolved = (resolve_hostname l lk name \<noteq> [])\<rparr>)
      | None \<Rightarrow> \<lparr>hs_addresses = resolve_hostname l lk name, hs_attempted_at = lk_done lk name,
          hs_resolved = (resolve_hostname l lk name \<noteq> [])\<rparr>)"

lemma refresh_host_same: "refresh_host l tp lk name hosts name = Some (state_after l tp lk hosts name)"
  by (simp add: refresh_host_def state_after_def fresh_in_def Let_def split: option.splits)

lemma fold_refresh_in:
  assumes "distinct names" "name \<in> set names"
  shows "fold (refresh_host l tp lk) names hosts name = Some (state_after l tp lk hosts name)"
  using assms
proof (induction names arbitrary: hosts)
  case (Cons n names)
  show ?case
  proof (cases "name = n")
    case True
    then show ?thesis using Cons.prems by (simp add: fold_refresh_notin refresh_host_same)
  next
    case False
    have "state_after l tp lk (refresh_host l tp lk n hosts) name = state_after l tp lk hosts name"
      using False by (simp add: state_after_def refresh_host_other)
    with False Cons show ?thesis by simp
  qed
qed simp

lemma refresh_snapshot:
  assumes "distinct (tp_hostnames tp)"
  shows "rc_snapshot (refresh_locked l tp lk cache) =
    tp_networks tp @ concat (map (\<lambda>name. hs_addresses (state_after l tp lk (rc_hosts cache) name)) (tp_hostnames tp))"
  using fold_refresh_in [OF assms] by (simp add: refresh_locked_def Let_def cong: map_cong)

subsection \<open>The header chain\<close>

lemma split_on_append_last:
  "c \<notin> set h \<Longrightarrow> split_on c (p @ c # h) = split_on c p @ [h]"
proof (induction p)
  case Nil
  then have "split_on c h = [h]" by (induction h) (auto split: list.splits)
  then show ?case by simp
next
  case (Cons x p)
  then show ?case by (auto split: list.splits)
qed

lemma forwarded_client_last:
  assumes "CHR '','' \<notin> set hop" "trim hop \<noteq> []" "l_ip_parse l (trim hop) = Some a" "\<not> is_trusted l (normalize_ip a) trusted"
  shows "forwarded_client l trusted (prefix @ CHR '','' # hop) = Some (normalize_ip a)"
  using assms by (simp add: forwarded_client_def split_on_append_last map_filter_def)

lemma find_SomeD: "List.find P xs = Some x \<Longrightarrow> x \<in> set xs \<and> P x"
  by (auto simp: find_Some_iff)

lemma forwarded_client_SomeD:
  "forwarded_client l trusted h = Some ip \<Longrightarrow> \<not> is_trusted l ip trusted \<and>
     (\<exists>s a. s \<in> set (split_on (CHR '','') h) \<and> l_ip_parse l (trim s) = Some a \<and> ip = normalize_ip a)"
  by (auto simp: forwarded_client_def map_filter_def dest!: find_SomeD) blast

end
