(* ===== verification/Replay.thy ===== *)
theory Replay
  imports Crypto
begin

text \<open>
  The replay guard (\<open>src/replay.rs\<close>): the accepted signatures with the instant each is forgotten,
  and the two sweep deadlines. Instants are nanoseconds of the monotonic clock; the two mutexes
  appear as the flags that say whether a panic has poisoned them. The interface \<open>once_only\<close> states
  what the middleware relies on: an id accepted once is refused until it expires.
\<close>

type_synonym instant = nat

definition nanos_per_sec :: nat where "nanos_per_sec = 1000000000"

definition PRUNE_INTERVAL_DIVISOR :: nat where "PRUNE_INTERVAL_DIVISOR = 4"
definition CAPACITY_BACKOFF_DIVISOR :: nat where "CAPACITY_BACKOFF_DIVISOR = 16"
definition MAX_TRACKED_SIGNATURES :: nat where "MAX_TRACKED_SIGNATURES = 100000"

record signature_id =
  sid_key_id :: uuid
  sid_digest :: string

record prune_schedule =
  ps_next :: instant
  ps_next_capacity :: instant

text \<open>The map is the list of its entries, one per id (\<open>guard_ok\<close>).\<close>
record replay_guard =
  rg_seen :: "(signature_id \<times> instant) list"
  rg_schedule :: prune_schedule
  rg_window :: nat
  rg_prune_interval :: nat
  rg_capacity_backoff :: nat
  rg_seen_poisoned :: bool
  rg_schedule_poisoned :: bool

definition clamp :: "int \<Rightarrow> int \<Rightarrow> int \<Rightarrow> int" where
  "clamp lo hi x = (if x < lo then lo else if hi < x then hi else x)"

definition new_guard :: "int \<Rightarrow> instant \<Rightarrow> replay_guard" where
  "new_guard window_seconds now =
     (let window = nat (clamp 1 3600 window_seconds) * nanos_per_sec;
          prune_interval = window div PRUNE_INTERVAL_DIVISOR;
          capacity_backoff = window div CAPACITY_BACKOFF_DIVISOR
      in \<lparr>rg_seen = [], rg_schedule = \<lparr>ps_next = now + prune_interval, ps_next_capacity = now\<rparr>,
          rg_window = window, rg_prune_interval = prune_interval, rg_capacity_backoff = capacity_backoff,
          rg_seen_poisoned = False, rg_schedule_poisoned = False\<rparr>)"

definition default_guard :: "instant \<Rightarrow> replay_guard" where
  "default_guard now = new_guard MAX_TIMESTAMP_SKEW_SECS now"

definition retain_live :: "instant \<Rightarrow> replay_guard \<Rightarrow> replay_guard" where
  "retain_live now g =
     (if rg_seen_poisoned g then g else g\<lparr>rg_seen := filter (\<lambda>(_, expires_at). expires_at > now) (rg_seen g)\<rparr>)"

definition prune_if_due :: "instant \<Rightarrow> replay_guard \<Rightarrow> replay_guard" where
  "prune_if_due now g =
     (let over_capacity = (\<not> rg_seen_poisoned g \<and> length (rg_seen g) \<ge> MAX_TRACKED_SIGNATURES) in
      if rg_schedule_poisoned g then g
      else (let routine_due = (now \<ge> ps_next (rg_schedule g));
                capacity_due = (over_capacity \<and> now \<ge> ps_next_capacity (rg_schedule g)) in
            if \<not> routine_due \<and> \<not> capacity_due then g
            else (let schedule1 = (rg_schedule g)\<lparr>ps_next := now + rg_prune_interval g\<rparr>;
                      schedule2 = (if capacity_due then schedule1\<lparr>ps_next_capacity := now + rg_capacity_backoff g\<rparr> else schedule1)
                  in retain_live now (g\<lparr>rg_schedule := schedule2\<rparr>))))"

definition seen_insert :: "signature_id \<Rightarrow> instant \<Rightarrow> (signature_id \<times> instant) list \<Rightarrow> (signature_id \<times> instant) list" where
  "seen_insert i t seen = (i, t) # filter (\<lambda>(j, _). j \<noteq> i) seen"

definition check_and_record :: "uuid \<Rightarrow> string \<Rightarrow> instant \<Rightarrow> replay_guard \<Rightarrow> bool \<times> replay_guard" where
  "check_and_record key_id digest now g0 =
     (let g = prune_if_due now g0 in
      if rg_seen_poisoned g then (False, g)
      else (let i = \<lparr>sid_key_id = key_id, sid_digest = digest\<rparr> in
            if (case map_of (rg_seen g) i of Some expires_at \<Rightarrow> expires_at > now | None \<Rightarrow> False) then (False, g)
            else (True, g\<lparr>rg_seen := seen_insert i (now + rg_window g) (rg_seen g)\<rparr>)))"

lemmas replay_run [run] = prune_if_due_def retain_live_def check_and_record_def seen_insert_def
  new_guard_def default_guard_def clamp_def nanos_per_sec_def PRUNE_INTERVAL_DIVISOR_def
  CAPACITY_BACKOFF_DIVISOR_def MAX_TRACKED_SIGNATURES_def

subsection \<open>The contract of a single-use register\<close>

text \<open>A sequence of uses: the answers and the final register.\<close>

primrec uses_of :: "('i \<Rightarrow> nat \<Rightarrow> 'g \<Rightarrow> bool \<times> 'g) \<Rightarrow> ('i \<times> nat) list \<Rightarrow> 'g \<Rightarrow> bool list \<times> 'g" where
  "uses_of use [] g = ([], g)"
| "uses_of use (x # xs) g =
     (let (a, g1) = use (fst x) (snd x) g; (rest, g2) = uses_of use xs g1 in (a # rest, g2))"

lemma uses_of_length: "length (fst (uses_of use xs g)) = length xs"
  by (induction xs arbitrary: g) (auto split: prod.splits, metis fst_conv)

text \<open>
  \<open>remembered i t g\<close>: the register would refuse \<open>i\<close> at time \<open>t\<close>. An accepted id is remembered for
  the window, and a use of any id, accepted or not, forgets nothing that is still remembered.
\<close>

locale once_only =
  fixes use :: "'i \<Rightarrow> nat \<Rightarrow> 'g \<Rightarrow> bool \<times> 'g"
    and remembered :: "'i \<Rightarrow> nat \<Rightarrow> 'g \<Rightarrow> bool"
    and window :: "'g \<Rightarrow> nat"
    and ok :: "'g \<Rightarrow> bool"
  assumes use_ok: "ok g \<Longrightarrow> ok (snd (use i t g))"
    and use_window: "window (snd (use i t g)) = window g"
    and accepts_iff: "ok g \<Longrightarrow> fst (use i t g) \<longleftrightarrow> \<not> remembered i t g"
    and accepted_remembered: "ok g \<Longrightarrow> fst (use i t g) \<Longrightarrow> u < t + window g \<Longrightarrow> remembered i u (snd (use i t g))"
    and use_keeps: "ok g \<Longrightarrow> t \<le> u \<Longrightarrow> remembered j u g \<Longrightarrow> remembered j u (snd (use i t g))"
begin

lemma remembered_refused:
  assumes "ok g" "n < length xs" "fst (xs ! n) = i" "remembered i (snd (xs ! n)) g"
    "\<forall>x\<in>set (take n xs). snd x \<le> snd (xs ! n)"
  shows "\<not> fst (uses_of use xs g) ! n"
  using assms
proof (induction xs arbitrary: g n)
  case (Cons x xs)
  obtain a g1 where step: "use (fst x) (snd x) g = (a, g1)" by (cases "use (fst x) (snd x) g")
  show ?case
  proof (cases n)
    case 0
    then show ?thesis using Cons.prems(1,3,4) accepts_iff [OF Cons.prems(1), of "fst x" "snd x"] step
      by (auto simp: Let_def split: prod.splits)
  next
    case (Suc m)
    have "ok g1" using use_ok [OF Cons.prems(1), of "fst x" "snd x"] step by simp
    moreover have "remembered i (snd (xs ! m)) g1"
      using use_keeps [OF Cons.prems(1), of "snd x" "snd (xs ! m)" i "fst x"] Cons.prems(4,5) step Suc by simp
    ultimately have "\<not> fst (uses_of use xs g1) ! m"
      using Cons.IH [of g1 m] Cons.prems(2,3,5) Suc by simp
    then show ?thesis using Suc step by (auto simp: Let_def split: prod.splits)
  qed
qed simp

text \<open>
  In every sequence of uses at times that do not go back, two accepted uses of the same id are at
  least a window apart.
\<close>

lemma accepted_spaced:
  assumes "ok g" "sorted (map snd xs)" "m < n" "n < length xs" "fst (xs ! m) = fst (xs ! n)"
    "fst (uses_of use xs g) ! m" "fst (uses_of use xs g) ! n"
  shows "snd (xs ! m) + window g \<le> snd (xs ! n)"
  using assms
proof (induction xs arbitrary: g m n)
  case (Cons x xs)
  obtain a g1 where step: "use (fst x) (snd x) g = (a, g1)" by (cases "use (fst x) (snd x) g")
  have ok1: "ok g1" and win: "window g1 = window g"
    using use_ok [OF Cons.prems(1), of "fst x" "snd x"] use_window [of "fst x" "snd x" g] step by simp_all
  have unfold: "fst (uses_of use (x # xs) g) = a # fst (uses_of use xs g1)" using step by (auto simp: Let_def split: prod.splits)
  from Cons.prems(3) obtain n' where n: "n = Suc n'" by (cases n) auto
  show ?case
  proof (cases m)
    case 0
    show ?thesis
    proof (rule ccontr)
      assume "\<not> ?thesis"
      then have "remembered (fst x) (snd (xs ! n')) g1"
        using accepted_remembered [OF Cons.prems(1), of "fst x" "snd x" "snd (xs ! n')"] Cons.prems(6) step unfold 0 n by simp
      moreover have "\<forall>y\<in>set (take n' xs). snd y \<le> snd (xs ! n')"
      proof
        fix y assume "y \<in> set (take n' xs)"
        then obtain k where k: "k < n'" "k < length xs" "y = xs ! k" by (auto simp: in_set_conv_nth)
        have "sorted (map snd xs)" using Cons.prems(2) by simp
        then have "map snd xs ! k \<le> map snd xs ! n'"
          using k(1) Cons.prems(4) n by (intro sorted_nth_mono) simp_all
        then show "snd y \<le> snd (xs ! n')" using k Cons.prems(4) n by simp
      qed
      ultimately have "\<not> fst (uses_of use xs g1) ! n'"
        using remembered_refused [OF ok1, of n' xs "fst x"] Cons.prems(4,5) n 0 by simp
      then show False using Cons.prems(7) unfold n by simp
    qed
  next
    case (Suc m')
    then show ?thesis using Cons.IH [OF ok1, of m' n'] Cons.prems unfold n win by simp
  qed
qed simp

end

subsection \<open>The guard meets it\<close>

definition guard_ok :: "replay_guard \<Rightarrow> bool" where
  "guard_ok g \<longleftrightarrow> distinct (map fst (rg_seen g))"

definition blocks :: "signature_id \<Rightarrow> instant \<Rightarrow> replay_guard \<Rightarrow> bool" where
  "blocks i now g \<longleftrightarrow> rg_seen_poisoned g \<or> (\<exists>t. map_of (rg_seen g) i = Some t \<and> t > now)"

definition guard_use :: "signature_id \<Rightarrow> instant \<Rightarrow> replay_guard \<Rightarrow> bool \<times> replay_guard" where
  "guard_use i now g = check_and_record (sid_key_id i) (sid_digest i) now g"

lemma distinct_map_fst_filter: "distinct (map fst xs) \<Longrightarrow> distinct (map fst (filter P xs))"
  by (induction xs) auto

lemma map_of_filter_live:
  "distinct (map fst xs) \<Longrightarrow>
     map_of (filter (\<lambda>(_, t). now < t) xs) i =
       (case map_of xs i of Some t \<Rightarrow> (if now < t then Some t else None) | None \<Rightarrow> None)"
  by (induction xs) (auto split: option.splits dest: map_of_SomeD simp: rev_image_eqI)

lemma map_of_seen_insert:
  "map_of (seen_insert i t xs) j = (if j = i then Some t else map_of xs j)"
proof -
  have "j \<noteq> i \<Longrightarrow> map_of (filter (\<lambda>(j, _). j \<noteq> i) xs) j = map_of xs j" by (induction xs) auto
  then show ?thesis by (auto simp: seen_insert_def)
qed

lemma prune_fields [simp]:
  "rg_window (prune_if_due now g) = rg_window g"
  "rg_seen_poisoned (prune_if_due now g) = rg_seen_poisoned g"
  by (simp_all add: prune_if_due_def retain_live_def Let_def)

lemma prune_seen:
  "rg_seen (prune_if_due now g) \<in> {rg_seen g, filter (\<lambda>(_, t). t > now) (rg_seen g)}"
  by (simp add: prune_if_due_def retain_live_def Let_def)

lemma guard_ok_prune: "guard_ok g \<Longrightarrow> guard_ok (prune_if_due now g)"
  using prune_seen [of now g] distinct_map_fst_filter by (auto simp: guard_ok_def)

lemma blocks_prune: "guard_ok g \<Longrightarrow> now \<le> u \<Longrightarrow> blocks i u (prune_if_due now g) \<longleftrightarrow> blocks i u g"
  using prune_seen [of now g]
  by (auto simp: blocks_def guard_ok_def map_of_filter_live split: option.splits if_splits)

lemma guard_ok_check: "guard_ok g \<Longrightarrow> guard_ok (snd (check_and_record k d now g))"
  using guard_ok_prune [of g now] distinct_map_fst_filter
  by (auto simp: check_and_record_def Let_def guard_ok_def seen_insert_def)

lemma check_fst:
  assumes "guard_ok g"
  shows "fst (check_and_record k d now g) \<longleftrightarrow> \<not> blocks \<lparr>sid_key_id = k, sid_digest = d\<rparr> now g"
  using blocks_prune [OF assms order_refl, of "\<lparr>sid_key_id = k, sid_digest = d\<rparr>" now]
  by (auto simp: check_and_record_def Let_def blocks_def split: option.splits)

lemma check_window: "rg_window (snd (check_and_record k d now g)) = rg_window g"
  by (simp add: check_and_record_def Let_def)

lemma check_accepted:
  "fst (check_and_record k d now g) \<Longrightarrow> u < now + rg_window g \<Longrightarrow>
     blocks \<lparr>sid_key_id = k, sid_digest = d\<rparr> u (snd (check_and_record k d now g))"
  by (auto simp: check_and_record_def Let_def blocks_def map_of_seen_insert split: if_splits)

lemma check_keeps:
  assumes "guard_ok g" "now \<le> u" "blocks j u g"
  shows "blocks j u (snd (check_and_record k d now g))"
proof -
  have kept: "blocks j u (prune_if_due now g)" using blocks_prune [OF assms(1,2)] assms(3) by simp
  show ?thesis
  proof (cases "fst (check_and_record k d now g)")
    case True
    then show ?thesis
      using kept check_fst [OF assms(1), of k d now] assms(2) blocks_prune [OF assms(1) order_refl, of j now]
      by (auto simp: check_and_record_def Let_def blocks_def map_of_seen_insert split: if_splits option.splits)
  next
    case False
    then have "snd (check_and_record k d now g) = prune_if_due now g"
      by (auto simp: check_and_record_def Let_def split: if_splits)
    with kept show ?thesis by simp
  qed
qed

lemma signature_id_eta [simp]: "\<lparr>sid_key_id = sid_key_id i, sid_digest = sid_digest i\<rparr> = i"
  by (cases i) simp

interpretation replay: once_only guard_use blocks rg_window guard_ok
proof
  show "guard_ok (snd (guard_use i t g))" if "guard_ok g" for g i t
    using that by (simp add: guard_use_def guard_ok_check)
  show "rg_window (snd (guard_use i t g)) = rg_window g" for g i t by (simp add: guard_use_def check_window)
  show "fst (guard_use i t g) \<longleftrightarrow> \<not> blocks i t g" if "guard_ok g" for g i t
    using check_fst [OF that] by (simp add: guard_use_def)
  show "blocks i u (snd (guard_use i t g))" if "guard_ok g" "fst (guard_use i t g)" "u < t + rg_window g" for g i t u
    using check_accepted [of "sid_key_id i" "sid_digest i" t g u] that by (simp add: guard_use_def)
  show "blocks j u (snd (guard_use i t g))" if "guard_ok g" "t \<le> u" "blocks j u g" for g i j t u
    using check_keeps [OF that] by (simp add: guard_use_def)
qed

lemma default_guard_ok: "guard_ok (default_guard now)"
  by (simp add: guard_ok_def default_guard_def new_guard_def Let_def)

lemma default_guard_window: "rg_window (default_guard now) = 300 * nanos_per_sec"
  by (simp add: default_guard_def new_guard_def Let_def clamp_def MAX_TIMESTAMP_SKEW_SECS_def)

end
