(* ===== verification/Auth.thy ===== *)
theory Auth
  imports Master_Pin Proxies Replay
begin

text \<open>
  The authentication middleware (\<open>src/middleware.rs\<close>): from the request's peer, headers and body to
  the client address and the effective principal, or a refusal. Its state is the part of the
  application state it reads and changes: the proxy cache, the replay guard and the master pin.
  Clocks, name resolution and the engine's catalogue are readings of the request (\<open>auth_env\<close>).
\<close>

record uri =
  uri_path_and_query :: "string option"
  uri_path :: string

text \<open>A header is \<open>None\<close> when it is absent or not visible ASCII; the body when it cannot be read.\<close>
record auth_request =
  rq_peer :: ip_addr
  rq_method :: string
  rq_original_uri :: "uri option"
  rq_uri :: uri
  rq_timestamp :: "string option"
  rq_api_key :: "string option"
  rq_signature :: "string option"
  rq_forwarded :: "string option"
  rq_real_ip :: "string option"
  rq_body :: "string option"

record auth_env =
  ae_now :: datetime
  ae_instant :: nat
  ae_lookups :: lookups
  ae_has_index :: "db_err + bool"
  ae_max_body :: nat

record auth_state =
  as_db :: db
  as_proxies :: trusted_proxies
  as_cache :: resolution_cache
  as_cipher :: secret_cipher
  as_replay :: replay_guard
  as_pin :: pin

definition msg_no_timestamp :: string where "msg_no_timestamp = ''Missing X-Timestamp header''"
definition msg_bad_timestamp :: string where "msg_bad_timestamp = ''Malformed X-Timestamp header''"
definition msg_stale :: string where "msg_stale = ''Request timestamp outside the permitted 300s window''"
definition msg_no_key :: string where "msg_no_key = ''Missing API Key''"
definition msg_no_signature :: string where "msg_no_signature = ''Missing X-Signature-256 header''"
definition msg_signature_shape :: string where "msg_signature_shape = ''X-Signature-256 must be formatted as sha256=<hex>''"
definition msg_invalid_key :: string where "msg_invalid_key = ''Invalid API Key''"
definition msg_no_secret :: string where "msg_no_secret = ''This API key has no signing secret; rotate it to obtain one''"
definition msg_body :: string where "msg_body = ''Request body unreadable or too large to sign''"
definition msg_invalid_signature :: string where "msg_invalid_signature = ''Invalid request signature''"
definition msg_replayed :: string where
  "msg_replayed = ''This request signature has already been used; sign a fresh request''"
definition msg_ip_denied :: string where "msg_ip_denied = ''Client IP not allowed''"

subsection \<open>The steps\<close>

text \<open>
  \<open>i64::saturating_sub\<close>, and \<open>i64::abs\<close> as a release build computes it (the smallest value has no
  positive counterpart and is left as it is).
\<close>

definition saturating_sub :: "int \<Rightarrow> int \<Rightarrow> int" where
  "saturating_sub a b = max (- (2 ^ 63)) (min (2 ^ 63 - 1) (a - b))"

definition i64_abs :: "int \<Rightarrow> int" where
  "i64_abs x = (if x = - (2 ^ 63) then x else \<bar>x\<bar>)"

definition validate_timestamp :: "datetime \<Rightarrow> string option \<Rightarrow> app_error + string" where
  "validate_timestamp now header =
     try_then (ok_or (Unauthorized msg_no_timestamp) (map_option trim header)) (\<lambda>raw.
     try_then (ok_or (Unauthorized msg_bad_timestamp) (parse_i64 raw)) (\<lambda>supplied.
       let skew = i64_abs (saturating_sub (unix_seconds now) supplied) in
       if skew > MAX_TIMESTAMP_SKEW_SECS then Inl (Unauthorized msg_stale) else Inr raw))"

definition signed_target :: "auth_request \<Rightarrow> string" where
  "signed_target rq =
     (let u = (case rq_original_uri rq of Some original \<Rightarrow> original | None \<Rightarrow> rq_uri rq) in
      case uri_path_and_query u of Some pq \<Rightarrow> pq | None \<Rightarrow> uri_path u)"

definition open_key_secret :: "lib \<Rightarrow> secret_cipher \<Rightarrow> api_key \<Rightarrow> app_error + string" where
  "open_key_secret l cipher key =
     (case k_signing_secret key of
        None \<Rightarrow> Inl (Unauthorized msg_no_secret)
      | Some stored \<Rightarrow> (case open_secret l cipher stored of Inl e \<Rightarrow> Inl (app_error_of_crypto e) | Inr s \<Rightarrow> Inr s))"

fun parse_networks :: "lib \<Rightarrow> string list \<Rightarrow> app_error + ip_network list" where
  "parse_networks l [] = Inr []"
| "parse_networks l (s # ss) =
     try_then (ok_or Internal (l_net_parse l s)) (\<lambda>net. try_then (parse_networks l ss) (\<lambda>nets. Inr (net # nets)))"

definition bound_networks :: "lib \<Rightarrow> api_key \<Rightarrow> app_error + ip_network list" where
  "bound_networks l key =
     (let bound = (case k_bound_ips key of Some s \<Rightarrow> s | None \<Rightarrow> []) in
      parse_networks l (filter (\<lambda>s. s \<noteq> []) (map trim (split_on (CHR '','') bound))))"

definition find_key_by_hash :: "string \<Rightarrow> db \<Rightarrow> api_key option" where
  "find_key_by_hash h db = row_find k_key_hash h (api_keys db)"

text \<open>What precedes the signature: no state but the proxy cache is read or changed.\<close>

definition presented_headers :: "auth_request \<Rightarrow> app_error + string \<times> string" where
  "presented_headers rq =
     try_then (ok_or (Unauthorized msg_no_key) (rq_api_key rq)) (\<lambda>auth_header.
     try_then (ok_or (Unauthorized msg_no_signature) (rq_signature rq)) (\<lambda>provided.
       if \<not> starts_with SIGNATURE_PREFIX (trim provided) then Inl (Unauthorized msg_signature_shape)
       else Inr (auth_header, provided)))"

definition read_body :: "nat \<Rightarrow> auth_request \<Rightarrow> app_error + string" where
  "read_body max_body rq =
     (case rq_body rq of
        Some body \<Rightarrow> (if length body \<le> max_body then Inr body else Inl (InvalidInput msg_body))
      | None \<Rightarrow> Inl (InvalidInput msg_body))"

definition auth_middleware ::
  "lib \<Rightarrow> auth_env \<Rightarrow> auth_request \<Rightarrow> auth_state \<Rightarrow> (app_error + ip_addr \<times> api_key) \<times> auth_state" where
  "auth_middleware l ae rq st0 =
     (let (trusted, cache) = resolved l (as_proxies st0) (ae_instant ae) (ae_lookups ae) (as_cache st0);
          st = st0\<lparr>as_cache := cache\<rparr>;
          client_ip = resolve_client_ip l (rq_peer rq) (rq_forwarded rq) (rq_real_ip rq) trusted
      in
      attempt (validate_timestamp (ae_now ae) (rq_timestamp rq)) st (\<lambda>timestamp.
      attempt (presented_headers rq) st (\<lambda>(auth_header, provided).
      attempt (ok_or (Unauthorized msg_invalid_key) (find_key_by_hash (hash_key l auth_header) (as_db st))) st (\<lambda>key.
      attempt (open_key_secret l (as_cipher st) key) st (\<lambda>secret.
      attempt (read_body (ae_max_body ae) rq) st (\<lambda>body.
      attempt (ok_or (Unauthorized msg_invalid_signature)
          (verify_signature l secret (rq_method rq) (signed_target rq) timestamp body provided)) st (\<lambda>digest.
        let (fresh, guard) = check_and_record (k_id key) digest (ae_instant ae) (as_replay st);
            st1 = st\<lparr>as_replay := guard\<rparr> in
        if \<not> fresh then (Inl (Unauthorized msg_replayed), st1)
        else attempt (bound_networks l key) st1 (\<lambda>networks.
          if \<not> (networks = [] \<or> list_ex (\<lambda>net. l_net_contains l net client_ip) networks)
          then (Inl (Forbidden msg_ip_denied), st1)
          else (let (key1, pin) = authenticate_pin (ae_has_index ae) (as_db st1) (as_pin st1) key in
                (Inr (client_ip, key1), st1\<lparr>as_pin := pin\<rparr>))))))))))"

lemmas auth_run [run] = saturating_sub_def i64_abs_def validate_timestamp_def signed_target_def
  open_key_secret_def bound_networks_def find_key_by_hash_def presented_headers_def read_body_def
  auth_middleware_def

subsection \<open>What an outcome tells\<close>

lemma validate_timestamp_InrD:
  assumes "validate_timestamp now header = Inr ts" "0 \<le> now"
  shows "\<exists>raw i. header = Some raw \<and> ts = trim raw \<and> parse_i64 ts = Some i \<and>
    \<bar>unix_seconds now - i\<bar> \<le> MAX_TIMESTAMP_SKEW_SECS"
proof -
  from assms(1) obtain raw i where raw: "header = Some raw" "ts = trim raw" "parse_i64 ts = Some i"
    and skew: "i64_abs (saturating_sub (unix_seconds now) i) \<le> MAX_TIMESTAMP_SKEW_SECS"
    by (auto simp: validate_timestamp_def Let_def elim!: try_then_InrE split: if_splits)
  have "0 \<le> unix_seconds now" using assms(2) by (simp add: unix_seconds_def)
  moreover have "- (2 ^ 63) \<le> i" "i < 2 ^ 63" using parse_i64_bound [OF raw(3)] by simp_all
  ultimately have "\<bar>unix_seconds now - i\<bar> \<le> MAX_TIMESTAMP_SKEW_SECS"
    using skew by (auto simp: i64_abs_def saturating_sub_def MAX_TIMESTAMP_SKEW_SECS_def max_def min_def split: if_splits)
  with raw show ?thesis by blast
qed

lemma validate_timestamp_refusal:
  "validate_timestamp now header = Inl e \<Longrightarrow> \<exists>m. e = Unauthorized m"
  by (auto simp: validate_timestamp_def try_then_def ok_or_def Let_def split: sum.splits option.splits if_splits)

lemma presented_headers_refusal: "presented_headers rq = Inl e \<Longrightarrow> \<exists>m. e = Unauthorized m"
  by (auto simp: presented_headers_def try_then_def ok_or_def split: sum.splits option.splits if_splits)

lemma presented_headers_InrD: "presented_headers rq = Inr (k, s) \<Longrightarrow> rq_api_key rq = Some k \<and> rq_signature rq = Some s"
  by (auto simp: presented_headers_def elim!: try_then_InrE split: if_splits)

lemma open_key_secret_refusal: "open_key_secret l c key = Inl e \<Longrightarrow> (\<exists>m. e = Unauthorized m) \<or> e = Internal"
  by (auto simp: open_key_secret_def app_error_of_crypto_def split: option.splits sum.splits)

lemma parse_networks_refusal: "parse_networks l ss = Inl e \<Longrightarrow> e = Internal"
  by (induction ss) (auto simp: try_then_def ok_or_def split: sum.splits option.splits)

lemma parse_networks_Inr: "parse_networks l ss = Inr nets \<Longrightarrow> map (l_net_parse l) ss = map Some nets"
  by (induction ss arbitrary: nets) (auto elim!: try_then_InrE)

text \<open>The request proves possession of the secret of the key it names.\<close>

definition proves_key :: "lib \<Rightarrow> auth_env \<Rightarrow> auth_request \<Rightarrow> auth_state \<Rightarrow> api_key \<Rightarrow> string \<Rightarrow> bool" where
  "proves_key l ae rq st key digest \<longleftrightarrow>
     (\<exists>plain provided ts secret body.
        rq_api_key rq = Some plain \<and> find_key_by_hash (hash_key l plain) (as_db st) = Some key \<and>
        rq_signature rq = Some provided \<and> rq_body rq = Some body \<and> length body \<le> ae_max_body ae \<and>
        validate_timestamp (ae_now ae) (rq_timestamp rq) = Inr ts \<and>
        open_key_secret l (as_cipher st) key = Inr secret \<and>
        verify_signature l secret (rq_method rq) (signed_target rq) ts body provided = Some digest)"

lemma auth_after:
  "after (\<lambda>res st.
      as_db st = as_db st0 \<and> as_cipher st = as_cipher st0 \<and> as_proxies st = as_proxies st0 \<and>
      as_cache st = snd (resolved l (as_proxies st0) (ae_instant ae) (ae_lookups ae) (as_cache st0)) \<and>
      (((\<exists>e. res = Inl e \<and> ((\<exists>m. e = Unauthorized m) \<or> e = Internal \<or> e = InvalidInput msg_body)) \<and>
          as_replay st = as_replay st0 \<and> as_pin st = as_pin st0) \<or>
       (\<exists>key digest. proves_key l ae rq st0 key digest \<and>
          as_replay st = snd (check_and_record (k_id key) digest (ae_instant ae) (as_replay st0)) \<and>
          (\<not> fst (check_and_record (k_id key) digest (ae_instant ae) (as_replay st0)) \<longrightarrow> res = Inl (Unauthorized msg_replayed)) \<and>
          (case res of
             Inl e \<Rightarrow> as_pin st = as_pin st0
           | Inr (ip, key1) \<Rightarrow>
               ip = resolve_client_ip l (rq_peer rq) (rq_forwarded rq) (rq_real_ip rq)
                 (fst (resolved l (as_proxies st0) (ae_instant ae) (ae_lookups ae) (as_cache st0))) \<and>
               (\<exists>nets. bound_networks l key = Inr nets \<and> (nets = [] \<or> list_ex (\<lambda>net. l_net_contains l net ip) nets)) \<and>
               authenticate_pin (ae_has_index ae) (as_db st0) (as_pin st0) key = (key1, as_pin st)))))
     (auth_middleware l ae rq st0)"
  unfolding auth_middleware_def Let_def
proof (intro after_rules, goal_cases)
  case (1 trusted cache e)
  then show ?case using validate_timestamp_refusal by auto
next
  case (2 trusted cache ts e)
  then show ?case using presented_headers_refusal by auto
next
  case (5 trusted cache ts p auth_header provided key secret e)
  then show ?case by (auto simp: read_body_def split: option.splits if_splits)
next
  case (4 trusted cache ts p auth_header provided key e)
  then show ?case using open_key_secret_refusal by auto
qed (auto simp: ok_or_def proves_key_def read_body_def dest!: presented_headers_InrD split: option.splits if_splits)

lemma verify_signature_prefix:
  "verify_signature l secret m t s b provided = Some d \<Longrightarrow> starts_with SIGNATURE_PREFIX (trim provided)"
  by (auto simp: verify_signature_def strip_prefix_def split: option.splits if_splits)

text \<open>A request that proves its key reaches the replay guard, and is refused there if it was used.\<close>

lemma proven_reaches_guard:
  assumes "proves_key l ae rq st key digest"
    "\<not> fst (check_and_record (k_id key) digest (ae_instant ae) (as_replay st))"
  shows "fst (auth_middleware l ae rq st) = Inl (Unauthorized msg_replayed)"
proof -
  from assms(1) obtain plain provided ts secret body where p: "rq_api_key rq = Some plain"
    "find_key_by_hash (hash_key l plain) (as_db st) = Some key" "rq_signature rq = Some provided" "rq_body rq = Some body"
    "length body \<le> ae_max_body ae"
    "validate_timestamp (ae_now ae) (rq_timestamp rq) = Inr ts" "open_key_secret l (as_cipher st) key = Inr secret"
    and verified: "verify_signature l secret (rq_method rq) (signed_target rq) ts body provided = Some digest"
    unfolding proves_key_def by blast
  have "presented_headers rq = Inr (plain, provided)"
    using p(1,3) verify_signature_prefix [OF verified] by (simp add: presented_headers_def)
  moreover have "read_body (ae_max_body ae) rq = Inr body" using p(4,5) by (simp add: read_body_def)
  moreover obtain guard where "check_and_record (k_id key) digest (ae_instant ae) (as_replay st) = (False, guard)"
    using assms(2) by (cases "check_and_record (k_id key) digest (ae_instant ae) (as_replay st)") auto
  ultimately show ?thesis
    using p verified by (auto simp: auth_middleware_def Let_def split: prod.splits)
qed

end
