(* ===== verification/Auth_Properties.thy ===== *)
theory Auth_Properties
  imports Auth Samples
begin

text \<open>
  The properties of the authentication boundary: the client address, the single use of a
  signature, what an accepted request has proven, what a refusal discloses, and the pinned master.
\<close>

subsection \<open>The client address\<close>


definition sample_proxies :: "ip_network list" where
  "sample_proxies = [\<lparr>net_ip = V4 0x0A000000, net_prefix = 8\<rparr>]"


subsection \<open>Proxy configuration and name resolution\<close>

text \<open>
  A malformed \<open>TRUSTED_PROXIES\<close> is never absorbed: the parse succeeds only if every entry is a
  network, an address or shaped like a name, and then has a matcher for each; otherwise it reports
  exactly the entries that are none of the three.
\<close>

theorem trusted_proxies_all_or_nothing:
  "case parse_trusted_proxies l raw of
     Inr matchers \<Rightarrow> set matchers = {m. \<exists>e\<in>set (proxy_entries raw). parse_entry l e = Inr m} \<and>
       (\<forall>e\<in>set (proxy_entries raw). l_net_parse l e \<noteq> None \<or> l_ip_parse l e \<noteq> None \<or> hostname_rejection e = None)
   | Inl bad \<Rightarrow> bad \<noteq> [] \<and> ipe_entry ` set bad = {e \<in> set (proxy_entries raw).
       l_net_parse l e = None \<and> l_ip_parse l e = None \<and> hostname_rejection e \<noteq> None}"
proof (cases "parse_trusted_proxies l raw")
  case (Inl bad)
  then show ?thesis
    using parse_trusted_proxies_Inl [OF Inl]
    by (auto simp: parse_entry_error image_iff) (metis invalid_proxy_entry.select_convs)
next
  case (Inr ms)
  then show ?thesis
    using parse_trusted_proxies_Inr [OF Inr] by (fastforce simp: parse_entry_def split: option.splits)
qed

theorem trusted_proxies_all_or_nothing_witness:
  "(\<exists>ms. parse_trusted_proxies demo_lib ''10.0.0.0/8, traefik'' = Inr ms \<and> Hostname ''traefik'' \<in> set ms) \<and>
   (\<exists>bad. parse_trusted_proxies demo_lib ''10.0.0.256,traefik'' = Inl bad \<and> ''10.0.0.256'' \<in> ipe_entry ` set bad)"
proof
  have entries: "''traefik'' \<in> set (proxy_entries ''10.0.0.0/8, traefik'')" "parse_entry demo_lib ''traefik'' = Inr (Hostname ''traefik'')"
    "is_ok (parse_trusted_proxies demo_lib ''10.0.0.0/8, traefik'')"
    by code_simp+
  with trusted_proxies_all_or_nothing [where l = demo_lib and raw = "''10.0.0.0/8, traefik''"]
  show "\<exists>ms. parse_trusted_proxies demo_lib ''10.0.0.0/8, traefik'' = Inr ms \<and> Hostname ''traefik'' \<in> set ms"
    by (cases "parse_trusted_proxies demo_lib ''10.0.0.0/8, traefik''") auto
  have "''10.0.0.256'' \<in> set (proxy_entries ''10.0.0.256,traefik'') \<and> l_net_parse demo_lib ''10.0.0.256'' = None \<and>
      l_ip_parse demo_lib ''10.0.0.256'' = None \<and> hostname_rejection ''10.0.0.256'' \<noteq> None"
    "\<not> is_ok (parse_trusted_proxies demo_lib ''10.0.0.256,traefik'')"
    by code_simp+
  with trusted_proxies_all_or_nothing [where l = demo_lib and raw = "''10.0.0.256,traefik''"]
  show "\<exists>bad. parse_trusted_proxies demo_lib ''10.0.0.256,traefik'' = Inl bad \<and> ''10.0.0.256'' \<in> ipe_entry ` set bad"
    by (cases "parse_trusted_proxies demo_lib ''10.0.0.256,traefik''") auto
qed

text \<open>
  After a refresh the trusted networks are the literal ones, the answers just given and the
  addresses of names still within their lifetime: a failed lookup and an expired answer add
  nothing. While every name's last attempt is younger than the negative lifetime, a request gets
  these networks without asking the resolver, whatever it would answer.
\<close>

theorem resolution_bounded_and_fail_closed:
  assumes "distinct (tp_hostnames tp)" "tp_negative_ttl tp \<le> tp_positive_ttl tp" "tp_hostnames tp \<noteq> []"
  shows "(\<forall>net\<in>set (rc_snapshot (refresh_locked l tp lk cache)). net \<in> set (tp_networks tp) \<or>
      (\<exists>name\<in>set (tp_hostnames tp). net \<in> set (resolve_hostname l lk name) \<or>
        (\<exists>s. rc_hosts cache name = Some s \<and> is_fresh tp (lk_now lk name) s \<and> net \<in> set (hs_addresses s)))) \<and>
    ((\<forall>name\<in>set (tp_hostnames tp). \<exists>s. rc_hosts (refresh_locked l tp lk cache) name = Some s \<and>
        now - hs_attempted_at s < tp_negative_ttl tp) \<longrightarrow>
      resolved l tp now lk' (refresh_locked l tp lk cache) =
        (rc_snapshot (refresh_locked l tp lk cache), refresh_locked l tp lk cache))"
proof
  show "\<forall>net\<in>set (rc_snapshot (refresh_locked l tp lk cache)). net \<in> set (tp_networks tp) \<or>
      (\<exists>name\<in>set (tp_hostnames tp). net \<in> set (resolve_hostname l lk name) \<or>
        (\<exists>s. rc_hosts cache name = Some s \<and> is_fresh tp (lk_now lk name) s \<and> net \<in> set (hs_addresses s)))"
    unfolding refresh_snapshot [OF assms(1)]
    by (force simp: state_after_def split: option.splits if_splits)
  have "fresh_in tp now (rc_hosts c) name"
    if "rc_hosts c name = Some s" "now - hs_attempted_at s < tp_negative_ttl tp" for c name s
    using that assms(2) by (auto simp: fresh_in_def is_fresh_def)
  moreover have "rc_built (refresh_locked l tp lk cache)" by (simp add: refresh_locked_def Let_def)
  ultimately show "(\<forall>name\<in>set (tp_hostnames tp). \<exists>s. rc_hosts (refresh_locked l tp lk cache) name = Some s \<and>
        now - hs_attempted_at s < tp_negative_ttl tp) \<longrightarrow>
      resolved l tp now lk' (refresh_locked l tp lk cache) =
        (rc_snapshot (refresh_locked l tp lk cache), refresh_locked l tp lk cache)"
    using assms(3) by (simp add: resolved_def list_all_iff) blast
qed

definition named_proxy :: trusted_proxies where "named_proxy = new_proxies [Hostname ''traefik'']"

definition sample_lookups :: "ip_addr list \<Rightarrow> nat \<Rightarrow> lookups" where
  "sample_lookups answer t = \<lparr>lk_now = (\<lambda>_. t), lk_answer = (\<lambda>_. answer), lk_done = (\<lambda>_. t)\<rparr>"

theorem resolution_bounded_and_fail_closed_witness:
  "resolved demo_lib named_proxy 7000000000 (sample_lookups [V4 0x06060606] 7000000000)
      (refresh_locked demo_lib named_proxy (sample_lookups [] 3000000000) empty_cache) =
    ([], refresh_locked demo_lib named_proxy (sample_lookups [] 3000000000) empty_cache)"
proof -
  have p: "tp_hostnames named_proxy = [''traefik'']" "tp_negative_ttl named_proxy = 5000000000" "tp_positive_ttl named_proxy = 30000000000"
    by (simp_all add: named_proxy_def new_proxies_def map_filter_def POSITIVE_TTL_def NEGATIVE_TTL_def)
  have c: "rc_hosts (refresh_locked demo_lib named_proxy (sample_lookups [] 3000000000) empty_cache) ''traefik'' =
      Some \<lparr>hs_addresses = [], hs_attempted_at = 3000000000, hs_resolved = False\<rparr>"
    "rc_snapshot (refresh_locked demo_lib named_proxy (sample_lookups [] 3000000000) empty_cache) = []"
    by (simp_all add: refresh_locked_def Let_def p(1) refresh_host_def fresh_in_def empty_cache_def sample_lookups_def resolve_hostname_def)
      (simp add: named_proxy_def new_proxies_def map_filter_def)
  show ?thesis
    using conjunct2 [OF resolution_bounded_and_fail_closed [of named_proxy demo_lib "sample_lookups [] 3000000000" empty_cache
        7000000000 "sample_lookups [V4 0x06060606] 7000000000"]] p c by simp
qed

subsection \<open>Single use of a signature\<close>

text \<open>
  C14 In every sequence of verified signatures presented to the guard the service starts with, at
  times that do not go back, two acceptances of the same signature of the same key are at least
  the 300 second window apart, sweeps and saturation included.
\<close>

theorem signature_accepted_once_per_window:
  assumes "sorted (map snd uses)" "m < n" "n < length uses" "fst (uses ! m) = fst (uses ! n)"
    "fst (uses_of guard_use uses (default_guard t0)) ! m" "fst (uses_of guard_use uses (default_guard t0)) ! n"
  shows "snd (uses ! m) + 300 * 1000000000 \<le> snd (uses ! n)"
  using replay.accepted_spaced [OF default_guard_ok assms] default_guard_window [of t0]
  by (simp add: nanos_per_sec_def)

definition sample_sid :: signature_id where "sample_sid = \<lparr>sid_key_id = 1, sid_digest = ''d''\<rparr>"

theorem signature_accepted_once_per_window_witness:
  "fst (uses_of guard_use [(sample_sid, 0), (sample_sid, 5), (sample_sid, 300000000000)] (default_guard 0)) = [True, False, True] \<and>
   0 + 300 * 1000000000 \<le> (300000000000 :: nat)"
proof
  show answers: "fst (uses_of guard_use [(sample_sid, 0), (sample_sid, 5), (sample_sid, 300000000000)] (default_guard 0)) = [True, False, True]"
    by (simp add: guard_use_def sample_sid_def run MAX_TIMESTAMP_SKEW_SECS_def)
  show "0 + 300 * 1000000000 \<le> (300000000000 :: nat)"
    using signature_accepted_once_per_window [of "[(sample_sid, 0), (sample_sid, 5), (sample_sid, 300000000000)]" 0 2 0] answers
    by simp
qed

subsection \<open>A request that is accepted\<close>

definition auth_root :: api_key where
  "auth_root = root_key\<lparr>k_key_hash := hash_key demo_lib ''plain-key'', k_bound_ips := Some ''10.0.0.0/8''\<rparr>"

definition auth_demo :: auth_state where
  "auth_demo = \<lparr>as_db = demo_db\<lparr>api_keys := [auth_root, manager_key]\<rparr>, as_proxies = new_proxies [], as_cache = empty_cache,
     as_cipher = Plaintext, as_replay = default_guard 0, as_pin = Some 1\<rparr>"

definition auth_clock :: "int \<Rightarrow> nat \<Rightarrow> auth_env" where
  "auth_clock seconds instant = \<lparr>ae_now = seconds * 1000000000, ae_instant = instant,
     ae_lookups = sample_lookups [] 0, ae_has_index = Inr True, ae_max_body = 1024\<rparr>"

text \<open>A \<open>GET\<close> signed for the time \<open>stamp\<close> with the secret stored for the sample key.\<close>
definition signed_request :: "string \<Rightarrow> auth_request" where
  "signed_request stamp = \<lparr>rq_peer = V4 0x0A000005, rq_method = ''GET'', rq_original_uri = None,
     rq_uri = \<lparr>uri_path_and_query = Some ''/api/ips?limit=1'', uri_path = ''/api/ips''\<rparr>,
     rq_timestamp = Some stamp, rq_api_key = Some ''plain-key'',
     rq_signature = Some (projr (compute_signature demo_lib ''secret-0'' ''GET'' ''/api/ips?limit=1'' stamp [])),
     rq_forwarded = None, rq_real_ip = None, rq_body = Some []\<rparr>"

lemma signed_request_accepted:
  "is_ok (fst (auth_middleware demo_lib (auth_clock 1800000000 7) (signed_request ''1800000000'') auth_demo))"
  by code_simp

text \<open>The same at other times: the middleware on the sample installation, by its verdict.\<close>

lemma auth_cases:
  obtains ip caller st' where "auth_middleware l ae rq st = (Inr (ip, caller), st')"
  | e st' where "auth_middleware l ae rq st = (Inl e, st')"
  by (cases "auth_middleware l ae rq st") (metis old.prod.exhaust old.sum.exhaust)

lemma auth_accepted:
  "is_ok (fst (auth_middleware l ae rq st)) \<Longrightarrow>
     \<exists>ip caller. auth_middleware l ae rq st = (Inr (ip, caller), snd (auth_middleware l ae rq st))"
  by (rule auth_cases [of l ae rq st]) auto

subsection \<open>The middleware\<close>

text \<open>
  C11 An accepted request is authentic: it names a stored key by its hash, its signature is the HMAC
  of its method, target, timestamp and body under that key's secret, its timestamp is within 300
  seconds of the clock, the signature had not been used within the window, the client address lies
  in the key's bound networks if it has any, and the principal is the stored row, a master only if
  the row says so and the row is the pinned one.
\<close>

theorem accepted_request_is_authentic:
  assumes "auth_middleware l ae rq st = (Inr (ip, caller), st')" "0 \<le> ae_now ae" "guard_ok (as_replay st)"
  shows "\<exists>key plain secret ts i body.
    rq_api_key rq = Some plain \<and> find_key_by_hash (hash_key l plain) (as_db st) = Some key \<and>
    caller = key\<lparr>k_is_master := (k_is_master key \<and> as_pin st' = Some (k_id key))\<rparr> \<and>
    open_key_secret l (as_cipher st) key = Inr secret \<and> rq_body rq = Some body \<and>
    parse_i64 ts = Some i \<and> \<bar>unix_seconds (ae_now ae) - i\<bar> \<le> 300 \<and>
    (\<exists>provided. rq_signature rq = Some provided \<and>
       verify_signature l secret (rq_method rq) (signed_target rq) ts body provided =
         Some (l_hmac_sha256 l secret (canonical_v1_payload (rq_method rq) (signed_target rq) ts body))) \<and>
    \<not> blocks \<lparr>sid_key_id = k_id key,
        sid_digest = l_hmac_sha256 l secret (canonical_v1_payload (rq_method rq) (signed_target rq) ts body)\<rparr> (ae_instant ae) (as_replay st) \<and>
    (\<exists>nets. bound_networks l key = Inr nets \<and> (nets = [] \<or> (\<exists>net\<in>set nets. l_net_contains l net ip))) \<and>
    as_db st' = as_db st"
proof -
  from auth_after [of st l ae rq] assms(1) obtain key digest where
    proves: "proves_key l ae rq st key digest"
    and used: "fst (check_and_record (k_id key) digest (ae_instant ae) (as_replay st))"
    and nets: "\<exists>nets. bound_networks l key = Inr nets \<and> (nets = [] \<or> list_ex (\<lambda>net. l_net_contains l net ip) nets)"
    and pinned: "authenticate_pin (ae_has_index ae) (as_db st) (as_pin st) key = (caller, as_pin st')"
    and db: "as_db st' = as_db st"
    unfolding after_def by auto
  from proves obtain plain provided ts secret body where p: "rq_api_key rq = Some plain"
    "find_key_by_hash (hash_key l plain) (as_db st) = Some key" "rq_signature rq = Some provided" "rq_body rq = Some body"
    "validate_timestamp (ae_now ae) (rq_timestamp rq) = Inr ts" "open_key_secret l (as_cipher st) key = Inr secret"
    and verified: "verify_signature l secret (rq_method rq) (signed_target rq) ts body provided = Some digest"
    unfolding proves_key_def by blast
  from validate_timestamp_InrD [OF p(5) assms(2)] obtain i where
    "parse_i64 ts = Some i" "\<bar>unix_seconds (ae_now ae) - i\<bar> \<le> 300" by (auto simp: MAX_TIMESTAMP_SKEW_SECS_def)
  moreover note verify_signature_SomeD [OF verified] authenticate_pin_key [OF pinned]
  ultimately show ?thesis
    using p verified nets db check_fst [OF assms(3)] used unfolding list_ex_iff by blast
qed

theorem accepted_request_is_authentic_witness:
  "\<exists>ip caller. fst (auth_middleware demo_lib (auth_clock 1800000000 7) (signed_request ''1800000000'') auth_demo) = Inr (ip, caller) \<and>
     find_key_by_hash (hash_key demo_lib ''plain-key'') (as_db auth_demo) =
       Some (caller\<lparr>k_is_master := True\<rparr>)"
proof -
  obtain ip caller st' where run: "auth_middleware demo_lib (auth_clock 1800000000 7) (signed_request ''1800000000'') auth_demo =
    (Inr (ip, caller), st')" using auth_accepted [OF signed_request_accepted] by blast
  have "0 \<le> ae_now (auth_clock 1800000000 7)" "guard_ok (as_replay auth_demo)"
    by (simp_all add: auth_clock_def auth_demo_def default_guard_ok)
  from accepted_request_is_authentic [OF run this] obtain key where
    "find_key_by_hash (hash_key demo_lib ''plain-key'') (as_db auth_demo) = Some key" "\<exists>b. caller = key\<lparr>k_is_master := b\<rparr>"
    by (auto simp: signed_request_def)
  moreover have "map_option k_is_master (find_key_by_hash (hash_key demo_lib ''plain-key'') (as_db auth_demo)) = Some True" by code_simp
  ultimately show ?thesis using run by (cases key) auto
qed

text \<open>
  C13 A refusal discloses nothing to a caller who has not proven possession of a secret: \<open>403\<close> is only
  ever the answer to a request with a valid, unused signature, so the network binding of a key is
  no oracle, and a request without a valid signature changes neither the replay guard nor the pin.
\<close>

theorem refusal_is_no_oracle:
  assumes "auth_middleware l ae rq st = (Inl e, st')" "guard_ok (as_replay st)"
  shows "(\<forall>m. e = Forbidden m \<longrightarrow> (\<exists>key digest. proves_key l ae rq st key digest \<and>
      \<not> blocks \<lparr>sid_key_id = k_id key, sid_digest = digest\<rparr> (ae_instant ae) (as_replay st))) \<and>
    ((\<nexists>key digest. proves_key l ae rq st key digest) \<longrightarrow>
       ((\<exists>m. e = Unauthorized m) \<or> e = Internal \<or> e = InvalidInput msg_body) \<and>
       as_replay st' = as_replay st \<and> as_pin st' = as_pin st) \<and>
    as_db st' = as_db st"
proof -
  from auth_after [of st l ae rq] assms(1) have db: "as_db st' = as_db st"
    and outcome: "(((\<exists>m. e = Unauthorized m) \<or> e = Internal \<or> e = InvalidInput msg_body) \<and>
          as_replay st' = as_replay st \<and> as_pin st' = as_pin st) \<or>
       (\<exists>key digest. proves_key l ae rq st key digest \<and>
          (\<not> fst (check_and_record (k_id key) digest (ae_instant ae) (as_replay st)) \<longrightarrow> e = Unauthorized msg_replayed))"
    unfolding after_def by auto
  show ?thesis
  proof (intro conjI)
    show "\<forall>m. e = Forbidden m \<longrightarrow> (\<exists>key digest. proves_key l ae rq st key digest \<and>
      \<not> blocks \<lparr>sid_key_id = k_id key, sid_digest = digest\<rparr> (ae_instant ae) (as_replay st))"
      using outcome check_fst [OF assms(2)] by auto
  qed (use outcome db in blast)+
qed

theorem refusal_is_no_oracle_witness:
  "(\<exists>e. fst (auth_middleware demo_lib (auth_clock 1800000000 7) ((signed_request ''1800000000'')\<lparr>rq_body := Some ''x''\<rparr>) auth_demo) = Inl e) \<and>
   as_db (snd (auth_middleware demo_lib (auth_clock 1800000000 7) ((signed_request ''1800000000'')\<lparr>rq_body := Some ''x''\<rparr>) auth_demo)) = as_db auth_demo"
proof -
  let ?call = "auth_middleware demo_lib (auth_clock 1800000000 7) ((signed_request ''1800000000'')\<lparr>rq_body := Some ''x''\<rparr>) auth_demo"
  have "\<not> is_ok (fst ?call)" by code_simp
  then obtain e where "fst ?call = Inl e" by (cases "fst ?call") auto
  then have "?call = (Inl e, snd ?call)" by (metis prod.collapse)
  from refusal_is_no_oracle [OF this] \<open>fst ?call = Inl e\<close> show ?thesis by (simp add: auth_demo_def default_guard_ok)
qed

text \<open>
  A signature that was accepted is refused for the next 300 seconds of the monotonic clock: any
  later request that proves the same key with the same digest, whatever else has changed in the
  state, is answered \<open>401\<close> and leaves the database alone.
\<close>

theorem accepted_signature_is_spent:
  assumes "guard_ok (as_replay st)" "rg_window (as_replay st) = 300 * nanos_per_sec"
    "auth_middleware l ae rq st = (Inr accepted, st1)" "proves_key l ae rq st key digest"
    "as_replay st2 = as_replay st1" "proves_key l ae2 rq2 st2 key digest"
    "ae_instant ae2 < ae_instant ae + 300 * nanos_per_sec"
  shows "fst (auth_middleware l ae2 rq2 st2) = Inl (Unauthorized msg_replayed)"
proof -
  have unique: "proves_key l a r s k d \<Longrightarrow> proves_key l a r s k' d' \<Longrightarrow> k = k' \<and> d = d'" for a r s k d k' d'
    by (auto simp: proves_key_def)
  from auth_after [of st l ae rq] assms(3) obtain k d where kd: "proves_key l ae rq st k d"
    "as_replay st1 = snd (check_and_record (k_id k) d (ae_instant ae) (as_replay st))"
    "fst (check_and_record (k_id k) d (ae_instant ae) (as_replay st))" unfolding after_def by auto
  with unique [OF kd(1) assms(4)] assms(2,5,7) have
    "blocks \<lparr>sid_key_id = k_id key, sid_digest = digest\<rparr> (ae_instant ae2) (as_replay st2)"
    using check_accepted [OF kd(3)] by simp
  moreover have "guard_ok (as_replay st2)" using kd(2) assms(5) guard_ok_check [OF assms(1)] by simp
  ultimately have refused: "\<not> fst (check_and_record (k_id key) digest (ae_instant ae2) (as_replay st2))"
    by (simp add: check_fst)
  show ?thesis by (rule proven_reaches_guard [OF assms(6) refused])
qed

theorem accepted_signature_is_spent_witness:
  "fst (auth_middleware demo_lib (auth_clock 1800000200 200000000000) (signed_request ''1800000000'')
     (snd (auth_middleware demo_lib (auth_clock 1800000000 7) (signed_request ''1800000000'') auth_demo))) =
   Inl (Unauthorized msg_replayed)"
proof -
  let ?st1 = "snd (auth_middleware demo_lib (auth_clock 1800000000 7) (signed_request ''1800000000'') auth_demo)"
  let ?d = "''secret-0'' @ canonical_v1_payload ''GET'' ''/api/ips?limit=1'' ''1800000000'' []"
  obtain ip caller where run: "auth_middleware demo_lib (auth_clock 1800000000 7) (signed_request ''1800000000'') auth_demo =
    (Inr (ip, caller), ?st1)" using auth_accepted [OF signed_request_accepted] by blast
  have facts: "find_key_by_hash (hash_key demo_lib ''plain-key'') (as_db auth_demo) = Some auth_root"
    "validate_timestamp (ae_now (auth_clock 1800000000 7)) (Some ''1800000000'') = Inr ''1800000000''"
    "validate_timestamp (ae_now (auth_clock 1800000200 200000000000)) (Some ''1800000000'') = Inr ''1800000000''"
    "open_key_secret demo_lib Plaintext auth_root = Inr ''secret-0''"
    "verify_signature demo_lib ''secret-0'' ''GET'' ''/api/ips?limit=1'' ''1800000000'' []
       (projr (compute_signature demo_lib ''secret-0'' ''GET'' ''/api/ips?limit=1'' ''1800000000'' [])) = Some ?d"
    by code_simp+
  have target: "signed_target (signed_request ''1800000000'') = ''/api/ips?limit=1''"
    by (simp add: signed_target_def signed_request_def)
  have same: "as_db ?st1 = as_db auth_demo" "as_cipher ?st1 = Plaintext"
    using auth_after [of auth_demo demo_lib "auth_clock 1800000000 7" "signed_request ''1800000000''"] run
    by (simp_all add: after_def) (simp add: auth_demo_def)
  have "proves_key demo_lib (auth_clock 1800000000 7) (signed_request ''1800000000'') auth_demo auth_root ?d"
    "proves_key demo_lib (auth_clock 1800000200 200000000000) (signed_request ''1800000000'') ?st1 auth_root ?d"
    unfolding proves_key_def same target using facts by (simp_all add: signed_request_def auth_clock_def auth_demo_def)
  moreover have "guard_ok (as_replay auth_demo)" "rg_window (as_replay auth_demo) = 300 * nanos_per_sec"
    by (simp_all add: auth_demo_def default_guard_ok default_guard_window)
  ultimately show ?thesis
    using accepted_signature_is_spent [OF _ _ run _ refl] by (simp add: auth_clock_def nanos_per_sec_def)
qed

subsection \<open>The pinned master\<close>

text \<open>Requests served one after the other, each on whatever the database holds by then.\<close>

fun serve :: "lib \<Rightarrow> (auth_env \<times> auth_request \<times> db) list \<Rightarrow> auth_state \<Rightarrow> (app_error + ip_addr \<times> api_key) list \<times> auth_state" where
  "serve l [] st = ([], st)"
| "serve l ((ae, rq, db) # xs) st =
     (let (r, st1) = auth_middleware l ae rq (st\<lparr>as_db := db\<rparr>); (rs, st2) = serve l xs st1 in (r # rs, st2))"

lemma auth_pin:
  assumes "as_pin st = Some m" "auth_middleware l ae rq st = (res, st')"
  shows "as_pin st' = Some m \<and> (\<forall>ip caller. res = Inr (ip, caller) \<longrightarrow> k_is_master caller \<longrightarrow> k_id caller = m)"
proof -
  have "as_pin st' = Some m \<and> (k_is_master caller \<longrightarrow> k_id caller = m)"
    if "authenticate_pin ix db (Some m) key = (caller, as_pin st')" for ix db key caller
    using authenticate_pin_key [OF that] authenticate_pin_cell [OF that refl] by (cases key) auto
  note pinned = this
  show ?thesis
  proof (cases res)
    case (Inl e)
    then show ?thesis using auth_after [of st l ae rq] assms unfolding after_def by auto
  next
    case (Inr r)
    then obtain ip caller where "res = Inr (ip, caller)" by (cases r) auto
    with auth_after [of st l ae rq] assms obtain key where
      "authenticate_pin (ae_has_index ae) (as_db st) (Some m) key = (caller, as_pin st')" unfolding after_def by auto
    from pinned [OF this] show ?thesis using \<open>res = Inr (ip, caller)\<close> by simp
  qed
qed

text \<open>
  C12 Mastery is an identity fixed at boot: once the pin is set, in every sequence of requests over
  databases changed arbitrarily in between, no caller but the pinned one ever acts as a master,
  whatever the \<open>is_master\<close> column says, and the pin itself never moves.
\<close>

theorem only_pinned_master_acts:
  assumes "as_pin st = Some m"
  shows "as_pin (snd (serve l xs st)) = Some m \<and>
    (\<forall>ip caller. Inr (ip, caller) \<in> set (fst (serve l xs st)) \<longrightarrow> k_is_master caller \<longrightarrow> k_id caller = m)"
  using assms
proof (induction xs arbitrary: st)
  case (Cons x xs)
  obtain ae rq db where x: "x = (ae, rq, db)" by (cases x)
  obtain r st1 where step: "auth_middleware l ae rq (st\<lparr>as_db := db\<rparr>) = (r, st1)" by (cases "auth_middleware l ae rq (st\<lparr>as_db := db\<rparr>)")
  from auth_pin [OF _ step] Cons.prems have pin: "as_pin st1 = Some m"
    "\<forall>ip caller. r = Inr (ip, caller) \<longrightarrow> k_is_master caller \<longrightarrow> k_id caller = m" by auto
  from Cons.IH [OF pin(1)] pin(2) show ?case by (auto simp: x step split: prod.splits)
qed simp

text \<open>The pin is another key's: the promoted row is served as an ordinary key.\<close>

theorem only_pinned_master_acts_witness:
  "\<exists>ip caller. fst (serve demo_lib [(auth_clock 1800000000 7, signed_request ''1800000000'', as_db auth_demo)] (auth_demo\<lparr>as_pin := Some 2\<rparr>)) =
     [Inr (ip, caller)] \<and> k_id caller = 1 \<and> \<not> k_is_master caller"
proof -
  have "map_prod is_ok as_pin (auth_middleware demo_lib (auth_clock 1800000000 7) (signed_request ''1800000000'') (auth_demo\<lparr>as_pin := Some 2\<rparr>)) = (True, Some 2)"
    "(case fst (auth_middleware demo_lib (auth_clock 1800000000 7) (signed_request ''1800000000'') (auth_demo\<lparr>as_pin := Some 2\<rparr>)) of
       Inr (ip, caller) \<Rightarrow> k_id caller | Inl e \<Rightarrow> 0) = 1"
    by code_simp+
  moreover have "as_pin (auth_demo\<lparr>as_pin := Some 2\<rparr>) = Some 2" "as_db (auth_demo\<lparr>as_pin := Some 2\<rparr>) = as_db auth_demo" by simp_all
  ultimately show ?thesis
    using only_pinned_master_acts [of "auth_demo\<lparr>as_pin := Some 2\<rparr>" 2 demo_lib
        "[(auth_clock 1800000000 7, signed_request ''1800000000'', as_db auth_demo)]"]
    by (auto simp: is_ok_def split: sum.splits prod.splits)
qed

text \<open>
  The window of the guard counts from the acceptance, the window of the timestamp is symmetric: a
  request stamped 300 seconds ahead is accepted, and the same bytes are accepted again once the
  guard has forgotten them, since the stamp is still fresh for another 300 seconds.
\<close>

lemma future_stamp_replays:
  "(let (first, st1) = auth_middleware demo_lib (auth_clock 1800000000 0) (signed_request ''1800000300'') auth_demo;
        (second, st2) = auth_middleware demo_lib (auth_clock 1800000301 301000000000) (signed_request ''1800000300'') st1
    in is_ok first \<and> is_ok second)"
  by code_simp

end
