(* ===== verification/Webhooks.thy ===== *)
theory Webhooks
  imports Crypto Keys
begin

text \<open>
  The webhook configuration endpoints (\<open>src/api/webhooks.rs\<close>) and the authentication modes of a
  dispatch target (\<open>src/entities/webhook_config.rs\<close>): creation, update with its forced rotation and
  its gate on privileged webhooks, clone, listing, deletion and reassignment. A webhook is private
  to its owner: every operation on one starts from the same ownership test.
\<close>

subsection \<open>Authentication modes\<close>

datatype auth_mode = CanonicalV1 | HmacOnly | ApiKeyOnly | NoAuth

definition DEFAULT_HMAC_TEMPLATE :: string where
  "DEFAULT_HMAC_TEMPLATE = ''{method}'' @ [CHR 0x5C] @ ''n{path}'' @ [CHR 0x5C] @ ''n{timestamp}'' @ [CHR 0x5C] @ ''n{body}''"
definition DEFAULT_SIGNATURE_HEADER :: string where "DEFAULT_SIGNATURE_HEADER = ''X-Signature-256''"
definition DEFAULT_SIGNATURE_PREFIX :: string where "DEFAULT_SIGNATURE_PREFIX = ''sha256=''"

fun mode_str :: "auth_mode \<Rightarrow> string" where
  "mode_str CanonicalV1 = ''CANONICAL_V1''"
| "mode_str HmacOnly = ''HMAC_ONLY''"
| "mode_str ApiKeyOnly = ''API_KEY_ONLY''"
| "mode_str NoAuth = ''NONE''"

definition ALL_MODES :: "string list" where
  "ALL_MODES = [''CANONICAL_V1'', ''HMAC_ONLY'', ''API_KEY_ONLY'', ''NONE'']"

definition parse_mode :: "string \<Rightarrow> auth_mode option" where
  "parse_mode value =
     (let v = map to_ascii_upper (trim value) in
      if v = ''CANONICAL_V1'' then Some CanonicalV1
      else if v = ''HMAC_ONLY'' \<or> v = ''BODY_ONLY'' then Some HmacOnly
      else if v = ''API_KEY_ONLY'' then Some ApiKeyOnly
      else if v = ''NONE'' then Some NoAuth else None)"

definition mode_from_stored :: "string \<Rightarrow> auth_mode" where
  "mode_from_stored value = (case parse_mode value of Some m \<Rightarrow> m | None \<Rightarrow> HmacOnly)"

definition requires_secret :: "auth_mode \<Rightarrow> bool" where
  "requires_secret m = (m = CanonicalV1 \<or> m = HmacOnly)"

definition sends_api_key :: "auth_mode \<Rightarrow> bool" where
  "sends_api_key m = (m = CanonicalV1 \<or> m = ApiKeyOnly)"

subsection \<open>Messages\<close>

definition msg_no_read_target :: string where
  "msg_no_read_target = ''Permission denied: you have no read access to the target group''"
definition msg_bad_url :: string where "msg_bad_url = ''Invalid target_url: must be a well-formed URL''"
definition msg_bad_scheme :: string where "msg_bad_scheme = ''Invalid target_url: scheme must be http or https''"
definition msg_no_host :: string where "msg_no_host = ''Invalid target_url: missing host''"
definition msg_bad_event :: "string \<Rightarrow> string" where
  "msg_bad_event token = ''Invalid events entry '' @ quote token @ '': must be one of '' @ join_with '', '' IP_EVENT_ACTIONS"
definition msg_bad_mode :: "string \<Rightarrow> string" where
  "msg_bad_mode raw = ''Invalid auth_mode '' @ quote raw @ '': must be one of '' @ join_with '', '' ALL_MODES"
definition msg_needs_secret :: "auth_mode \<Rightarrow> string" where
  "msg_needs_secret m = ''auth_mode '' @ quote (mode_str m) @ '' computes an HMAC and requires a non-empty secret_token''"
definition msg_needs_api_key :: string where
  "msg_needs_api_key = ''auth_mode '' @ quote ''API_KEY_ONLY'' @ '' requires a non-empty api_key''"
definition msg_template_body :: string where
  "msg_template_body = ''hmac_template must contain {body}: a signature that does not cover the payload authenticates nothing''"
definition msg_privileged_edit :: string where
  "msg_privileged_edit = ''This webhook sends an api_key credential; only a master key may change its target_url, hmac_template, auth_mode, or api_key''"
definition msg_privileged_clone :: string where
  "msg_privileged_clone = ''This webhook sends an api_key credential; only a master key may clone it''"

subsection \<open>Checks\<close>

definition check_target_url :: "lib \<Rightarrow> string \<Rightarrow> app_error + unit" where
  "check_target_url l target =
     try_then (ok_or (InvalidInput msg_bad_url) (l_url_parse l target)) (\<lambda>u.
       if url_scheme u \<noteq> ''http'' \<and> url_scheme u \<noteq> ''https'' then Inl (InvalidInput msg_bad_scheme)
       else if url_host u = None then Inl (InvalidInput msg_no_host) else Inr ())"

fun check_event_tokens :: "string list \<Rightarrow> app_error + unit" where
  "check_event_tokens [] = Inr ()"
| "check_event_tokens (t # ts) =
     (if t \<notin> set IP_EVENT_ACTIONS then Inl (InvalidInput (msg_bad_event t)) else check_event_tokens ts)"

definition check_events :: "string option \<Rightarrow> app_error + unit" where
  "check_events events =
     (case events of None \<Rightarrow> Inr () | Some e \<Rightarrow> check_event_tokens (map trim (split_on (CHR '','') e)))"

definition check_template :: "string option \<Rightarrow> app_error + unit" where
  "check_template template =
     (case template of Some t \<Rightarrow> (if \<not> contains_str ''{body}'' t then Inl (InvalidInput msg_template_body) else Inr ())
      | None \<Rightarrow> Inr ())"

definition check_readable_group :: "db \<Rightarrow> api_key \<Rightarrow> uuid \<Rightarrow> app_error + unit" where
  "check_readable_group db key grp_id =
     (case caller_group_permission db (k_id key) grp_id of
        Some p \<Rightarrow> (if p_can_read p then Inr () else Inl (Forbidden msg_no_read_target))
      | None \<Rightarrow> Inl (Forbidden msg_no_read_target))"

definition requested_mode :: "string option \<Rightarrow> app_error + auth_mode option" where
  "requested_mode raw =
     (case raw of
        None \<Rightarrow> Inr None
      | Some r \<Rightarrow> try_then (ok_or (InvalidInput (msg_bad_mode r)) (parse_mode r)) (\<lambda>m. Inr (Some m)))"

definition not_blank :: "string \<Rightarrow> string option" where
  "not_blank s = (if s \<noteq> [] then Some s else None)"

definition non_blank :: "string option \<Rightarrow> string option" where
  "non_blank v = (case v of Some s \<Rightarrow> not_blank s | None \<Rightarrow> None)"

text \<open>The ownership test of every operation on one webhook: a webhook of another key looks absent.\<close>
definition find_own_webhook :: "db \<Rightarrow> api_key \<Rightarrow> uuid \<Rightarrow> app_error + webhook_config" where
  "find_own_webhook db key i =
     try_then (ok_or NotFound (find_webhook i db)) (\<lambda>w.
       if \<not> k_is_master key \<and> w_owner_key_id w \<noteq> Some (k_id key) then Inl NotFound else Inr w)"

definition guard_webhook_scope :: "api_key \<Rightarrow> app_error + unit" where
  "guard_webhook_scope key =
     (if \<not> k_is_master key \<and> \<not> k_can_manage_webhooks key then Inl (Forbidden msg_permission_denied) else Inr ())"

definition privileged :: "webhook_config \<Rightarrow> bool" where
  "privileged w = (case w_api_key w of Some k \<Rightarrow> k \<noteq> [] | None \<Rightarrow> False)"

subsection \<open>Creation\<close>

record create_webhook_payload =
  cw_name :: string
  cw_target_url :: string
  cw_secret_token :: "string option"
  cw_headers_json :: "string option"
  cw_payload_template :: string
  cw_group_id :: uuid
  cw_is_active :: "bool option"
  cw_events :: "string option"
  cw_auth_mode :: "string option"
  cw_signature_mode :: "string option"
  cw_api_key :: "string option"
  cw_hmac_template :: "string option"
  cw_signature_header :: "string option"
  cw_signature_prefix :: "string option"

definition created_webhook :: "env \<Rightarrow> api_key \<Rightarrow> create_webhook_payload \<Rightarrow> auth_mode \<Rightarrow> webhook_config" where
  "created_webhook env key p mode =
     \<lparr>w_id = e_uuid env 0, w_name = cw_name p, w_target_url = cw_target_url p,
      w_secret_token = unwrap_or [] (cw_secret_token p), w_auth_mode = mode_str mode,
      w_api_key = non_blank (map_option trim (cw_api_key p)), w_hmac_template = non_blank (cw_hmac_template p),
      w_signature_header = non_blank (map_option trim (cw_signature_header p)),
      w_signature_prefix = cw_signature_prefix p, w_headers_json = cw_headers_json p,
      w_payload_template = cw_payload_template p, w_group_id = cw_group_id p,
      w_is_active = unwrap_or True (cw_is_active p), w_events = cw_events p,
      w_owner_key_id = resource_owner key, w_created_at = e_now env\<rparr>"

definition check_mode_needs :: "auth_mode \<Rightarrow> string \<Rightarrow> string option \<Rightarrow> app_error + unit" where
  "check_mode_needs mode secret api_key =
     (if requires_secret mode \<and> secret = [] then Inl (InvalidInput (msg_needs_secret mode))
      else if mode = ApiKeyOnly \<and> api_key = None then Inl (InvalidInput msg_needs_api_key) else Inr ())"

definition create_webhook ::
  "lib \<Rightarrow> env \<Rightarrow> api_key \<Rightarrow> create_webhook_payload \<Rightarrow> db \<Rightarrow> (uuid \<times> string \<times> string) outcome" where
  "create_webhook l env key p db =
     attempt (guard_webhook_scope key) db (\<lambda>_.
     attempt (if \<not> k_is_master key then check_readable_group db key (cw_group_id p) else Inr ()) db (\<lambda>_.
     attempt (check_target_url l (cw_target_url p)) db (\<lambda>_.
     attempt (check_events (cw_events p)) db (\<lambda>_.
     attempt (requested_mode (case cw_auth_mode p of Some m \<Rightarrow> Some m | None \<Rightarrow> cw_signature_mode p)) db (\<lambda>requested.
       let mode = unwrap_or CanonicalV1 requested; w = created_webhook env key p mode in
       attempt (check_mode_needs mode (w_secret_token w) (w_api_key w)) db (\<lambda>_.
       attempt (check_template (w_hmac_template w)) db (\<lambda>_.
       attempt (insert_webhook w db) db (\<lambda>db1.
       attempt (create_audit_log env (e_uuid env 1) key ''WEBHOOK_CREATE'' None None (Some (cw_target_url p)) db1) db1 (\<lambda>db2.
         (Inr (w_id w, cw_target_url p, mode_str mode), db2))))))))))"

subsection \<open>The public view\<close>

record webhook_summary =
  ws_id :: uuid
  ws_name :: string
  ws_target_url :: string
  ws_headers_json :: "string option"
  ws_payload_template :: string
  ws_group_id :: uuid
  ws_is_active :: bool
  ws_events :: "string option"
  ws_auth_mode :: string
  ws_hmac_template :: string
  ws_has_api_key :: bool
  ws_signature_header :: string
  ws_signature_prefix :: string
  ws_created_at :: datetime

definition webhook_summary_of :: "webhook_config \<Rightarrow> webhook_summary" where
  "webhook_summary_of w =
     \<lparr>ws_id = w_id w, ws_name = w_name w, ws_target_url = w_target_url w, ws_headers_json = w_headers_json w,
      ws_payload_template = w_payload_template w, ws_group_id = w_group_id w, ws_is_active = w_is_active w,
      ws_events = w_events w, ws_auth_mode = mode_str (mode_from_stored (w_auth_mode w)),
      ws_hmac_template = unwrap_or DEFAULT_HMAC_TEMPLATE (w_hmac_template w), ws_has_api_key = privileged w,
      ws_signature_header = unwrap_or DEFAULT_SIGNATURE_HEADER (w_signature_header w),
      ws_signature_prefix = unwrap_or DEFAULT_SIGNATURE_PREFIX (w_signature_prefix w), ws_created_at = w_created_at w\<rparr>"

subsection \<open>Update\<close>

record update_webhook_payload =
  uw_name :: "string option"
  uw_target_url :: "string option"
  uw_hmac_template :: "string option"
  uw_secret_token :: "string option"
  uw_headers_json :: "string option"
  uw_payload_template :: "string option"
  uw_events :: "string option"
  uw_is_active :: "bool option"
  uw_group_id :: "uuid option"
  uw_auth_mode :: "string option"
  uw_api_key :: "string option"
  uw_signature_header :: "string option"
  uw_signature_prefix :: "string option"

record update_webhook_response =
  uwr_webhook :: webhook_summary
  uwr_secret_rotated :: bool
  uwr_secret_token :: "string option"

text \<open>What the request changes, against the effective current values.\<close>

definition url_changed :: "update_webhook_payload \<Rightarrow> webhook_config \<Rightarrow> bool" where
  "url_changed p w = (case uw_target_url p of Some u \<Rightarrow> u \<noteq> w_target_url w | None \<Rightarrow> False)"

definition template_changed :: "update_webhook_payload \<Rightarrow> webhook_config \<Rightarrow> bool" where
  "template_changed p w =
     (case non_blank (uw_hmac_template p) of
        Some t \<Rightarrow> t \<noteq> unwrap_or DEFAULT_HMAC_TEMPLATE (w_hmac_template w) | None \<Rightarrow> False)"

definition mode_changed :: "auth_mode option \<Rightarrow> webhook_config \<Rightarrow> bool" where
  "mode_changed requested w = (case requested of Some m \<Rightarrow> m \<noteq> mode_from_stored (w_auth_mode w) | None \<Rightarrow> False)"

definition effective_mode :: "auth_mode option \<Rightarrow> webhook_config \<Rightarrow> auth_mode" where
  "effective_mode requested w = unwrap_or (mode_from_stored (w_auth_mode w)) requested"

definition requested_api_key :: "update_webhook_payload \<Rightarrow> string option option" where
  "requested_api_key p = map_option (\<lambda>s. not_blank (trim s)) (uw_api_key p)"

definition effective_api_key :: "update_webhook_payload \<Rightarrow> webhook_config \<Rightarrow> string option" where
  "effective_api_key p w = unwrap_or (w_api_key w) (requested_api_key p)"

definition must_rotate :: "update_webhook_payload \<Rightarrow> auth_mode option \<Rightarrow> webhook_config \<Rightarrow> bool" where
  "must_rotate p requested w =
     ((url_changed p w \<or> template_changed p w \<or> mode_changed requested w) \<and> requires_secret (effective_mode requested w))"

text \<open>The new secret, if any, and the one that is handed back because the service made it.\<close>
definition rotated_secret :: "string \<Rightarrow> update_webhook_payload \<Rightarrow> auth_mode option \<Rightarrow> webhook_config \<Rightarrow> string option \<times> string option" where
  "rotated_secret generated p requested w =
     (case non_blank (map_option trim (uw_secret_token p)) of
        Some supplied \<Rightarrow> (Some supplied, None)
      | None \<Rightarrow> (if must_rotate p requested w then (Some generated, Some generated) else (None, None)))"

definition updated_webhook :: "update_webhook_payload \<Rightarrow> auth_mode option \<Rightarrow> string option \<Rightarrow> webhook_config \<Rightarrow> webhook_config" where
  "updated_webhook p requested new_secret w =
     w\<lparr>w_name := unwrap_or (w_name w) (uw_name p),
       w_target_url := unwrap_or (w_target_url w) (uw_target_url p),
       w_hmac_template := (case uw_hmac_template p of Some t \<Rightarrow> not_blank t | None \<Rightarrow> w_hmac_template w),
       w_headers_json := (case uw_headers_json p of Some h \<Rightarrow> Some h | None \<Rightarrow> w_headers_json w),
       w_payload_template := unwrap_or (w_payload_template w) (uw_payload_template p),
       w_events := (case uw_events p of Some e \<Rightarrow> Some e | None \<Rightarrow> w_events w),
       w_is_active := unwrap_or (w_is_active w) (uw_is_active p),
       w_secret_token := unwrap_or (w_secret_token w) new_secret,
       w_group_id := unwrap_or (w_group_id w) (uw_group_id p),
       w_auth_mode := (case requested of Some m \<Rightarrow> mode_str m | None \<Rightarrow> w_auth_mode w),
       w_api_key := effective_api_key p w,
       w_signature_header := (case uw_signature_header p of Some h \<Rightarrow> not_blank (trim h) | None \<Rightarrow> w_signature_header w),
       w_signature_prefix := (case uw_signature_prefix p of Some s \<Rightarrow> Some s | None \<Rightarrow> w_signature_prefix w)\<rparr>"

definition update_webhook_details :: "string \<Rightarrow> bool \<Rightarrow> string" where
  "update_webhook_details name rotated =
     ''Updated webhook '' @ quote name @ (if rotated then '' (secret_token rotated)'' else [])"

definition check_retarget :: "db \<Rightarrow> api_key \<Rightarrow> update_webhook_payload \<Rightarrow> webhook_config \<Rightarrow> app_error + unit" where
  "check_retarget db key p w =
     (case uw_group_id p of
        Some g \<Rightarrow> (if g \<noteq> w_group_id w \<and> \<not> k_is_master key then check_readable_group db key g else Inr ())
      | None \<Rightarrow> Inr ())"

definition update_webhook ::
  "lib \<Rightarrow> env \<Rightarrow> api_key \<Rightarrow> uuid \<Rightarrow> update_webhook_payload \<Rightarrow> db \<Rightarrow> update_webhook_response outcome" where
  "update_webhook l env key i p db =
     attempt (guard_webhook_scope key) db (\<lambda>_.
     attempt (find_own_webhook db key i) db (\<lambda>w.
     attempt (case uw_target_url p of Some u \<Rightarrow> check_target_url l u | None \<Rightarrow> Inr ()) db (\<lambda>_.
     attempt (check_events (uw_events p)) db (\<lambda>_.
     attempt (check_template (uw_hmac_template p)) db (\<lambda>_.
     attempt (check_retarget db key p w) db (\<lambda>_.
     attempt (requested_mode (uw_auth_mode p)) db (\<lambda>requested.
       if (url_changed p w \<or> template_changed p w \<or> mode_changed requested w \<or> requested_api_key p \<noteq> None) \<and>
          privileged w \<and> \<not> k_is_master key
       then (Inl (Forbidden msg_privileged_edit), db)
       else if effective_mode requested w = ApiKeyOnly \<and> effective_api_key p w = None
       then (Inl (InvalidInput msg_needs_api_key), db)
       else (let rotate = must_rotate p requested w;
                 (new_secret, generated) = rotated_secret (generate_signing_secret l (e_random env 0)) p requested w in
         if requires_secret (effective_mode requested w) \<and> \<not> (new_secret \<noteq> None \<or> w_secret_token w \<noteq> [])
         then (Inl (InvalidInput (msg_needs_secret (effective_mode requested w))), db)
         else (let w1 = updated_webhook p requested new_secret w in
           attempt (update_webhook_row w1 db) db (\<lambda>db1.
           attempt (create_audit_log env (e_uuid env 0) key ''WEBHOOK_UPDATE'' None None
               (Some (update_webhook_details (w_name w1) rotate)) db1) db1 (\<lambda>db2.
             (Inr \<lparr>uwr_webhook = webhook_summary_of w1, uwr_secret_rotated = rotate, uwr_secret_token = generated\<rparr>, db2))))))))))))"

subsection \<open>Clone, listing, deletion, reassignment\<close>

definition cloned_webhook :: "env \<Rightarrow> api_key \<Rightarrow> string \<Rightarrow> string \<Rightarrow> webhook_config \<Rightarrow> webhook_config" where
  "cloned_webhook env key name secret w =
     w\<lparr>w_id := e_uuid env 0, w_name := name, w_secret_token := secret,
       w_auth_mode := mode_str (mode_from_stored (w_auth_mode w)), w_owner_key_id := resource_owner key,
       w_created_at := e_now env\<rparr>"

definition clone_webhook ::
  "lib \<Rightarrow> env \<Rightarrow> api_key \<Rightarrow> uuid \<Rightarrow> string \<Rightarrow> db \<Rightarrow> (webhook_summary \<times> string option) outcome" where
  "clone_webhook l env key i name db =
     attempt (guard_webhook_scope key) db (\<lambda>_.
     attempt (find_own_webhook db key i) db (\<lambda>w.
     attempt (if \<not> k_is_master key then check_readable_group db key (w_group_id w) else Inr ()) db (\<lambda>_.
       if privileged w \<and> \<not> k_is_master key then (Inl (Forbidden msg_privileged_clone), db)
       else (let generated = (if requires_secret (mode_from_stored (w_auth_mode w))
                   then Some (generate_signing_secret l (e_random env 0)) else None);
                 w1 = cloned_webhook env key name (unwrap_or [] generated) w in
         attempt (insert_webhook w1 db) db (\<lambda>db1.
         attempt (create_audit_log env (e_uuid env 1) key ''WEBHOOK_CLONE'' None None
             (Some (''Cloned '' @ quote (w_name w) @ '' ('' @ l_uuid_str l (w_id w) @ '') as '' @ quote name @
               '' ('' @ l_uuid_str l (w_id w1) @ '')'')) db1) db1 (\<lambda>db2.
           (Inr (webhook_summary_of w1, generated), db2)))))))"

definition list_webhooks :: "api_key \<Rightarrow> db \<Rightarrow> app_error + webhook_summary list" where
  "list_webhooks key db =
     try_then (guard_webhook_scope key) (\<lambda>_.
       Inr (map webhook_summary_of
         (if \<not> k_is_master key then filter (\<lambda>w. w_owner_key_id w = Some (k_id key)) (webhook_configs db)
          else webhook_configs db)))"

definition delete_webhook :: "lib \<Rightarrow> env \<Rightarrow> api_key \<Rightarrow> uuid \<Rightarrow> db \<Rightarrow> unit outcome" where
  "delete_webhook l env key i db =
     attempt (guard_webhook_scope key) db (\<lambda>_.
     attempt (find_own_webhook db key i) db (\<lambda>_.
       if count_rows (\<lambda>w. w_id w = i) (webhook_configs db) = 0 then (Inl NotFound, db)
       else (let db1 = delete_webhooks (\<lambda>w. w_id w = i) db in
         attempt (create_audit_log env (e_uuid env 0) key ''WEBHOOK_DELETE'' None None (Some (l_uuid_str l i)) db1) db1
           (\<lambda>db2. (Inr (), db2)))))"

definition webhook_owner_details :: "lib \<Rightarrow> string \<Rightarrow> uuid option \<Rightarrow> string" where
  "webhook_owner_details l name owner = (case owner of
     Some i \<Rightarrow> ''Owner of '' @ quote name @ '' set to '' @ l_uuid_str l i
   | None \<Rightarrow> ''Owner of '' @ quote name @ '' cleared (master-only)'')"

definition reassign_webhook_owner ::
  "lib \<Rightarrow> env \<Rightarrow> api_key \<Rightarrow> uuid \<Rightarrow> uuid option \<Rightarrow> db \<Rightarrow> (uuid \<times> uuid option) outcome" where
  "reassign_webhook_owner l env key i requested db =
     (if \<not> k_is_master key then (Inl (Forbidden ''Only the master key can reassign resource ownership''), db)
      else attempt (ok_or NotFound (find_webhook i db)) db (\<lambda>w.
        attempt (resolve_owner_assignment db requested) db (\<lambda>owner.
        attempt (update_webhook_row (w\<lparr>w_owner_key_id := owner\<rparr>) db) db (\<lambda>db1.
        attempt (create_audit_log env (e_uuid env 0) key ''WEBHOOK_OWNER_REASSIGN'' None None
            (Some (webhook_owner_details l (w_name w) owner)) db1) db1 (\<lambda>db2.
          (Inr (i, owner), db2))))))"

lemmas webhooks_run [run] = requires_secret_def sends_api_key_def mode_from_stored_def check_target_url_def check_events_def
  check_template_def check_readable_group_def requested_mode_def not_blank_def non_blank_def find_own_webhook_def
  guard_webhook_scope_def privileged_def created_webhook_def check_mode_needs_def create_webhook_def
  webhook_summary_of_def url_changed_def template_changed_def mode_changed_def effective_mode_def requested_api_key_def
  effective_api_key_def must_rotate_def rotated_secret_def updated_webhook_def check_retarget_def update_webhook_def
  cloned_webhook_def clone_webhook_def list_webhooks_def delete_webhook_def reassign_webhook_owner_def

subsection \<open>The schema's constraints are kept\<close>

lemma db_ok_create_webhook [store_intros]: "db_ok db \<Longrightarrow> db_ok (snd (create_webhook l env key p db))"
  by (rule after_leavingD, unfold create_webhook_def, intro after_rules; unfold leaving_def; (hypsubst+)?)
    (erule store_steps | rule store_intros | assumption)+

lemma db_ok_update_webhook [store_intros]: "db_ok db \<Longrightarrow> db_ok (snd (update_webhook l env key i p db))"
  by (rule after_leavingD, unfold update_webhook_def, intro after_rules; unfold leaving_def; (hypsubst+)?)
    (erule store_steps | rule store_intros | assumption)+

lemma db_ok_clone_webhook [store_intros]: "db_ok db \<Longrightarrow> db_ok (snd (clone_webhook l env key i name db))"
  by (rule after_leavingD, unfold clone_webhook_def, intro after_rules; unfold leaving_def; (hypsubst+)?)
    (erule store_steps | rule store_intros | assumption)+

lemma db_ok_delete_webhook [store_intros]: "db_ok db \<Longrightarrow> db_ok (snd (delete_webhook l env key i db))"
  by (rule after_leavingD, unfold delete_webhook_def, intro after_rules; unfold leaving_def; (hypsubst+)?)
    (erule store_steps | rule store_intros | assumption)+

lemma db_ok_reassign_webhook_owner [store_intros]: "db_ok db \<Longrightarrow> db_ok (snd (reassign_webhook_owner l env key i r db))"
  by (rule after_leavingD, unfold reassign_webhook_owner_def, intro after_rules; unfold leaving_def; (hypsubst+)?)
    (erule store_steps | rule store_intros | assumption)+

lemma find_own_webhook_InrD:
  "find_own_webhook db key i = Inr w \<Longrightarrow>
     find_webhook i db = Some w \<and> (k_is_master key \<or> w_owner_key_id w = Some (k_id key))"
  by (auto simp: find_own_webhook_def elim!: try_then_InrE split: if_splits)

lemma check_readable_group_InrD: "check_readable_group db key g = Inr u \<Longrightarrow> Read \<in> verbs_of db (k_id key) g"
  by (auto simp: check_readable_group_def caller_group_permission_def verbs_of_def split: option.splits if_splits)

lemma parse_mode_names:
  "parse_mode ''CANONICAL_V1'' = Some CanonicalV1" "parse_mode ''HMAC_ONLY'' = Some HmacOnly"
  "parse_mode ''API_KEY_ONLY'' = Some ApiKeyOnly" "parse_mode ''NONE'' = Some NoAuth"
  by code_simp+

lemma mode_round_trip [simp]: "parse_mode (mode_str m) = Some m"
  by (cases m) (simp_all add: parse_mode_names)

lemma mode_from_stored_str [simp]: "mode_from_stored (mode_str m) = m"
  by (simp add: mode_from_stored_def)

end
