(* ===== verification/Webhook_Properties.thy ===== *)
theory Webhook_Properties
  imports Webhooks Samples
begin

text \<open>
  The properties of the webhook endpoints: a webhook is invisible to every key but its owner and the
  master, its reach is bounded by what its owner may read, and a credential configured for one
  destination cannot be aimed at another.
\<close>

subsection \<open>Creator-private\<close>

lemma foreign_webhook_absent:
  assumes "\<not> k_is_master key" "find_webhook i db = Some w" "w_owner_key_id w \<noteq> Some (k_id key)"
  shows "find_own_webhook db key i = Inl NotFound"
  using assms by (simp add: find_own_webhook_def)

text \<open>
  C24 A webhook of another key looks absent: update, clone and deletion answer as they do for an id
  that does not exist and write nothing, and the listing is exactly the caller's own webhooks, in
  a form that carries no credential. Pre-migration rows without an owner are the master's alone.
\<close>

theorem webhooks_are_creator_private:
  assumes "\<not> k_is_master key" "k_can_manage_webhooks key"
    "\<forall>w. find_webhook i db = Some w \<longrightarrow> w_owner_key_id w \<noteq> Some (k_id key)"
  shows "update_webhook l env key i p db = (Inl NotFound, db) \<and>
    clone_webhook l env key i name db = (Inl NotFound, db) \<and>
    delete_webhook l env key i db = (Inl NotFound, db) \<and>
    list_webhooks key db = Inr (map webhook_summary_of (filter (\<lambda>w. w_owner_key_id w = Some (k_id key)) (webhook_configs db)))"
proof -
  have "find_own_webhook db key i = Inl NotFound"
    using foreign_webhook_absent [OF assms(1)] assms(3) by (cases "find_webhook i db") (auto simp: find_own_webhook_def)
  then show ?thesis
    using assms(1,2) by (simp add: update_webhook_def clone_webhook_def delete_webhook_def list_webhooks_def guard_webhook_scope_def)
qed

definition hook_db :: db where
  "hook_db = demo_db\<lparr>webhook_configs := [sample_webhook 30 10 (Some 2),
     (sample_webhook 31 10 (Some 4))\<lparr>w_api_key := Some ''remote-key''\<rparr>]\<rparr>"

definition hook_keeper :: api_key where "hook_keeper = stranger_key\<lparr>k_can_manage_webhooks := True\<rparr>"

lemmas hook_run = run hook_db_def hook_keeper_def

lemma hook_db_ok: "db_ok hook_db"
  by (simp add: db_ok_def refs_ok_def table_defs hook_db_def demo_db_def empty_db_def sample_defs)

theorem webhooks_are_creator_private_witness:
  "delete_webhook demo_lib demo_env hook_keeper 30 hook_db = (Inl NotFound, hook_db) \<and>
   fst (delete_webhook demo_lib demo_env hook_keeper 31 hook_db) = Inr ()"
proof
  show "delete_webhook demo_lib demo_env hook_keeper 30 hook_db = (Inl NotFound, hook_db)"
    using webhooks_are_creator_private [of hook_keeper 30 hook_db demo_lib demo_env]
    by (simp add: hook_db_def hook_keeper_def find_webhook_def row_find_Cons sample_webhook_def)
qed (simp add: hook_run)

subsection \<open>Reach\<close>

lemma create_webhook_InrD:
  assumes "create_webhook l env key p db = (Inr r, db')"
  shows "\<exists>w. webhook_configs db' = webhook_configs db @ [w] \<and> w_owner_key_id w = resource_owner key \<and>
    w_group_id w = cw_group_id p \<and> (k_is_master key \<or> k_can_manage_webhooks key) \<and>
    (k_is_master key \<or> Read \<in> verbs_of db (k_id key) (w_group_id w)) \<and>
    (requires_secret (mode_from_stored (w_auth_mode w)) \<longrightarrow> w_secret_token w \<noteq> []) \<and>
    (case w_hmac_template w of Some t \<Rightarrow> contains_str ''{body}'' t | None \<Rightarrow> True) \<and>
    (\<exists>u. l_url_parse l (w_target_url w) = Some u \<and> url_scheme u \<in> {''http'', ''https''} \<and> url_host u \<noteq> None)"
proof -
  have "after (on_ok (\<lambda>r db'. \<exists>w. webhook_configs db' = webhook_configs db @ [w] \<and> w_owner_key_id w = resource_owner key \<and>
    w_group_id w = cw_group_id p \<and> (k_is_master key \<or> k_can_manage_webhooks key) \<and>
    (k_is_master key \<or> Read \<in> verbs_of db (k_id key) (w_group_id w)) \<and>
    (requires_secret (mode_from_stored (w_auth_mode w)) \<longrightarrow> w_secret_token w \<noteq> []) \<and>
    (case w_hmac_template w of Some t \<Rightarrow> contains_str ''{body}'' t | None \<Rightarrow> True) \<and>
    (\<exists>u. l_url_parse l (w_target_url w) = Some u \<and> url_scheme u \<in> {''http'', ''https''} \<and> url_host u \<noteq> None)))
    (create_webhook l env key p db)"
    unfolding create_webhook_def
  proof (intro after_rules, goal_cases)
    case (10 a b c d requested mode w e f db1 db2)
    have "webhook_configs db2 = webhook_configs db @ [w]"
      using insert_webhook_InrD [OF 10(10)] create_audit_log_frame [OF 10(11)] by simp
    moreover have fields: "w_owner_key_id w = resource_owner key" "w_group_id w = cw_group_id p"
      "w_target_url w = cw_target_url p" "w_auth_mode w = mode_str mode"
      using 10(7) by (simp_all add: created_webhook_def)
    moreover have "k_is_master key \<or> k_can_manage_webhooks key" using 10(1) by (auto simp: guard_webhook_scope_def split: if_splits)
    moreover have "k_is_master key \<or> Read \<in> verbs_of db (k_id key) (cw_group_id p)"
      using 10(2) check_readable_group_InrD by (auto split: if_splits)
    moreover have "requires_secret mode \<longrightarrow> w_secret_token w \<noteq> []" using 10(8) by (auto simp: check_mode_needs_def split: if_splits)
    moreover have "case w_hmac_template w of Some t \<Rightarrow> contains_str ''{body}'' t | None \<Rightarrow> True"
      using 10(9) by (auto simp: check_template_def split: option.splits if_splits)
    moreover have "\<exists>u. l_url_parse l (cw_target_url p) = Some u \<and> url_scheme u \<in> {''http'', ''https''} \<and> url_host u \<noteq> None"
      using 10(3) by (auto simp: check_target_url_def elim!: try_then_InrE split: if_splits)
    ultimately show ?case by (simp only: on_ok_simps) (intro exI [of _ w], simp)
  qed simp_all
  from after_on_okD [OF this assms] show ?thesis .
qed

text \<open>An update replaces one row, which the caller may see, by \<open>updated_webhook\<close> of it.\<close>

lemma update_webhook_InrD:
  assumes "update_webhook l env key i p db = (Inr resp, db')"
  shows "\<exists>w requested new_secret generated. find_webhook i db = Some w \<and> (k_is_master key \<or> w_owner_key_id w = Some (k_id key)) \<and>
    requested_mode (uw_auth_mode p) = Inr requested \<and> check_retarget db key p w = Inr () \<and>
    check_template (uw_hmac_template p) = Inr () \<and>
    \<not> ((url_changed p w \<or> template_changed p w \<or> mode_changed requested w \<or> requested_api_key p \<noteq> None) \<and>
       privileged w \<and> \<not> k_is_master key) \<and>
    rotated_secret (generate_signing_secret l (e_random env 0)) p requested w = (new_secret, generated) \<and>
    webhook_configs db' = row_update w_id (updated_webhook p requested new_secret w) (webhook_configs db) \<and>
    uwr_secret_token resp = generated \<and> uwr_secret_rotated resp = must_rotate p requested w"
proof -
  let ?Q = "\<lambda>resp db'. \<exists>w requested new_secret generated. find_webhook i db = Some w \<and> (k_is_master key \<or> w_owner_key_id w = Some (k_id key)) \<and>
    requested_mode (uw_auth_mode p) = Inr requested \<and> check_retarget db key p w = Inr () \<and>
    check_template (uw_hmac_template p) = Inr () \<and>
    \<not> ((url_changed p w \<or> template_changed p w \<or> mode_changed requested w \<or> requested_api_key p \<noteq> None) \<and>
       privileged w \<and> \<not> k_is_master key) \<and>
    rotated_secret (generate_signing_secret l (e_random env 0)) p requested w = (new_secret, generated) \<and>
    webhook_configs db' = row_update w_id (updated_webhook p requested new_secret w) (webhook_configs db) \<and>
    uwr_secret_token resp = generated \<and> uwr_secret_rotated resp = must_rotate p requested w"
  have "after (on_ok ?Q) (update_webhook l env key i p db)"
    unfolding update_webhook_def
  proof (intro after_rules, goal_cases)
    case (13 a w b c d e requested rotate x new_secret generated w1 db1 db2)
    have "webhook_configs db2 = row_update w_id w1 (webhook_configs db)"
      using update_webhook_row_InrD [OF 13(15)] create_audit_log_frame [OF 13(16)] by simp
    moreover have "rotated_secret (generate_signing_secret l (e_random env 0)) p requested w = (new_secret, generated)"
      using 13(11,12) by simp
    ultimately show ?case
      using find_own_webhook_InrD [OF 13(2)] 13(5,6,7,8,10,14)
      by (simp only: on_ok_simps) (intro exI [of _ w] exI [of _ requested] exI [of _ new_secret] exI [of _ generated], simp)
  qed simp_all
  from after_on_okD [OF this assms] show ?thesis .
qed

lemma updated_webhook_found:
  "find_webhook i db = Some w \<Longrightarrow> webhook_configs db' = row_update w_id (updated_webhook p requested s w) (webhook_configs db) \<Longrightarrow>
     find_webhook i db' = Some (updated_webhook p requested s w)"
  using find_webhook_SomeD [of i db w] by (auto simp: find_webhook_def row_find_update updated_webhook_def)

text \<open>The changes the update looks for are the changes it makes.\<close>

lemma updated_webhook_changes:
  assumes "check_template (uw_hmac_template p) = Inr ()"
  shows "url_changed p w \<longleftrightarrow> w_target_url (updated_webhook p requested s w) \<noteq> w_target_url w"
    "template_changed p w \<longleftrightarrow> unwrap_or DEFAULT_HMAC_TEMPLATE (w_hmac_template (updated_webhook p requested s w)) \<noteq>
       unwrap_or DEFAULT_HMAC_TEMPLATE (w_hmac_template w)"
    "mode_changed requested w \<longleftrightarrow> mode_from_stored (w_auth_mode (updated_webhook p requested s w)) \<noteq> mode_from_stored (w_auth_mode w)"
    "mode_from_stored (w_auth_mode (updated_webhook p requested s w)) = effective_mode requested w"
    "requested_api_key p = None \<Longrightarrow> w_api_key (updated_webhook p requested s w) = w_api_key w"
proof -
  show "template_changed p w \<longleftrightarrow> unwrap_or DEFAULT_HMAC_TEMPLATE (w_hmac_template (updated_webhook p requested s w)) \<noteq>
       unwrap_or DEFAULT_HMAC_TEMPLATE (w_hmac_template w)"
    using assms by (auto simp: template_changed_def updated_webhook_def check_template_def non_blank_def not_blank_def unwrap_or_def
        split: option.splits if_splits)
qed (auto simp: url_changed_def mode_changed_def effective_mode_def effective_api_key_def updated_webhook_def unwrap_or_def
    split: option.splits)


subsection \<open>Repointing\<close>

text \<open>
  C26 Repointing a webhook forfeits its credentials: when an update changes the target, the effective
  template or the mode of a webhook that then signs, the secret is replaced by the caller's own or
  by one generated for this response, and a non-master changes none of these, nor the api key, of a
  webhook that carries an api key.
\<close>

theorem repointing_forfeits_credentials:
  assumes "db_ok db" "update_webhook l env key i p db = (Inr resp, db')"
  shows "\<exists>w w'. find_webhook i db = Some w \<and> find_webhook i db' = Some w' \<and>
    (k_is_master key \<or> w_owner_key_id w = Some (k_id key)) \<and> w_owner_key_id w' = w_owner_key_id w \<and>
    ((w_target_url w' \<noteq> w_target_url w \<or>
        unwrap_or DEFAULT_HMAC_TEMPLATE (w_hmac_template w') \<noteq> unwrap_or DEFAULT_HMAC_TEMPLATE (w_hmac_template w) \<or>
        mode_from_stored (w_auth_mode w') \<noteq> mode_from_stored (w_auth_mode w)) \<and>
       requires_secret (mode_from_stored (w_auth_mode w')) \<longrightarrow>
      (w_secret_token w' = generate_signing_secret l (e_random env 0) \<and> uwr_secret_token resp = Some (w_secret_token w')) \<or>
      (\<exists>s. uw_secret_token p = Some s \<and> trim s \<noteq> [] \<and> w_secret_token w' = trim s \<and> uwr_secret_token resp = None)) \<and>
    (\<not> k_is_master key \<and> privileged w \<longrightarrow> w_target_url w' = w_target_url w \<and>
        unwrap_or DEFAULT_HMAC_TEMPLATE (w_hmac_template w') = unwrap_or DEFAULT_HMAC_TEMPLATE (w_hmac_template w) \<and>
        mode_from_stored (w_auth_mode w') = mode_from_stored (w_auth_mode w) \<and> w_api_key w' = w_api_key w)"
proof -
  from update_webhook_InrD [OF assms(2)] obtain w requested new_secret generated where
    w: "find_webhook i db = Some w" "k_is_master key \<or> w_owner_key_id w = Some (k_id key)"
      "check_template (uw_hmac_template p) = Inr ()"
    and gate: "\<not> ((url_changed p w \<or> template_changed p w \<or> mode_changed requested w \<or> requested_api_key p \<noteq> None) \<and>
       privileged w \<and> \<not> k_is_master key)"
    and secret: "rotated_secret (generate_signing_secret l (e_random env 0)) p requested w = (new_secret, generated)"
      "uwr_secret_token resp = generated"
    and rows: "webhook_configs db' = row_update w_id (updated_webhook p requested new_secret w) (webhook_configs db)"
    by blast
  define w' where "w' = updated_webhook p requested new_secret w"
  note changes = updated_webhook_changes [OF w(3), where w = w and requested = requested and s = new_secret, folded w'_def]
  have kept: "new_secret = Some s \<Longrightarrow> w_secret_token w' = s" for s by (simp add: w'_def updated_webhook_def unwrap_or_def)
  have rotation: "(w_secret_token w' = generate_signing_secret l (e_random env 0) \<and> uwr_secret_token resp = Some (w_secret_token w')) \<or>
      (\<exists>s. uw_secret_token p = Some s \<and> trim s \<noteq> [] \<and> w_secret_token w' = trim s \<and> uwr_secret_token resp = None)"
    if "must_rotate p requested w"
  proof (cases "non_blank (map_option trim (uw_secret_token p))")
    case None
    then have "new_secret = Some (generate_signing_secret l (e_random env 0))"
      "uwr_secret_token resp = Some (generate_signing_secret l (e_random env 0))"
      using secret that by (auto simp: rotated_secret_def)
    then show ?thesis using kept by simp
  next
    case (Some s)
    then have "uw_secret_token p = Some v \<Longrightarrow> s = trim v \<and> trim v \<noteq> []" "uw_secret_token p \<noteq> None" for v
      by (auto simp: non_blank_def not_blank_def split: option.splits if_splits)
    then show ?thesis using secret Some kept by (auto simp: rotated_secret_def)
  qed
  have "find_webhook i db' = Some w'" "w_owner_key_id w' = w_owner_key_id w"
    using updated_webhook_found [OF w(1) rows] by (simp_all add: w'_def) (simp add: updated_webhook_def)
  then show ?thesis
    using w(1,2) gate rotation changes by (intro exI [of _ w] exI [of _ w']) (auto simp: must_rotate_def)
qed

definition hook_owner :: api_key where "hook_owner = manager_key\<lparr>k_can_manage_webhooks := True\<rparr>"

definition hook_update :: update_webhook_payload where
  "hook_update = \<lparr>uw_name = None, uw_target_url = Some ''https://elsewhere.example/'', uw_hmac_template = None,
     uw_secret_token = None, uw_headers_json = None, uw_payload_template = None, uw_events = None, uw_is_active = None,
     uw_group_id = None, uw_auth_mode = None, uw_api_key = None, uw_signature_header = None, uw_signature_prefix = None\<rparr>"

abbreviation hook_updated :: "update_webhook_response outcome" where
  "hook_updated \<equiv> update_webhook demo_lib demo_env hook_owner 30 hook_update hook_db"

lemma hook_updated_ok: "\<exists>r. hook_updated = (Inr r, snd hook_updated)"
proof -
  have "\<not> isl (fst hook_updated)" by code_simp
  then show ?thesis by (cases "fst hook_updated") (auto simp: prod_eq_iff)
qed

lemma hook_updated_row:
  "map_option (\<lambda>w. (w_target_url w, w_auth_mode w, w_group_id w)) (find_webhook 30 (snd hook_updated)) =
     Some (''https://elsewhere.example/'', ''HMAC_ONLY'', 10)"
  "map_option w_target_url (find_webhook 30 hook_db) = Some ''https://hooks.example/in''"
  by code_simp+


theorem repointing_forfeits_credentials_witness:
  "\<exists>w'. find_webhook 30 (snd hook_updated) = Some w' \<and> w_target_url w' = ''https://elsewhere.example/'' \<and>
     w_secret_token w' = generate_signing_secret demo_lib (e_random demo_env 0)"
proof -
  obtain r where "hook_updated = (Inr r, snd hook_updated)" using hook_updated_ok by blast
  from repointing_forfeits_credentials [OF hook_db_ok this] hook_updated_row parse_mode_names show ?thesis
    by (auto simp: mode_from_stored_def hook_update_def requires_secret_def)
qed

text \<open>A blank template is refused by the check before the branch that would clear it.\<close>

lemma blank_template_is_refused:
  "uw_hmac_template p = Some [] \<Longrightarrow> update_webhook l env key i p db = (Inr r, db') \<Longrightarrow> False"
  using update_webhook_InrD [of l env key i p db r db'] by (auto simp: check_template_def)

end
