(* ===== verification/Templates.thy ===== *)
theory Templates
  imports Webhooks App_State
begin

text \<open>
  The two template languages of a dispatch (\<open>src/dispatch.rs\<close>): the \<open>hmac_template\<close> with escapes
  and four placeholders, and the \<open>$\<close> variables of a target URL and a payload template. Both are
  expanded by a loop over the rest of the template; both are shown equal to rendering a token list
  that depends on the template alone, which is what makes a substituted value inert.
\<close>

subsection \<open>The signed template\<close>

text \<open>\<open>str::find\<close> on a set of characters.\<close>
definition find_any :: "char list \<Rightarrow> string \<Rightarrow> nat option" where
  "find_any cs s = (let n = length (takeWhile (\<lambda>c. c \<notin> set cs) s) in if n < length s then Some n else None)"

text \<open>\<open>iter().position(starts_with)\<close>: the first placeholder the text begins with.\<close>
fun placeholder_at :: "string list \<Rightarrow> string \<Rightarrow> nat option" where
  "placeholder_at [] s = None"
| "placeholder_at (p # ps) s = (if starts_with p s then Some 0 else map_option Suc (placeholder_at ps s))"

definition PLACEHOLDERS :: "string list" where
  "PLACEHOLDERS = [''{method}'', ''{path}'', ''{timestamp}'', ''{body}'']"

text \<open>
  The character after a backslash. A character beyond ASCII stands here with its first byte; the
  bytes that follow are no backslash and no brace, and are copied by the next round.
\<close>
definition unescape :: "char \<Rightarrow> string" where
  "unescape c =
     (if c = CHR ''n'' then [CHR 0x0A] else if c = CHR ''r'' then [CHR 0x0D] else if c = CHR ''t'' then [CHR 0x09]
      else if c = CHR 0x5C then [CHR 0x5C] else [CHR 0x5C, c])"

lemma placeholder_at_Some:
  "placeholder_at ps s = Some i \<Longrightarrow> i < length ps \<and> starts_with (ps ! i) s"
  by (induction ps arbitrary: i) (auto split: if_splits)

lemma placeholder_nonempty: "i < length PLACEHOLDERS \<Longrightarrow> PLACEHOLDERS ! i \<noteq> []"
  by (auto simp: PLACEHOLDERS_def less_Suc_eq numeral_eq_Suc)

lemma find_any_less: "find_any cs s = Some n \<Longrightarrow> n < length s"
  by (auto simp: find_any_def Let_def split: if_splits)

function (sequential) resolve_loop :: "string list \<Rightarrow> string \<Rightarrow> string \<Rightarrow> string" where
  "resolve_loop values out rest =
     (if rest = [] then out
      else (case find_any [CHR 0x5C, CHR ''{''] rest of
              None \<Rightarrow> out @ rest
            | Some idx \<Rightarrow>
                (let out1 = out @ take idx rest; rest1 = drop idx rest in
                 case strip_prefix [CHR 0x5C] rest1 of
                   Some [] \<Rightarrow> out1 @ [CHR 0x5C]
                 | Some (c # chars) \<Rightarrow> resolve_loop values (out1 @ unescape c) chars
                 | None \<Rightarrow>
                     (case placeholder_at PLACEHOLDERS rest1 of
                        Some i \<Rightarrow> resolve_loop values (out1 @ values ! i) (drop (length (PLACEHOLDERS ! i)) rest1)
                      | None \<Rightarrow> resolve_loop values (out1 @ ''{'') (drop 1 rest1)))))"
  by pat_completeness auto

termination
proof (relation "measure (\<lambda>(values, out, rest). length rest)", goal_cases)
  case (2 vals out rest idx out1 rest1)
  then show ?case using find_any_less [OF 2(2)] by simp
next
  case (3 vals out rest idx out1 rest1 i)
  have "length (PLACEHOLDERS ! i) > 0" using placeholder_at_Some [OF 3(6)] placeholder_nonempty by simp
  then show ?case using 3 find_any_less [OF 3(2)] by simp
next
  case (4 vals out rest idx out1 rest1 y c chars)
  then have "rest1 = CHR 0x5C # c # chars" by (simp add: strip_prefix_Some_iff)
  then have "length (c # chars) < length rest1" by simp
  moreover have "length rest1 \<le> length rest" using 4 by simp
  ultimately show ?case by simp
qed simp

declare resolve_loop.simps [simp del]

definition resolve_hmac_template :: "string \<Rightarrow> string \<Rightarrow> string \<Rightarrow> string \<Rightarrow> string \<Rightarrow> string" where
  "resolve_hmac_template template method path timestamp body = resolve_loop [method, path, timestamp, body] [] template"

subsection \<open>Event variables\<close>

text \<open>
  The loop over an arbitrary table. It does not end on a table with an empty placeholder, so it is
  a partial function; the fixed table of an event has none.
\<close>
partial_function (option) substitute_loop :: "(string \<times> string) list \<Rightarrow> string \<Rightarrow> string \<Rightarrow> string option" where
  "substitute_loop substitutions out rest =
     (if rest = [] then Some out
      else (case find_any [CHR ''$''] rest of
              None \<Rightarrow> Some (out @ rest)
            | Some idx \<Rightarrow>
                (case find (\<lambda>s. starts_with (fst s) (drop idx rest)) substitutions of
                   Some s \<Rightarrow> substitute_loop substitutions (out @ take idx rest @ snd s) (drop (length (fst s)) (drop idx rest))
                 | None \<Rightarrow> substitute_loop substitutions (out @ take idx rest @ ''$'') (drop 1 (drop idx rest)))))"

definition substitute_placeholders :: "string \<Rightarrow> (string \<times> string) list \<Rightarrow> string option" where
  "substitute_placeholders template substitutions = substitute_loop substitutions [] template"

definition EVENT_VARIABLES :: "string list" where
  "EVENT_VARIABLES = [''$target_address'', ''$ip'', ''$action'', ''$event'', ''$cause'', ''$group_name'', ''$group_id'', ''$timestamp'']"

definition event_values :: "lib \<Rightarrow> webhook_event \<Rightarrow> string \<Rightarrow> string list" where
  "event_values l ev timestamp =
     [ev_address ev, ev_address ev, ev_action ev, ev_action ev, unwrap_or ''Unknown'' (ev_cause ev),
      unwrap_or [] (ev_group_name ev), (case ev_group_id ev of Some g \<Rightarrow> l_uuid_str l g | None \<Rightarrow> []), timestamp]"

definition resolve_event_variables :: "lib \<Rightarrow> string \<Rightarrow> webhook_event \<Rightarrow> string \<Rightarrow> string" where
  "resolve_event_variables l template ev timestamp =
     the (substitute_placeholders template (zip EVENT_VARIABLES (event_values l ev timestamp)))"

subsection \<open>Tokens\<close>

datatype token = Verbatim char | Slot nat

fun token_text :: "string list \<Rightarrow> token \<Rightarrow> string" where
  "token_text values (Verbatim c) = [c]"
| "token_text values (Slot i) = values ! i"

definition render :: "string list \<Rightarrow> token list \<Rightarrow> string" where
  "render values ts = concat (map (token_text values) ts)"

text \<open>The tokens of a template over placeholders \<open>ps\<close>, with or without escapes.\<close>
function (sequential) tokens :: "bool \<Rightarrow> string list \<Rightarrow> string \<Rightarrow> token list" where
  "tokens esc ps [] = []"
| "tokens esc ps (c # s) =
     (if esc \<and> c = CHR 0x5C
      then (case s of [] \<Rightarrow> [Verbatim c] | d # s' \<Rightarrow> map Verbatim (unescape d) @ tokens esc ps s')
      else (case placeholder_at ps (c # s) of
              Some i \<Rightarrow> Slot i # tokens esc ps (drop (length (ps ! i) - 1) s)
            | None \<Rightarrow> Verbatim c # tokens esc ps s))"
  by pat_completeness auto
termination by (relation "measure (\<lambda>(esc, ps, s). length s)") auto

lemma render_simps [simp]:
  "render values [] = []" "render values (t # ts) = token_text values t @ render values ts"
  "render values (ts @ us) = render values ts @ render values us" "render values (map Verbatim s) = s"
  by (simp_all add: render_def) (induction s; simp)

text \<open>Placeholders that all start with the same character.\<close>
definition headed :: "char \<Rightarrow> string list \<Rightarrow> bool" where
  "headed h ps \<longleftrightarrow> (\<forall>p\<in>set ps. p \<noteq> [] \<and> hd p = h)"

lemma headed_PLACEHOLDERS: "headed (CHR ''{'') PLACEHOLDERS"
  by (simp add: headed_def PLACEHOLDERS_def)

lemma headed_EVENT_VARIABLES: "headed (CHR ''$'') EVENT_VARIABLES"
  by (simp add: headed_def EVENT_VARIABLES_def)

lemma placeholder_at_head:
  assumes "headed h ps" "c \<noteq> h"
  shows "placeholder_at ps (c # s) = None"
proof -
  have "\<not> starts_with p (c # s)" if "p \<in> set ps" for p
    using assms that by (cases p) (auto simp: headed_def)
  then show ?thesis by (induction ps) auto
qed

lemma tokens_plain:
  "headed h ps \<Longrightarrow> \<forall>c\<in>set u. c \<noteq> h \<and> \<not> (esc \<and> c = CHR 0x5C) \<Longrightarrow> tokens esc ps (u @ v) = map Verbatim u @ tokens esc ps v"
  by (induction u) (auto simp: placeholder_at_head)

lemma find_any_cases:
  obtains (none) "find_any cs s = None" "\<forall>c\<in>set s. c \<notin> set cs"
  | (some) u c v where "find_any cs s = Some (length u)" "s = u @ c # v" "\<forall>x\<in>set u. x \<notin> set cs" "c \<in> set cs"
proof (cases "dropWhile (\<lambda>c. c \<notin> set cs) s")
  case Nil
  then have "takeWhile (\<lambda>c. c \<notin> set cs) s = s" by (simp add: dropWhile_eq_Nil_conv)
  moreover have "\<forall>c\<in>set s. c \<notin> set cs" using Nil by (metis dropWhile_eq_Nil_conv)
  ultimately show ?thesis using none by (simp only: find_any_def Let_def less_irrefl if_False simp_thms)
next
  case (Cons c v)
  let ?u = "takeWhile (\<lambda>c. c \<notin> set cs) s"
  have s: "s = ?u @ c # v" using Cons by (metis takeWhile_dropWhile_id)
  have c: "c \<in> set cs" using hd_dropWhile [of "\<lambda>c. c \<notin> set cs" s] Cons by auto
  have "length s = length ?u + Suc (length v)" using arg_cong [OF s, of length] by simp
  then have "length ?u < length s" by linarith
  then have "find_any cs s = Some (length ?u)" by (simp add: find_any_def Let_def)
  then show ?thesis using some [OF _ s] c set_takeWhileD by metis
qed

text \<open>The loop of the code renders the tokens.\<close>

lemma resolve_loop_renders:
  "resolve_loop values out rest = out @ render values (tokens True PLACEHOLDERS rest)"
proof (induction rest arbitrary: out rule: length_induct)
  case (1 rest)
  show ?case
  proof (cases rule: find_any_cases [of "[CHR 0x5C, CHR ''{'']" rest])
    case none
    then have "tokens True PLACEHOLDERS (rest @ []) = map Verbatim rest @ tokens True PLACEHOLDERS []"
      by (intro tokens_plain [OF headed_PLACEHOLDERS]) auto
    then show ?thesis using none by (simp add: resolve_loop.simps)
  next
    case (some u c v)
    have plain: "tokens True PLACEHOLDERS (u @ w) = map Verbatim u @ tokens True PLACEHOLDERS w" for w
      using some(3) by (intro tokens_plain [OF headed_PLACEHOLDERS]) auto
    have IH: "resolve_loop values out' w = out' @ render values (tokens True PLACEHOLDERS w)"
      if "length w \<le> length v" for out' w using 1 that some(2) by simp
    show ?thesis
    proof (cases "c = CHR 0x5C")
      case True
      then show ?thesis
        using some IH by (subst resolve_loop.simps) (auto simp: plain strip_prefix_def split: list.splits)
    next
      case False
      then have c: "c = CHR ''{''" using some(4) by simp
      show ?thesis
      proof (cases "placeholder_at PLACEHOLDERS (c # v)")
        case None
        then show ?thesis
          using some IH c by (subst resolve_loop.simps) (simp add: plain strip_prefix_def)
      next
        case (Some i)
        then have "length (PLACEHOLDERS ! i) > 0" using placeholder_at_Some placeholder_nonempty by blast
        then obtain n where n: "length (PLACEHOLDERS ! i) = Suc n" by (cases "length (PLACEHOLDERS ! i)") auto
        show ?thesis
          using some IH c Some n by (subst resolve_loop.simps) (simp add: plain strip_prefix_def)
      qed
    qed
  qed
qed

lemma find_zip:
  "length ps = length vs \<Longrightarrow>
     find (\<lambda>s. starts_with (fst s) r) (zip ps vs) = map_option (\<lambda>i. (ps ! i, vs ! i)) (placeholder_at ps r)"
  by (induction ps vs rule: list_induct2) (auto simp: option.map_comp comp_def)

lemma substitute_loop_renders:
  assumes "headed (CHR ''$'') ps" "length ps = length values"
  shows "substitute_loop (zip ps values) out rest = Some (out @ render values (tokens False ps rest))"
proof (induction rest arbitrary: out rule: length_induct)
  case (1 rest)
  show ?case
  proof (cases rule: find_any_cases [of "[CHR ''$'']" rest])
    case none
    then have "tokens False ps (rest @ []) = map Verbatim rest @ tokens False ps []"
      by (intro tokens_plain [OF assms(1)]) auto
    then show ?thesis using none by (simp add: substitute_loop.simps)
  next
    case (some u c v)
    have plain: "tokens False ps (u @ w) = map Verbatim u @ tokens False ps w" for w
      using some(3) by (intro tokens_plain [OF assms(1)]) auto
    have IH: "substitute_loop (zip ps values) out' w = Some (out' @ render values (tokens False ps w))"
      if "length w \<le> length v" for out' w using 1 that some(2) by simp
    show ?thesis
    proof (cases "placeholder_at ps (c # v)")
      case None
      then show ?thesis
        using some IH by (subst substitute_loop.simps) (simp add: plain find_zip [OF assms(2)])
    next
      case (Some i)
      then have "ps ! i \<in> set ps" using placeholder_at_Some by (metis nth_mem)
      then have "ps ! i \<noteq> []" using assms(1) by (simp add: headed_def)
      then obtain n where n: "length (ps ! i) = Suc n" by (metis length_Cons neq_Nil_conv)
      show ?thesis
        using some IH Some n by (subst substitute_loop.simps) (simp add: plain find_zip [OF assms(2)])
    qed
  qed
qed

lemma event_values_length: "length EVENT_VARIABLES = length (event_values l ev ts)"
  by (simp add: EVENT_VARIABLES_def event_values_def)

lemma event_substitution_returns:
  "substitute_placeholders t (zip EVENT_VARIABLES (event_values l ev ts)) = Some (resolve_event_variables l t ev ts)"
  using substitute_loop_renders [OF headed_EVENT_VARIABLES event_values_length]
  by (simp add: resolve_event_variables_def substitute_placeholders_def)

text \<open>Evaluation of a concrete expansion goes by its tokens.\<close>
lemma resolve_event_variables_code [code]:
  "resolve_event_variables l t ev ts = render (event_values l ev ts) (tokens False EVENT_VARIABLES t)"
  by (simp add: resolve_event_variables_def substitute_placeholders_def
      substitute_loop_renders [OF headed_EVENT_VARIABLES event_values_length])

subsection \<open>A template language\<close>

text \<open>
  What the dispatcher relies on: expansion renders tokens that the template alone determines. From
  that law a value is copied verbatim, and a message determines the value of a slot it has.
\<close>

locale template_language =
  fixes expand :: "'v \<Rightarrow> string \<Rightarrow> string"
    and values_of :: "'v \<Rightarrow> string list"
    and toks :: "string \<Rightarrow> token list"
  assumes expand_tokens: "expand v t = render (values_of v) (toks t)"
begin

lemma slot_verbatim: "Slot i \<in> set (toks t) \<Longrightarrow> contains_str (values_of v ! i) (expand v t)"
  unfolding expand_tokens render_def contains_str_iff by (fastforce simp: in_set_conv_decomp)

lemma agree_on_slots:
  assumes "\<And>i. Slot i \<in> set (toks t) \<Longrightarrow> values_of u ! i = values_of v ! i"
  shows "expand u t = expand v t"
proof -
  have "token_text (values_of u) tok = token_text (values_of v) tok" if "tok \<in> set (toks t)" for tok
    using that assms by (cases tok rule: token.exhaust) auto
  then show ?thesis by (simp add: expand_tokens render_def cong: map_cong)
qed

lemma slot_separates:
  assumes slot: "Slot i \<in> set (toks t)"
    and rest: "\<And>j. j \<noteq> i \<Longrightarrow> values_of u ! j = values_of v ! j"
    and same: "expand u t = expand v t"
  shows "values_of u ! i = values_of v ! i"
proof -
  let ?f = "\<lambda>v. token_text (values_of v)"
  have other: "?f u tok = ?f v tok" if "tok \<noteq> Slot i" for tok
    using that rest by (cases tok) auto
  have strict: "length (concat (map (?f x) ts)) < length (concat (map (?f y) ts))"
    if "Slot i \<in> set ts" "length (values_of x ! i) < length (values_of y ! i)"
      "\<And>tok. tok \<noteq> Slot i \<Longrightarrow> ?f x tok = ?f y tok" for x y ts
  proof -
    have le: "length (?f x tok) \<le> length (?f y tok)" for tok
      using that by (cases "tok = Slot i") auto
    obtain us vs where ts: "ts = us @ Slot i # vs" using \<open>Slot i \<in> set ts\<close> by (auto simp: in_set_conv_decomp)
    have "length (concat (map (?f x) us)) \<le> length (concat (map (?f y) us))" for us
      using le by (induction us) (auto intro: add_mono)
    from this [of us] this [of vs] show ?thesis using that(2) by (simp add: ts)
  qed
  have "length (values_of u ! i) = length (values_of v ! i)"
    using strict [OF slot, of u v] strict [OF slot, of v u] same other
    by (metis expand_tokens less_irrefl nat_neq_iff render_def)
  then have "length (?f u tok) = length (?f v tok)" for tok
    using other by (cases "tok = Slot i") auto
  then have "map (?f u) (toks t) = map (?f v) (toks t)"
    using same by (intro concat_injective) (auto simp: expand_tokens render_def set_zip)
  then show ?thesis using slot by auto
qed

end

interpretation hmac_language: template_language "\<lambda>values t. resolve_loop values [] t" "\<lambda>values. values" "tokens True PLACEHOLDERS"
  by unfold_locales (simp add: resolve_loop_renders)

interpretation event_language: template_language
  "\<lambda>(ev, ts) t. resolve_event_variables l t ev ts" "\<lambda>(ev, ts). event_values l ev ts" "tokens False EVENT_VARIABLES" for l
  by unfold_locales (auto simp: resolve_event_variables_code)

end
