(* ===== verification/Outbound.thy ===== *)
theory Outbound
  imports Templates
begin

text \<open>
  Where a dispatch may go and what it sends (\<open>src/dispatch.rs\<close>): the address blocklist, the screen
  of a target URL with the resolver as an argument, and the request built from a webhook row and an
  event.
\<close>

subsection \<open>The address blocklist\<close>

definition is_blocked_v4 :: "32 word \<Rightarrow> bool" where
  "is_blocked_v4 v4 =
     (v4_is_private v4 \<or> v4_is_loopback v4 \<or> v4_is_link_local v4 \<or> v4 = 0 \<or> v4_is_broadcast v4 \<or>
      v4_is_documentation v4 \<or> (octet 0 v4 = 100 \<and> 64 \<le> octet 1 v4 \<and> octet 1 v4 < 128) \<or> octet 0 v4 = 0 \<or>
      (octet 0 v4 = 192 \<and> octet 1 v4 = 0 \<and> octet 2 v4 = 0) \<or>
      (octet 0 v4 = 198 \<and> and (octet 1 v4) 0xfe = 18))"

definition is_blocked_v6 :: "128 word \<Rightarrow> bool" where
  "is_blocked_v6 v6 =
     (v6 = 1 \<or> v6 = 0 \<or> and (segment 0 v6) 0xfe00 = 0xfc00 \<or> and (segment 0 v6) 0xffc0 = 0xfe80)"

definition is_blocked_address :: "ip_addr \<Rightarrow> bool" where
  "is_blocked_address ip =
     (let ip' = (case ip of
                   V6 v6 \<Rightarrow> (case to_ipv4_mapped v6 of Some v4 \<Rightarrow> V4 v4 | None \<Rightarrow> V6 v6)
                 | V4 v4 \<Rightarrow> V4 v4) in
      case ip' of V4 v4 \<Rightarrow> is_blocked_v4 v4 | V6 v6 \<Rightarrow> is_blocked_v6 v6)"

text \<open>What the resolver answers for a host and port.\<close>
type_synonym resolver = "string \<Rightarrow> nat \<Rightarrow> ip_addr list option"

definition is_url_safe :: "lib \<Rightarrow> resolver \<Rightarrow> string \<Rightarrow> bool \<Rightarrow> bool" where
  "is_url_safe l dns url_str allow_private =
     (if allow_private then True
      else case l_url_parse l url_str of
        None \<Rightarrow> False
      | Some u \<Rightarrow>
          (if url_scheme u \<noteq> ''http'' \<and> url_scheme u \<noteq> ''https'' then False
           else case url_host u of
             None \<Rightarrow> False
           | Some host \<Rightarrow>
               (case dns host (unwrap_or 80 (url_port u)) of
                  None \<Rightarrow> False
                | Some addrs \<Rightarrow> (if addrs = [] then False else \<not> list_ex is_blocked_address addrs))))"

definition allow_private_webhooks :: "string option \<Rightarrow> bool" where
  "allow_private_webhooks var = (unwrap_or ''false'' var = ''true'')"

subsection \<open>The blocklist as address ranges\<close>

text \<open>A network of the table: its first address and the length of its prefix.\<close>
definition in_v4_net :: "32 word \<Rightarrow> nat \<times> nat \<Rightarrow> bool" where
  "in_v4_net w net = (unat w div 2 ^ (32 - snd net) = fst net div 2 ^ (32 - snd net))"

definition quad :: "nat \<Rightarrow> nat \<Rightarrow> nat \<Rightarrow> nat \<Rightarrow> nat" where
  "quad a b c d = ((a * 256 + b) * 256 + c) * 256 + d"

definition blocked_v4_nets :: "(nat \<times> nat) list" where
  "blocked_v4_nets =
     [(quad 0 0 0 0, 8), (quad 10 0 0 0, 8), (quad 100 64 0 0, 10), (quad 127 0 0 0, 8), (quad 169 254 0 0, 16),
      (quad 172 16 0 0, 12), (quad 192 0 0 0, 24), (quad 192 0 2 0, 24), (quad 192 168 0 0, 16), (quad 198 18 0 0, 15),
      (quad 198 51 100 0, 24), (quad 203 0 113 0, 24), (quad 255 255 255 255, 32)]"

lemma octet_div: "octet i w = unat w div 256 ^ (3 - i) mod 256"
proof -
  have "(2::nat) ^ (8 * (3 - i)) = 256 ^ (3 - i)" by (simp add: power_mult)
  moreover have "unat (drop_bit n w) = unat w div 2 ^ n" for n by (metis drop_bit_eq_div unat_drop_bit_eq)
  ultimately show ?thesis by (simp add: octet_def)
qed

lemma digits_unique:
  fixes x y a b B :: nat
  assumes "y < B" "b < B"
  shows "x * B + y = a * B + b \<longleftrightarrow> x = a \<and> y = b"
proof -
  have "(x * B + y) div B = x" "(x * B + y) mod B = y" "(a * B + b) div B = a" "(a * B + b) mod B = b"
    using assms by simp_all
  then show ?thesis by metis
qed

lemma octets_quad: "unat w = quad (octet 0 w) (octet 1 w) (octet 2 w) (octet 3 w)"
proof -
  have bound: "unat w < 2 ^ 32" using unsigned_less [of w] by simp
  have "n = quad (n div 256 ^ 3 mod 256) (n div 256 ^ 2 mod 256) (n div 256 mod 256) (n mod 256)" if "n < 2 ^ 32" for n :: nat
  proof -
    have assoc: "n div 256 ^ 3 = n div 256 div 256 div 256" "n div 256 ^ 2 = n div 256 div 256"
      by (simp_all add: div_mult2_eq [symmetric] power2_eq_square power3_eq_cube)
    have top: "n div 256 div 256 div 256 < 256" using that by (simp add: div_mult2_eq [symmetric] less_mult_imp_div_less)
    show ?thesis unfolding quad_def assoc using top by (simp add: mod_less)
  qed
  from this [OF bound] show ?thesis by (simp add: octet_div)
qed

lemma octet_quad:
  assumes "a < 256" "b < 256" "c < 256" "d < 256"
  shows "quad a b c d div 2 ^ 24 = a" "quad a b c d div 2 ^ 16 = a * 256 + b" "quad a b c d div 2 ^ 8 = (a * 256 + b) * 256 + c"
proof -
  show one: "quad a b c d div 2 ^ 8 = (a * 256 + b) * 256 + c" using assms by (simp add: quad_def)
  then have "quad a b c d div 2 ^ 8 div 2 ^ 8 = a * 256 + b" using assms by simp
  then show two: "quad a b c d div 2 ^ 16 = a * 256 + b" by (simp add: div_mult2_eq [symmetric])
  then have "quad a b c d div 2 ^ 16 div 2 ^ 8 = a" using assms by simp
  then show "quad a b c d div 2 ^ 24 = a" by (simp add: div_mult2_eq [symmetric])
qed

lemma in_v4_net_first: "in_v4_net w (quad a 0 0 0, 8) \<longleftrightarrow> octet 0 w = a" if "a < 256"
  using that octet_quad [of "octet 0 w" "octet 1 w" "octet 2 w" "octet 3 w"] octet_quad [of a 0 0 0]
  by (simp add: in_v4_net_def octets_quad [of w] octet_bound)

lemma in_v4_net_second: "in_v4_net w (quad a b 0 0, 16) \<longleftrightarrow> octet 0 w = a \<and> octet 1 w = b" if "a < 256" "b < 256"
proof -
  have "octet 0 w * 256 + octet 1 w = a * 256 + b \<longleftrightarrow> octet 0 w = a \<and> octet 1 w = b"
    using that octet_bound by (intro digits_unique)
  then show ?thesis
    using that octet_quad [of "octet 0 w" "octet 1 w" "octet 2 w" "octet 3 w"] octet_quad [of a b 0 0]
    by (simp add: in_v4_net_def octets_quad [of w] octet_bound)
qed

text \<open>A prefix between 8 and 16 bits: the first octet and the upper bits of the second.\<close>
lemma in_v4_net_between:
  assumes "a < 256" "b < 256" "n = 16 - k" "k \<le> 8"
  shows "in_v4_net w (quad a b 0 0, n) \<longleftrightarrow> octet 0 w = a \<and> octet 1 w div 2 ^ k = b div 2 ^ k"
proof -
  have pow: "(2::nat) ^ (32 - n) = 2 ^ 16 * 2 ^ k"
  proof -
    have "32 - n = 16 + k" using assms(3,4) by simp
    then show ?thesis by (simp only: power_add)
  qed
  have small: "x div 2 ^ k < 2 ^ (8 - k)" if "x < 256" for x :: nat
    using that assms(4) by (simp add: less_mult_imp_div_less power_add [symmetric])
  have shift: "(x * 256 + y) div 2 ^ k = x * 2 ^ (8 - k) + y div 2 ^ k" for x y :: nat
  proof -
    have "(256::nat) = 2 ^ (8 - k) * 2 ^ k" using assms(4) by (simp add: power_add [symmetric])
    then have "x * 256 + y = y + x * 2 ^ (8 - k) * 2 ^ k" by simp
    then show ?thesis by (simp only: div_mult_self1) simp
  qed
  have "x * 2 ^ (8 - k) + y div 2 ^ k = a * 2 ^ (8 - k) + b div 2 ^ k \<longleftrightarrow> x = a \<and> y div 2 ^ k = b div 2 ^ k"
    if "y < 256" for x y :: nat
    using small [OF that] small [OF assms(2)] by (intro digits_unique)
  moreover have "quad p q r t div 2 ^ (32 - n) = p * 2 ^ (8 - k) + q div 2 ^ k"
    if "p < 256" "q < 256" "r < 256" "t < 256" for p q r t
    using octet_quad(2) [OF that] by (simp only: pow div_mult2_eq shift)
  ultimately show ?thesis
    using assms by (simp add: in_v4_net_def octets_quad [of w] octet_bound del: One_nat_def)
qed

lemma in_v4_net_third:
  assumes "a < 256" "b < 256" "c < 256"
  shows "in_v4_net w (quad a b c 0, 24) \<longleftrightarrow> octet 0 w = a \<and> octet 1 w = b \<and> octet 2 w = c"
proof -
  have "(octet 0 w * 256 + octet 1 w) * 256 + octet 2 w = (a * 256 + b) * 256 + c \<longleftrightarrow>
      octet 0 w = a \<and> octet 1 w = b \<and> octet 2 w = c"
    using assms octet_bound by (simp only: digits_unique conj_assoc)
  then show ?thesis
    using assms octet_quad [of "octet 0 w" "octet 1 w" "octet 2 w" "octet 3 w"] octet_quad [of a b c 0]
    by (simp add: in_v4_net_def octets_quad [of w] octet_bound)
qed

lemma and_upper_bits:
  "and n (push_bit k (mask m)) = push_bit k (drop_bit k n)" if "n < 2 ^ (k + m)" for n :: nat
proof (rule bit_eqI)
  fix i
  have "i < k + m" if "bit n i"
    using \<open>n < 2 ^ (k + m)\<close> that by (metis bit_take_bit_iff take_bit_nat_eq_self)
  then show "bit (and n (push_bit k (mask m))) i = bit (push_bit k (drop_bit k n)) i"
    by (auto simp: bit_and_iff bit_push_bit_iff bit_mask_iff bit_drop_bit_eq less_diff_conv2)
qed

lemma blocked_v4_iff: "is_blocked_v4 w \<longleftrightarrow> list_ex (in_v4_net w) blocked_v4_nets"
proof -
  have n172: "in_v4_net w (quad 172 16 0 0, 12) \<longleftrightarrow> octet 0 w = 172 \<and> 16 \<le> octet 1 w \<and> octet 1 w \<le> 31"
    using in_v4_net_between [of 172 16 12 4 w] by (auto simp: div_nat_eqI)
  have n100: "in_v4_net w (quad 100 64 0 0, 10) \<longleftrightarrow> octet 0 w = 100 \<and> 64 \<le> octet 1 w \<and> octet 1 w < 128"
    using in_v4_net_between [of 100 64 10 6 w] by (auto simp: div_nat_eqI)
  have "and (octet 1 w) 0xfe = 2 * (octet 1 w div 2)"
    using and_upper_bits [of "octet 1 w" 1 7] octet_bound [of 1 w] by (simp add: push_bit_eq_mult drop_bit_eq_div mask_eq_exp_minus_1)
  then have n198: "in_v4_net w (quad 198 18 0 0, 15) \<longleftrightarrow> octet 0 w = 198 \<and> and (octet 1 w) 0xfe = 18"
    using in_v4_net_between [of 198 18 15 1 w] by auto
  have all: "in_v4_net w (quad 255 255 255 255, 32) \<longleftrightarrow> w = 0xFFFFFFFF"
    by (simp add: in_v4_net_def quad_def word_unat_eq_iff)
  have zero: "w = 0 \<Longrightarrow> octet 0 w = 0" by (simp add: octet_def)
  show ?thesis
    unfolding blocked_v4_nets_def list_ex_iff is_blocked_v4_def v4_is_private_def v4_is_loopback_def v4_is_link_local_def
      v4_is_broadcast_def v4_is_documentation_def
    by (simp add: in_v4_net_first in_v4_net_second in_v4_net_third n172 n100 n198 all del: One_nat_def) (use zero in argo)
qed

text \<open>IPv6: the upper seven and ten bits of the address.\<close>

lemma blocked_v6_iff:
  "is_blocked_v6 w \<longleftrightarrow> w = 0 \<or> w = 1 \<or> unat w div 2 ^ 121 = 0x7e \<or> unat w div 2 ^ 118 = 0x3fa"
proof -
  have "unat w < 2 ^ 128" using unsigned_less [of w] by simp
  moreover have "unat (drop_bit 112 w) = unat w div 2 ^ 112" by (metis drop_bit_eq_div unat_drop_bit_eq)
  ultimately have seg: "segment 0 w = unat w div 2 ^ 112" "segment 0 w < 65536" by (simp_all add: segment_def less_mult_imp_div_less)
  have "and (segment 0 w) 0xfe00 = 512 * (segment 0 w div 512)"
    using and_upper_bits [of "segment 0 w" 9 7] seg(2) by (simp add: push_bit_eq_mult drop_bit_eq_div mask_eq_exp_minus_1)
  moreover have "and (segment 0 w) 0xffc0 = 64 * (segment 0 w div 64)"
    using and_upper_bits [of "segment 0 w" 6 10] seg(2) by (simp add: push_bit_eq_mult drop_bit_eq_div mask_eq_exp_minus_1)
  moreover have "unat w div 2 ^ 121 = segment 0 w div 512" "unat w div 2 ^ 118 = segment 0 w div 64"
    by (simp_all add: seg(1) div_mult2_eq [symmetric])
  ultimately show ?thesis by (auto simp: is_blocked_v6_def)
qed

lemma mapped_v4 [simp]: "to_ipv4_mapped (map_v4 w) = Some w"
proof -
  have "unat w < 2 ^ 32" using unsigned_less [of w] by simp
  then have nat: "unat (map_v4 w) = 0xFFFF * 2 ^ 32 + unat w"
    unfolding map_v4_def by (subst unsigned_of_nat) (simp add: take_bit_nat_eq_self del: of_nat_add)
  have "unat (drop_bit 32 (map_v4 w)) = unat (map_v4 w) div 2 ^ 32" by (metis drop_bit_eq_div unat_drop_bit_eq)
  also have "\<dots> = 0xFFFF" using \<open>unat w < 2 ^ 32\<close> by (simp add: nat)
  finally have "drop_bit 32 (map_v4 w) = 0xFFFF" by (simp add: word_unat_eq_iff)
  moreover have "unat (map_v4 w) mod 2 ^ 32 = unat w"
    unfolding nat using \<open>unat w < 2 ^ 32\<close> by (simp only: mod_mult_self3 mod_less)
  then have "ucast (map_v4 w) = w"
    using \<open>unat w < 2 ^ 32\<close> by (simp add: word_unat_eq_iff unsigned_ucast_eq take_bit_eq_mod)
  ultimately show ?thesis by (simp add: to_ipv4_mapped_def)
qed

text \<open>The IPv4 form of an address decides, also when it is written as a mapped IPv6 address.\<close>

lemma blocked_address_simps:
  "is_blocked_address (V4 w) \<longleftrightarrow> is_blocked_v4 w"
  "is_blocked_address (V6 (map_v4 w)) \<longleftrightarrow> is_blocked_v4 w"
  "to_ipv4_mapped v = None \<Longrightarrow> is_blocked_address (V6 v) \<longleftrightarrow> is_blocked_v6 v"
  by (simp_all add: is_blocked_address_def)

subsection \<open>The request\<close>

text \<open>\<open>HeaderMap\<close>, under lower-case names; inserting a name replaces its value.\<close>
type_synonym header_map = "string \<rightharpoonup> string"

record prepared_dispatch =
  pd_target_url :: string
  pd_headers :: header_map
  pd_payload :: string

text \<open>The custom headers, in the order the parsed map yields them; unusable pairs are skipped.\<close>
fun insert_headers :: "lib \<Rightarrow> (string \<times> string) list \<Rightarrow> header_map \<Rightarrow> header_map" where
  "insert_headers l [] headers = headers"
| "insert_headers l ((k, v) # rest) headers =
     (case (l_header_name l k, l_header_value_error l v) of
        (Some name, None) \<Rightarrow> insert_headers l rest (headers(name \<mapsto> v))
      | _ \<Rightarrow> insert_headers l rest headers)"

definition custom_headers :: "lib \<Rightarrow> string option \<Rightarrow> header_map \<Rightarrow> header_map" where
  "custom_headers l hjson headers =
     (case hjson of
        Some j \<Rightarrow> (case l_json_map l j of Some pairs \<Rightarrow> insert_headers l pairs headers | None \<Rightarrow> headers)
      | None \<Rightarrow> headers)"

text \<open>\<open>HeaderValue::from_str\<close>, with its error rendered into the caller's message.\<close>
definition header_value :: "lib \<Rightarrow> string \<Rightarrow> string \<Rightarrow> string + string" where
  "header_value l msg v = (case l_header_value_error l v of None \<Rightarrow> Inr v | Some e \<Rightarrow> Inl (msg @ '': '' @ e))"

definition signature_header_of :: "webhook_config \<Rightarrow> string" where
  "signature_header_of w = unwrap_or DEFAULT_SIGNATURE_HEADER (non_blank (map_option trim (w_signature_header w)))"

definition signature_prefix_of :: "webhook_config \<Rightarrow> string" where
  "signature_prefix_of w = unwrap_or DEFAULT_SIGNATURE_PREFIX (w_signature_prefix w)"

definition api_key_header :: "lib \<Rightarrow> webhook_config \<Rightarrow> auth_mode \<Rightarrow> header_map \<Rightarrow> string + header_map" where
  "api_key_header l w mode headers =
     (if sends_api_key mode
      then (case non_blank (w_api_key w) of
              Some k \<Rightarrow> try_then (header_value l ''webhook api_key is not a valid header value'' k)
                          (\<lambda>hv. Inr (headers(''x-api-key'' \<mapsto> hv)))
            | None \<Rightarrow> Inr headers)
      else Inr headers)"

text \<open>An HMAC key of any length is accepted, so that step does not fail.\<close>
definition sign_dispatch ::
  "lib \<Rightarrow> webhook_config \<Rightarrow> auth_mode \<Rightarrow> string \<Rightarrow> string \<Rightarrow> string \<Rightarrow> header_map \<Rightarrow> string + string option \<times> header_map" where
  "sign_dispatch l w mode timestamp target_url payload headers =
     (case mode of
        HmacOnly \<Rightarrow>
          Inr (Some (signature_prefix_of w @ l_hex_encode l (l_hmac_sha256 l (w_secret_token w) payload)), headers)
      | CanonicalV1 \<Rightarrow>
          (case l_url_parse l target_url of
             None \<Rightarrow> Inl (''unparseable webhook target URL: '' @ l_url_error l target_url)
           | Some u \<Rightarrow>
               (let template = unwrap_or DEFAULT_HMAC_TEMPLATE (w_hmac_template w);
                    message = resolve_hmac_template template ''POST'' (url_path u) timestamp payload;
                    headers1 = (if l_header_value_error l timestamp = None
                                then headers(''x-timestamp'' \<mapsto> timestamp) else headers) in
                Inr (Some (signature_prefix_of w @ l_hex_encode l (l_hmac_sha256 l (w_secret_token w) message)), headers1)))
      | ApiKeyOnly \<Rightarrow> Inr (None, headers)
      | NoAuth \<Rightarrow> Inr (None, headers))"

definition signature_to_header :: "lib \<Rightarrow> webhook_config \<Rightarrow> string option \<Rightarrow> header_map \<Rightarrow> string + header_map" where
  "signature_to_header l w signature headers =
     (case signature of
        None \<Rightarrow> Inr headers
      | Some sig_val \<Rightarrow>
          try_then (ok_or (''signature header '' @ quote (signature_header_of w) @ '' is not a valid HTTP header name'')
              (l_header_name l (signature_header_of w))) (\<lambda>name.
          try_then (header_value l ''computed signature is not a valid header value'' sig_val) (\<lambda>hv.
            Inr (headers(name \<mapsto> hv)))))"

definition prepare_dispatch :: "lib \<Rightarrow> datetime \<Rightarrow> webhook_config \<Rightarrow> webhook_event \<Rightarrow> string + prepared_dispatch" where
  "prepare_dispatch l now config event =
     (let timestamp = dec_int (unix_seconds now);
          payload = resolve_event_variables l (w_payload_template config) event timestamp;
          target_url = resolve_event_variables l (w_target_url config) event timestamp;
          headers0 = custom_headers l (w_headers_json config) [''content-type'' \<mapsto> ''application/json''];
          mode = mode_from_stored (w_auth_mode config) in
      try_then (api_key_header l config mode headers0) (\<lambda>headers1.
      try_then (sign_dispatch l config mode timestamp target_url payload headers1) (\<lambda>(signature, headers2).
      try_then (signature_to_header l config signature headers2) (\<lambda>headers3.
        Inr \<lparr>pd_target_url = target_url, pd_headers = headers3, pd_payload = payload\<rparr>))))"

lemmas outbound_run [run] = is_blocked_v4_def is_blocked_v6_def is_blocked_address_def is_url_safe_def allow_private_webhooks_def custom_headers_def header_value_def
  signature_header_of_def signature_prefix_of_def api_key_header_def sign_dispatch_def signature_to_header_def
  prepare_dispatch_def

end
