(* ===== verification/Dispatch.thy ===== *)
theory Dispatch
  imports Outbound
begin

text \<open>
  Delivery (\<open>src/dispatch.rs\<close>): one attempt and its classification, the retry loop with its backoff
  and its row per attempt, and the live test of a webhook with its endpoint
  (\<open>src/api/webhooks.rs\<close>). The HTTP client is an argument: a function from the request and the
  number of the attempt to the reply and its duration.
\<close>

subsection \<open>One attempt\<close>

text \<open>
  A response: status code, its text (\<open>format!("{status}")\<close>), headers in order (\<open>None\<close> for a value
  that is not text) and the body, when it can be read.
\<close>
record http_response =
  hr_status :: nat
  hr_status_text :: string
  hr_headers :: "(string \<times> string option) list"
  hr_body :: "string option"

datatype reply = Response http_response | NetworkError string

type_synonym http_client = "string \<Rightarrow> header_map \<Rightarrow> string \<Rightarrow> nat \<Rightarrow> reply \<times> int"

definition RESPONSE_SNIPPET_MAX_BYTES :: nat where "RESPONSE_SNIPPET_MAX_BYTES = 500"

definition is_continuation :: "char \<Rightarrow> bool" where
  "is_continuation c = (128 \<le> byte c \<and> byte c < 192)"

text \<open>\<open>char_indices().nth(n)\<close>: the offset of the \<open>n\<close>-th character of UTF-8 text.\<close>
fun char_offset :: "nat \<Rightarrow> string \<Rightarrow> nat option" where
  "char_offset n [] = None"
| "char_offset n (c # s) =
     (if is_continuation c then map_option Suc (char_offset n s)
      else case n of 0 \<Rightarrow> Some 0 | Suc m \<Rightarrow> map_option Suc (char_offset m s))"

definition snippet :: "string \<Rightarrow> string" where
  "snippet body =
     (case char_offset RESPONSE_SNIPPET_MAX_BYTES body of
        None \<Rightarrow> body
      | Some offset \<Rightarrow> take offset body @ [CHR 0xE2, CHR 0x80, CHR 0xA6] @ '' ('' @ dec (length body) @ '' bytes total)'')"

datatype dispatch_outcome = Success nat | Transient "nat option" string | Permanent "nat option" string

definition is_success :: "nat \<Rightarrow> bool" where "is_success status = (200 \<le> status \<and> status < 300)"
definition is_server_error :: "nat \<Rightarrow> bool" where "is_server_error status = (500 \<le> status \<and> status < 600)"

definition body_snippet :: "http_response \<Rightarrow> string option" where
  "body_snippet resp = map_option snippet (non_blank (hr_body resp))"

definition attempt_delivery :: "reply \<Rightarrow> dispatch_outcome \<times> string option" where
  "attempt_delivery answer =
     (case answer of
        Response resp \<Rightarrow>
          (let status = hr_status resp; body = body_snippet resp; reason = ''HTTP '' @ hr_status_text resp in
           if is_success status then (Success status, body)
           else if is_server_error status then (Transient (Some status) reason, body)
           else (Permanent (Some status) reason, body))
      | NetworkError e \<Rightarrow> (Transient None e, None))"

fun is_transient :: "dispatch_outcome \<Rightarrow> bool" where
  "is_transient (Transient status reason) = True"
| "is_transient _ = False"

subsection \<open>The history\<close>

record dispatch_context =
  dc_webhook_id :: uuid
  dc_webhook_name :: string
  dc_event_type :: string
  dc_target_address :: string
  dc_cause :: "string option"

definition dispatch_context_of :: "webhook_config \<Rightarrow> string \<Rightarrow> webhook_event \<Rightarrow> dispatch_context" where
  "dispatch_context_of config event_type event =
     \<lparr>dc_webhook_id = w_id config, dc_webhook_name = w_name config, dc_event_type = event_type,
      dc_target_address = ev_address event, dc_cause = ev_cause event\<rparr>"

text \<open>\<open>i64\<close> to \<open>i32\<close>, saturating upwards whatever the reason the conversion fails.\<close>
definition to_i32 :: "int \<Rightarrow> int" where
  "to_i32 n = (if - (2 ^ 31) \<le> n \<and> n < 2 ^ 31 then n else 2 ^ 31 - 1)"

definition execution_row ::
  "env \<Rightarrow> dispatch_context \<Rightarrow> string \<Rightarrow> nat option \<Rightarrow> bool \<Rightarrow> int \<Rightarrow> string option \<Rightarrow> webhook_execution" where
  "execution_row env ctx resolved_target_url status_code success duration_ms response_body =
     \<lparr>x_id = e_uuid env 0, x_webhook_id = dc_webhook_id ctx, x_event_type = dc_event_type ctx,
      x_status_code = map_option int status_code, x_is_success = success, x_duration_ms = to_i32 duration_ms,
      x_response_body = response_body, x_resolved_target_url = Some resolved_target_url,
      x_target_address = Some (dc_target_address ctx), x_cause = dc_cause ctx, x_created_at = e_now env\<rparr>"

text \<open>A row that cannot be written is dropped: the webhook may have been deleted meanwhile.\<close>
definition log_execution ::
  "env \<Rightarrow> dispatch_context \<Rightarrow> string \<Rightarrow> nat option \<Rightarrow> bool \<Rightarrow> int \<Rightarrow> string option \<Rightarrow> db \<Rightarrow> db" where
  "log_execution env ctx url status_code success duration_ms response_body db =
     (case insert_execution (execution_row env ctx url status_code success duration_ms response_body) db of
        Inl e \<Rightarrow> db | Inr db1 \<Rightarrow> db1)"

subsection \<open>Retries\<close>

text \<open>\<open>base.saturating_mul(1u64 << (attempt - 1).min(20))\<close> on \<open>u64\<close>.\<close>
definition backoff :: "nat \<Rightarrow> nat \<Rightarrow> nat" where
  "backoff base_backoff_ms n = min (2 ^ 64 - 1) (base_backoff_ms * 2 ^ min (n - 1) 20)"

text \<open>
  The loop. Beside the database it returns what it did: the outcome of every attempt and the
  milliseconds it slept after each that it retried. \<open>envs n\<close> are the readings of attempt \<open>n\<close>.
\<close>
function dispatch_loop ::
  "http_client \<Rightarrow> prepared_dispatch \<Rightarrow> dispatch_context \<Rightarrow> (nat \<Rightarrow> env) \<Rightarrow> nat \<Rightarrow> nat \<Rightarrow> nat \<Rightarrow> db \<Rightarrow>
     dispatch_outcome list \<times> nat list \<times> db" where
  "dispatch_loop client prepared ctx envs max_retries base n db =
     (let url = pd_target_url prepared;
          (answer, duration_ms) = client url (pd_headers prepared) (pd_payload prepared) n;
          (res, body) = attempt_delivery answer in
      case res of
        Success status \<Rightarrow> ([res], [], log_execution (envs n) ctx url (Some status) True duration_ms body db)
      | Permanent status reason \<Rightarrow>
          ([res], [], log_execution (envs n) ctx url status False duration_ms (Some (unwrap_or reason body)) db)
      | Transient status reason \<Rightarrow>
          (let db1 = log_execution (envs n) ctx url status False duration_ms (Some (unwrap_or reason body)) db in
           if n \<le> max_retries
           then (let (outs, waits, db2) = dispatch_loop client prepared ctx envs max_retries base (Suc n) db1 in
                 (res # outs, backoff base n # waits, db2))
           else ([res], [], db1)))"
  by pat_completeness auto
termination by (relation "measure (\<lambda>(client, prepared, ctx, envs, max_retries, base, n, db). Suc max_retries - n)") auto

declare dispatch_loop.simps [simp del]

definition dispatch_with_retries_config ::
  "http_client \<Rightarrow> prepared_dispatch \<Rightarrow> dispatch_context \<Rightarrow> (nat \<Rightarrow> env) \<Rightarrow> nat \<Rightarrow> nat \<Rightarrow> db \<Rightarrow>
     dispatch_outcome list \<times> nat list \<times> db" where
  "dispatch_with_retries_config client prepared ctx envs max_retries base db =
     dispatch_loop client prepared ctx envs max_retries base 1 db"

subsection \<open>The live test\<close>

record webhook_test_result =
  wt_success :: bool
  wt_status :: "nat option"
  wt_headers :: "(string \<rightharpoonup> string) option"
  wt_body :: "string option"
  wt_error :: "string option"
  wt_blocked_by_ssrf_filter :: bool

definition test_failure :: "string \<Rightarrow> bool \<Rightarrow> webhook_test_result" where
  "test_failure reason blocked =
     \<lparr>wt_success = False, wt_status = None, wt_headers = None, wt_body = None, wt_error = Some reason,
      wt_blocked_by_ssrf_filter = blocked\<rparr>"

definition msg_ssrf :: string where
  "msg_ssrf = ''target_url resolves to an address this service refuses to contact (SSRF protection)''"

text \<open>Collecting into a hash map: of a repeated header the last value stays.\<close>
definition collect_headers :: "(string \<times> string option) list \<Rightarrow> string \<rightharpoonup> string" where
  "collect_headers hs = fold (\<lambda>(k, v) m. m(k \<mapsto> unwrap_or ''<binary>'' v)) hs Map.empty"

definition send_test_dispatch_with_privacy ::
  "lib \<Rightarrow> resolver \<Rightarrow> string + http_client \<Rightarrow> env \<Rightarrow> webhook_config \<Rightarrow> webhook_event \<Rightarrow> bool \<Rightarrow> db \<Rightarrow> webhook_test_result \<times> db" where
  "send_test_dispatch_with_privacy l dns build_client env config event allow_private db =
     (case prepare_dispatch l (e_now env) config event of
        Inl reason \<Rightarrow> (test_failure reason False, db)
      | Inr prepared \<Rightarrow>
          (if \<not> is_url_safe l dns (pd_target_url prepared) allow_private then (test_failure msg_ssrf True, db)
           else case build_client of
             Inl e \<Rightarrow> (test_failure (''failed to build HTTP client: '' @ e) False, db)
           | Inr client \<Rightarrow>
               (let ctx = dispatch_context_of config ''TEST'' event; url = pd_target_url prepared;
                    (answer, duration_ms) = client url (pd_headers prepared) (pd_payload prepared) 1 in
                case answer of
                  Response resp \<Rightarrow>
                    (let status = hr_status resp; success = is_success status; body = body_snippet resp;
                         error = (if success then None else Some (''receiver responded with HTTP '' @ hr_status_text resp));
                         detail = (case body of Some b \<Rightarrow> Some b | None \<Rightarrow> error) in
                     (\<lparr>wt_success = success, wt_status = Some status, wt_headers = Some (collect_headers (hr_headers resp)),
                       wt_body = body, wt_error = error, wt_blocked_by_ssrf_filter = False\<rparr>,
                      log_execution env ctx url (Some status) success duration_ms detail db))
                | NetworkError reason \<Rightarrow>
                    (test_failure reason False, log_execution env ctx url None False duration_ms (Some reason) db))))"

definition send_test_dispatch ::
  "lib \<Rightarrow> resolver \<Rightarrow> string + http_client \<Rightarrow> string option \<Rightarrow> env \<Rightarrow> webhook_config \<Rightarrow> webhook_event \<Rightarrow> db \<Rightarrow> webhook_test_result \<times> db" where
  "send_test_dispatch l dns build_client allow_var env config event db =
     send_test_dispatch_with_privacy l dns build_client env config event (allow_private_webhooks allow_var) db"

definition webhook_test_event :: "db \<Rightarrow> webhook_config \<Rightarrow> webhook_event" where
  "webhook_test_event db target =
     \<lparr>ev_action = ''TEST'', ev_address = ''127.0.0.1/32'', ev_is_whitelist = False, ev_group_id = Some (w_group_id target),
      ev_group_name = map_option g_name (find_group (w_group_id target) db),
      ev_cause = Some ''Manual test dispatch from the dashboard''\<rparr>"

definition webhook_test_details :: "string \<Rightarrow> webhook_test_result \<Rightarrow> string" where
  "webhook_test_details name result =
     ''Tested webhook '' @ quote name @ '': '' @
     (if wt_success result then ''delivered''
      else ''failed '' @ [CHR 0xE2, CHR 0x80, CHR 0x94] @ '' '' @ unwrap_or ''unknown error'' (wt_error result))"

definition test_webhook ::
  "lib \<Rightarrow> resolver \<Rightarrow> string + http_client \<Rightarrow> string option \<Rightarrow> env \<Rightarrow> api_key \<Rightarrow> uuid \<Rightarrow> db \<Rightarrow> webhook_test_result outcome" where
  "test_webhook l dns build_client allow_var env key i db =
     attempt (guard_webhook_scope key) db (\<lambda>_.
     attempt (find_own_webhook db key i) db (\<lambda>target.
       let (result, db1) = send_test_dispatch l dns build_client allow_var env target (webhook_test_event db target) db in
       attempt (create_audit_log env (e_uuid env 1) key ''WEBHOOK_TEST'' None None
           (Some (webhook_test_details (w_name target) result)) db1) db1 (\<lambda>db2.
         (Inr result, db2))))"

subsection \<open>The constraints are kept\<close>

lemma db_ok_log_execution [store_intros]: "db_ok db \<Longrightarrow> db_ok (log_execution env ctx url s ok d b db)"
  unfolding log_execution_def by (auto split: sum.split elim: store_steps)

lemma db_ok_dispatch_loop [store_intros]:
  "db_ok db \<Longrightarrow> db_ok (snd (snd (dispatch_loop client prepared ctx envs m base n db)))"
proof (induction client prepared ctx envs m base n db rule: dispatch_loop.induct)
  case (1 client prepared ctx envs m base n db)
  then show ?case
    by (subst dispatch_loop.simps) (auto simp: Let_def db_ok_log_execution split: prod.split dispatch_outcome.split)
qed

lemma db_ok_send_test_dispatch [store_intros]:
  "db_ok db \<Longrightarrow> db_ok (snd (send_test_dispatch l dns c v env w ev db))"
  unfolding send_test_dispatch_def send_test_dispatch_with_privacy_def
  by (auto simp: Let_def db_ok_log_execution split: sum.split prod.split reply.split)

lemma send_test_dispatch_step [store_steps]:
  "send_test_dispatch l dns c v env w ev db = (result, db1) \<Longrightarrow> db_ok db \<Longrightarrow> db_ok db1"
  using db_ok_send_test_dispatch [of db l dns c v env w ev] by simp

lemma db_ok_test_webhook [store_intros]: "db_ok db \<Longrightarrow> db_ok (snd (test_webhook l dns c v env key i db))"
  unfolding test_webhook_def
  by (rule after_leavingD, intro after_rules; unfold leaving_def; hypsubst?) (auto dest: send_test_dispatch_step elim: store_steps)

lemmas dispatch_run [run] = body_snippet_def attempt_delivery_def dispatch_context_of_def execution_row_def log_execution_def
  to_i32_def backoff_def test_failure_def send_test_dispatch_def send_test_dispatch_with_privacy_def webhook_test_event_def
  test_webhook_def

end
