(* ===== verification/Dispatch_Pool.thy ===== *)
theory Dispatch_Pool
  imports Dispatch
begin

text \<open>
  The dispatch pool (\<open>run_webhook_worker\<close>, \<open>dispatch_worker\<close> in \<open>src/dispatch.rs\<close>) as a step
  relation: workers that share one queue, each with a set of spawned deliveries. A step is what
  happens between two points at which the runtime may switch tasks; requests, receivers, the
  resolver and other writers of the database act between any two steps. \<open>pl_enqueued\<close>,
  \<open>pl_taken\<close> and \<open>pl_contacted\<close> record what happened and steer nothing.
\<close>

definition MAX_INFLIGHT :: nat where "MAX_INFLIGHT = 64"

datatype job_state = Screening | Attempting nat | Finished

record job =
  jb_request :: prepared_dispatch
  jb_context :: dispatch_context
  jb_state :: job_state

text \<open>Where a worker is: in \<open>recv\<close>, before its query, in the loop over the rows, pausing, or past the loop.\<close>
datatype phase = Receiving | Fetching webhook_event | Fanning webhook_event "webhook_config list" | Pausing | Draining | Stopped

record worker =
  wk_phase :: phase
  wk_jobs :: "job list"

record pool =
  pl_queue :: "webhook_event list"
  pl_capacity :: nat
  pl_closed :: bool
  pl_db :: db
  pl_workers :: "worker list"
  pl_enqueued :: "webhook_event list"
  pl_taken :: "webhook_event list"
  pl_contacted :: "string list"

definition started_pool :: "nat \<Rightarrow> nat \<Rightarrow> db \<Rightarrow> pool" where
  "started_pool workers capacity db =
     \<lparr>pl_queue = [], pl_capacity = capacity, pl_closed = False, pl_db = db,
      pl_workers = replicate workers \<lparr>wk_phase = Receiving, wk_jobs = []\<rparr>,
      pl_enqueued = [], pl_taken = [], pl_contacted = []\<rparr>"

definition subscribed :: "webhook_config \<Rightarrow> webhook_event \<Rightarrow> bool" where
  "subscribed w event =
     (case w_events w of
        None \<Rightarrow> True
      | Some e \<Rightarrow> list_ex (\<lambda>a. a = ev_action event) (map trim (split_on (CHR '','') e)))"

definition active_webhooks :: "uuid \<Rightarrow> db \<Rightarrow> webhook_config list" where
  "active_webhooks g db = filter (\<lambda>w. w_group_id w = g \<and> w_is_active w) (webhook_configs db)"

definition spawned_job :: "webhook_config \<Rightarrow> webhook_event \<Rightarrow> prepared_dispatch \<Rightarrow> job" where
  "spawned_job w event p =
     \<lparr>jb_request = p, jb_context = dispatch_context_of w (ev_action event) event, jb_state = Screening\<rparr>"

text \<open>One attempt of a delivery: its row, and what the delivery does next.\<close>
definition attempt_result :: "nat \<Rightarrow> env \<Rightarrow> job \<Rightarrow> nat \<Rightarrow> reply \<times> int \<Rightarrow> db \<Rightarrow> job_state \<times> db" where
  "attempt_result max_retries env j n answered db =
     (let (res, body) = attempt_delivery (fst answered);
          row = log_execution env (jb_context j) (pd_target_url (jb_request j)) in
      case res of
        Success status \<Rightarrow> (Finished, row (Some status) True (snd answered) body db)
      | Permanent status reason \<Rightarrow> (Finished, row status False (snd answered) (Some (unwrap_or reason body)) db)
      | Transient status reason \<Rightarrow>
          (if n \<le> max_retries then Attempting (Suc n) else Finished,
           row status False (snd answered) (Some (unwrap_or reason body)) db))"

text \<open>When a worker looks at its finished deliveries: full, after the rows of an event, and when it ends.\<close>
fun may_join :: "worker \<Rightarrow> bool" where
  "may_join wk = (case wk_phase wk of
     Fanning ev ws \<Rightarrow> ws = [] \<or> MAX_INFLIGHT \<le> length (wk_jobs wk)
   | Draining \<Rightarrow> True
   | _ \<Rightarrow> False)"

text \<open>
  A worker's own steps on its event: \<open>prep\<close> is the preparation with the clock of the moment. A query
  that fails and an event without a group send the worker back without a pause.
\<close>
inductive fan_step :: "lib \<Rightarrow> db \<Rightarrow> worker \<Rightarrow> worker \<Rightarrow> bool" for l :: lib and db :: db where
  no_group: "wk_phase wk = Fetching ev \<Longrightarrow> ev_group_id ev = None \<Longrightarrow> fan_step l db wk (wk\<lparr>wk_phase := Receiving\<rparr>)"
| fetch_failed: "wk_phase wk = Fetching ev \<Longrightarrow> ev_group_id ev = Some g \<Longrightarrow> fan_step l db wk (wk\<lparr>wk_phase := Receiving\<rparr>)"
| fetched: "wk_phase wk = Fetching ev \<Longrightarrow> ev_group_id ev = Some g \<Longrightarrow>
    fan_step l db wk (wk\<lparr>wk_phase := Fanning ev (active_webhooks g db)\<rparr>)"
| unsubscribed: "wk_phase wk = Fanning ev (w # ws) \<Longrightarrow> \<not> subscribed w ev \<Longrightarrow>
    fan_step l db wk (wk\<lparr>wk_phase := Fanning ev ws\<rparr>)"
| unprepared: "wk_phase wk = Fanning ev (w # ws) \<Longrightarrow> subscribed w ev \<Longrightarrow> length (wk_jobs wk) < MAX_INFLIGHT \<Longrightarrow>
    prepare_dispatch l now w ev = Inl reason \<Longrightarrow> fan_step l db wk (wk\<lparr>wk_phase := Fanning ev ws\<rparr>)"
| spawn: "wk_phase wk = Fanning ev (w # ws) \<Longrightarrow> subscribed w ev \<Longrightarrow> length (wk_jobs wk) < MAX_INFLIGHT \<Longrightarrow>
    prepare_dispatch l now w ev = Inr p \<Longrightarrow>
    fan_step l db wk (wk\<lparr>wk_phase := Fanning ev ws, wk_jobs := wk_jobs wk @ [spawned_job w ev p]\<rparr>)"
| join: "may_join wk \<Longrightarrow> wk_jobs wk = js @ j # js' \<Longrightarrow> jb_state j = Finished \<Longrightarrow>
    fan_step l db wk (wk\<lparr>wk_jobs := js @ js'\<rparr>)"
| fanned: "wk_phase wk = Fanning ev [] \<Longrightarrow> fan_step l db wk (wk\<lparr>wk_phase := Pausing\<rparr>)"
| rested: "wk_phase wk = Pausing \<Longrightarrow> fan_step l db wk (wk\<lparr>wk_phase := Receiving\<rparr>)"
| drained: "wk_phase wk = Draining \<Longrightarrow> wk_jobs wk = [] \<Longrightarrow> fan_step l db wk (wk\<lparr>wk_phase := Stopped\<rparr>)"

text \<open>A delivery's steps, with the resolver and the receiver as they answer at that moment.\<close>
inductive job_step :: "lib \<Rightarrow> bool \<Rightarrow> nat \<Rightarrow> db \<times> string list \<Rightarrow> job \<Rightarrow> job \<Rightarrow> db \<times> string list \<Rightarrow> bool"
  for l :: lib and allow :: bool and m :: nat where
  screened: "jb_state j = Screening \<Longrightarrow> is_url_safe l dns (pd_target_url (jb_request j)) allow \<Longrightarrow>
    job_step l allow m s j (j\<lparr>jb_state := Attempting 1\<rparr>) s"
| refused: "jb_state j = Screening \<Longrightarrow> \<not> is_url_safe l dns (pd_target_url (jb_request j)) allow \<Longrightarrow>
    job_step l allow m s j (j\<lparr>jb_state := Finished\<rparr>) s"
| tried: "jb_state j = Attempting n \<Longrightarrow> attempt_result m env j n answered db = (next_state, db') \<Longrightarrow>
    job_step l allow m (db, urls) j (j\<lparr>jb_state := next_state\<rparr>) (db', urls @ [pd_target_url (jb_request j)])"

inductive pool_step :: "lib \<Rightarrow> bool \<Rightarrow> nat \<Rightarrow> pool \<Rightarrow> pool \<Rightarrow> bool" for l :: lib and allow :: bool and m :: nat where
  send: "\<not> pl_closed p \<Longrightarrow> length (pl_queue p) < pl_capacity p \<Longrightarrow>
    pool_step l allow m p (p\<lparr>pl_queue := pl_queue p @ [ev], pl_enqueued := pl_enqueued p @ [ev]\<rparr>)"
| write_db: "db_ok (pl_db p) \<longrightarrow> db_ok db' \<Longrightarrow> pool_step l allow m p (p\<lparr>pl_db := db'\<rparr>)"
| shut: "pool_step l allow m p (p\<lparr>pl_closed := True\<rparr>)"
| take: "i < length (pl_workers p) \<Longrightarrow> wk_phase (pl_workers p ! i) = Receiving \<Longrightarrow> pl_queue p = ev # rest \<Longrightarrow>
    pool_step l allow m p (p\<lparr>pl_queue := rest, pl_taken := pl_taken p @ [ev],
      pl_workers := (pl_workers p)[i := (pl_workers p ! i)\<lparr>wk_phase := Fetching ev\<rparr>]\<rparr>)"
| ended: "i < length (pl_workers p) \<Longrightarrow> wk_phase (pl_workers p ! i) = Receiving \<Longrightarrow> pl_queue p = [] \<Longrightarrow> pl_closed p \<Longrightarrow>
    pool_step l allow m p (p\<lparr>pl_workers := (pl_workers p)[i := (pl_workers p ! i)\<lparr>wk_phase := Draining\<rparr>]\<rparr>)"
| work: "i < length (pl_workers p) \<Longrightarrow> fan_step l (pl_db p) (pl_workers p ! i) wk \<Longrightarrow>
    pool_step l allow m p (p\<lparr>pl_workers := (pl_workers p)[i := wk]\<rparr>)"
| deliver: "i < length (pl_workers p) \<Longrightarrow> k < length (wk_jobs (pl_workers p ! i)) \<Longrightarrow>
    job_step l allow m (pl_db p, pl_contacted p) (wk_jobs (pl_workers p ! i) ! k) j (db', urls) \<Longrightarrow>
    pool_step l allow m p (p\<lparr>pl_db := db', pl_contacted := urls,
      pl_workers := (pl_workers p)[i := (pl_workers p ! i)\<lparr>wk_jobs := (wk_jobs (pl_workers p ! i))[k := j]\<rparr>]\<rparr>)"

definition pool_reachable :: "lib \<Rightarrow> bool \<Rightarrow> nat \<Rightarrow> pool \<Rightarrow> pool \<Rightarrow> bool" where
  "pool_reachable l allow m = (pool_step l allow m)\<^sup>*\<^sup>*"

inductive_cases fan_stepE: "fan_step l db wk wk'"
inductive_cases job_stepE: "job_step l allow m s j j' s'"
inductive_cases pool_stepE: "pool_step l allow m p p'"

lemmas fan_step_split = fan_stepE [consumes 1, case_names no_group fetch_failed fetched unsubscribed unprepared spawn join fanned rested drained]
lemmas job_step_split = job_stepE [consumes 1, case_names screened refused tried]
lemmas pool_step_split = pool_stepE [consumes 1, case_names send write_db shut take ended work deliver]

subsection \<open>What a job, a worker and the pool keep\<close>

text \<open>A job was prepared from a taken event for a subscribed, active webhook of the event's group.\<close>
definition job_origin :: "lib \<Rightarrow> webhook_event list \<Rightarrow> job \<Rightarrow> bool" where
  "job_origin l taken j \<longleftrightarrow>
     (\<exists>w ev now. ev \<in> set taken \<and> ev_group_id ev = Some (w_group_id w) \<and> w_is_active w \<and> subscribed w ev \<and>
        prepare_dispatch l now w ev = Inr (jb_request j) \<and> dc_webhook_id (jb_context j) = w_id w)"

text \<open>It attempts only after its target passed the screen, and at most once more than there are retries.\<close>
definition job_ok :: "lib \<Rightarrow> bool \<Rightarrow> nat \<Rightarrow> job \<Rightarrow> bool" where
  "job_ok l allow m j \<longleftrightarrow>
     (\<forall>n. jb_state j = Attempting n \<longrightarrow> n \<le> Suc m \<and> (\<exists>dns. is_url_safe l dns (pd_target_url (jb_request j)) allow))"

definition phase_ok :: "webhook_event list \<Rightarrow> phase \<Rightarrow> bool" where
  "phase_ok taken ph \<longleftrightarrow>
     (case ph of
        Fetching ev \<Rightarrow> ev \<in> set taken
      | Fanning ev ws \<Rightarrow> ev \<in> set taken \<and> (\<forall>w\<in>set ws. ev_group_id ev = Some (w_group_id w) \<and> w_is_active w)
      | _ \<Rightarrow> True)"

definition worker_ok :: "lib \<Rightarrow> bool \<Rightarrow> nat \<Rightarrow> webhook_event list \<Rightarrow> worker \<Rightarrow> bool" where
  "worker_ok l allow m taken wk \<longleftrightarrow> length (wk_jobs wk) \<le> MAX_INFLIGHT \<and> phase_ok taken (wk_phase wk) \<and>
     (\<forall>j\<in>set (wk_jobs wk). job_origin l taken j \<and> job_ok l allow m j)"

definition pool_ok :: "lib \<Rightarrow> bool \<Rightarrow> nat \<Rightarrow> pool \<Rightarrow> bool" where
  "pool_ok l allow m p \<longleftrightarrow>
     pl_taken p @ pl_queue p = pl_enqueued p \<and> length (pl_queue p) \<le> pl_capacity p \<and> db_ok (pl_db p) \<and>
     (\<forall>wk\<in>set (pl_workers p). worker_ok l allow m (pl_taken p) wk) \<and>
     (\<forall>url\<in>set (pl_contacted p). \<exists>dns. is_url_safe l dns url allow)"

lemma job_origin_mono: "job_origin l taken j \<Longrightarrow> set taken \<subseteq> set taken' \<Longrightarrow> job_origin l taken' j"
  unfolding job_origin_def by blast

lemma worker_ok_mono: "worker_ok l allow m taken wk \<Longrightarrow> set taken \<subseteq> set taken' \<Longrightarrow> worker_ok l allow m taken' wk"
  unfolding worker_ok_def phase_ok_def by (auto intro: job_origin_mono split: phase.splits)

lemma job_origin_state [simp]: "job_origin l taken (j\<lparr>jb_state := s\<rparr>) \<longleftrightarrow> job_origin l taken j"
  by (simp add: job_origin_def)

lemma attempt_result_next: "attempt_result m env j n answered db = (Attempting k, db') \<Longrightarrow> k = Suc n \<and> n \<le> m"
  by (auto simp: attempt_result_def Let_def split: prod.splits dispatch_outcome.splits if_splits)

lemma attempt_result_db: "attempt_result m env j n answered db = (s, db') \<Longrightarrow> db_ok db \<Longrightarrow> db_ok db'"
  by (auto simp: attempt_result_def Let_def db_ok_log_execution split: prod.splits dispatch_outcome.splits)

lemma job_step_ok:
  assumes "job_step l allow m (db, urls) j j' (db', urls')" "job_ok l allow m j" "db_ok db"
    "\<forall>url\<in>set urls. \<exists>dns. is_url_safe l dns url allow"
  shows "job_ok l allow m j' \<and> db_ok db' \<and> (\<forall>url\<in>set urls'. \<exists>dns. is_url_safe l dns url allow) \<and>
    jb_request j' = jb_request j \<and> (\<forall>taken. job_origin l taken j \<longrightarrow> job_origin l taken j')"
  using assms
proof (cases rule: job_step_split)
  case (tried n env answered next_state)
  have "job_ok l allow m j'"
    using tried assms(2) by (auto simp: job_ok_def dest!: attempt_result_next)
  moreover have "db_ok db'" using tried assms(3) attempt_result_db by blast
  moreover have "\<exists>dns. is_url_safe l dns (pd_target_url (jb_request j)) allow" using tried assms(2) by (auto simp: job_ok_def)
  ultimately show ?thesis using tried assms(4) by auto
qed (auto simp: job_ok_def)

lemma fan_step_ok:
  assumes "fan_step l db wk wk'" "worker_ok l allow m taken wk"
  shows "worker_ok l allow m taken wk'"
  using assms
proof (cases rule: fan_step_split)
  case (fetched ev g)
  then show ?thesis using assms(2) by (auto simp: worker_ok_def phase_ok_def active_webhooks_def)
next
  case (spawn ev w ws now p)
  then have "job_origin l taken (spawned_job w ev p)"
    using assms(2) by (auto simp: worker_ok_def phase_ok_def job_origin_def spawned_job_def dispatch_context_of_def)
  then show ?thesis
    using spawn assms(2) by (auto simp: worker_ok_def phase_ok_def job_ok_def spawned_job_def)
qed (auto simp: worker_ok_def phase_ok_def)

lemma pool_worker_ok: "pool_ok l allow m p \<Longrightarrow> i < length (pl_workers p) \<Longrightarrow> worker_ok l allow m (pl_taken p) (pl_workers p ! i)"
  by (simp add: pool_ok_def)

lemma worker_ok_phase: "worker_ok l allow m taken wk \<Longrightarrow> phase_ok taken ph \<Longrightarrow> worker_ok l allow m taken (wk\<lparr>wk_phase := ph\<rparr>)"
  by (simp add: worker_ok_def)

lemma pool_step_ok:
  assumes "pool_step l allow m p p'" "pool_ok l allow m p"
  shows "pool_ok l allow m p'"
  using assms
proof (cases rule: pool_step_split)
  case (take i ev rest)
  have "worker_ok l allow m (pl_taken p @ [ev]) wk" if "wk \<in> set (pl_workers p)" for wk
    using assms(2) that by (auto simp: pool_ok_def intro: worker_ok_mono)
  moreover have "worker_ok l allow m (pl_taken p @ [ev]) ((pl_workers p ! i)\<lparr>wk_phase := Fetching ev\<rparr>)"
    using calculation [of "pl_workers p ! i"] take by (auto simp: worker_ok_def phase_ok_def)
  ultimately show ?thesis
    using take assms(2) by (auto simp: pool_ok_def dest!: set_update_subset_insert [THEN subsetD])
next
  case (ended i)
  then have "worker_ok l allow m (pl_taken p) ((pl_workers p ! i)\<lparr>wk_phase := Draining\<rparr>)"
    using pool_worker_ok [OF assms(2)] by (intro worker_ok_phase) (auto simp: phase_ok_def)
  then show ?thesis using ended assms(2) by (auto simp: pool_ok_def dest!: set_update_subset_insert [THEN subsetD])
next
  case (work i wk)
  then have "worker_ok l allow m (pl_taken p) wk" using assms(2) fan_step_ok by (auto simp: pool_ok_def)
  then show ?thesis using work assms(2) by (auto simp: pool_ok_def dest!: set_update_subset_insert [THEN subsetD])
next
  case (deliver i k j db' urls)
  let ?wk = "pl_workers p ! i"
  have wk: "worker_ok l allow m (pl_taken p) ?wk" using deliver assms(2) by (auto simp: pool_ok_def)
  then have job: "job_origin l (pl_taken p) (wk_jobs ?wk ! k)" "job_ok l allow m (wk_jobs ?wk ! k)"
    using deliver by (auto simp: worker_ok_def)
  note step = job_step_ok [OF deliver(4) job(2)]
  have facts: "job_ok l allow m j" "db_ok db'" "\<forall>url\<in>set urls. \<exists>dns. is_url_safe l dns url allow" "job_origin l (pl_taken p) j"
    using step job(1) assms(2) by (auto simp: pool_ok_def)
  have "worker_ok l allow m (pl_taken p) (?wk\<lparr>wk_jobs := (wk_jobs ?wk)[k := j]\<rparr>)"
    using wk facts by (auto simp: worker_ok_def dest!: set_update_subset_insert [THEN subsetD])
  then show ?thesis
    using deliver(1) facts assms(2) by (auto simp: pool_ok_def dest!: set_update_subset_insert [THEN subsetD])
qed (auto simp: pool_ok_def)

lemma started_pool_ok: "db_ok db \<Longrightarrow> pool_ok l allow m (started_pool workers capacity db)"
  by (auto simp: pool_ok_def started_pool_def worker_ok_def phase_ok_def)

lemma reachable_pool_ok:
  assumes "pool_reachable l allow m (started_pool workers capacity db) p" "db_ok db"
  shows "pool_ok l allow m p"
  using assms(1) unfolding pool_reachable_def
  by (induction rule: rtranclp_induct) (auto intro: started_pool_ok [OF assms(2)] pool_step_ok)

subsection \<open>A delivery alone\<close>

text \<open>The attempts of one delivery against a client, one step each.\<close>
inductive attempt_step :: "http_client \<Rightarrow> (nat \<Rightarrow> env) \<Rightarrow> nat \<Rightarrow> job \<times> db \<Rightarrow> job \<times> db \<Rightarrow> bool"
  for client :: http_client and envs :: "nat \<Rightarrow> env" and m :: nat where
  attempted: "jb_state j = Attempting n \<Longrightarrow>
    attempt_result m (envs n) j n (client (pd_target_url (jb_request j)) (pd_headers (jb_request j)) (pd_payload (jb_request j)) n) db =
      (next_state, db') \<Longrightarrow>
    attempt_step client envs m (j, db) (j\<lparr>jb_state := next_state\<rparr>, db')"

inductive_cases attempt_stepE: "attempt_step client envs m (j, db) c"

lemma attempt_step_is_job_step:
  assumes "attempt_step client envs m (j, db) (j', db')"
  shows "job_step l allow m (db, urls) j j' (db', urls @ [pd_target_url (jb_request j)])"
  using assms by (rule attempt_stepE) (auto intro: tried)

lemma attempt_step_deterministic: "attempt_step client envs m c c1 \<Longrightarrow> attempt_step client envs m c c2 \<Longrightarrow> c1 = c2"
  by (cases c) (auto elim!: attempt_stepE)

lemma finished_is_final: "jb_state j = Finished \<Longrightarrow> \<not> attempt_step client envs m (j, db) c"
  by (auto elim: attempt_stepE)

lemma unique_end:
  assumes "(attempt_step client envs m)\<^sup>*\<^sup>* c (j1, db1)" "(attempt_step client envs m)\<^sup>*\<^sup>* c (j2, db2)"
    "jb_state j1 = Finished" "jb_state j2 = Finished"
  shows "(j1, db1) = (j2, db2)"
  using assms(1,2)
proof (induction c rule: converse_rtranclp_induct)
  case base
  then show ?case using finished_is_final [OF assms(3)] by (auto elim: converse_rtranclpE)
next
  case (step c c')
  from step.prems show ?case
  proof (cases rule: converse_rtranclpE)
    case base
    then show ?thesis using step.hyps(1) finished_is_final [OF assms(4)] by auto
  next
    case (step c'')
    then show ?thesis using step.IH attempt_step_deterministic [OF step.hyps(1)] by auto
  qed
qed

lemma attempt_result_loop:
  assumes "attempt_result m (envs n) j n (client (pd_target_url (jb_request j)) (pd_headers (jb_request j)) (pd_payload (jb_request j)) n) db = (s, db1)"
  shows "(s = Finished \<and> snd (snd (dispatch_loop client (jb_request j) (jb_context j) envs m base n db)) = db1) \<or>
    (s = Attempting (Suc n) \<and> n \<le> m \<and> snd (snd (dispatch_loop client (jb_request j) (jb_context j) envs m base n db)) =
       snd (snd (dispatch_loop client (jb_request j) (jb_context j) envs m base (Suc n) db1)))"
  using assms
  by (subst (1 2) dispatch_loop.simps [of _ _ _ _ _ _ n])
    (auto simp: attempt_result_def Let_def split: prod.splits dispatch_outcome.splits if_splits)

lemma loop_is_steps:
  "jb_state j = Attempting n \<Longrightarrow>
     (attempt_step client envs m)\<^sup>*\<^sup>* (j, db)
       (j\<lparr>jb_state := Finished\<rparr>, snd (snd (dispatch_loop client (jb_request j) (jb_context j) envs m base n db)))"
proof (induction "Suc m - n" arbitrary: j n db rule: less_induct)
  case less
  obtain s db1 where res: "attempt_result m (envs n) j n
      (client (pd_target_url (jb_request j)) (pd_headers (jb_request j)) (pd_payload (jb_request j)) n) db = (s, db1)" by fastforce
  have one: "attempt_step client envs m (j, db) (j\<lparr>jb_state := s\<rparr>, db1)" by (rule attempted [where n = n]) (use less.prems res in auto)
  from attempt_result_loop [where envs = envs and n = n and base = base, of m j client db s db1] res show ?case
  proof (elim meta_impE disjE)
    assume "s = Finished \<and> snd (snd (dispatch_loop client (jb_request j) (jb_context j) envs m base n db)) = db1"
    then show ?thesis using one by (auto intro: r_into_rtranclp)
  next
    assume more: "s = Attempting (Suc n) \<and> n \<le> m \<and> snd (snd (dispatch_loop client (jb_request j) (jb_context j) envs m base n db)) =
       snd (snd (dispatch_loop client (jb_request j) (jb_context j) envs m base (Suc n) db1))"
    then have "Suc m - Suc n < Suc m - n" by arith
    from less.hyps [OF this, of "j\<lparr>jb_state := s\<rparr>" db1] more one show ?thesis
      by (auto intro: converse_rtranclp_into_rtranclp)
  qed
qed

end
