(* ===== verification/Dispatch_Properties.thy ===== *)
theory Dispatch_Properties
  imports Dispatch Samples Crypto_Properties Auth
begin

text \<open>
  The properties of a dispatch: what the screen lets through, what a signature covers, that a
  canonical dispatch authenticates at another instance, and how delivery is retried.
\<close>

subsection \<open>The screen\<close>

text \<open>The blocklist as ranges, IPv4 decided by its address also in the mapped form.\<close>
fun in_blocked_range :: "ip_addr \<Rightarrow> bool" where
  "in_blocked_range (V4 w) = list_ex (in_v4_net w) blocked_v4_nets"
| "in_blocked_range (V6 v) =
     (case to_ipv4_mapped v of
        Some w \<Rightarrow> list_ex (in_v4_net w) blocked_v4_nets
      | None \<Rightarrow> v = 0 \<or> v = 1 \<or> unat v div 2 ^ 121 = 0x7e \<or> unat v div 2 ^ 118 = 0x3fa)"

lemma is_blocked_address_iff: "is_blocked_address a \<longleftrightarrow> in_blocked_range a"
  by (cases a) (simp_all add: is_blocked_address_def blocked_v4_iff blocked_v6_iff split: option.split)

text \<open>
  C28 Without the development escape hatch a target is dispatched exactly when it is an http or https
  URL with a host that resolves to at least one address, none of which lies in a private, loopback,
  link-local or otherwise reserved range, written as IPv4 or as IPv4 mapped into IPv6.
\<close>

theorem safe_target_is_public:
  "is_url_safe l dns s False \<longleftrightarrow>
     (\<exists>u host addrs. l_url_parse l s = Some u \<and> url_scheme u \<in> {''http'', ''https''} \<and> url_host u = Some host \<and>
        dns host (unwrap_or 80 (url_port u)) = Some addrs \<and> addrs \<noteq> [] \<and> (\<forall>a\<in>set addrs. \<not> in_blocked_range a))"
  by (auto simp: is_url_safe_def is_blocked_address_iff list_ex_iff split: option.splits)

theorem safe_target_is_public_witness:
  "is_url_safe demo_lib (\<lambda>h p. Some [V4 0x08080808]) ''https://dns.example/'' False \<and>
   \<not> is_url_safe demo_lib (\<lambda>h p. Some [V4 0x08080808, V6 (map_v4 0x7f000001)]) ''https://dns.example/'' False"
proof -
  have url: "\<exists>u. l_url_parse demo_lib ''https://dns.example/'' = Some u \<and> url_scheme u = ''https'' \<and> url_host u = Some ''dns.example''"
    by (simp add: demo_lib_def sample_url_def strip_prefix_def sample_path_def)
  have "\<not> in_blocked_range (V4 0x08080808)" "in_blocked_range (V6 (map_v4 0x7f000001))"
    by (simp_all add: blocked_v4_nets_def in_v4_net_def quad_def)
  then show ?thesis using url unfolding safe_target_is_public by auto
qed

subsection \<open>What a signature covers\<close>

lemma default_tokens:
  "tokens True PLACEHOLDERS DEFAULT_HMAC_TEMPLATE =
     [Slot 0, Verbatim newline, Slot 1, Verbatim newline, Slot 2, Verbatim newline, Slot 3]"
  by code_simp

lemma default_template_is_canonical:
  "resolve_hmac_template DEFAULT_HMAC_TEMPLATE m p t b = canonical_v1_payload m p t b"
  by (simp add: resolve_hmac_template_def resolve_loop_renders default_tokens canonical_v1_payload_def)

text \<open>
  C29 The single pass of the signed template: the message is a rendering of tokens that the template
  alone determines, so no value is rescanned; the default template gives the canonical message;
  and a template with a body slot gives different messages for different bodies.
\<close>

theorem signed_template_is_single_pass:
  "resolve_hmac_template template m p t b = render [m, p, t, b] (tokens True PLACEHOLDERS template) \<and>
   resolve_hmac_template DEFAULT_HMAC_TEMPLATE m p t b = canonical_v1_payload m p t b \<and>
   (Slot 3 \<in> set (tokens True PLACEHOLDERS template) \<and>
      resolve_hmac_template template m p t b = resolve_hmac_template template m p t b' \<longrightarrow> b = b')"
proof (intro conjI impI)
  assume "Slot 3 \<in> set (tokens True PLACEHOLDERS template) \<and>
      resolve_hmac_template template m p t b = resolve_hmac_template template m p t b'"
  then show "b = b'"
    using hmac_language.slot_separates [of 3 template "[m, p, t, b]" "[m, p, t, b']"]
    by (auto simp: resolve_hmac_template_def nth_Cons split: nat.splits)
qed (simp_all add: default_template_is_canonical, simp add: resolve_hmac_template_def resolve_loop_renders)

theorem signed_template_is_single_pass_witness:
  "resolve_hmac_template DEFAULT_HMAC_TEMPLATE ''POST'' ''/in'' ''17'' ''{path}'' \<noteq>
   resolve_hmac_template DEFAULT_HMAC_TEMPLATE ''POST'' ''/in'' ''17'' ''/in''"
  using signed_template_is_single_pass [of DEFAULT_HMAC_TEMPLATE "''POST''" "''/in''" "''17''" "''{path}''" "''/in''"] default_tokens
  by auto

text \<open>The check of a template looks for the text of the slot, not for the slot: an escape defeats it.\<close>

lemma escaped_body_is_not_covered:
  "check_template (Some ([CHR 0x5C] @ ''{body}'')) = Inr () \<and>
   resolve_hmac_template ([CHR 0x5C] @ ''{body}'') m p t b = [CHR 0x5C] @ ''{body}''"
proof
  show "check_template (Some ([CHR 0x5C] @ ''{body}'')) = Inr ()" by (simp add: check_template_def)
  have "tokens True PLACEHOLDERS ([CHR 0x5C] @ ''{body}'') = map Verbatim ([CHR 0x5C] @ ''{body}'')" by code_simp
  then show "resolve_hmac_template ([CHR 0x5C] @ ''{body}'') m p t b = [CHR 0x5C] @ ''{body}''"
    unfolding resolve_hmac_template_def resolve_loop_renders by simp
qed

text \<open>
  The variables of a target URL and of a payload are expanded in one pass over tokens of the
  template: expansion always ends, and a value that contains the text of a variable is copied as it is.
\<close>

theorem event_variables_are_inert:
  "substitute_placeholders template (zip EVENT_VARIABLES (event_values l ev ts)) = Some (resolve_event_variables l template ev ts) \<and>
   resolve_event_variables l template ev ts = render (event_values l ev ts) (tokens False EVENT_VARIABLES template)"
  using event_substitution_returns event_language.expand_tokens [of l "(ev, ts)" template] by simp

subsection \<open>Retries\<close>

text \<open>The outcome of the \<open>k\<close>-th attempt at a delivery.\<close>
definition outcome_at :: "http_client \<Rightarrow> prepared_dispatch \<Rightarrow> nat \<Rightarrow> dispatch_outcome" where
  "outcome_at client p k = fst (attempt_delivery (fst (client (pd_target_url p) (pd_headers p) (pd_payload p) k)))"

definition delivered :: "dispatch_outcome \<Rightarrow> bool" where
  "delivered d = (case d of Success _ \<Rightarrow> True | _ \<Rightarrow> False)"

text \<open>What follows the row of an attempt.\<close>
definition after_attempt ::
  "http_client \<Rightarrow> prepared_dispatch \<Rightarrow> dispatch_context \<Rightarrow> (nat \<Rightarrow> env) \<Rightarrow> nat \<Rightarrow> nat \<Rightarrow> nat \<Rightarrow> db \<Rightarrow>
     dispatch_outcome list \<times> nat list \<times> db" where
  "after_attempt client p ctx envs m base n db =
     (if is_transient (outcome_at client p n) \<and> n \<le> m
      then (let (outs, waits, db2) = dispatch_loop client p ctx envs m base (Suc n) db
            in (outcome_at client p n # outs, backoff base n # waits, db2))
      else ([outcome_at client p n], [], db))"

lemma dispatch_loop_round:
  "\<exists>url status ms detail. dispatch_loop client p ctx envs m base n db =
     after_attempt client p ctx envs m base n
       (log_execution (envs n) ctx url status (delivered (outcome_at client p n)) ms detail db)"
proof -
  obtain answer ms where answer: "client (pd_target_url p) (pd_headers p) (pd_payload p) n = (answer, ms)" by fastforce
  obtain d body where d: "attempt_delivery answer = (d, body)" by fastforce
  then have at: "outcome_at client p n = d" by (simp add: outcome_at_def answer)
  show ?thesis
  proof (cases d)
    case (Success s)
    then show ?thesis
      by (intro exI [of _ "pd_target_url p"] exI [of _ "Some s"] exI [of _ ms] exI [of _ body], subst dispatch_loop.simps)
        (simp add: answer d at after_attempt_def delivered_def Let_def)
  next
    case (Transient s r)
    then show ?thesis
      by (intro exI [of _ "pd_target_url p"] exI [of _ s] exI [of _ ms] exI [of _ "Some (unwrap_or r body)"], subst dispatch_loop.simps)
        (simp add: answer d at after_attempt_def delivered_def Let_def)
  next
    case (Permanent s r)
    then show ?thesis
      by (intro exI [of _ "pd_target_url p"] exI [of _ s] exI [of _ ms] exI [of _ "Some (unwrap_or r body)"], subst dispatch_loop.simps)
        (simp add: answer d at after_attempt_def delivered_def Let_def)
  qed
qed

lemma dispatch_loop_trace:
  assumes "dispatch_loop client p ctx envs m base n db = (outs, waits, db')"
  shows "outs \<noteq> [] \<and> outs = map (outcome_at client p) [n..<n + length outs] \<and>
    (\<forall>d\<in>set (butlast outs). is_transient d) \<and> (is_transient (last outs) \<longrightarrow> m < n + length outs - 1) \<and>
    (n \<le> Suc m \<longrightarrow> n + length outs \<le> m + 2) \<and> waits = map (backoff base) [n..<n + length outs - 1]"
  using assms
proof (induction "Suc m - n" arbitrary: n db outs waits db' rule: less_induct)
  case less
  obtain db1 where round: "dispatch_loop client p ctx envs m base n db = after_attempt client p ctx envs m base n db1"
    using dispatch_loop_round by blast
  obtain outs' waits' db2 where rest: "dispatch_loop client p ctx envs m base (Suc n) db1 = (outs', waits', db2)"
    by (cases "dispatch_loop client p ctx envs m base (Suc n) db1")
  show ?case
  proof (cases "is_transient (outcome_at client p n) \<and> n \<le> m")
    case True
    then have "outs = outcome_at client p n # outs'" "waits = backoff base n # waits'"
      using less.prems by (simp_all add: round after_attempt_def rest)
    moreover have "Suc m - Suc n < Suc m - n" using True by arith
    note less.hyps [OF this rest]
    ultimately show ?thesis using True by (auto simp: upt_conv_Cons simp del: upt_Suc)
  next
    case False
    then show ?thesis using less.prems by (auto simp: round after_attempt_def)
  qed
qed

text \<open>Every attempt leaves its row, as long as the webhook exists and the ids drawn are new.\<close>

lemma log_execution_appends:
  assumes "find_webhook (dc_webhook_id ctx) db \<noteq> None" "e_uuid env 0 \<notin> x_id ` set (webhook_executions db)"
  shows "\<exists>r. log_execution env ctx url s ok ms b db = db\<lparr>webhook_executions := webhook_executions db @ [r]\<rparr> \<and>
    x_id r = e_uuid env 0 \<and> x_webhook_id r = dc_webhook_id ctx \<and> x_is_success r = ok"
proof -
  have "executions_add (execution_row env ctx url s ok ms b) (webhook_executions db) =
      Some (webhook_executions db @ [execution_row env ctx url s ok ms b])"
    using assms(2) by (force simp: executions_add_def execution_row_def list_ex_iff)
  then show ?thesis
    using assms(1) by (auto simp: log_execution_def insert_execution_def execution_row_def)
qed

lemma dispatch_loop_rows:
  assumes "dispatch_loop client p ctx envs m base n db = (outs, waits, db')"
    and "find_webhook (dc_webhook_id ctx) db \<noteq> None" "inj_on (\<lambda>k. e_uuid (envs k) 0) {n..Suc m}"
    and "n \<le> Suc m" "\<forall>k\<in>{n..Suc m}. e_uuid (envs k) 0 \<notin> x_id ` set (webhook_executions db)"
  shows "\<exists>rows. db' = db\<lparr>webhook_executions := webhook_executions db @ rows\<rparr> \<and> map x_is_success rows = map delivered outs \<and>
    (\<forall>r\<in>set rows. x_webhook_id r = dc_webhook_id ctx)"
  using assms
proof (induction "Suc m - n" arbitrary: n db outs waits db' rule: less_induct)
  case less
  obtain url status ms detail where round: "dispatch_loop client p ctx envs m base n db =
      after_attempt client p ctx envs m base n
        (log_execution (envs n) ctx url status (delivered (outcome_at client p n)) ms detail db)"
    using dispatch_loop_round by blast
  obtain r where row: "log_execution (envs n) ctx url status (delivered (outcome_at client p n)) ms detail db =
      db\<lparr>webhook_executions := webhook_executions db @ [r]\<rparr>" "x_id r = e_uuid (envs n) 0"
      "x_webhook_id r = dc_webhook_id ctx" "x_is_success r = delivered (outcome_at client p n)"
    using log_execution_appends [OF less.prems(2)] less.prems(4,5) by (metis atLeastAtMost_iff le_refl)
  let ?db1 = "db\<lparr>webhook_executions := webhook_executions db @ [r]\<rparr>"
  show ?case
  proof (cases "is_transient (outcome_at client p n) \<and> n \<le> m")
    case True
    obtain outs' waits' where rest: "dispatch_loop client p ctx envs m base (Suc n) ?db1 = (outs', waits', db')"
      "outs = outcome_at client p n # outs'"
      using less.prems(1) True by (auto simp: round after_attempt_def row(1) split: prod.splits)
    have shrink: "Suc m - Suc n < Suc m - n" using True by arith
    have "e_uuid (envs k) 0 \<noteq> x_id r" if "k \<in> {Suc n..Suc m}" for k
      using inj_onD [OF less.prems(3), of k n] less.prems(4) that row(2) by auto
    moreover have "inj_on (\<lambda>k. e_uuid (envs k) 0) {Suc n..Suc m}"
      using less.prems(3) by (rule inj_on_subset) auto
    ultimately have "\<exists>rows. db' = ?db1\<lparr>webhook_executions := webhook_executions ?db1 @ rows\<rparr> \<and>
        map x_is_success rows = map delivered outs' \<and> (\<forall>r\<in>set rows. x_webhook_id r = dc_webhook_id ctx)"
      using less.prems(2,5) True by (intro less.hyps [OF shrink rest(1)]) (auto simp: find_webhook_def)
    then obtain rows where "db' = ?db1\<lparr>webhook_executions := webhook_executions ?db1 @ rows\<rparr>"
      "map x_is_success rows = map delivered outs'" "\<forall>r\<in>set rows. x_webhook_id r = dc_webhook_id ctx" by blast
    then show ?thesis using row(3,4) rest(2) by (intro exI [of _ "r # rows"]) simp
  next
    case False
    then show ?thesis
      using less.prems(1) row(3,4) by (intro exI [of _ "[r]"]) (auto simp: round after_attempt_def row(1))
  qed
qed


text \<open>
  C31 A receiver that recovers is served: if the attempts before number n + 1 fail transiently, that one
  succeeds and n retries are allowed, the delivery ends with the success and records every attempt,
  the last one as the successful one, provided the webhook still exists and the drawn ids are new.
\<close>

theorem recovered_receiver_is_served:
  assumes "n \<le> m" "\<forall>k\<in>{1..n}. is_transient (outcome_at client p k)" "outcome_at client p (Suc n) = Success status"
    and "find_webhook (dc_webhook_id ctx) db \<noteq> None" "inj_on (\<lambda>k. e_uuid (envs k) 0) {1..Suc m}"
    and "\<forall>k\<in>{1..Suc m}. e_uuid (envs k) 0 \<notin> x_id ` set (webhook_executions db)"
  shows "\<exists>outs waits rows. dispatch_with_retries_config client p ctx envs m base db =
      (outs, waits, db\<lparr>webhook_executions := webhook_executions db @ rows\<rparr>) \<and>
    length outs = Suc n \<and> last outs = Success status \<and> map x_is_success rows = replicate n False @ [True]"
proof -
  obtain outs waits db' where run: "dispatch_loop client p ctx envs m base 1 db = (outs, waits, db')"
    by (cases "dispatch_loop client p ctx envs m base 1 db")
  note facts = dispatch_loop_trace [OF run]
  have nth: "outs ! i = outcome_at client p (Suc i)" if "i < length outs" for i
    using facts that by (metis add.commute add_diff_cancel_left' nth_map nth_upt plus_1_eq_Suc length_map length_upt less_diff_conv)
  have "length outs \<ge> Suc n"
  proof (rule ccontr)
    assume "\<not> Suc n \<le> length outs"
    moreover have "length outs > 0" using facts by simp
    moreover have "length outs \<in> {1..n}" using facts \<open>\<not> Suc n \<le> length outs\<close> by (cases outs) auto
    ultimately have "is_transient (last outs)"
      using nth [of "length outs - 1"] assms(2) by (simp add: last_conv_nth)
    then show False using facts assms(1) \<open>\<not> Suc n \<le> length outs\<close> by auto
  qed
  moreover have "\<not> Suc n < length outs"
  proof
    assume "Suc n < length outs"
    then have "outs ! n \<in> set (butlast outs)" by (metis Suc_lessD diff_Suc_1 in_set_conv_nth length_butlast less_Suc_eq less_diff_conv nth_butlast plus_1_eq_Suc add.commute)
    then show False using facts nth [of n] assms(3) \<open>Suc n < length outs\<close> by auto
  qed
  ultimately have len: "length outs = Suc n" by simp
  have outs: "outs = map (outcome_at client p) [1..<Suc (Suc n)]" using facts len by simp
  obtain rows where rows: "db' = db\<lparr>webhook_executions := webhook_executions db @ rows\<rparr>" "map x_is_success rows = map delivered outs"
    using dispatch_loop_rows [OF run assms(4,5) _ assms(6)] by auto
  have "\<not> delivered d" if "is_transient d" for d using that by (cases d) (simp_all add: delivered_def)
  then have "map delivered (map (outcome_at client p) [1..<Suc n]) = replicate n False"
    using assms(2) by (intro replicate_eqI) auto
  then have "map delivered outs = replicate n False @ [True]" using assms(3) by (simp add: outs delivered_def)
  moreover have "last outs = Success status" using assms(3) by (simp add: outs)
  moreover have "dispatch_with_retries_config client p ctx envs m base db =
      (outs, waits, db\<lparr>webhook_executions := webhook_executions db @ rows\<rparr>)"
    using run rows(1) by (simp add: dispatch_with_retries_config_def)
  ultimately show ?thesis using rows(2) len by auto
qed

text \<open>A receiver that answers 503 once and then 200, and a webhook of the sample installation.\<close>

definition status_response :: "nat \<Rightarrow> string \<Rightarrow> reply" where
  "status_response status text = Response \<lparr>hr_status = status, hr_status_text = text, hr_headers = [], hr_body = None\<rparr>"

definition flaky_client :: http_client where
  "flaky_client url headers payload n =
     (if n \<le> 1 then (status_response 503 ''503 Service Unavailable'', 12) else (status_response 200 ''200 OK'', 7))"

definition hook_db1 :: db where "hook_db1 = demo_db\<lparr>webhook_configs := [sample_webhook 30 10 (Some 2)]\<rparr>"

definition hook_context :: dispatch_context where
  "hook_context = \<lparr>dc_webhook_id = 30, dc_webhook_name = ''hook'', dc_event_type = ''IP_ADD'',
     dc_target_address = ''8.8.8.8'', dc_cause = None\<rparr>"

definition hook_request :: prepared_dispatch where
  "hook_request = \<lparr>pd_target_url = ''https://hooks.example/in'', pd_headers = Map.empty, pd_payload = ''{}''\<rparr>"

definition attempt_env :: "nat \<Rightarrow> env" where
  "attempt_env k = demo_env\<lparr>e_uuid := (\<lambda>n. word_of_int (int (k mod 2 ^ 128)))\<rparr>"

lemmas flaky_run = flaky_client_def status_response_def outcome_at_def attempt_delivery_def is_success_def is_server_error_def


theorem recovered_receiver_is_served_witness:
  "\<exists>outs waits rows. dispatch_with_retries_config flaky_client hook_request hook_context attempt_env 3 500 hook_db1 =
      (outs, waits, hook_db1\<lparr>webhook_executions := webhook_executions hook_db1 @ rows\<rparr>) \<and> last outs = Success 200 \<and>
      map x_is_success rows = [False, True]"
proof -
  have "{1..Suc 3} = {1, 2, 3, 4}" by auto
  then have "inj_on (\<lambda>k. e_uuid (attempt_env k) 0) {1..Suc 3}" by (simp add: attempt_env_def)
  moreover have "\<forall>k\<in>{1..1}. is_transient (outcome_at flaky_client hook_request k)"
    "outcome_at flaky_client hook_request (Suc 1) = Success 200"
    by (simp_all add: flaky_run)
  moreover have "replicate 1 False @ [True] = [False, True]" by simp
  moreover have "find_webhook (dc_webhook_id hook_context) hook_db1 \<noteq> None"
    by (simp add: hook_context_def hook_db1_def find_webhook_def row_find_Cons sample_webhook_def)
  moreover have "\<forall>k\<in>{1..Suc 3}. e_uuid (attempt_env k) 0 \<notin> x_id ` set (webhook_executions hook_db1)"
    by (simp add: hook_db1_def demo_db_def empty_db_def)
  ultimately show ?thesis
    using recovered_receiver_is_served [of 1 3 flaky_client hook_request 200 hook_context hook_db1 attempt_env 500]
    by fastforce
qed

end
