(* ===== verification/Peer_Auth.thy ===== *)
theory Peer_Auth
  imports Dispatch_Properties Auth_Properties
begin

text \<open>
  Instance chaining: a canonical dispatch of one instance against the authentication of another.
  \<open>received\<close> is the request a receiver sees of a prepared dispatch, with the path and the query of
  the target on the wire.
\<close>

subsection \<open>Decimal text\<close>

lemma byte_digit: "n < 10 \<Longrightarrow> byte (char_of (48 + n)) = 48 + n" for n :: nat
  by simp

lemma dec_digits: "\<forall>c\<in>set (dec n). is_ascii_digit c"
proof (induction n rule: dec.induct)
  case (1 n)
  have small: "is_ascii_digit (char_of (48 + m))" if "m < 10" for m :: nat
    using that by (simp add: is_ascii_digit_def)
  show ?case
    using 1 small [of n] small [of "n mod 10"] by (subst dec.simps) auto
qed

lemma dec_not_Nil [simp]: "dec n \<noteq> []"
  by (subst dec.simps) simp

lemma digits_value_snoc:
  "digits_value acc (s @ [c]) =
     (case digits_value acc s of None \<Rightarrow> None
      | Some a \<Rightarrow> if is_ascii_digit c then Some (10 * a + (byte c - 48)) else None)"
  by (induction s arbitrary: acc) auto

lemma digits_value_dec: "digits_value 0 (dec n) = Some n"
proof (induction n rule: dec.induct)
  case (1 n)
  have small: "is_ascii_digit (char_of (48 + m))" "byte (char_of (48 + m)) - 48 = m" if "m < 10" for m :: nat
    using that by (simp_all add: is_ascii_digit_def)
  show ?case
  proof (cases "n < 10")
    case True
    then show ?thesis using small [of n] by (subst dec.simps) simp
  next
    case False
    have "digits_value 0 (dec n) = digits_value 0 (dec (n div 10) @ [char_of (48 + n mod 10)])"
      using False by (subst dec.simps) simp
    also have "\<dots> = Some (10 * (n div 10) + n mod 10)"
      using 1 [OF False] small [of "n mod 10"] by (simp add: digits_value_snoc)
    finally show ?thesis by simp
  qed
qed

lemma parse_dec_int: "- (2 ^ 63) \<le> i \<Longrightarrow> i < 2 ^ 63 \<Longrightarrow> parse_i64 (dec_int i) = Some i"
proof (cases "i < 0")
  case True
  assume "- (2 ^ 63) \<le> i"
  then show ?thesis using True digits_value_dec by (simp add: parse_i64_def dec_int_def)
next
  case False
  assume "i < 2 ^ 63"
  obtain c s where d: "dec (nat i) = c # s" by (metis dec_not_Nil list.exhaust)
  then have "is_ascii_digit c" using dec_digits [of "nat i"] by simp
  then have "c \<noteq> CHR ''-''" "c \<noteq> CHR ''+''" by (auto simp: is_ascii_digit_def byte_def)
  then show ?thesis
    using False d digits_value_dec [of "nat i"] \<open>i < 2 ^ 63\<close> by (simp add: parse_i64_def dec_int_def)
qed

lemma trim_dec_int: "trim (dec_int i) = dec_int i"
proof (rule trim_plain)
  have "\<not> ascii_space c \<and> byte c < 128" if "is_ascii_digit c \<or> c = CHR ''-''" for c
    using that by (auto simp: is_ascii_digit_def ascii_space_def Let_def byte_def)
  then show "\<forall>c\<in>set (dec_int i). \<not> ascii_space c \<and> byte c < 128"
    using dec_digits by (auto simp: dec_int_def)
qed

lemma fresh_timestamp:
  assumes "- (2 ^ 62) \<le> unix_seconds t" "unix_seconds t < 2 ^ 62" "\<bar>unix_seconds now - unix_seconds t\<bar> \<le> MAX_TIMESTAMP_SKEW_SECS"
  shows "validate_timestamp now (Some (dec_int (unix_seconds t))) = Inr (dec_int (unix_seconds t))"
  using assms
  by (simp add: validate_timestamp_def trim_dec_int parse_dec_int saturating_sub_def i64_abs_def MAX_TIMESTAMP_SKEW_SECS_def Let_def)

subsection \<open>The request on the wire\<close>

definition wire_target :: "url \<Rightarrow> string" where
  "wire_target u = url_path u @ (case url_query u of None \<Rightarrow> [] | Some q \<Rightarrow> CHR 0x3F # q)"

definition received :: "ip_addr \<Rightarrow> url \<Rightarrow> prepared_dispatch \<Rightarrow> auth_request" where
  "received peer u p =
     \<lparr>rq_peer = peer, rq_method = ''POST'', 
      rq_original_uri = Some \<lparr>uri_path_and_query = Some (wire_target u), uri_path = url_path u\<rparr>,
      rq_uri = \<lparr>uri_path_and_query = Some (wire_target u), uri_path = url_path u\<rparr>,
      rq_timestamp = pd_headers p ''x-timestamp'', rq_api_key = pd_headers p ''x-api-key'',
      rq_signature = pd_headers p ''x-signature-256'', rq_forwarded = pd_headers p ''x-forwarded-for'',
      rq_real_ip = pd_headers p ''x-real-ip'', rq_body = Some (pd_payload p)\<rparr>"

text \<open>A webhook in the canonical mode with this service's defaults and an api key.\<close>
definition chains_to_instance :: "webhook_config \<Rightarrow> string \<Rightarrow> bool" where
  "chains_to_instance w plain \<longleftrightarrow>
     mode_from_stored (w_auth_mode w) = CanonicalV1 \<and> w_api_key w = Some plain \<and> plain \<noteq> [] \<and>
     w_hmac_template w = None \<and> w_signature_header w = None \<and> w_signature_prefix w = None"

text \<open>What the HTTP library says of the service's own header name and of decimal text.\<close>
definition header_laws :: "lib \<Rightarrow> bool" where
  "header_laws l \<longleftrightarrow> l_header_name l DEFAULT_SIGNATURE_HEADER = Some ''x-signature-256'' \<and>
     (\<forall>i. l_header_value_error l (dec_int i) = None)"

lemma chained_headers:
  assumes "prepare_dispatch l now w ev = Inr p" "chains_to_instance w plain" "header_laws l" "l_url_parse l (pd_target_url p) = Some u"
  shows "pd_headers p ''x-api-key'' = Some plain \<and> pd_headers p ''x-timestamp'' = Some (dec_int (unix_seconds now)) \<and>
    pd_headers p ''x-signature-256'' = Some (DEFAULT_SIGNATURE_PREFIX @
      l_hex_encode l (l_hmac_sha256 l (w_secret_token w)
        (canonical_v1_payload ''POST'' (url_path u) (dec_int (unix_seconds now)) (pd_payload p))))"
  using assms
  by (auto simp: prepare_dispatch_def chains_to_instance_def header_laws_def api_key_header_def sends_api_key_def non_blank_def
      not_blank_def sign_dispatch_def signature_to_header_def signature_header_of_def signature_prefix_of_def unwrap_or_def
      header_value_def default_template_is_canonical Let_def
      elim!: try_then_InrE split: option.splits)


text \<open>
  The receiver signs the path with the query, the sender the path alone: over a MAC without
  collisions a target with a query never authenticates.
\<close>

lemma query_breaks_chaining:
  assumes sent: "prepare_dispatch l now w ev = Inr p" "chains_to_instance w plain" "l_url_parse l (pd_target_url p) = Some u"
    and "url_query u = Some q" "header_laws l" "hex_laws l"
    and stored: "find_key_by_hash (hash_key l plain) (as_db st) = Some key" "open_key_secret l (as_cipher st) key = Inr (w_secret_token w)"
    and mac: "\<And>k m m'. l_hmac_sha256 l k m = l_hmac_sha256 l k m' \<Longrightarrow> m = m'"
  shows "\<not> proves_key l ae (received peer u p) st key' digest"
proof
  assume "proves_key l ae (received peer u p) st key' digest"
  then obtain plain' ts secret provided where p: "pd_headers p ''x-api-key'' = Some plain'"
    "find_key_by_hash (hash_key l plain') (as_db st) = Some key'" "pd_headers p ''x-signature-256'' = Some provided"
    "validate_timestamp (ae_now ae) (pd_headers p ''x-timestamp'') = Inr ts" "open_key_secret l (as_cipher st) key' = Inr secret"
    "verify_signature l secret ''POST'' (wire_target u) ts (pd_payload p) provided = Some digest"
    by (auto simp: proves_key_def received_def signed_target_def)
  note headers = chained_headers [OF sent(1,2) \<open>header_laws l\<close> sent(3)]
  have same: "plain' = plain" "key' = key" "secret = w_secret_token w"
    using p(1,2,5) headers stored by auto
  have "ts = dec_int (unix_seconds now)"
    using p(4) headers by (auto simp: validate_timestamp_def trim_dec_int Let_def elim!: try_then_InrE split: if_splits)
  moreover have "provided = SIGNATURE_PREFIX @ l_hex_encode l (l_hmac_sha256 l (w_secret_token w)
      (canonical_v1_payload ''POST'' (url_path u) (dec_int (unix_seconds now)) (pd_payload p)))"
    using p(3) headers by (simp add: SIGNATURE_PREFIX_def DEFAULT_SIGNATURE_PREFIX_def)
  ultimately have "l_hmac_sha256 l (w_secret_token w) (canonical_v1_payload ''POST'' (url_path u) (dec_int (unix_seconds now)) (pd_payload p)) =
      l_hmac_sha256 l (w_secret_token w) (canonical_v1_payload ''POST'' (wire_target u) (dec_int (unix_seconds now)) (pd_payload p))"
    using p(6) \<open>hex_laws l\<close> same(3)
    by (auto simp: verify_signature_def trim_signature trim_hex hex_laws_def split: if_splits)
  then have "canonical_v1_payload ''POST'' (url_path u) (dec_int (unix_seconds now)) (pd_payload p) =
      canonical_v1_payload ''POST'' (wire_target u) (dec_int (unix_seconds now)) (pd_payload p)" by (rule mac)
  then show False using \<open>url_query u = Some q\<close> by (simp add: canonical_v1_payload_def wire_target_def newline_def)
qed

definition chained_hook :: webhook_config where
  "chained_hook = (sample_webhook 32 10 (Some 1))\<lparr>w_target_url := ''https://peer.example/api/ban'', w_secret_token := ''secret-0'',
     w_auth_mode := ''CANONICAL_V1'', w_api_key := Some ''plain-key''\<rparr>"

definition sample_event :: webhook_event where
  "sample_event = \<lparr>ev_action = ''IP_ADD'', ev_address = ''8.8.8.8'', ev_is_whitelist = False, ev_group_id = Some 10,
     ev_group_name = Some ''ssh'', ev_cause = Some ''$group_name''\<rparr>"

lemma demo_header_laws: "header_laws demo_lib"
proof -
  have "\<forall>c\<in>set (dec_int i). 32 \<le> byte c \<and> byte c \<noteq> 127" for i
    using dec_digits [of "nat (- i)"] dec_digits [of "nat i"] by (auto simp: dec_int_def is_ascii_digit_def byte_def)
  moreover have "l_header_name demo_lib DEFAULT_SIGNATURE_HEADER = Some ''x-signature-256''" by code_simp
  ultimately show ?thesis by (simp add: header_laws_def demo_lib_def list_all_iff)
qed


end
