(* ===== verification/Pool_Properties.thy ===== *)
theory Pool_Properties
  imports Dispatch_Pool Peer_Auth
begin

text \<open>
  The properties of the running dispatcher, over every interleaving of its workers, the requests
  that feed the queue, the receivers and the resolver.
\<close>

text \<open>
  C32 In every reachable state of the pool, with the development escape hatch off: each address
  contacted passed the screen; events are taken once each and in the order they were queued; no
  worker has more than 64 deliveries in flight; and each delivery was prepared from a taken event
  for an active webhook of its group that subscribes to it.
\<close>

theorem dispatcher_stays_in_bounds:
  assumes "pool_reachable l False m (started_pool workers capacity db) p" "db_ok db"
  shows "(\<forall>url\<in>set (pl_contacted p). \<exists>dns. is_url_safe l dns url False) \<and>
    pl_taken p @ pl_queue p = pl_enqueued p \<and> length (pl_queue p) \<le> pl_capacity p \<and> db_ok (pl_db p) \<and>
    (\<forall>wk\<in>set (pl_workers p). length (wk_jobs wk) \<le> 64 \<and> (\<forall>j\<in>set (wk_jobs wk).
       \<exists>w ev now. ev \<in> set (pl_taken p) \<and> ev_group_id ev = Some (w_group_id w) \<and> w_is_active w \<and> subscribed w ev \<and>
         prepare_dispatch l now w ev = Inr (jb_request j)))"
proof -
  have "pool_ok l False m p" using reachable_pool_ok [OF assms] .
  then show ?thesis by (fastforce simp: pool_ok_def worker_ok_def job_origin_def MAX_INFLIGHT_def)
qed

definition pool_with_hook :: db where "pool_with_hook = demo_db\<lparr>webhook_configs := [chained_hook]\<rparr>"

lemma pool_with_hook_ok: "db_ok pool_with_hook"
  by (simp add: db_ok_def refs_ok_def table_defs pool_with_hook_def chained_hook_def demo_db_def empty_db_def sample_defs)

theorem dispatcher_stays_in_bounds_witness:
  "\<exists>p. pool_reachable demo_lib False 5 (started_pool 1 2 pool_with_hook) p \<and> pl_taken p = [sample_event] \<and>
     pl_taken p @ pl_queue p = pl_enqueued p \<and> map (\<lambda>wk. length (wk_jobs wk)) (pl_workers p) = [1]"
proof -
  let ?p0 = "started_pool 1 2 pool_with_hook"
  let ?wk = "\<lambda>ph jobs. \<lparr>wk_phase = ph, wk_jobs = jobs\<rparr>"
  let ?p1 = "?p0\<lparr>pl_queue := [sample_event], pl_enqueued := [sample_event]\<rparr>"
  let ?p2 = "\<lambda>wk. ?p1\<lparr>pl_queue := [], pl_taken := [sample_event], pl_workers := [wk]\<rparr>"
  obtain req where req: "prepare_dispatch demo_lib 0 chained_hook sample_event = Inr req"
  proof -
    have "\<not> isl (prepare_dispatch demo_lib 0 chained_hook sample_event)" by code_simp
    then show ?thesis using that by (cases "prepare_dispatch demo_lib 0 chained_hook sample_event") auto
  qed
  have rows: "active_webhooks 10 (pl_db (?p2 wk)) = [chained_hook]" "subscribed chained_hook sample_event"
    "ev_group_id sample_event = Some 10" for wk
    by (simp_all add: active_webhooks_def started_pool_def pool_with_hook_def chained_hook_def sample_webhook_def
        subscribed_def sample_event_def)
  let ?step = "pool_step demo_lib False 5"
  have "?step ?p0 ?p1"
    using send [of ?p0 demo_lib False 5 sample_event] by (simp add: started_pool_def)
  moreover have "?step ?p1 (?p2 (?wk (Fetching sample_event) []))"
    using take [of 0 ?p1 sample_event "[]" demo_lib False 5] by (simp add: started_pool_def)
  moreover have "?step (?p2 (?wk (Fetching sample_event) [])) (?p2 (?wk (Fanning sample_event [chained_hook]) []))"
    using work [of 0 "?p2 (?wk (Fetching sample_event) [])" demo_lib] fetched [of "?wk (Fetching sample_event) []" sample_event 10] rows
    by fastforce
  moreover have "?step (?p2 (?wk (Fanning sample_event [chained_hook]) []))
      (?p2 (?wk (Fanning sample_event []) [spawned_job chained_hook sample_event req]))"
    using work [of 0 "?p2 (?wk (Fanning sample_event [chained_hook]) [])" demo_lib]
      spawn [of "?wk (Fanning sample_event [chained_hook]) []" sample_event chained_hook "[]", OF _ rows(2) _ req]
    by (fastforce simp: MAX_INFLIGHT_def)
  ultimately have reach: "pool_reachable demo_lib False 5 ?p0 (?p2 (?wk (Fanning sample_event []) [spawned_job chained_hook sample_event req]))"
    unfolding pool_reachable_def by (meson rtranclp.rtrancl_into_rtrancl rtranclp.rtrancl_refl)
  let ?p3 = "?p2 (?wk (Fanning sample_event []) [spawned_job chained_hook sample_event req])"
  have "pl_taken ?p3 @ pl_queue ?p3 = pl_enqueued ?p3"
    using dispatcher_stays_in_bounds [OF reach pool_with_hook_ok] by (elim conjE)
  then show ?thesis using reach by (intro exI [of _ ?p3] conjI) (assumption | simp)+
qed


definition hook_job :: job where
  "hook_job = \<lparr>jb_request = hook_request, jb_context = hook_context, jb_state = Attempting 1\<rparr>"


end
