(* ===== verification/Listings.thy ===== *)
theory Listings
  imports Webhooks "HOL-Library.List_Lexorder" "HOL-Library.Char_ord"
begin

text \<open>
  The read endpoints with filters and pages: \<open>GET /api/ips\<close> (\<open>src/api/records.rs\<close>), the audit log
  (\<open>src/api/audit.rs\<close>), and the delivery history of webhooks with the deletion of one entry
  (\<open>src/api/webhooks.rs\<close>). Rows with equal sort keys come in storage order. A result \<open>None\<close> is the
  panic of \<open>chrono\<close> on a duration that leaves its range.
\<close>

definition page :: "nat \<Rightarrow> nat \<Rightarrow> 'a list \<Rightarrow> 'a list" where
  "page limit offset rows = take limit (drop offset rows)"

text \<open>\<open>order_by_desc\<close>.\<close>
definition newest_first :: "('a \<Rightarrow> int) \<Rightarrow> 'a list \<Rightarrow> 'a list" where
  "newest_first f rows = sort_key (\<lambda>r. - f r) rows"

text \<open>A filter that is absent or blank lets every row through.\<close>
definition unless_blank :: "string option \<Rightarrow> (string \<Rightarrow> bool) \<Rightarrow> bool" where
  "unless_blank v p = (case non_blank v of Some s \<Rightarrow> p s | None \<Rightarrow> True)"

definition if_given :: "'a option \<Rightarrow> ('a \<Rightarrow> bool) \<Rightarrow> bool" where
  "if_given v p = (case v of Some x \<Rightarrow> p x | None \<Rightarrow> True)"

text \<open>\<open>contains\<close> on a nullable column: \<open>NULL\<close> matches nothing.\<close>
definition column_contains :: "lib \<Rightarrow> string \<Rightarrow> string option \<Rightarrow> bool" where
  "column_contains l needle v = (case v of Some s \<Rightarrow> l_like l needle s | None \<Rightarrow> False)"

subsection \<open>Records\<close>

record query_filters =
  q_groups :: "string option"
  q_group_name :: "string option"
  q_group_id :: "uuid option"
  q_ip :: "string option"
  q_cause :: "string option"
  q_status :: "string option"
  q_max_age :: "int option"
  q_since :: "int option"
  q_limit :: "nat option"
  q_offset :: "nat option"
  q_format :: "string option"
  q_mode :: "string option"
  q_include_deleted :: "bool option"
  q_include_total :: "bool option"

record ip_record_response =
  ir_id :: uuid
  ir_target_address :: string
  ir_group_name :: string
  ir_group_type :: string
  ir_cause :: "string option"
  ir_is_locked :: bool
  ir_created_at :: datetime
  ir_updated_at :: datetime
  ir_last_seen_at :: datetime
  ir_is_deleted :: bool
  ir_deleted_at :: "datetime option"
  ir_deleted_by :: "string option"

record ip_records_envelope =
  en_data :: "ip_record_response list"
  en_total :: nat
  en_limit :: nat
  en_offset :: nat
  en_total_pages :: nat

datatype ips_response = IpList "string list" | Envelope ip_records_envelope | Items "ip_record_response list"

definition empty_ips_response :: "bool \<Rightarrow> bool \<Rightarrow> nat \<Rightarrow> nat \<Rightarrow> ips_response" where
  "empty_ips_response format_iplist include_total limit offset =
     (if format_iplist then IpList []
      else if include_total
        then Envelope \<lparr>en_data = [], en_total = 0, en_limit = limit, en_offset = offset, en_total_pages = 0\<rparr>
      else Items [])"

definition accessible_groups :: "db \<Rightarrow> uuid \<Rightarrow> uuid list" where
  "accessible_groups db key_id =
     map p_group_id (filter (\<lambda>p. p_api_key_id p = key_id \<and> p_can_read p) (permissions db))"

definition group_names :: "query_filters \<Rightarrow> string list" where
  "group_names f =
     (case non_blank (q_groups f) of
        Some g \<Rightarrow> filter (\<lambda>s. s \<noteq> []) (map trim (split_on (CHR '','') g)) | None \<Rightarrow> []) @
     (case q_group_name f of Some n \<Rightarrow> (if trim n \<noteq> [] then [trim n] else []) | None \<Rightarrow> [])"

text \<open>The groups asked for by name or by id, if any were.\<close>
definition requested_groups :: "db \<Rightarrow> query_filters \<Rightarrow> uuid list option" where
  "requested_groups db f =
     (let names = group_names f in
      if names \<noteq> [] \<or> q_group_id f \<noteq> None
      then Some (map g_id (filter (\<lambda>g. g_name g \<in> set names) (ip_groups db)) @
                 (case q_group_id f of Some g \<Rightarrow> [g] | None \<Rightarrow> []))
      else None)"

definition status_groups :: "db \<Rightarrow> string option \<Rightarrow> app_error + uuid list option" where
  "status_groups db status =
     (case non_blank status of
        None \<Rightarrow> Inr None
      | Some s \<Rightarrow>
          (let of_type = (\<lambda>t. Inr (Some (map g_id (filter (\<lambda>g. g_group_type g = t) (ip_groups db))))) in
           if s = ''ban'' \<or> s = ''banlist'' then of_type ''banlist''
           else if s = ''white'' \<or> s = ''whitelist'' then of_type ''whitelist''
           else Inl (InvalidInput (''Invalid status filter: '' @ s))))"

text \<open>The last set pushed, reduced to what all the others contain.\<close>
definition intersect_all :: "uuid list list \<Rightarrow> uuid list option" where
  "intersect_all constraints =
     (case rev constraints of
        [] \<Rightarrow> None | c # cs \<Rightarrow> Some (filter (\<lambda>g. list_all (\<lambda>s. g \<in> set s) cs) c))"

text \<open>The cutoff of a differential sync: last seen, or, with tombstones included, deleted since.\<close>
definition in_window :: "bool \<Rightarrow> datetime \<Rightarrow> ip_record \<Rightarrow> bool" where
  "in_window include_deleted threshold r =
     (threshold \<le> r_last_seen_at r \<or>
      (include_deleted \<and> r_is_deleted r \<and> (case r_deleted_at r of Some t \<Rightarrow> threshold \<le> t | None \<Rightarrow> False)))"

definition record_matches ::
  "lib \<Rightarrow> query_filters \<Rightarrow> bool \<Rightarrow> datetime option \<Rightarrow> datetime option \<Rightarrow> ip_record \<Rightarrow> bool" where
  "record_matches l f include_deleted oldest since r =
     ((include_deleted \<or> \<not> r_is_deleted r) \<and>
      unless_blank (q_ip f) (\<lambda>ip. l_like l (normalize_ip_or_cidr l (trim ip)) (r_target_address r)) \<and>
      unless_blank (q_cause f) (\<lambda>c. column_contains l (trim c) (r_cause r)) \<and>
      if_given oldest (\<lambda>t. t \<le> r_last_seen_at r) \<and>
      if_given since (\<lambda>t. in_window include_deleted t r))"

text \<open>The join of a membership with its record, which the schema guarantees to exist.\<close>
definition joined_rows :: "db \<Rightarrow> (membership \<times> ip_record) list" where
  "joined_rows db = List.map_filter (\<lambda>m. map_option (\<lambda>r. (m, r)) (find_record (m_ip_record_id m) db)) (memberships db)"

definition record_response :: "api_key \<Rightarrow> ip_group \<Rightarrow> ip_record \<Rightarrow> ip_record_response" where
  "record_response key g r =
     \<lparr>ir_id = r_id r, ir_target_address = r_target_address r, ir_group_name = g_name g, ir_group_type = g_group_type g,
      ir_cause = r_cause r, ir_is_locked = r_is_locked r, ir_created_at = r_created_at r, ir_updated_at = r_updated_at r,
      ir_last_seen_at = r_last_seen_at r, ir_is_deleted = r_is_deleted r, ir_deleted_at = r_deleted_at r,
      ir_deleted_by = (if k_is_master key then r_deleted_by r else None)\<rparr>"

definition record_items :: "api_key \<Rightarrow> db \<Rightarrow> (membership \<times> ip_record) list \<Rightarrow> ip_record_response list" where
  "record_items key db rows =
     List.map_filter (\<lambda>(m, r). map_option (\<lambda>g. record_response key g r) (find_group (m_group_id m) db)) rows"

definition total_pages :: "nat \<Rightarrow> nat \<Rightarrow> nat" where
  "total_pages n limit = (if limit = 0 then 0 else (n + limit - 1) div limit)"

definition since_threshold :: "lib \<Rightarrow> string \<Rightarrow> int option \<Rightarrow> app_error + datetime option" where
  "since_threshold l name v =
     (case v of
        None \<Rightarrow> Inr None
      | Some s \<Rightarrow> try_then (ok_or (InvalidInput (''Invalid '' @ [CHR 0x60] @ name @ [CHR 0x60] @ '' timestamp'')) (l_from_timestamp l s))
          (\<lambda>t. Inr (Some t)))"

definition is_iplist :: "query_filters \<Rightarrow> bool" where
  "is_iplist f = (q_format f = Some ''iplist'' \<or> q_mode f = Some ''iplist'')"

text \<open>What is answered over the matching rows.\<close>
definition answer_rows ::
  "api_key \<Rightarrow> db \<Rightarrow> bool \<Rightarrow> bool \<Rightarrow> nat \<Rightarrow> nat \<Rightarrow> (membership \<times> ip_record) list \<Rightarrow> ips_response" where
  "answer_rows key db format_iplist include_total limit offset rows =
     (let shown = page limit offset (newest_first (\<lambda>(m, r). r_updated_at r) rows) in
      if format_iplist then IpList (remdups_adj (sort (map (\<lambda>(m, r). r_target_address r) shown)))
      else if include_total
        then Envelope \<lparr>en_data = record_items key db shown, en_total = length rows, en_limit = limit, en_offset = offset,
               en_total_pages = total_pages (length rows) limit\<rparr>
      else Items (record_items key db shown))"

definition list_ips :: "lib \<Rightarrow> datetime \<Rightarrow> api_key \<Rightarrow> query_filters \<Rightarrow> db \<Rightarrow> (app_error + ips_response) option" where
  "list_ips l now key f db =
     (let include_deleted = unwrap_or False (q_include_deleted f);
          format_iplist = is_iplist f;
          include_total = (unwrap_or False (q_include_total f) \<and> \<not> format_iplist);
          limit = unwrap_or 50 (q_limit f);
          offset = unwrap_or 0 (q_offset f);
          nothing = Some (Inr (empty_ips_response format_iplist include_total limit offset));
          readable = accessible_groups db (k_id key) in
      if \<not> k_is_master key \<and> readable = [] then nothing
      else case status_groups db (q_status f) of
        Inl e \<Rightarrow> Some (Inl e)
      | Inr of_status \<Rightarrow>
          (let constraints = (if \<not> k_is_master key then [readable] else []) @
                 (case requested_groups db f of Some gs \<Rightarrow> [gs] | None \<Rightarrow> []) @
                 (case of_status of Some gs \<Rightarrow> [gs] | None \<Rightarrow> []);
               scope = intersect_all constraints in
           if scope = Some [] then nothing
           else case map_option (l_minus_secs l now) (q_max_age f) of
             Some None \<Rightarrow> None
           | oldest \<Rightarrow>
               (case since_threshold l ''since'' (q_since f) of
                  Inl e \<Rightarrow> Some (Inl e)
                | Inr since \<Rightarrow>
                    (let rows = filter (\<lambda>(m, r). if_given scope (\<lambda>gs. m_group_id m \<in> set gs) \<and>
                           record_matches l f include_deleted (case oldest of Some t \<Rightarrow> t | None \<Rightarrow> None) since r) (joined_rows db) in
                     Some (Inr (answer_rows key db format_iplist include_total limit offset rows))))))"

subsection \<open>Audit log\<close>

record audit_log_query =
  aq_action :: "string option"
  aq_limit :: "nat option"
  aq_offset :: "nat option"

definition list_audit_logs :: "api_key \<Rightarrow> audit_log_query \<Rightarrow> db \<Rightarrow> app_error + audit_log list" where
  "list_audit_logs key q db =
     (if \<not> k_is_master key then Inl (Forbidden ''Only master keys can view audit logs'')
      else Inr (page (unwrap_or 50 (aq_limit q)) (unwrap_or 0 (aq_offset q))
        (filter (\<lambda>a. unless_blank (aq_action q) (\<lambda>act. a_action a = act)) (newest_first a_timestamp (audit_logs db)))))"

subsection \<open>Delivery history\<close>

record webhook_execution_query =
  xq_webhook_id :: "uuid option"
  xq_event_type :: "string option"
  xq_is_success :: "bool option"
  xq_status :: "string option"
  xq_search :: "string option"
  xq_group_id :: "uuid option"
  xq_ip :: "string option"
  xq_from_date :: "int option"
  xq_to_date :: "int option"
  xq_limit :: "nat option"
  xq_offset :: "nat option"

definition webhook_ids :: "(webhook_config \<Rightarrow> bool) \<Rightarrow> db \<Rightarrow> uuid list" where
  "webhook_ids P db = map w_id (filter P (webhook_configs db))"

definition msg_bad_status :: "string \<Rightarrow> string" where
  "msg_bad_status status = ''Invalid status filter '' @ quote status @ '': must be '' @ quote ''success'' @ '', '' @
     quote ''failed'' @ '', or a numeric HTTP status code''"

definition status_filter :: "string option \<Rightarrow> app_error + (webhook_execution \<Rightarrow> bool)" where
  "status_filter status =
     (case non_blank status of
        None \<Rightarrow> Inr (\<lambda>x. True)
      | Some s \<Rightarrow>
          (let low = map to_ascii_lower s in
           if low = ''success'' then Inr x_is_success
           else if low = ''failed'' \<or> low = ''failure'' \<or> low = ''error'' then Inr (\<lambda>x. \<not> x_is_success x)
           else case parse_unsigned (2 ^ 16) low of
                  None \<Rightarrow> Inl (InvalidInput (msg_bad_status s))
                | Some code \<Rightarrow> Inr (\<lambda>x. x_status_code x = Some (int code))))"

definition search_filter :: "lib \<Rightarrow> db \<Rightarrow> string option \<Rightarrow> webhook_execution \<Rightarrow> bool" where
  "search_filter l db search x =
     (case non_blank (map_option trim search) of
        None \<Rightarrow> True
      | Some term \<Rightarrow>
          column_contains l term (x_target_address x) \<or> column_contains l term (x_cause x) \<or>
          x_webhook_id x \<in> set (webhook_ids (\<lambda>w. l_like l term (w_name w)) db))"

definition list_webhook_executions ::
  "lib \<Rightarrow> api_key \<Rightarrow> webhook_execution_query \<Rightarrow> db \<Rightarrow> app_error + webhook_execution list" where
  "list_webhook_executions l key q db =
     try_then (guard_webhook_scope key) (\<lambda>_.
     try_then (status_filter (xq_status q)) (\<lambda>by_status.
     try_then (since_threshold l ''from_date'' (xq_from_date q)) (\<lambda>from_date.
     try_then (since_threshold l ''to_date'' (xq_to_date q)) (\<lambda>to_date.
       Inr (page (unwrap_or 50 (xq_limit q)) (unwrap_or 0 (xq_offset q))
         (filter (\<lambda>x.
             (k_is_master key \<or> x_webhook_id x \<in> set (webhook_ids (\<lambda>w. w_owner_key_id w = Some (k_id key)) db)) \<and>
             if_given (xq_webhook_id q) (\<lambda>i. x_webhook_id x = i) \<and>
             unless_blank (xq_event_type q) (\<lambda>e. x_event_type x = e) \<and>
             if_given (xq_is_success q) (\<lambda>b. x_is_success x = b) \<and>
             by_status x \<and>
             if_given (xq_group_id q) (\<lambda>g. x_webhook_id x \<in> set (webhook_ids (\<lambda>w. w_group_id w = g) db)) \<and>
             unless_blank (xq_ip q) (\<lambda>ip. column_contains l (normalize_ip_or_cidr l (trim ip)) (x_target_address x)) \<and>
             search_filter l db (xq_search q) x \<and>
             if_given from_date (\<lambda>t. t \<le> x_created_at x) \<and>
             if_given to_date (\<lambda>t. x_created_at x \<le> t))
           (newest_first x_created_at (webhook_executions db))))))))"

definition delete_webhook_execution :: "lib \<Rightarrow> env \<Rightarrow> api_key \<Rightarrow> uuid \<Rightarrow> db \<Rightarrow> unit outcome" where
  "delete_webhook_execution l env key i db =
     attempt (guard_webhook_scope key) db (\<lambda>_.
     attempt (ok_or NotFound (find_execution i db)) db (\<lambda>x.
       if \<not> k_is_master key \<and>
          (case find_webhook (x_webhook_id x) db of Some w \<Rightarrow> w_owner_key_id w | None \<Rightarrow> None) \<noteq> Some (k_id key)
       then (Inl NotFound, db)
       else if count_rows (\<lambda>x. x_id x = i) (webhook_executions db) = 0 then (Inl NotFound, db)
       else (let db1 = delete_executions (\<lambda>x. x_id x = i) db in
         attempt (create_audit_log env (e_uuid env 0) key ''WEBHOOK_EXECUTION_DELETE'' None None (Some (l_uuid_str l i)) db1) db1
           (\<lambda>db2. (Inr (), db2)))))"

lemma db_ok_delete_webhook_execution [store_intros]:
  "db_ok db \<Longrightarrow> db_ok (snd (delete_webhook_execution l env key i db))"
  by (rule after_leavingD, unfold delete_webhook_execution_def, intro after_rules; unfold leaving_def; (hypsubst+)?)
    (erule store_steps | rule store_intros | assumption)+

lemmas listings_run [run] = page_def newest_first_def unless_blank_def if_given_def column_contains_def
  empty_ips_response_def accessible_groups_def group_names_def requested_groups_def status_groups_def intersect_all_def
  in_window_def record_matches_def joined_rows_def record_response_def record_items_def total_pages_def since_threshold_def
  is_iplist_def answer_rows_def list_ips_def list_audit_logs_def webhook_ids_def status_filter_def search_filter_def
  list_webhook_executions_def delete_webhook_execution_def

subsection \<open>What pages contain\<close>

lemma set_page: "set (page n k xs) \<subseteq> set xs"
  unfolding page_def by (meson in_set_dropD in_set_takeD subsetI)

lemma length_page: "length (page n k xs) \<le> n"
  by (simp add: page_def)

lemma set_newest_first [simp]: "set (newest_first f xs) = set xs"
  by (simp add: newest_first_def)

lemma length_newest_first [simp]: "length (newest_first f xs) = length xs"
  by (simp add: newest_first_def)

lemma page_all: "length xs \<le> n \<Longrightarrow> page n 0 xs = xs"
  by (simp add: page_def)

lemma total_pages_bound: "limit > 0 \<Longrightarrow> n \<le> total_pages n limit * limit"
proof -
  assume pos: "limit > 0"
  have "n + limit - 1 < (n + limit - 1) div limit * limit + limit"
    using pos by (metis add.commute dividend_less_div_times mult.commute)
  then show ?thesis using pos by (simp add: total_pages_def)
qed

lemma joined_rows_iff: "(m, r) \<in> set (joined_rows db) \<longleftrightarrow> m \<in> set (memberships db) \<and> find_record (m_ip_record_id m) db = Some r"
  unfolding joined_rows_def List.map_filter_def by (auto intro!: image_eqI [of _ _ m])

lemma record_items_iff:
  "x \<in> set (record_items key db rows) \<longleftrightarrow>
     (\<exists>m r g. (m, r) \<in> set rows \<and> find_group (m_group_id m) db = Some g \<and> x = record_response key g r)"
  by (induction rows) (auto simp: record_items_def List.map_filter_simps split: option.splits)

lemma length_record_items: "length (record_items key db rows) \<le> length rows"
  by (induction rows) (auto simp: record_items_def List.map_filter_simps split: option.splits)

lemma accessible_groups_verbs:
  assumes "db_ok db"
  shows "g \<in> set (accessible_groups db k) \<longleftrightarrow> Read \<in> verbs_of db k g"
proof
  assume "g \<in> set (accessible_groups db k)"
  then obtain p where "p \<in> set (permissions db)" "p_api_key_id p = k" "p_group_id p = g" "p_can_read p"
    by (auto simp: accessible_groups_def)
  then show "Read \<in> verbs_of db k g" using find_permission_in [OF assms] by (force simp: verbs_of_def)
next
  assume "Read \<in> verbs_of db k g"
  then obtain p where "find_permission k g db = Some p" "p_can_read p" by (auto simp: verbs_of_def split: option.splits)
  then show "g \<in> set (accessible_groups db k)" using find_permission_SomeD [of k g db p] by (force simp: accessible_groups_def)
qed

lemma intersect_all_first: "intersect_all (c # cs) = Some gs \<Longrightarrow> set gs \<subseteq> set c"
  by (cases "rev cs" rule: list.exhaust) (auto simp: intersect_all_def split: list.splits)

text \<open>The rows a key may see, and those a listing shows.\<close>

definition visible_rows :: "api_key \<Rightarrow> db \<Rightarrow> bool \<Rightarrow> (membership \<times> ip_record) set" where
  "visible_rows key db include_deleted =
     {(m, r). m \<in> set (memberships db) \<and> find_record (m_ip_record_id m) db = Some r \<and>
        (include_deleted \<or> \<not> r_is_deleted r) \<and> (k_is_master key \<or> Read \<in> verbs_of db (k_id key) (m_group_id m))}"

definition shown_items :: "ips_response \<Rightarrow> ip_record_response list" where
  "shown_items resp = (case resp of Items xs \<Rightarrow> xs | Envelope e \<Rightarrow> en_data e | IpList _ \<Rightarrow> [])"

definition shown_addresses :: "ips_response \<Rightarrow> string list" where
  "shown_addresses resp = (case resp of IpList xs \<Rightarrow> xs | _ \<Rightarrow> map ir_target_address (shown_items resp))"

lemma answer_rows_shown:
  assumes "set rows \<subseteq> visible_rows key db incl"
  shows "(\<forall>x\<in>set (shown_items (answer_rows key db b t limit offset rows)).
      \<exists>m r g. (m, r) \<in> visible_rows key db incl \<and> find_group (m_group_id m) db = Some g \<and> x = record_response key g r) \<and>
    set (shown_addresses (answer_rows key db b t limit offset rows)) \<subseteq> (\<lambda>(m, r). r_target_address r) ` visible_rows key db incl \<and>
    length (shown_items (answer_rows key db b t limit offset rows)) \<le> limit"
proof -
  let ?shown = "page limit offset (newest_first (\<lambda>(m, r). r_updated_at r) rows)"
  have sub: "set ?shown \<subseteq> visible_rows key db incl" using assms set_page [of limit offset "newest_first (\<lambda>(m, r). r_updated_at r) rows"] by auto
  have "length (record_items key db ?shown) \<le> limit" using length_record_items length_page order_trans by blast
  moreover have "\<exists>m r g. (m, r) \<in> visible_rows key db incl \<and> find_group (m_group_id m) db = Some g \<and> x = record_response key g r"
    if "x \<in> set (record_items key db ?shown)" for x
    using that sub by (auto simp: record_items_iff)
  moreover have "ir_target_address x \<in> (\<lambda>(m, r). r_target_address r) ` visible_rows key db incl"
    if "x \<in> set (record_items key db ?shown)" for x
    using that sub by (force simp: record_items_iff record_response_def)
  ultimately show ?thesis
    using sub by (auto simp: answer_rows_def Let_def shown_items_def shown_addresses_def)
qed

lemma list_ips_shown:
  assumes "db_ok db" "list_ips l now key f db = Some (Inr resp)"
  shows "(\<forall>x\<in>set (shown_items resp).
      \<exists>m r g. (m, r) \<in> visible_rows key db (unwrap_or False (q_include_deleted f)) \<and> find_group (m_group_id m) db = Some g \<and>
        x = record_response key g r) \<and>
    set (shown_addresses resp) \<subseteq> (\<lambda>(m, r). r_target_address r) ` visible_rows key db (unwrap_or False (q_include_deleted f)) \<and>
    length (shown_items resp) \<le> unwrap_or 50 (q_limit f)"
proof -
  let ?incl = "unwrap_or False (q_include_deleted f)"
  have empty: "shown_items (empty_ips_response b t n k) = []" "shown_addresses (empty_ips_response b t n k) = []" for b t n k
    by (simp_all add: empty_ips_response_def shown_items_def shown_addresses_def)
  consider (empty) b t n k where "resp = empty_ips_response b t n k"
    | (rows) scope cs oldest since b t rows where
      "scope = intersect_all ((if \<not> k_is_master key then [accessible_groups db (k_id key)] else []) @ cs)"
      "rows = filter (\<lambda>(m, r). if_given scope (\<lambda>gs. m_group_id m \<in> set gs) \<and> record_matches l f ?incl oldest since r) (joined_rows db)"
      "resp = answer_rows key db b t (unwrap_or 50 (q_limit f)) (unwrap_or 0 (q_offset f)) rows"
    using assms(2) unfolding list_ips_def Let_def
    by (auto split: if_splits sum.splits option.splits)
  then show ?thesis
  proof cases
    case empty
    then show ?thesis by (simp add: \<open>\<And>b t n k. shown_items (empty_ips_response b t n k) = []\<close> \<open>\<And>b t n k. shown_addresses (empty_ips_response b t n k) = []\<close>)
  next
    case rows
    have "k_is_master key \<or> Read \<in> verbs_of db (k_id key) g" if "if_given scope (\<lambda>gs. g \<in> set gs)" for g
    proof (rule disjCI)
      assume "\<not> Read \<in> verbs_of db (k_id key) g"
      moreover obtain gs where "intersect_all (accessible_groups db (k_id key) # cs) = Some gs"
        by (cases "rev (accessible_groups db (k_id key) # cs)") (auto simp: intersect_all_def)
      ultimately show "k_is_master key"
        using rows(1) that intersect_all_first [of "accessible_groups db (k_id key)" cs] accessible_groups_verbs [OF assms(1)]
        by (cases "k_is_master key") (auto simp: if_given_def)
    qed
    then have "set rows \<subseteq> visible_rows key db ?incl"
      by (auto simp: rows(2) visible_rows_def joined_rows_iff record_matches_def)
    then show ?thesis unfolding rows(3) by (rule answer_rows_shown)
  qed
qed

end
