(* ===== verification/Listing_Properties.thy ===== *)
theory Listing_Properties
  imports Listings Samples
begin

text \<open>
  The properties of the listings: the record listing discloses to a key what it may read and no
  more, with whatever filters, and the plain export is exactly that.
\<close>

lemma joined_rows_length: "length (joined_rows db) \<le> length (memberships db)"
proof -
  have "length (List.map_filter f xs) \<le> length xs" for f :: "membership \<Rightarrow> (membership \<times> ip_record) option" and xs
    by (induction xs) (auto simp: List.map_filter_simps split: option.splits)
  then show ?thesis by (simp add: joined_rows_def)
qed

definition plain_export :: "nat \<Rightarrow> query_filters" where
  "plain_export limit = \<lparr>q_groups = None, q_group_name = None, q_group_id = None, q_ip = None, q_cause = None, q_status = None,
     q_max_age = None, q_since = None, q_limit = Some limit, q_offset = None, q_format = Some ''iplist'', q_mode = None,
     q_include_deleted = None, q_include_total = None\<rparr>"

text \<open>Sorting and dropping neighbours leaves each address once.\<close>

lemma distinct_sorted_dedup: "sorted xs \<Longrightarrow> distinct (remdups_adj xs)" for xs :: "'a :: linorder list"
  by (induction xs rule: remdups_adj.induct) auto

lemma sorted_dedup_unique: "remdups_adj (sort xs) = sorted_list_of_set (set xs)" for xs :: "'a :: linorder list"
  using sorted_list_of_set.idem_if_sorted_distinct [of "remdups_adj (sort xs)"]
  by (simp add: distinct_sorted_dedup)

lemma list_ips_rows:
  assumes "k_is_master key \<or> accessible_groups db (k_id key) \<noteq> []" "status_groups db (q_status f) = Inr st"
    "scope = intersect_all ((if \<not> k_is_master key then [accessible_groups db (k_id key)] else []) @
      (case requested_groups db f of Some gs \<Rightarrow> [gs] | None \<Rightarrow> []) @ (case st of Some gs \<Rightarrow> [gs] | None \<Rightarrow> []))"
    "scope \<noteq> Some []" "q_max_age f = None" "since_threshold l ''since'' (q_since f) = Inr since"
  shows "list_ips l now key f db = Some (Inr (answer_rows key db (is_iplist f)
      (unwrap_or False (q_include_total f) \<and> \<not> is_iplist f) (unwrap_or 50 (q_limit f)) (unwrap_or 0 (q_offset f))
      (filter (\<lambda>(m, r). if_given scope (\<lambda>gs. m_group_id m \<in> set gs) \<and>
         record_matches l f (unwrap_or False (q_include_deleted f)) None since r) (joined_rows db))))"
proof -
  have go: "\<not> (\<not> k_is_master key \<and> accessible_groups db (k_id key) = [])" using assms(1) by simp
  show ?thesis
    unfolding list_ips_def Let_def assms(2,5,6) sum.case option.map option.case assms(3) [symmetric]
    using go assms(4) by (simp only: if_False if_True option.case simp_thms)
qed

lemma plain_export_exact:
  assumes "db_ok db" "length (memberships db) \<le> limit"
  shows "list_ips l now key (plain_export limit) db =
    Some (Inr (IpList (sorted_list_of_set ((\<lambda>(m, r). r_target_address r) ` visible_rows key db False))))"
proof (cases "k_is_master key \<or> accessible_groups db (k_id key) \<noteq> []")
  case False
  then have "\<not> Read \<in> verbs_of db (k_id key) g" for g using accessible_groups_verbs [OF assms(1), of g "k_id key"] by simp
  then have "visible_rows key db False = {}" using False by (auto simp: visible_rows_def)
  then show ?thesis
    using False by (simp add: list_ips_def plain_export_def is_iplist_def empty_ips_response_def unwrap_or_def)
next
  case True
  let ?scope = "intersect_all (if \<not> k_is_master key then [accessible_groups db (k_id key)] else [])"
  let ?rows = "filter (\<lambda>(m, r). if_given ?scope (\<lambda>gs. m_group_id m \<in> set gs) \<and> \<not> r_is_deleted r) (joined_rows db)"
  have scope: "?scope = (if \<not> k_is_master key then Some (accessible_groups db (k_id key)) else None)"
    by (simp add: intersect_all_def)
  have fields: "status_groups db (q_status (plain_export limit)) = Inr None" "requested_groups db (plain_export limit) = None"
    "since_threshold l ''since'' (q_since (plain_export limit)) = Inr None" "q_max_age (plain_export limit) = None" "is_iplist (plain_export limit)"
    "record_matches l (plain_export limit) False None None = (\<lambda>r. \<not> r_is_deleted r)"
    by (auto simp: plain_export_def status_groups_def requested_groups_def group_names_def non_blank_def since_threshold_def
        is_iplist_def record_matches_def unless_blank_def if_given_def)
  have given: "q_include_deleted (plain_export limit) = None" "q_limit (plain_export limit) = Some limit"
    "q_offset (plain_export limit) = None" "q_include_total (plain_export limit) = None" by (simp_all add: plain_export_def)
  have "?scope \<noteq> Some []" using True by (auto simp: scope)
  then have run: "list_ips l now key (plain_export limit) db = Some (Inr (answer_rows key db True False limit 0 ?rows))"
  proof -
    have "?scope = intersect_all ((if \<not> k_is_master key then [accessible_groups db (k_id key)] else []) @
        (case requested_groups db (plain_export limit) of Some gs \<Rightarrow> [gs] | None \<Rightarrow> []) @ (case None of Some gs \<Rightarrow> [gs] | None \<Rightarrow> []))"
      by (simp only: fields(2) option.case append_Nil2)
    note run = list_ips_rows [OF True fields(1) this \<open>?scope \<noteq> Some []\<close> fields(4,3), where now = now]
    have "is_iplist (plain_export limit) = True" using fields(5) by simp
    then show ?thesis unfolding run given fields(6) unwrap_or_def option.case by (simp only: simp_thms)
  qed
  have "length ?rows \<le> limit" 
    by (rule order_trans [OF length_filter_le order_trans [OF joined_rows_length assms(2)]])
  then have "list_ips l now key (plain_export limit) db =
      Some (Inr (IpList (remdups_adj (sort (map (\<lambda>(m, r). r_target_address r) (newest_first (\<lambda>(m, r). r_updated_at r) ?rows))))))"
    by (simp add: run answer_rows_def page_all)
  moreover have "set ?rows = visible_rows key db False"
    using accessible_groups_verbs [OF assms(1)] unfolding scope
    by (auto simp: visible_rows_def joined_rows_iff if_given_def)
  ultimately show ?thesis by (simp add: sorted_dedup_unique)
qed

text \<open>
  C34 The record listing shows a non-master only records of groups it may read, with whatever filters,
  never who deleted a record, a tombstone only on request and no more rows than the limit; and the
  plain export is exactly the sorted addresses of the live records the key may read.
\<close>

theorem record_listing_is_scoped:
  assumes "db_ok db" "\<not> k_is_master key" "list_ips l now key f db = Some (Inr resp)"
  shows "(\<forall>x\<in>set (shown_items resp). ir_deleted_by x = None \<and> (\<exists>m r g. (m, r) \<in> visible_rows key db (unwrap_or False (q_include_deleted f)) \<and>
        find_group (m_group_id m) db = Some g \<and> x = record_response key g r)) \<and>
    set (shown_addresses resp) \<subseteq> (\<lambda>(m, r). r_target_address r) ` visible_rows key db (unwrap_or False (q_include_deleted f)) \<and>
    length (shown_items resp) \<le> unwrap_or 50 (q_limit f) \<and>
    (f = plain_export (length (memberships db)) \<longrightarrow>
       resp = IpList (sorted_list_of_set ((\<lambda>(m, r). r_target_address r) ` visible_rows key db False)))"
  using list_ips_shown [OF assms(1,3)] plain_export_exact [OF assms(1) order_refl, of l now key] assms(2,3)
  by (fastforce simp: record_response_def)

definition listed_db :: db where
  "listed_db = demo_db\<lparr>ip_records := [
      \<lparr>r_id = 40, r_target_address = ''9.9.9.9'', r_cause = None, r_is_locked = False, r_created_at = 0, r_updated_at = 5,
        r_last_seen_at = 5, r_is_deleted = False, r_deleted_at = None, r_deleted_by = None\<rparr>,
      \<lparr>r_id = 41, r_target_address = ''8.8.8.8'', r_cause = None, r_is_locked = False, r_created_at = 0, r_updated_at = 7,
        r_last_seen_at = 7, r_is_deleted = True, r_deleted_at = Some 7, r_deleted_by = Some ''x''\<rparr>],
    memberships := [\<lparr>m_ip_record_id = 40, m_group_id = 10\<rparr>, \<lparr>m_ip_record_id = 40, m_group_id = 11\<rparr>,
      \<lparr>m_ip_record_id = 41, m_group_id = 10\<rparr>]\<rparr>"

lemma listed_db_ok: "db_ok listed_db"
  by (simp add: db_ok_def refs_ok_def table_defs listed_db_def demo_db_def empty_db_def sample_defs)

theorem record_listing_is_scoped_witness:
  "\<exists>resp. list_ips demo_lib 0 stranger_key (plain_export 3) listed_db = Some (Inr resp) \<and> resp = IpList [''9.9.9.9'']"
proof -
  have three: "length (memberships listed_db) = 3" by (simp add: listed_db_def)
  obtain resp where run: "list_ips demo_lib 0 stranger_key (plain_export 3) listed_db = Some (Inr resp)"
    using plain_export_exact [OF listed_db_ok, of 3 demo_lib 0 stranger_key] three by simp
  have "visible_rows stranger_key listed_db False =
      {(\<lparr>m_ip_record_id = 40, m_group_id = 10\<rparr>, hd (ip_records listed_db))}"
    by (auto simp: visible_rows_def listed_db_def find_record_def row_find_Cons verbs_of_def find_permission_def demo_db_def
        sample_defs perm_verbs_def split: if_splits)
  then have "sorted_list_of_set ((\<lambda>(m, r). r_target_address r) ` visible_rows stranger_key listed_db False) = [''9.9.9.9'']"
    by (simp add: listed_db_def)
  then show ?thesis
    using record_listing_is_scoped [OF listed_db_ok _ run] run three by simp
qed

subsection \<open>Delivery history\<close>

lemma history_is_scoped:
  assumes "\<not> k_is_master key" "list_webhook_executions l key q db = Inr xs" "x \<in> set xs"
  shows "x \<in> set (webhook_executions db) \<and>
    (\<exists>w\<in>set (webhook_configs db). w_id w = x_webhook_id x \<and> w_owner_key_id w = Some (k_id key))"
  using assms set_page
  by (fastforce simp: list_webhook_executions_def webhook_ids_def elim!: try_then_InrE)

end
