(* ===== verification/Batch.thy ===== *)
theory Batch
  imports Records
begin

text \<open>
  \<open>POST /api/records/batch\<close> (\<open>batch_records\<close> in \<open>src/api/records.rs\<close>): validation, resolution and
  authorisation, then one transaction over the records, the sweep of \<open>full_replace\<close> and the audit
  row. The transaction is a step that returns the new database with its summary and events, or an
  error that leaves the database it started from.
\<close>

definition MAX_BATCH_RECORDS :: nat where "MAX_BATCH_RECORDS = 10000"

datatype batch_mode = Upsert | FullReplace

record batch_record_input =
  bi_target_address :: string
  bi_cause :: "string option"
  bi_is_deleted :: "bool option"
  bi_created_at :: "datetime option"
  bi_updated_at :: "datetime option"
  bi_last_seen_at :: "datetime option"
  bi_deleted_at :: "datetime option"

record batch_records_payload =
  bp_group_name :: string
  bp_mode :: batch_mode
  bp_records :: "batch_record_input list"
  bp_skip_webhooks :: "bool option"

record batch_summary =
  bs_created :: nat
  bs_updated :: nat
  bs_restored :: nat
  bs_locked_skipped :: nat
  bs_soft_deleted :: nat
  bs_linked :: nat

definition no_summary :: batch_summary where
  "no_summary = \<lparr>bs_created = 0, bs_updated = 0, bs_restored = 0, bs_locked_skipped = 0, bs_soft_deleted = 0, bs_linked = 0\<rparr>"

definition msg_batch_too_large :: "nat \<Rightarrow> string" where
  "msg_batch_too_large n = ''Batch too large: '' @ dec n @ '' records, limit is '' @ dec MAX_BATCH_RECORDS @ ''. Split it and retry.''"
definition msg_batch_duplicate :: "string \<Rightarrow> string" where
  "msg_batch_duplicate address = ''Duplicate target_address in batch after canonicalisation: '' @ address"
definition msg_full_replace_delete :: string where
  "msg_full_replace_delete = ''Permission denied: mode '' @ quote ''full_replace'' @ '' soft-deletes the records it omits and therefore requires delete access to this group, not only write access''"
definition msg_invalid_address_of :: "string \<Rightarrow> string" where
  "msg_invalid_address_of shown = ''Invalid IP or CIDR format: '' @ shown"

text \<open>Canonical addresses with their inputs; a second entry for an address is refused.\<close>
fun normalize_batch ::
  "lib \<Rightarrow> batch_record_input list \<Rightarrow> (string \<times> batch_record_input) list \<Rightarrow> app_error + (string \<times> batch_record_input) list" where
  "normalize_batch l [] normalized = Inr normalized"
| "normalize_batch l (input # inputs) normalized =
     (case l_net_parse l (bi_target_address input) of
        None \<Rightarrow> Inl (InvalidInput (msg_invalid_address_of (l_debug_str l (bi_target_address input))))
      | Some network \<Rightarrow>
          (let address = normalize_ip_or_cidr l (bi_target_address input) in
           if address \<in> fst ` set normalized then Inl (InvalidInput (msg_batch_duplicate address))
           else normalize_batch l inputs (normalized @ [(address, input)])))"

definition check_batch_access :: "db \<Rightarrow> api_key \<Rightarrow> batch_mode \<Rightarrow> ip_group \<Rightarrow> app_error + unit" where
  "check_batch_access db key mode g =
     (if k_is_master key then Inr ()
      else (case find_permission (k_id key) (g_id g) db of
              None \<Rightarrow> Inl (Forbidden msg_not_mapped)
            | Some p \<Rightarrow>
                (if \<not> p_can_write p then Inl (Forbidden msg_no_write)
                 else if mode = FullReplace \<and> \<not> p_can_delete p then Inl (Forbidden msg_full_replace_delete)
                 else Inr ())))"

definition resolve_batch_group :: "env \<Rightarrow> api_key \<Rightarrow> string \<Rightarrow> batch_mode \<Rightarrow> db \<Rightarrow> ip_group outcome" where
  "resolve_batch_group env key name mode db =
     (case find_group_by_name name db of
        Some g \<Rightarrow> attempt (check_batch_access db key mode g) db (\<lambda>_. (Inr g, db))
      | None \<Rightarrow>
          (if \<not> k_is_master key \<and> \<not> k_can_create_groups key then (Inl (Forbidden msg_cannot_create_group), db)
           else attempt (get_or_create_group env (e_uuid env 0) name ''banlist'' (resource_owner key) db) db (\<lambda>(g, db1). (Inr g, db1))))"

text \<open>The canonical text is parsed again for the address rules of a banlist.\<close>
fun check_batch_addresses :: "lib \<Rightarrow> (string \<times> batch_record_input) list \<Rightarrow> app_error + unit" where
  "check_batch_addresses l [] = Inr ()"
| "check_batch_addresses l ((address, input) # rest) =
     try_then (ok_or (InvalidInput (msg_invalid_address_of address)) (l_net_parse l address)) (\<lambda>network.
     try_then (guard_bannable_address l network) (\<lambda>_. check_batch_addresses l rest))"

subsection \<open>The transaction\<close>

definition synced_record :: "datetime \<Rightarrow> string \<Rightarrow> batch_record_input \<Rightarrow> ip_record \<Rightarrow> ip_record" where
  "synced_record now by input r =
     (let r1 = r\<lparr>r_last_seen_at := unwrap_or now (bi_last_seen_at input), r_updated_at := unwrap_or now (bi_updated_at input)\<rparr>;
          r2 = (case bi_cause input of Some c \<Rightarrow> r1\<lparr>r_cause := Some c\<rparr> | None \<Rightarrow> r1) in
      if bi_is_deleted input = Some True
      then r2\<lparr>r_is_deleted := True, r_deleted_at := Some (unwrap_or now (bi_deleted_at input)), r_deleted_by := Some by\<rparr>
      else if r_is_deleted r then r2\<lparr>r_is_deleted := False, r_deleted_at := None, r_deleted_by := None\<rparr>
      else r2)"

definition batch_new_record :: "uuid \<Rightarrow> datetime \<Rightarrow> string \<Rightarrow> string \<Rightarrow> batch_record_input \<Rightarrow> ip_record" where
  "batch_new_record i now by address input =
     (let deleted = unwrap_or False (bi_is_deleted input) in
      \<lparr>r_id = i, r_target_address = address, r_cause = bi_cause input, r_is_locked = False,
       r_created_at = unwrap_or now (bi_created_at input), r_updated_at = unwrap_or now (bi_updated_at input),
       r_last_seen_at = unwrap_or now (bi_last_seen_at input), r_is_deleted = deleted,
       r_deleted_at = (if deleted then Some (unwrap_or now (bi_deleted_at input)) else None),
       r_deleted_by = (if deleted then Some by else None)\<rparr>)"

text \<open>One record: \<open>None\<close> for a locked one, which is skipped.\<close>
definition sync_record ::
  "uuid \<Rightarrow> datetime \<Rightarrow> string \<Rightarrow> string \<Rightarrow> batch_record_input \<Rightarrow> batch_summary \<Rightarrow> db \<Rightarrow> app_error + (uuid \<times> batch_summary \<times> db) option" where
  "sync_record i now by address input sm db =
     (case find_record_by_address address db of
        Some r \<Rightarrow>
          (if r_is_locked r then Inr None
           else try_then (update_record (synced_record now by input r) db) (\<lambda>db1.
             Inr (Some (r_id r,
               sm\<lparr>bs_restored := bs_restored sm + (if bi_is_deleted input \<noteq> Some True \<and> r_is_deleted r then 1 else 0),
                  bs_updated := bs_updated sm + 1\<rparr>, db1))))
      | None \<Rightarrow>
          try_then (insert_record (batch_new_record i now by address input) db) (\<lambda>db1.
            Inr (Some (i, sm\<lparr>bs_created := bs_created sm + 1\<rparr>, db1))))"

definition batch_event :: "string \<Rightarrow> string \<Rightarrow> ip_group \<Rightarrow> string option \<Rightarrow> webhook_event" where
  "batch_event action address g cause =
     \<lparr>ev_action = action, ev_address = address, ev_is_whitelist = (g_group_type g = ''whitelist''),
      ev_group_id = Some (g_id g), ev_group_name = Some (g_name g), ev_cause = cause\<rparr>"

text \<open>The loop; \<open>ids\<close> gives the id drawn for the \<open>n\<close>-th record.\<close>
fun sync_loop ::
  "(nat \<Rightarrow> uuid) \<Rightarrow> nat \<Rightarrow> datetime \<Rightarrow> string \<Rightarrow> ip_group \<Rightarrow> bool \<Rightarrow> (string \<times> batch_record_input) list \<Rightarrow>
     batch_summary \<times> webhook_event list \<times> db \<Rightarrow> app_error + batch_summary \<times> webhook_event list \<times> db" where
  "sync_loop ids n now by g skip [] s = Inr s"
| "sync_loop ids n now by g skip ((address, input) # rest) (sm, events, db) =
     try_then (sync_record (ids n) now by address input sm db) (\<lambda>done_record.
       case done_record of
         None \<Rightarrow> sync_loop ids (Suc n) now by g skip rest (sm\<lparr>bs_locked_skipped := bs_locked_skipped sm + 1\<rparr>, events, db)
       | Some (record_id, sm1, db1) \<Rightarrow>
           try_then (link_member \<lparr>m_ip_record_id = record_id, m_group_id = g_id g\<rparr> db1) (\<lambda>(linked, db2).
             let action = (if linked > 0 then ''IP_ADD'' else ''IP_UPDATE'');
                 events1 = (if skip then events else events @ [batch_event action address g (bi_cause input)]) in
             sync_loop ids (Suc n) now by g skip rest (sm1\<lparr>bs_linked := bs_linked sm1 + linked\<rparr>, events1, db2)))"

definition sweep_candidates :: "uuid \<Rightarrow> db \<Rightarrow> ip_record list" where
  "sweep_candidates g db =
     (let member_ids = map m_ip_record_id (filter (\<lambda>m. m_group_id m = g) (memberships db)) in
      filter (\<lambda>r. r_id r \<in> set member_ids \<and> \<not> r_is_deleted r \<and> \<not> r_is_locked r) (ip_records db))"

fun sweep_loop ::
  "datetime \<Rightarrow> string \<Rightarrow> ip_group \<Rightarrow> bool \<Rightarrow> string set \<Rightarrow> ip_record list \<Rightarrow>
     batch_summary \<times> webhook_event list \<times> db \<Rightarrow> app_error + batch_summary \<times> webhook_event list \<times> db" where
  "sweep_loop now by g skip seen [] s = Inr s"
| "sweep_loop now by g skip seen (r # rest) (sm, events, db) =
     (if r_target_address r \<in> seen then sweep_loop now by g skip seen rest (sm, events, db)
      else try_then (update_record (soft_deleted now by r) db) (\<lambda>db1.
        let events1 = (if skip then events
              else events @ [batch_event ''IP_DELETE'' (r_target_address r) g (Some ''Removed via batch full_replace synchronisation'')]) in
        sweep_loop now by g skip seen rest (sm\<lparr>bs_soft_deleted := bs_soft_deleted sm + 1\<rparr>, events1, db1)))"

definition batch_details :: "batch_mode \<Rightarrow> nat \<Rightarrow> batch_summary \<Rightarrow> string" where
  "batch_details mode submitted sm =
     ''mode='' @ (case mode of Upsert \<Rightarrow> ''upsert'' | FullReplace \<Rightarrow> ''full_replace'') @ '' submitted='' @ dec submitted @
     '' created='' @ dec (bs_created sm) @ '' updated='' @ dec (bs_updated sm) @ '' restored='' @ dec (bs_restored sm) @
     '' locked_skipped='' @ dec (bs_locked_skipped sm) @ '' soft_deleted='' @ dec (bs_soft_deleted sm)"

definition batch_transaction ::
  "lib \<Rightarrow> env \<Rightarrow> api_key \<Rightarrow> ip_group \<Rightarrow> batch_mode \<Rightarrow> bool \<Rightarrow> (string \<times> batch_record_input) list \<Rightarrow> db \<Rightarrow>
     app_error + batch_summary \<times> webhook_event list \<times> db" where
  "batch_transaction l env key g mode skip normalized db =
     (let now = e_now env; by = l_uuid_str l (k_id key) in
      try_then (sync_loop (\<lambda>n. e_uuid env (n + 2)) 0 now by g skip normalized (no_summary, [], db)) (\<lambda>(sm, events, db1).
      try_then (if mode = FullReplace
                then sweep_loop now by g skip (fst ` set normalized) (sweep_candidates (g_id g) db1) (sm, events, db1)
                else Inr (sm, events, db1)) (\<lambda>(sm2, events2, db2).
      try_then (create_audit_log env (e_uuid env 1) key ''batch_records_updated'' None (Some (g_name g))
          (Some (batch_details mode (length normalized) sm2)) db2) (\<lambda>db3.
        Inr (sm2, events2, db3)))))"

definition batch_records_db ::
  "lib \<Rightarrow> env \<Rightarrow> api_key \<Rightarrow> batch_records_payload \<Rightarrow> db \<Rightarrow> (batch_summary \<times> webhook_event list) outcome" where
  "batch_records_db l env key payload db =
     (if length (bp_records payload) > MAX_BATCH_RECORDS
      then (Inl (InvalidInput (msg_batch_too_large (length (bp_records payload)))), db)
      else attempt (normalize_batch l (bp_records payload) []) db (\<lambda>normalized.
        case resolve_batch_group env key (bp_group_name payload) (bp_mode payload) db of
          (Inl e, db1) \<Rightarrow> (Inl e, db1)
        | (Inr g, db1) \<Rightarrow>
            attempt (if g_group_type g \<noteq> ''whitelist'' then check_batch_addresses l normalized else Inr ()) db1 (\<lambda>_.
            attempt (batch_transaction l env key g (bp_mode payload) (unwrap_or False (bp_skip_webhooks payload)) normalized db1) db1
              (\<lambda>(sm, events, db2). (Inr (sm, events), db2)))))"

definition batch_records ::
  "lib \<Rightarrow> env \<Rightarrow> api_key \<Rightarrow> batch_records_payload \<Rightarrow> app \<Rightarrow> (app_error + batch_summary) \<times> app" where
  "batch_records l env key payload = with_events (batch_records_db l env key payload)"

lemmas batch_run [run] = check_batch_access_def resolve_batch_group_def synced_record_def batch_new_record_def
  sync_record_def batch_event_def sweep_candidates_def batch_transaction_def batch_records_db_def batch_records_def no_summary_def

end
