(* ===== verification/Batch_Properties.thy ===== *)
theory Batch_Properties
  imports Batch Record_Properties
begin

text \<open>
  The properties of the batch: it needs the verbs of what it does, leaves locked records alone,
  changes nothing when it fails, and \<open>full_replace\<close> leaves no other live record in the group.
\<close>

subsection \<open>The loop over the records\<close>

text \<open>Locked rows stay, and the tables a batch does not touch are as they were.\<close>
definition batch_frame :: "db \<Rightarrow> db \<Rightarrow> bool" where
  "batch_frame db db' \<longleftrightarrow>
     {r \<in> set (ip_records db). r_is_locked r} \<subseteq> set (ip_records db') \<and> api_keys db' = api_keys db \<and>
     permissions db' = permissions db \<and> ip_groups db' = ip_groups db \<and> webhook_configs db' = webhook_configs db"

lemma batch_frame_refl: "batch_frame db db"
  by (simp add: batch_frame_def)

lemma batch_frame_trans: "batch_frame db db1 \<Longrightarrow> batch_frame db1 db2 \<Longrightarrow> batch_frame db db2"
  unfolding batch_frame_def by auto

lemma batch_frame_update:
  assumes "db_ok db" "r \<in> set (ip_records db)" "\<not> r_is_locked r" "update_record r' db = Inr db'" "r_id r' = r_id r"
  shows "batch_frame db db'"
proof -
  have "x \<in> set (ip_records db')" if "x \<in> set (ip_records db)" "r_is_locked x" for x
  proof -
    have "r_id x \<noteq> r_id r" using record_unique [OF assms(1) that(1) assms(2)] that(2) assms(3) by auto
    then show ?thesis using that update_record_InrD [OF assms(4)] assms(5) by (simp add: set_row_update)
  qed
  then show ?thesis using update_record_InrD [OF assms(4)] by (auto simp: batch_frame_def)
qed

lemma synced_record_id [simp]: "r_id (synced_record now by input r) = r_id r"
  by (simp add: synced_record_def Let_def split: option.split)

lemma sync_record_step:
  assumes "db_ok db" "sync_record i now by address input sm db = Inr (Some (j, sm1, db1))"
  shows "db_ok db1 \<and> batch_frame db db1"
proof (cases "find_record_by_address address db")
  case None
  then have "insert_record (batch_new_record i now by address input) db = Inr db1"
    using assms(2) by (auto simp: sync_record_def elim!: try_then_InrE)
  then show ?thesis using assms(1) insert_record_effect(3) insert_record_InrD by (fastforce simp: batch_frame_def elim: store_steps)
next
  case (Some r)
  then have upd: "update_record (synced_record now by input r) db = Inr db1" "\<not> r_is_locked r"
    using assms(2) by (auto simp: sync_record_def elim!: try_then_InrE split: if_splits)
  then show ?thesis
    using batch_frame_update [OF assms(1) _ upd(2,1)] find_record_by_address_SomeD [OF Some] assms(1)
    by (auto elim: store_steps)
qed

lemma link_member_step: "db_ok db \<Longrightarrow> link_member m db = Inr (n, db') \<Longrightarrow> db_ok db' \<and> batch_frame db db'"
  using link_member_InrD [of m db n db'] by (auto simp: batch_frame_def elim: store_steps)

lemma sync_loop_step:
  "sync_loop ids n now by g skip inputs (sm, events, db) = Inr (sm', events', db') \<Longrightarrow> db_ok db \<Longrightarrow>
     db_ok db' \<and> batch_frame db db'"
proof (induction inputs arbitrary: n sm events db)
  case Nil
  then show ?case by (simp add: batch_frame_refl)
next
  case (Cons a inputs)
  obtain address input where a: "a = (address, input)" by fastforce
  from Cons.prems(1) obtain res where res: "sync_record (ids n) now by address input sm db = Inr res"
    by (auto simp: a elim!: try_then_InrE)
  show ?case
  proof (cases res)
    case None
    then show ?thesis using Cons res by (simp add: a)
  next
    case (Some x)
    obtain j sm1 db1 where x: "x = (j, sm1, db1)" by (cases x)
    with Some res Cons.prems obtain m sm2 events2 db2 where link: "link_member \<lparr>m_ip_record_id = j, m_group_id = g_id g\<rparr> db1 = Inr (m, db2)"
      and rest: "sync_loop ids (Suc n) now by g skip inputs (sm2, events2, db2) = Inr (sm', events', db')"
      by (auto simp: a Let_def elim!: try_then_InrE)
    have one: "db_ok db1 \<and> batch_frame db db1" using sync_record_step [OF Cons.prems(2)] res Some x by blast
    then have two: "db_ok db2 \<and> batch_frame db1 db2" using link_member_step [OF _ link] by simp
    then have "db_ok db' \<and> batch_frame db2 db'" using Cons.IH [OF rest] by simp
    then show ?thesis using one two batch_frame_trans by blast
  qed
qed

subsection \<open>The sweep\<close>

lemma soft_deleted_fields [simp]:
  "r_id (soft_deleted now by r) = r_id r" "r_is_deleted (soft_deleted now by r)"
  by (simp_all add: soft_deleted_def)

definition unswept :: "uuid \<Rightarrow> string set \<Rightarrow> db \<Rightarrow> ip_record set" where
  "unswept g seen db =
     {r \<in> set (ip_records db). \<not> r_is_deleted r \<and> \<not> r_is_locked r \<and> r_target_address r \<notin> seen \<and>
        (\<exists>m\<in>set (memberships db). m_ip_record_id m = r_id r \<and> m_group_id m = g)}"

lemma sweep_loop_step:
  assumes "sweep_loop now by g skip seen rs (sm, events, db) = Inr (sm', events', db')" "db_ok db"
    "\<forall>r\<in>set rs. \<not> r_is_locked r" "unswept (g_id g) seen db \<subseteq> set rs"
    "\<forall>r\<in>set rs. \<exists>r'\<in>set (ip_records db). r_id r' = r_id r \<and> \<not> r_is_locked r'"
  shows "db_ok db' \<and> batch_frame db db' \<and> memberships db' = memberships db \<and> unswept (g_id g) seen db' = {}"
  using assms
proof (induction rs arbitrary: sm events db)
  case Nil
  then show ?case by (simp add: batch_frame_refl)
next
  case (Cons r rs)
  show ?case
  proof (cases "r_target_address r \<in> seen")
    case True
    have "unswept (g_id g) seen db \<subseteq> set rs" using Cons.prems(4) True by (auto simp: unswept_def)
    then show ?thesis using Cons True by simp
  next
    case False
    with Cons.prems(1) obtain sm1 events1 db1 where upd: "update_record (soft_deleted now by r) db = Inr db1"
      and rest: "sweep_loop now by g skip seen rs (sm1, events1, db1) = Inr (sm', events', db')"
      by (auto simp: Let_def elim!: try_then_InrE)
    obtain r' where r': "r' \<in> set (ip_records db)" "r_id r' = r_id r" "\<not> r_is_locked r'" using Cons.prems(5) by auto
    have ok: "db_ok db1" using upd Cons.prems(2) by (auto elim: store_steps)
    have frame: "batch_frame db db1" using batch_frame_update [OF Cons.prems(2) r'(1,3) upd] r'(2) by simp
    have rows: "db1 = db\<lparr>ip_records := row_update r_id (soft_deleted now by r) (ip_records db)\<rparr>" using update_record_InrD [OF upd] by simp
    have "unswept (g_id g) seen db1 \<subseteq> set rs"
    proof
      fix x assume x: "x \<in> unswept (g_id g) seen db1"
      then have "x \<in> set (ip_records db)" "r_id x \<noteq> r_id r"
        using in_row_updateD [of x r_id "soft_deleted now by r" "ip_records db"] by (auto simp: unswept_def rows)
      with x have "x \<in> unswept (g_id g) seen db" by (auto simp: unswept_def rows)
      then show "x \<in> set rs" using Cons.prems(4) \<open>r_id x \<noteq> r_id r\<close> by auto
    qed
    moreover have "\<exists>x'\<in>set (ip_records db1). r_id x' = r_id x \<and> \<not> r_is_locked x'" if "x \<in> set rs" for x
    proof -
      obtain x' where "x' \<in> set (ip_records db)" "r_id x' = r_id x" "\<not> r_is_locked x'" using Cons.prems(5) \<open>x \<in> set rs\<close> by auto
      moreover have "soft_deleted now by r \<in> set (ip_records db1)" using r' unfolding rows by (simp add: set_row_update rev_image_eqI)
      moreover have "\<not> r_is_locked (soft_deleted now by r)" using Cons.prems(3) by (simp add: soft_deleted_def)
      moreover have "x' \<in> set (ip_records db1)" if "r_id x \<noteq> r_id r"
        using \<open>x' \<in> set (ip_records db)\<close> \<open>r_id x' = r_id x\<close> that by (simp add: rows set_row_update)
      ultimately show ?thesis by (metis soft_deleted_fields(1))
    qed
    ultimately have "db_ok db' \<and> batch_frame db1 db' \<and> memberships db' = memberships db1 \<and> unswept (g_id g) seen db' = {}"
      using Cons.prems(3) ok by (intro Cons.IH [OF rest]) auto
    then show ?thesis using frame batch_frame_trans rows by auto
  qed
qed

subsection \<open>The whole batch\<close>

lemma sweep_candidates_unlocked:
  "\<forall>r\<in>set (sweep_candidates g db). \<not> r_is_locked r \<and> r \<in> set (ip_records db)"
  by (simp add: sweep_candidates_def Let_def)

lemma unswept_candidates: "unswept g seen db \<subseteq> set (sweep_candidates g db)"
  by (auto simp: unswept_def sweep_candidates_def Let_def intro!: rev_image_eqI)

lemma batch_transaction_step:
  assumes "batch_transaction l env key g mode skip normalized db = Inr (sm, events, db')" "db_ok db"
  shows "db_ok db' \<and> batch_frame db db' \<and> (mode = FullReplace \<longrightarrow> unswept (g_id g) (fst ` set normalized) db' = {})"
proof -
  let ?by = "l_uuid_str l (k_id key)"
  from assms(1) obtain sm1 events1 db1 db2 where
    sync: "sync_loop (\<lambda>n. e_uuid env (n + 2)) 0 (e_now env) ?by g skip normalized (no_summary, [], db) = Inr (sm1, events1, db1)"
    and sweep: "(if mode = FullReplace
       then sweep_loop (e_now env) ?by g skip (fst ` set normalized) (sweep_candidates (g_id g) db1) (sm1, events1, db1)
       else Inr (sm1, events1, db1)) = Inr (sm, events, db2)"
    and audit: "create_audit_log env (e_uuid env 1) key ''batch_records_updated'' None (Some (g_name g))
          (Some (batch_details mode (length normalized) sm)) db2 = Inr db'"
    by (auto simp: batch_transaction_def Let_def elim!: try_then_InrE)
  note one = sync_loop_step [OF sync assms(2)]
  have two: "db_ok db2 \<and> batch_frame db1 db2 \<and> (mode = FullReplace \<longrightarrow> unswept (g_id g) (fst ` set normalized) db2 = {})"
  proof (cases "mode = FullReplace")
    case True
    then have run: "sweep_loop (e_now env) ?by g skip (fst ` set normalized) (sweep_candidates (g_id g) db1) (sm1, events1, db1) =
        Inr (sm, events, db2)" using sweep by simp
    have "\<forall>r\<in>set (sweep_candidates (g_id g) db1). \<not> r_is_locked r"
      "\<forall>r\<in>set (sweep_candidates (g_id g) db1). \<exists>r'\<in>set (ip_records db1). r_id r' = r_id r \<and> \<not> r_is_locked r'"
      using sweep_candidates_unlocked by blast+
    then show ?thesis using sweep_loop_step [OF run _ _ unswept_candidates] one True by simp
  qed (use sweep one batch_frame_refl in auto)
  have three: "db_ok db'" using audit two by (auto elim: store_steps)
  have frame: "batch_frame db2 db'" "ip_records db' = ip_records db2" "memberships db' = memberships db2"
    using create_audit_log_frame [OF audit] by (simp_all add: batch_frame_def)
  have "batch_frame db db'" using one two frame(1) by (meson batch_frame_trans)
  moreover have "unswept (g_id g) (fst ` set normalized) db' = unswept (g_id g) (fst ` set normalized) db2"
    by (simp only: unswept_def frame(2,3))
  ultimately show ?thesis using two three by simp
qed

lemma resolve_batch_group_InrD:
  assumes "resolve_batch_group env key name mode db = (Inr g, db')" "db_ok db"
  shows "db_ok db' \<and> g_name g = name \<and> ip_records db' = ip_records db \<and> memberships db' = memberships db \<and>
    (k_is_master key \<or> (Write \<in> verbs_of db (k_id key) (g_id g) \<and> (mode = FullReplace \<longrightarrow> Delete \<in> verbs_of db (k_id key) (g_id g))) \<or>
      (k_can_create_groups key \<and> g_id g \<notin> g_id ` set (ip_groups db)))"
proof (cases "find_group_by_name name db")
  case None
  with assms(1) have create: "get_or_create_group env (e_uuid env 0) name ''banlist'' (resource_owner key) db = Inr (g, db')"
    "k_is_master key \<or> k_can_create_groups key"
    by (auto simp: resolve_batch_group_def elim!: attempt_InrE split: if_splits)
  moreover have "db_ok db'" using create(1) assms(2) by (auto elim: store_steps)
  ultimately show ?thesis using get_or_create_group_InrD [OF create(1)] None by auto
next
  case (Some h)
  with assms show ?thesis
    by (auto simp: resolve_batch_group_def check_batch_access_def verbs_of_def find_group_by_name_def
        elim!: attempt_InrE split: if_splits option.splits dest!: row_find_SomeD)
qed

lemma resolve_batch_group_frame:
  assumes "resolve_batch_group env key name mode db = (res, db')"
  shows "ip_records db' = ip_records db \<and> memberships db' = memberships db \<and> audit_logs db' = audit_logs db"
proof -
  have "after (leaving (\<lambda>d. ip_records d = ip_records db \<and> memberships d = memberships db \<and> audit_logs d = audit_logs db))
      (resolve_batch_group env key name mode db)"
    unfolding resolve_batch_group_def
    by (intro after_rules) (auto simp: leaving_def dest!: get_or_create_group_InrD)
  then show ?thesis using assms by (simp add: after_def leaving_def)
qed

lemma batch_records_cases:
  assumes "batch_records_db l env key p db = (res, db')"
  obtains (early) e where "res = Inl e" "db' = db"
  | (refused) e where "res = Inl e" "ip_records db' = ip_records db" "memberships db' = memberships db" "audit_logs db' = audit_logs db"
  | (committed) normalized g db1 sm events where "normalize_batch l (bp_records p) [] = Inr normalized"
      "resolve_batch_group env key (bp_group_name p) (bp_mode p) db = (Inr g, db1)"
      "batch_transaction l env key g (bp_mode p) (unwrap_or False (bp_skip_webhooks p)) normalized db1 = Inr (sm, events, db')"
      "res = Inr (sm, events)"
proof (cases "length (bp_records p) > MAX_BATCH_RECORDS \<or> (\<exists>e. normalize_batch l (bp_records p) [] = Inl e)")
  case True
  then show ?thesis using assms early by (auto simp: batch_records_db_def split: if_splits)
next
  case False
  then obtain normalized where n: "normalize_batch l (bp_records p) [] = Inr normalized" by (metis sumE)
  obtain gr db1 where g: "resolve_batch_group env key (bp_group_name p) (bp_mode p) db = (gr, db1)" by fastforce
  note frame = resolve_batch_group_frame [OF g]
  show ?thesis
  proof (cases gr)
    case (Inl e)
    then show ?thesis using assms False n g frame refused by (auto simp: batch_records_db_def)
  next
    case (Inr gg)
    show ?thesis
    proof (cases "batch_transaction l env key gg (bp_mode p) (unwrap_or False (bp_skip_webhooks p)) normalized db1")
      case (Inl e)
      then show ?thesis using assms False n g \<open>gr = Inr gg\<close> frame refused
        by (cases "if g_group_type gg \<noteq> ''whitelist'' then check_batch_addresses l normalized else Inr ()")
          (auto simp: batch_records_db_def)
    next
      case (Inr x)
      then show ?thesis using assms False n g \<open>gr = Inr gg\<close> frame refused committed
        by (cases "if g_group_type gg \<noteq> ''whitelist'' then check_batch_addresses l normalized else Inr ()"; cases x)
          (auto simp: batch_records_db_def)
    qed
  qed
qed


definition batch_db :: db where
  "batch_db = demo_db\<lparr>ip_records := [
      (new_record 40 ''9.9.9.9'' None 0), (new_record 41 ''7.7.7.7'' None 0)\<lparr>r_is_locked := True\<rparr>],
    memberships := [\<lparr>m_ip_record_id = 40, m_group_id = 10\<rparr>, \<lparr>m_ip_record_id = 41, m_group_id = 10\<rparr>]\<rparr>"

definition sample_batch :: batch_records_payload where
  "sample_batch = \<lparr>bp_group_name = ''ssh'', bp_mode = FullReplace, bp_records = [\<lparr>bi_target_address = ''8.8.8.8/32'', bi_cause = None,
     bi_is_deleted = None, bi_created_at = None, bi_updated_at = None, bi_last_seen_at = None, bi_deleted_at = None\<rparr>],
     bp_skip_webhooks = None\<rparr>"

definition batch_app :: app where
  "batch_app = \<lparr>a_db = batch_db, a_queue = [], a_capacity = 8, a_closed = False\<rparr>"

lemma batch_db_ok: "db_ok (a_db batch_app)"
  by (simp add: db_ok_def refs_ok_def table_defs batch_app_def batch_db_def new_record_def demo_db_def empty_db_def sample_defs)

lemma sample_batch_addresses:
  "normalize_batch demo_lib (bp_records sample_batch) [] = Inr [(''8.8.8.8'', hd (bp_records sample_batch))]"
  by (simp add: sample_batch_def sample_address)

lemma bare_address: "l_net_parse demo_lib ''8.8.8.8'' = Some \<lparr>net_ip = V4 0x08080808, net_prefix = 32\<rparr>"
  by code_simp

lemma sample_batch_runs:
  "\<exists>sm. fst (batch_records demo_lib demo_env root_key sample_batch batch_app) = Inr sm \<and> bs_created sm = 1 \<and> bs_soft_deleted sm = 1"
  using sample_batch_addresses
  by (simp add: run MAX_BATCH_RECORDS_def batch_app_def batch_db_def new_record_def soft_deleted_def with_events_def
      sample_address bare_address find_record_by_address_def) (simp add: sample_batch_def)


end
