(* ===== verification/Config.thy ===== *)
theory Config
  imports Proxies
begin

text \<open>
  Configuration from the environment (\<open>src/config.rs\<close>) apart from the proxy list: the bind address,
  the operational numbers with their defaults and clamps, the pool sizes of the two database tiers, and
  the rule for an operator's master key. \<open>vars\<close> is \<open>std::env::var(..).ok()\<close>. Each value is read once
  and kept, so it is a function of the environment at start. \<open>usize\<close> is 64 bits wide. The interface
  \<open>clamped\<close> states what the rest of the service relies on: whatever is configured, the value in use
  stays within its range.
\<close>

type_synonym environment = "string \<rightharpoonup> string"

subsection \<open>Bind address\<close>

record socket_addr =
  sa_ip :: ip_addr
  sa_port :: nat

definition DEFAULT_BIND_HOST :: ip_addr where "DEFAULT_BIND_HOST = V4 0"
definition DEFAULT_BIND_PORT :: nat where "DEFAULT_BIND_PORT = 3000"

definition trimmed :: "string option \<Rightarrow> string option" where
  "trimmed var = (case var of None \<Rightarrow> None | Some raw \<Rightarrow> (if trim raw = [] then None else Some (trim raw)))"

definition parse_bind_addr :: "lib \<Rightarrow> string option \<Rightarrow> string option \<Rightarrow> socket_addr" where
  "parse_bind_addr l host port =
     \<lparr>sa_ip = (case trimmed host of
         Some raw \<Rightarrow> (case l_ip_parse l raw of Some ip \<Rightarrow> ip | None \<Rightarrow> DEFAULT_BIND_HOST)
       | None \<Rightarrow> DEFAULT_BIND_HOST),
      sa_port = (case trimmed port of
         Some raw \<Rightarrow> (case parse_unsigned (2 ^ 16) raw of Some n \<Rightarrow> n | None \<Rightarrow> DEFAULT_BIND_PORT)
       | None \<Rightarrow> DEFAULT_BIND_PORT)\<rparr>"

definition resolve_bind_addr :: "lib \<Rightarrow> environment \<Rightarrow> socket_addr" where
  "resolve_bind_addr l vars =
     parse_bind_addr l (case vars ''BIND_HOST'' of Some h \<Rightarrow> Some h | None \<Rightarrow> vars ''HOST'') (vars ''PORT'')"

subsection \<open>Numbers\<close>

text \<open>\<open>bound\<close> is one more than the largest value of the integer type.\<close>
definition numeric_env :: "nat \<Rightarrow> environment \<Rightarrow> string \<Rightarrow> nat \<Rightarrow> nat" where
  "numeric_env bound vars var_name fallback =
     (case vars var_name of
        None \<Rightarrow> fallback
      | Some raw \<Rightarrow> (case parse_unsigned bound (trim raw) of Some value \<Rightarrow> value | None \<Rightarrow> fallback))"

abbreviation env_u32 :: "environment \<Rightarrow> string \<Rightarrow> nat \<Rightarrow> nat" where "env_u32 \<equiv> numeric_env (2 ^ 32)"
abbreviation env_u64 :: "environment \<Rightarrow> string \<Rightarrow> nat \<Rightarrow> nat" where "env_u64 \<equiv> numeric_env (2 ^ 64)"

definition webhook_workers :: "environment \<Rightarrow> nat" where
  "webhook_workers vars = max (env_u64 vars ''WEBHOOK_WORKERS'' 4) 1"

text \<open>In milliseconds; zero switches the pause off.\<close>
definition webhook_dispatch_interval :: "environment \<Rightarrow> nat" where
  "webhook_dispatch_interval vars = env_u64 vars ''WEBHOOK_DISPATCH_INTERVAL_MS'' 50"

definition webhook_queue_capacity :: "environment \<Rightarrow> nat" where
  "webhook_queue_capacity vars = max (env_u64 vars ''WEBHOOK_QUEUE_CAPACITY'' 4096) 1"

definition webhook_max_retries :: "environment \<Rightarrow> nat" where
  "webhook_max_retries vars = min (env_u32 vars ''WEBHOOK_MAX_RETRIES'' 3) 10"

definition webhook_retry_backoff_ms :: "environment \<Rightarrow> nat" where
  "webhook_retry_backoff_ms vars = max (env_u64 vars ''WEBHOOK_RETRY_BACKOFF_MS'' 1000) 1"

definition DEFAULT_MAX_BODY_MIB :: nat where "DEFAULT_MAX_BODY_MIB = 10"

text \<open>The product is computed on 64 bits; a release build wraps around.\<close>
definition max_body_bytes :: "environment \<Rightarrow> 64 word" where
  "max_body_bytes vars =
     word_of_nat (max (env_u64 vars ''MAX_BODY_SIZE_MIB'' DEFAULT_MAX_BODY_MIB) 1) * 1024 * 1024"

subsection \<open>Database pools\<close>

definition clamp_pool_max :: "nat \<Rightarrow> nat" where "clamp_pool_max requested = max requested 1"
definition clamp_pool_min :: "nat \<Rightarrow> nat \<Rightarrow> nat" where "clamp_pool_min requested pool_max = min requested pool_max"
definition clamp_acquire_timeout_secs :: "nat \<Rightarrow> nat" where "clamp_acquire_timeout_secs requested = max requested 1"

definition database_max_connections :: "environment \<Rightarrow> nat" where
  "database_max_connections vars = clamp_pool_max (env_u32 vars ''DATABASE_MAX_CONNECTIONS'' 50)"

definition database_min_connections :: "environment \<Rightarrow> nat" where
  "database_min_connections vars =
     clamp_pool_min (env_u32 vars ''DATABASE_MIN_CONNECTIONS'' 10) (database_max_connections vars)"

definition database_idle_timeout :: "environment \<Rightarrow> nat" where
  "database_idle_timeout vars = env_u64 vars ''DATABASE_IDLE_TIMEOUT_SECS'' 600"

definition database_acquire_timeout :: "environment \<Rightarrow> nat" where
  "database_acquire_timeout vars = clamp_acquire_timeout_secs (env_u64 vars ''DATABASE_ACQUIRE_TIMEOUT_SECS'' 10)"

definition SQLITE_FILE_MAX_CONNECTIONS_CEILING :: nat where "SQLITE_FILE_MAX_CONNECTIONS_CEILING = 10"

definition clamp_sqlite_file_max :: "nat \<Rightarrow> nat" where
  "clamp_sqlite_file_max requested = min (clamp_pool_max requested) SQLITE_FILE_MAX_CONNECTIONS_CEILING"

definition sqlite_file_max_connections :: "environment \<Rightarrow> nat" where
  "sqlite_file_max_connections vars = clamp_sqlite_file_max (env_u32 vars ''DATABASE_MAX_CONNECTIONS'' 10)"

definition sqlite_file_min_connections :: "environment \<Rightarrow> nat" where
  "sqlite_file_min_connections vars =
     clamp_pool_min (env_u32 vars ''DATABASE_MIN_CONNECTIONS'' 2) (sqlite_file_max_connections vars)"

subsection \<open>The pool of a database URL (\<open>src/db.rs\<close>)\<close>

definition SQLITE_MEMORY_MAX_CONNECTIONS :: nat where "SQLITE_MEMORY_MAX_CONNECTIONS = 1"

definition eq_ignore_ascii_case :: "string \<Rightarrow> string \<Rightarrow> bool" where
  "eq_ignore_ascii_case s t \<longleftrightarrow> map to_ascii_lower s = map to_ascii_lower t"

definition is_in_memory_sqlite :: "string \<Rightarrow> bool" where
  "is_in_memory_sqlite db_url =
     (let (path, query) = unwrap_or (db_url, []) (split_once (CHR 0x3F) db_url) in
      ends_with '':memory:'' path \<or> list_ex (\<lambda>param. eq_ignore_ascii_case param ''mode=memory'') (split_on (CHR 0x26) query))"

text \<open>The options set explicitly; \<open>None\<close> is the driver's own default.\<close>
record pool_options =
  po_max_connections :: nat
  po_min_connections :: "nat option"
  po_idle_timeout :: "nat option"
  po_acquire_timeout :: "nat option"

definition connect_options :: "environment \<Rightarrow> string \<Rightarrow> pool_options" where
  "connect_options vars db_url =
     (if \<not> starts_with ''sqlite:'' db_url then
        \<lparr>po_max_connections = database_max_connections vars, po_min_connections = Some (database_min_connections vars),
         po_idle_timeout = Some (database_idle_timeout vars), po_acquire_timeout = Some (database_acquire_timeout vars)\<rparr>
      else if is_in_memory_sqlite db_url then
        \<lparr>po_max_connections = SQLITE_MEMORY_MAX_CONNECTIONS, po_min_connections = None, po_idle_timeout = None,
         po_acquire_timeout = None\<rparr>
      else
        \<lparr>po_max_connections = sqlite_file_max_connections vars, po_min_connections = Some (sqlite_file_min_connections vars),
         po_idle_timeout = Some (database_idle_timeout vars), po_acquire_timeout = Some (database_acquire_timeout vars)\<rparr>)"

subsection \<open>The operator's master key\<close>

definition MASTER_KEY_HEX_LEN :: nat where "MASTER_KEY_HEX_LEN = 64"

record invalid_initial_master_key =
  im_got :: nat
  im_detail :: string

text \<open>\<open>chars().count()\<close>: the bytes that do not continue a UTF-8 sequence.\<close>
definition char_count :: "string \<Rightarrow> nat" where
  "char_count s = length (filter (\<lambda>c. \<not> (128 \<le> byte c \<and> byte c < 192)) s)"

definition validate_initial_master_key :: "string \<Rightarrow> invalid_initial_master_key + unit" where
  "validate_initial_master_key raw =
     (let is_hex = list_all is_ascii_hexdigit raw in
      if length raw = MASTER_KEY_HEX_LEN \<and> is_hex then Inr ()
      else Inl \<lparr>im_got = char_count raw,
                im_detail = (if is_hex then [] else '', and it contains non-hexadecimal characters'')\<rparr>)"

lemmas config_defs = webhook_workers_def webhook_dispatch_interval_def webhook_queue_capacity_def webhook_max_retries_def
  webhook_retry_backoff_ms_def database_max_connections_def database_min_connections_def database_idle_timeout_def
  database_acquire_timeout_def sqlite_file_max_connections_def sqlite_file_min_connections_def clamp_pool_max_def
  clamp_pool_min_def clamp_acquire_timeout_secs_def clamp_sqlite_file_max_def SQLITE_FILE_MAX_CONNECTIONS_CEILING_def

lemma numeric_env_bound: "d < bound \<Longrightarrow> numeric_env bound vars n d < bound"
  by (auto simp: numeric_env_def split: option.splits dest: parse_unsigned_bound)

lemma numeric_env_default:
  "vars n = None \<Longrightarrow> numeric_env bound vars n d = d"
  "vars n = Some raw \<Longrightarrow> parse_unsigned bound (trim raw) = None \<Longrightarrow> numeric_env bound vars n d = d"
  by (simp_all add: numeric_env_def)

subsection \<open>What a clamp promises\<close>

locale clamped =
  fixes lo :: nat and hi :: nat and setting :: "'e \<Rightarrow> nat"
  assumes in_range: "lo \<le> setting vars \<and> setting vars < hi"
begin

lemma at_least: "lo \<le> setting vars"
  using in_range by blast

lemma below: "setting vars < hi"
  using in_range by blast

lemma not_zero: "0 < lo \<Longrightarrow> setting vars \<noteq> 0"
  using at_least [of vars] by linarith

end

interpretation worker_count: clamped 1 "2 ^ 64" webhook_workers
  by unfold_locales (simp add: webhook_workers_def numeric_env_bound)

interpretation channel_size: clamped 1 "2 ^ 64" webhook_queue_capacity
  by unfold_locales (simp add: webhook_queue_capacity_def numeric_env_bound)

interpretation retries: clamped 0 11 webhook_max_retries
  by unfold_locales (simp add: webhook_max_retries_def)

interpretation base_backoff: clamped 1 "2 ^ 64" webhook_retry_backoff_ms
  by unfold_locales (simp add: webhook_retry_backoff_ms_def numeric_env_bound)

interpretation server_pool: clamped 1 "2 ^ 32" database_max_connections
  by unfold_locales (simp add: config_defs numeric_env_bound)

interpretation file_pool: clamped 1 11 sqlite_file_max_connections
  by unfold_locales (simp add: config_defs)

text \<open>Every pool has room for a connection and never keeps more idle than it may open.\<close>

lemma pool_sizes:
  "1 \<le> po_max_connections (connect_options vars url) \<and>
   (\<forall>n. po_min_connections (connect_options vars url) = Some n \<longrightarrow> n \<le> po_max_connections (connect_options vars url)) \<and>
   (\<forall>n. po_acquire_timeout (connect_options vars url) = Some n \<longrightarrow> 1 \<le> n)"
  by (auto simp: connect_options_def SQLITE_MEMORY_MAX_CONNECTIONS_def config_defs)

end
