(* ===== verification/Startup.thy ===== *)
theory Startup
  imports Config Auth Keys App_State Dispatch_Pool
begin

text \<open>
  From the environment to a serving process (\<open>src/main.rs\<close>, \<open>setup_state\<close> of \<open>src/lib.rs\<close> and
  the constructors of \<open>src/state.rs\<close>), and the two probes (\<open>src/api/health.rs\<close>). A start either
  refuses with an error or yields the running service. Connecting and migrating is one reading
  (\<open>be_database\<close>), as are the engine's catalogue and the outcome of binding the socket. Logging,
  the banner and the signals are left out.
\<close>

subsection \<open>The state of a running service\<close>

record service =
  sv_db :: db
  sv_queue :: "webhook_event list"
  sv_capacity :: nat
  sv_closed :: bool
  sv_proxies :: trusted_proxies
  sv_cache :: resolution_cache
  sv_cipher :: secret_cipher
  sv_replay :: replay_guard
  sv_pin :: pin

definition auth_part :: "service \<Rightarrow> auth_state" where
  "auth_part sv = \<lparr>as_db = sv_db sv, as_proxies = sv_proxies sv, as_cache = sv_cache sv, as_cipher = sv_cipher sv,
     as_replay = sv_replay sv, as_pin = sv_pin sv\<rparr>"

definition app_part :: "service \<Rightarrow> app" where
  "app_part sv = \<lparr>a_db = sv_db sv, a_queue = sv_queue sv, a_capacity = sv_capacity sv, a_closed = sv_closed sv\<rparr>"

definition put_auth :: "auth_state \<Rightarrow> service \<Rightarrow> service" where
  "put_auth st sv = sv\<lparr>sv_db := as_db st, sv_proxies := as_proxies st, sv_cache := as_cache st, sv_cipher := as_cipher st,
     sv_replay := as_replay st, sv_pin := as_pin st\<rparr>"

definition put_app :: "app \<Rightarrow> service \<Rightarrow> service" where
  "put_app ap sv = sv\<lparr>sv_db := a_db ap, sv_queue := a_queue ap, sv_capacity := a_capacity ap, sv_closed := a_closed ap\<rparr>"

subsection \<open>Building the state\<close>

datatype startup_config_error = EncryptionKey crypto_error | TrustedProxies "invalid_proxy_entry list"

definition with_parts :: "nat \<Rightarrow> nat \<Rightarrow> proxy_matcher list \<Rightarrow> secret_cipher \<Rightarrow> db \<Rightarrow> service" where
  "with_parts now capacity matchers cipher db =
     \<lparr>sv_db = db, sv_queue = [], sv_capacity = capacity, sv_closed = False, sv_proxies = new_proxies matchers,
      sv_cache = empty_cache, sv_cipher = cipher, sv_replay = default_guard now, sv_pin = new_pin\<rparr>"

definition with_pinned_master :: "uuid \<Rightarrow> service \<Rightarrow> service" where
  "with_pinned_master master_key_id sv = sv\<lparr>sv_pin := pinned_to master_key_id\<rparr>"

text \<open>A step of the start that fails with an error of its own.\<close>
definition failing_with :: "('e \<Rightarrow> 'f) \<Rightarrow> 'e + 'a \<Rightarrow> 'f + 'a" where
  "failing_with f r = (case r of Inl e \<Rightarrow> Inl (f e) | Inr x \<Rightarrow> Inr x)"

definition ENCRYPTION_KEY_ENV :: string where "ENCRYPTION_KEY_ENV = ''VAULT_ENCRYPTION_KEY''"

definition service_cipher :: "lib \<Rightarrow> environment \<Rightarrow> crypto_error + secret_cipher" where
  "service_cipher l vars = cipher_from_env l (vars ENCRYPTION_KEY_ENV) (vars ''SIGNING_SECRET_KEY'')"

definition new_app_state :: "lib \<Rightarrow> environment \<Rightarrow> nat \<Rightarrow> nat \<Rightarrow> db \<Rightarrow> startup_config_error + service" where
  "new_app_state l vars now capacity db =
     try_then (failing_with TrustedProxies (proxies_from_env l (vars ''TRUSTED_PROXIES''))) (\<lambda>proxies.
     try_then (failing_with EncryptionKey (service_cipher l vars)) (\<lambda>cipher.
       Inr \<lparr>sv_db = db, sv_queue = [], sv_capacity = capacity, sv_closed = False, sv_proxies = proxies,
         sv_cache = empty_cache, sv_cipher = cipher, sv_replay = default_guard now, sv_pin = new_pin\<rparr>))"

subsection \<open>Errors of a start\<close>

text \<open>\<open>Panicked\<close>: the bounded channel refuses a capacity above \<open>MAX_PERMITS\<close> by a panic.\<close>
datatype startup_error =
    Config startup_config_error
  | Database app_error
  | WeakMasterKey invalid_initial_master_key
  | UnreadableSecrets crypto_error
  | MasterPin master_pin_error
  | Bind
  | Panicked

definition MAX_PERMITS :: nat where "MAX_PERMITS = 2 ^ 61 - 1"

text \<open>The state, the channel with its worker pool, and the configured pace of the workers.\<close>
definition setup_state :: "lib \<Rightarrow> environment \<Rightarrow> nat \<Rightarrow> db \<Rightarrow> startup_error + service \<times> pool" where
  "setup_state l vars now db =
     (let capacity = webhook_queue_capacity vars in
      if capacity > MAX_PERMITS then Inl Panicked
      else try_then (failing_with Config (new_app_state l vars now capacity db)) (\<lambda>sv.
        Inr (sv, started_pool (webhook_workers vars) capacity db)))"

subsection \<open>The first master key\<close>

definition non_empty_var :: "environment \<Rightarrow> string \<Rightarrow> string option" where
  "non_empty_var vars n = (case vars n of Some s \<Rightarrow> (if s = [] then None else Some s) | None \<Rightarrow> None)"

definition master_plaintext :: "lib \<Rightarrow> environment \<Rightarrow> env \<Rightarrow> invalid_initial_master_key + string" where
  "master_plaintext l vars env =
     (case non_empty_var vars ''INITIAL_MASTER_KEY'' of
        Some fixed_key \<Rightarrow> try_then (validate_initial_master_key fixed_key) (\<lambda>_. Inr fixed_key)
      | None \<Rightarrow> Inr (generate_random_key l (e_random env 0)))"

definition master_secret :: "lib \<Rightarrow> environment \<Rightarrow> env \<Rightarrow> string" where
  "master_secret l vars env =
     (case non_empty_var vars ''INITIAL_MASTER_SIGNING_SECRET'' of
        Some fixed_secret \<Rightarrow> fixed_secret
      | None \<Rightarrow> generate_signing_secret l (e_random env 1))"

text \<open>\<open>chars().take(n)\<close> on UTF-8 bytes; \<open>char_offset\<close> is \<open>None\<close> when there are no more than \<open>n\<close>.\<close>
definition take_chars :: "nat \<Rightarrow> string \<Rightarrow> string" where
  "take_chars n s = (case char_offset n s of None \<Rightarrow> s | Some i \<Rightarrow> take i s)"

definition master_row :: "lib \<Rightarrow> environment \<Rightarrow> env \<Rightarrow> string \<Rightarrow> string \<Rightarrow> api_key" where
  "master_row l vars env plaintext_key stored_signing_secret =
     \<lparr>k_id = e_uuid env 0, k_name = ''System Master'', k_key_hash = hash_key l plaintext_key,
      k_signing_secret = Some stored_signing_secret, k_prefix = take_chars 8 plaintext_key,
      k_bound_ips = Some (unwrap_or ''0.0.0.0/0,::/0'' (vars ''BOOTSTRAP_SUBNET'')), k_is_master = True,
      k_can_manage_keys = True, k_can_manage_webhooks = True, k_can_create_groups = True,
      k_parent_key_id = None, k_created_at = e_now env, k_updated_at = e_now env\<rparr>"

definition bootstrap_master_key ::
  "lib \<Rightarrow> environment \<Rightarrow> secret_cipher \<Rightarrow> env \<Rightarrow> db \<Rightarrow> startup_error + db" where
  "bootstrap_master_key l vars cipher env db =
     (if list_ex k_is_master (api_keys db) then Inr db
      else try_then (failing_with WeakMasterKey (master_plaintext l vars env)) (\<lambda>plaintext_key.
        try_then (failing_with UnreadableSecrets (seal l cipher (take NONCE_LEN (e_random env 2)) (master_secret l vars env))) (\<lambda>stored.
          failing_with Database (insert_key (master_row l vars env plaintext_key stored) db))))"

definition verify_encryption_key :: "lib \<Rightarrow> secret_cipher \<Rightarrow> db \<Rightarrow> startup_error + unit" where
  "verify_encryption_key l cipher db =
     (let sample = (case List.find (\<lambda>k. k_signing_secret k \<noteq> None) (api_keys db) of
                      Some key \<Rightarrow> k_signing_secret key | None \<Rightarrow> None)
      in try_then (failing_with UnreadableSecrets (check_key_canary l cipher sample)) (\<lambda>_. Inr ()))"

subsection \<open>The start\<close>

record boot_env =
  be_vars :: environment
  be_env :: env
  be_instant :: nat
  be_database :: "string \<Rightarrow> app_error + db"
  be_has_index :: "db_err + bool"
  be_can_bind :: "socket_addr \<Rightarrow> bool"

record started =
  run_service :: service
  run_pool :: pool
  run_addr :: socket_addr
  run_max_body :: nat

definition DEFAULT_DATABASE_URL :: string where
  "DEFAULT_DATABASE_URL = ''sqlite://simply_ip_vault.db'' @ CHR 0x3F # ''mode=rwc''"

text \<open>\<open>main\<close> up to serving: the order of the steps decides what a refusal leaves behind.\<close>
definition boot :: "lib \<Rightarrow> boot_env \<Rightarrow> startup_error + started" where
  "boot l be =
     (let vars = be_vars be in
      try_then (failing_with (Config \<circ> EncryptionKey) (service_cipher l vars)) (\<lambda>cipher.
      try_then (failing_with (Config \<circ> TrustedProxies) (proxies_from_env l (vars ''TRUSTED_PROXIES''))) (\<lambda>_.
      try_then (failing_with Database (be_database be (unwrap_or DEFAULT_DATABASE_URL (vars ''DATABASE_URL'')))) (\<lambda>db.
      try_then (bootstrap_master_key l vars cipher (be_env be) db) (\<lambda>db1.
      try_then (verify_encryption_key l cipher db1) (\<lambda>_.
      try_then (setup_state l vars (be_instant be) db1) (\<lambda>(sv, dispatch_pool).
      try_then (failing_with MasterPin (fst (pin_at_boot (be_has_index be) db1 (sv_pin sv)))) (\<lambda>master_key_id.
        let addr = resolve_bind_addr l vars in
        if \<not> be_can_bind be addr then Inl Bind
        else Inr \<lparr>run_service = sv\<lparr>sv_pin := snd (pin_at_boot (be_has_index be) db1 (sv_pin sv))\<rparr>,
               run_pool = dispatch_pool, run_addr = addr, run_max_body = unat (max_body_bytes vars)\<rparr>))))))))"

subsection \<open>Probes\<close>

definition health_check :: "nat \<times> (string \<times> string) list" where
  "health_check = (200, [(''status'', ''ok''), (''service'', ''simply_ip_vault'')])"

text \<open>\<open>reachable\<close>: whether the bounded read of the database succeeds.\<close>
definition readiness_check :: "bool \<Rightarrow> service \<Rightarrow> nat \<times> (string \<times> string) list" where
  "readiness_check reachable sv =
     (if \<not> reachable then (503, [(''status'', ''unavailable''), (''database'', ''down'')])
      else if sv_pin sv = None then (503, [(''status'', ''unavailable''), (''database'', ''up'')])
      else (200, [(''status'', ''ready''), (''database'', ''up'')]))"

lemma failing_with_Inr [simp]: "failing_with f r = Inr x \<longleftrightarrow> r = Inr x"
  by (cases r) (auto simp: failing_with_def)

lemma failing_with_Inl: "failing_with f r = Inl e \<longleftrightarrow> (\<exists>x. r = Inl x \<and> e = f x)"
  by (cases r) (auto simp: failing_with_def)

lemma part_simps [simp]:
  "as_db (auth_part sv) = sv_db sv" "a_db (app_part sv) = sv_db sv" "as_pin (auth_part sv) = sv_pin sv"
  "as_cipher (auth_part sv) = sv_cipher sv" "as_replay (auth_part sv) = sv_replay sv"
  "a_queue (app_part sv) = sv_queue sv" "a_capacity (app_part sv) = sv_capacity sv"
  "sv_db (put_auth st sv) = as_db st" "sv_pin (put_auth st sv) = as_pin st" "sv_cipher (put_auth st sv) = as_cipher st"
  "sv_queue (put_auth st sv) = sv_queue sv" "sv_capacity (put_auth st sv) = sv_capacity sv"
  "sv_db (put_app ap sv) = a_db ap" "sv_pin (put_app ap sv) = sv_pin sv" "sv_cipher (put_app ap sv) = sv_cipher sv"
  "sv_queue (put_app ap sv) = a_queue ap" "sv_capacity (put_app ap sv) = a_capacity ap"
  "sv_replay (put_auth st sv) = as_replay st" "sv_replay (put_app ap sv) = sv_replay sv"
  by (simp_all add: auth_part_def app_part_def put_auth_def put_app_def)

end
