(* ===== verification/Startup_Properties.thy ===== *)
theory Startup_Properties
  imports Startup Auth_Properties Crypto_Properties
begin

text \<open>
  What holds of every process that started: one master row, pinned; secrets that open under the
  configured key; bounded configuration. And the first start composed with the middleware: the
  credentials it prints are served. Last, where the configured body limit wraps around.
\<close>

subsection \<open>The steps of the start\<close>

lemma boot_InrD:
  assumes "boot l be = Inr run"
  obtains cipher db db1 sv where
    "service_cipher l (be_vars be) = Inr cipher"
    "be_database be (unwrap_or DEFAULT_DATABASE_URL (be_vars be ''DATABASE_URL'')) = Inr db"
    "bootstrap_master_key l (be_vars be) cipher (be_env be) db = Inr db1"
    "verify_encryption_key l cipher db1 = Inr ()"
    "setup_state l (be_vars be) (be_instant be) db1 = Inr (sv, run_pool run)"
    "fst (pin_at_boot (be_has_index be) db1 (sv_pin sv)) = Inr (the (sv_pin (run_service run)))"
    "run_service run = sv\<lparr>sv_pin := snd (pin_at_boot (be_has_index be) db1 (sv_pin sv))\<rparr>"
    "run_max_body run = unat (max_body_bytes (be_vars be))"
proof -
  from assms obtain cipher db db1 sv i where s: "service_cipher l (be_vars be) = Inr cipher"
    "be_database be (unwrap_or DEFAULT_DATABASE_URL (be_vars be ''DATABASE_URL'')) = Inr db"
    "bootstrap_master_key l (be_vars be) cipher (be_env be) db = Inr db1"
    "verify_encryption_key l cipher db1 = Inr ()"
    "setup_state l (be_vars be) (be_instant be) db1 = Inr (sv, run_pool run)"
    "fst (pin_at_boot (be_has_index be) db1 (sv_pin sv)) = Inr i"
    "run_service run = sv\<lparr>sv_pin := snd (pin_at_boot (be_has_index be) db1 (sv_pin sv))\<rparr>"
    "run_max_body run = unat (max_body_bytes (be_vars be))"
    by (auto simp: boot_def Let_def elim!: try_then_InrE split: if_splits)
  have "snd (pin_at_boot (be_has_index be) db1 (sv_pin sv)) = Some i"
    using s(6) by (cases "sv_pin sv") (auto simp: pin_at_boot_def split: sum.splits bool.splits)
  then have "the (sv_pin (run_service run)) = i" using s(7) by simp
  then show thesis using that s by blast
qed

lemma setup_state_InrD:
  assumes "setup_state l vars now db = Inr (sv, p)"
  shows "sv_db sv = db \<and> sv_queue sv = [] \<and> sv_capacity sv = webhook_queue_capacity vars \<and> sv_pin sv = None \<and>
    sv_replay sv = default_guard now \<and> service_cipher l vars = Inr (sv_cipher sv) \<and>
    sv_capacity sv \<le> MAX_PERMITS \<and> p = started_pool (webhook_workers vars) (sv_capacity sv) db"
  using assms by (auto simp: setup_state_def new_app_state_def new_pin_def Let_def elim!: try_then_InrE split: if_splits)

lemma bootstrap_InrD:
  assumes "bootstrap_master_key l vars cipher env db = Inr db1"
  shows "(list_ex k_is_master (api_keys db) \<and> db1 = db) \<or>
    (\<exists>plain stored. \<not> list_ex k_is_master (api_keys db) \<and> master_plaintext l vars env = Inr plain \<and>
       seal l cipher (take NONCE_LEN (e_random env 2)) (master_secret l vars env) = Inr stored \<and>
       insert_key (master_row l vars env plain stored) db = Inr db1)"
  using assms by (auto simp: bootstrap_master_key_def elim!: try_then_InrE split: if_splits)

lemma bootstrap_db_ok:
  assumes "bootstrap_master_key l vars cipher env db = Inr db1" "db_ok db"
  shows "db_ok db1"
  using bootstrap_InrD [OF assms(1)] assms(2) db_ok_insert_key by blast

text \<open>
  A process that serves has one master and knows which: exactly one row claims mastery, the
  catalogue confirmed its uniqueness index, and the pin holds its id. The schema's constraints hold,
  the first stored secret opens under the configured key, the cipher is the configured one, the guard
  starts empty, and channel, pool and retries are within their bounds, so readiness is answered 200.
\<close>

theorem started_service_is_sound:
  assumes "boot l be = Inr run" "\<forall>url db. be_database be url = Inr db \<longrightarrow> db_ok db"
  shows "db_ok (sv_db (run_service run)) \<and>
    (\<exists>k. filter k_is_master (api_keys (sv_db (run_service run))) = [k] \<and> sv_pin (run_service run) = Some (k_id k)) \<and>
    be_has_index be = Inr True \<and> service_cipher l (be_vars be) = Inr (sv_cipher (run_service run)) \<and>
    (\<forall>k stored. List.find (\<lambda>k. k_signing_secret k \<noteq> None) (api_keys (sv_db (run_service run))) = Some k \<longrightarrow>
       k_signing_secret k = Some stored \<longrightarrow> is_ok (open_secret l (sv_cipher (run_service run)) stored)) \<and>
    rg_seen (sv_replay (run_service run)) = [] \<and> sv_queue (run_service run) = [] \<and>
    0 < sv_capacity (run_service run) \<and> sv_capacity (run_service run) \<le> MAX_PERMITS \<and>
    pl_capacity (run_pool run) = sv_capacity (run_service run) \<and> pl_workers (run_pool run) \<noteq> [] \<and>
    webhook_max_retries (be_vars be) \<le> 10 \<and> fst (readiness_check True (run_service run)) = 200"
proof -
  obtain cipher db db1 sv where s: "service_cipher l (be_vars be) = Inr cipher"
    "be_database be (unwrap_or DEFAULT_DATABASE_URL (be_vars be ''DATABASE_URL'')) = Inr db"
    "bootstrap_master_key l (be_vars be) cipher (be_env be) db = Inr db1"
    "verify_encryption_key l cipher db1 = Inr ()"
    "setup_state l (be_vars be) (be_instant be) db1 = Inr (sv, run_pool run)"
    "fst (pin_at_boot (be_has_index be) db1 (sv_pin sv)) = Inr (the (sv_pin (run_service run)))"
    "run_service run = sv\<lparr>sv_pin := snd (pin_at_boot (be_has_index be) db1 (sv_pin sv))\<rparr>"
    by (rule boot_InrD [OF assms(1)])
  note st = setup_state_InrD [OF s(5)]
  have pin: "sole_master db1 = Inr (the (sv_pin (run_service run)))" "be_has_index be = Inr True"
      "sv_pin (run_service run) = Some (the (sv_pin (run_service run)))"
    using s(6,7) st pin_at_boot_cases [of "be_has_index be" db1 _ "snd (pin_at_boot (be_has_index be) db1 None)"]
    by (cases "fst (pin_at_boot (be_has_index be) db1 None)"; fastforce simp: prod_eq_iff)+
  have "\<exists>k. filter k_is_master (api_keys db1) = [k] \<and> sv_pin (run_service run) = Some (k_id k)"
    using sole_master_Inr [OF pin(1)] pin(3) by force
  moreover have "is_ok (open_secret l cipher stored)"
    if "List.find (\<lambda>k. k_signing_secret k \<noteq> None) (api_keys db1) = Some k" "k_signing_secret k = Some stored" for k stored
    using s(4) that by (auto simp: verify_encryption_key_def check_key_canary_def is_ok_def elim!: try_then_InrE split: sum.splits)
  moreover have "db_ok db1" using bootstrap_db_ok [OF s(3)] assms(2) s(2) by blast
  moreover have "rg_seen (default_guard n) = []" for n by (simp add: default_guard_def new_guard_def Let_def)
  moreover have "webhook_max_retries (be_vars be) \<le> 10" by (simp add: webhook_max_retries_def)
  ultimately show ?thesis
    using s st pin(2,3) worker_count.at_least [of "be_vars be"] channel_size.at_least [of "be_vars be"]
    by (auto simp: started_pool_def readiness_check_def)
qed

subsection \<open>The first master is served\<close>

lemma proven_is_served:
  assumes "proves_key l ae rq st key digest" "fst (check_and_record (k_id key) digest (ae_instant ae) (as_replay st))"
    and "bound_networks l key = Inr nets" "\<And>a. nets = [] \<or> list_ex (\<lambda>net. l_net_contains l net a) nets"
  shows "\<exists>ip. fst (auth_middleware l ae rq st) = Inr (ip, fst (authenticate_pin (ae_has_index ae) (as_db st) (as_pin st) key))"
proof -
  from assms(1) obtain plain provided ts secret body where p: "rq_api_key rq = Some plain"
    "find_key_by_hash (hash_key l plain) (as_db st) = Some key" "rq_signature rq = Some provided" "rq_body rq = Some body"
    "length body \<le> ae_max_body ae"
    "validate_timestamp (ae_now ae) (rq_timestamp rq) = Inr ts" "open_key_secret l (as_cipher st) key = Inr secret"
    and verified: "verify_signature l secret (rq_method rq) (signed_target rq) ts body provided = Some digest"
    unfolding proves_key_def by blast
  have "presented_headers rq = Inr (plain, provided)"
    using p(1,3) verify_signature_prefix [OF verified] by (simp add: presented_headers_def)
  moreover have "read_body (ae_max_body ae) rq = Inr body" using p(4,5) by (simp add: read_body_def)
  moreover obtain guard where "check_and_record (k_id key) digest (ae_instant ae) (as_replay st) = (True, guard)"
    using assms(2) by (cases "check_and_record (k_id key) digest (ae_instant ae) (as_replay st)") auto
  ultimately show ?thesis
    using p verified assms(3,4) by (auto simp: auth_middleware_def Let_def split: prod.splits)
qed

definition any_network :: "lib \<Rightarrow> bool" where
  "any_network l \<longleftrightarrow> (\<exists>n4 n6. l_net_parse l ''0.0.0.0/0'' = Some n4 \<and> l_net_parse l ''::/0'' = Some n6 \<and>
     (\<forall>a. l_net_contains l n4 a \<or> l_net_contains l n6 a))"

lemma default_subnet_pieces:
  "filter (\<lambda>s. s \<noteq> []) (map trim (split_on (CHR '','') ''0.0.0.0/0,::/0'')) = [''0.0.0.0/0'', ''::/0'']"
  by code_simp

lemma fresh_guard_accepts: "fst (check_and_record k d now (default_guard t))"
  using check_fst [OF default_guard_ok, of k d now t]
  by (simp add: blocks_def default_guard_def new_guard_def Let_def)

text \<open>
  C40 The first start hands out working credentials: on a database without a master, a started
  service serves every request signed with the printed key and secret, from any address, as the
  master: the row just inserted, which is the pinned one.
\<close>

theorem bootstrapped_master_is_served:
  assumes "boot l be = Inr run" "be_database be (unwrap_or DEFAULT_DATABASE_URL (be_vars be ''DATABASE_URL'')) = Inr db"
    and "\<not> list_ex k_is_master (api_keys db)" "be_vars be ''BOOTSTRAP_SUBNET'' = None" "any_network l"
    and creds: "master_plaintext l (be_vars be) (be_env be) = Inr plain" "rq_api_key rq = Some plain"
    and "sealable l (sv_cipher (run_service run)) (take NONCE_LEN (e_random (be_env be) 2)) (master_secret l (be_vars be) (be_env be))"
    and request: "rq_body rq = Some body" "length body \<le> run_max_body run" "ae_max_body ae = run_max_body run"
      "validate_timestamp (ae_now ae) (rq_timestamp rq) = Inr ts" "rq_signature rq = Some signature"
      "compute_signature l (master_secret l (be_vars be) (be_env be)) (rq_method rq) (signed_target rq) ts body = Inr signature"
  shows "\<exists>ip master. fst (auth_middleware l ae rq (auth_part (run_service run))) = Inr (ip, master) \<and> k_is_master master \<and>
    find_key (e_uuid (be_env be) 0) (sv_db (run_service run)) = Some master \<and> sv_pin (run_service run) = Some (k_id master)"
proof -
  let ?vars = "be_vars be" and ?env = "be_env be" and ?sv = "run_service run"
  let ?secret = "master_secret l ?vars ?env"
  obtain cipher db0 db1 sv where s: "service_cipher l ?vars = Inr cipher"
    "be_database be (unwrap_or DEFAULT_DATABASE_URL (?vars ''DATABASE_URL'')) = Inr db0"
    "bootstrap_master_key l ?vars cipher ?env db0 = Inr db1"
    "setup_state l ?vars (be_instant be) db1 = Inr (sv, run_pool run)"
    "fst (pin_at_boot (be_has_index be) db1 (sv_pin sv)) = Inr (the (sv_pin ?sv))"
    "?sv = sv\<lparr>sv_pin := snd (pin_at_boot (be_has_index be) db1 (sv_pin sv))\<rparr>"
    by (rule boot_InrD [OF assms(1)])
  note st = setup_state_InrD [OF s(4)]
  have "db0 = db" using s(2) assms(2) by simp
  then obtain stored where sealed: "seal l cipher (take NONCE_LEN (e_random ?env 2)) ?secret = Inr stored"
    and "insert_key (master_row l ?vars ?env plain stored) db = Inr db1"
    using bootstrap_InrD [OF s(3)] assms(3) creds(1) by auto
  define key where "key = master_row l ?vars ?env plain stored"
  have added: "keys_add key (api_keys db) = Some (api_keys db1)"
    using \<open>insert_key _ db = Inr db1\<close> by (auto simp: key_def insert_key_def split: option.splits)
  then have rows: "api_keys db1 = api_keys db @ [key]" "row_find k_key_hash (k_key_hash key) (api_keys db) = None"
      "row_find k_id (k_id key) (api_keys db) = None"
    by (auto simp: keys_add_def row_find_None_iff list_ex_iff split: if_splits)
  have key: "k_key_hash key = hash_key l plain" "k_signing_secret key = Some stored" "k_is_master key" "k_id key = e_uuid ?env 0"
      "k_bound_ips key = Some ''0.0.0.0/0,::/0''"
    using assms(4) by (simp_all add: key_def master_row_def)
  have found: "find_key_by_hash (hash_key l plain) db1 = Some key" "find_key (e_uuid ?env 0) db1 = Some key"
    using rows key by (simp_all add: find_key_by_hash_def find_key_def row_find_append row_find_Cons)
  have "sole_master db1 = Inr (k_id key)"
    using assms(3) rows(1) key(3) by (simp add: sole_master_def list_ex_iff filter_none_masterI)
  then have pin: "sv_pin ?sv = Some (k_id key)"
    using s(5,6) st by (auto simp: pin_at_boot_def split: sum.splits bool.splits)
  have sv: "sv_db ?sv = db1" "sv_cipher ?sv = cipher" "sv_replay ?sv = default_guard (be_instant be)" using s(1,6) st by auto
  have "hex_laws l" using assms(8) by (simp add: sealable_def)
  have "open_secret l cipher stored = Inr ?secret"
    using vault.open_seal [OF _ sealed] assms(8) sv(2) by simp
  then have "proves_key l ae rq (auth_part ?sv) key (l_hmac_sha256 l ?secret (canonical_v1_payload (rq_method rq) (signed_target rq) ts body))"
    using request creds(2) found(1) key(2) sv signature_verifies [OF \<open>hex_laws l\<close> request(6)]
    unfolding proves_key_def by (auto simp: open_key_secret_def)
  moreover obtain n4 n6 where nets: "l_net_parse l ''0.0.0.0/0'' = Some n4" "l_net_parse l ''::/0'' = Some n6"
      "\<And>a. l_net_contains l n4 a \<or> l_net_contains l n6 a" using assms(5) by (auto simp: any_network_def)
  moreover have "bound_networks l key = Inr [n4, n6]"
    unfolding bound_networks_def key(5) Let_def option.case default_subnet_pieces using nets by simp
  ultimately obtain ip where
    "fst (auth_middleware l ae rq (auth_part ?sv)) = Inr (ip, fst (authenticate_pin (ae_has_index ae) (sv_db ?sv) (sv_pin ?sv) key))"
    using proven_is_served [of l ae rq "auth_part ?sv" key] fresh_guard_accepts sv(3) by fastforce
  then show ?thesis using pin key(3) found(2) sv(1) by (auto simp: authenticate_pin_def)
qed


subsection \<open>A first start\<close>

definition demo_boot :: boot_env where
  "demo_boot = \<lparr>be_vars = [''INITIAL_MASTER_KEY'' \<mapsto> replicate 64 (CHR ''a'')], be_env = demo_env, be_instant = 7,
     be_database = (\<lambda>url. Inr empty_db), be_has_index = Inr True, be_can_bind = (\<lambda>addr. True)\<rparr>"

definition demo_run :: started where "demo_run = projr (boot demo_lib demo_boot)"

lemma demo_boots: "boot demo_lib demo_boot = Inr demo_run"
proof -
  have "\<not> isl (boot demo_lib demo_boot)" by code_simp
  then show ?thesis by (cases "boot demo_lib demo_boot") (simp_all add: demo_run_def)
qed

definition first_request :: auth_request where
  "first_request = \<lparr>rq_peer = V6 1, rq_method = ''GET'', rq_original_uri = None,
     rq_uri = \<lparr>uri_path_and_query = Some ''/api/auth/me'', uri_path = ''/api/auth/me''\<rparr>,
     rq_timestamp = Some ''1800000000'', rq_api_key = Some (replicate 64 (CHR ''a'')),
     rq_signature = Some (projr (compute_signature demo_lib (master_secret demo_lib (be_vars demo_boot) demo_env)
       ''GET'' ''/api/auth/me'' ''1800000000'' [])),
     rq_forwarded = None, rq_real_ip = None, rq_body = Some []\<rparr>"

lemma demo_any_network: "any_network demo_lib"
proof -
  have "l_net_parse demo_lib ''0.0.0.0/0'' = Some \<lparr>net_ip = V4 0, net_prefix = 0\<rparr>"
    "l_net_parse demo_lib ''::/0'' = Some \<lparr>net_ip = V6 0, net_prefix = 0\<rparr>" by code_simp+
  moreover have "unat w < 2 ^ LENGTH(32)" for w :: "32 word" by (rule unsigned_less)
  moreover have "unat w < 2 ^ LENGTH(128)" for w :: "128 word" by (rule unsigned_less)
  moreover have "l_net_contains demo_lib = in_net" by (simp add: demo_lib_def)
  ultimately show ?thesis by (auto simp: any_network_def in_net_def split: ip_addr.split)
qed

theorem started_service_is_sound_witness:
  "\<exists>k. filter k_is_master (api_keys (sv_db (run_service demo_run))) = [k] \<and> sv_pin (run_service demo_run) = Some (k_id k)"
proof -
  have "\<forall>url db. be_database demo_boot url = Inr db \<longrightarrow> db_ok db" by (simp add: demo_boot_def db_ok_empty)
  from started_service_is_sound [OF demo_boots this] show ?thesis by blast
qed

theorem bootstrapped_master_is_served_witness:
  "\<exists>ip master. fst (auth_middleware demo_lib ((auth_clock 1800000000 9)\<lparr>ae_max_body := 10485760\<rparr>) first_request
      (auth_part (run_service demo_run))) = Inr (ip, master) \<and> k_is_master master"
proof -
  let ?ae = "(auth_clock 1800000000 9)\<lparr>ae_max_body := 10485760\<rparr>"
  have db: "be_database demo_boot (unwrap_or DEFAULT_DATABASE_URL (be_vars demo_boot ''DATABASE_URL'')) = Inr empty_db"
    "\<not> list_ex k_is_master (api_keys empty_db)" "be_vars demo_boot ''BOOTSTRAP_SUBNET'' = None"
    by (simp_all add: demo_boot_def empty_db_def)
  have creds: "master_plaintext demo_lib (be_vars demo_boot) (be_env demo_boot) = Inr (replicate 64 (CHR ''a''))"
    "rq_api_key first_request = Some (replicate 64 (CHR ''a''))"
    by code_simp (simp add: first_request_def)
  have "length (take NONCE_LEN (e_random (be_env demo_boot) 2)) = NONCE_LEN"
    by (simp add: demo_boot_def demo_env_def NONCE_LEN_def)
  note sealable = demo_sealable [OF this]
  have max_body: "run_max_body demo_run = 10485760"
    by (rule boot_InrD [OF demo_boots]) (simp add: demo_boot_def max_body_bytes_def numeric_env_def DEFAULT_MAX_BODY_MIB_def)
  have body: "rq_body first_request = Some []" "length [] \<le> run_max_body demo_run" "ae_max_body ?ae = run_max_body demo_run"
    by (simp_all add: first_request_def max_body)
  have stamp: "validate_timestamp (ae_now ?ae) (rq_timestamp first_request) = Inr ''1800000000''" by code_simp
  have signed: "rq_signature first_request = Some (projr (compute_signature demo_lib
      (master_secret demo_lib (be_vars demo_boot) (be_env demo_boot)) (rq_method first_request) (signed_target first_request) ''1800000000'' []))"
    by (simp add: first_request_def signed_target_def demo_boot_def)
  have "compute_signature demo_lib s m t ts b = Inr (projr (compute_signature demo_lib s m t ts b))" for s m t ts b
    by (simp add: compute_signature_def)
  from bootstrapped_master_is_served [OF demo_boots db demo_any_network creds sealable body stamp signed this]
  show ?thesis by blast
qed

subsection \<open>The body limit\<close>

text \<open>
  The configured size in MiB is multiplied out on 64 bits: it is exact up to \<open>2 ^ 44 - 1\<close> MiB, and
  the next value wraps around to a limit of no bytes at all.
\<close>

lemma max_body_bytes_exact:
  assumes "env_u64 vars ''MAX_BODY_SIZE_MIB'' DEFAULT_MAX_BODY_MIB < 2 ^ 44"
  shows "unat (max_body_bytes vars) = max (env_u64 vars ''MAX_BODY_SIZE_MIB'' DEFAULT_MAX_BODY_MIB) 1 * 1048576"
proof -
  let ?n = "max (env_u64 vars ''MAX_BODY_SIZE_MIB'' DEFAULT_MAX_BODY_MIB) 1"
  have "max_body_bytes vars = word_of_nat (?n * 1048576)"
    by (simp add: max_body_bytes_def)
  moreover have "?n * 1048576 < 2 ^ 64" using assms by (simp add: max_def)
  ultimately show ?thesis by (simp add: unsigned_of_nat take_bit_nat_eq_self del: of_nat_mult)
qed

lemma body_limit_wraps_to_zero:
  "max_body_bytes [''MAX_BODY_SIZE_MIB'' \<mapsto> ''17592186044416''] = 0"
  by code_simp

end
