(* ===== verification/Router.thy ===== *)
theory Router
  imports Errors Prelude
begin

text \<open>
  The routes (\<open>create_app\<close> of \<open>src/lib.rs\<close>) and the extractors between a request and a handler
  (\<open>src/extract.rs\<close>). A pattern is matched part by part; where a literal and a parameter match
  the same part the literal wins, whatever the order of registration, and the method is looked at
  only then. \<open>GET\<close> handlers also answer \<open>HEAD\<close>. What serde or axum makes of the bytes is the
  outcome handed to an extractor.
\<close>

subsection \<open>Endpoints and routes\<close>

datatype endpoint =
    Get_Me | List_Ips | Delete_Ip | Delete_Ip_Record | Restore_Ip_Record | Purge_Ip_Records | Batch_Records
  | Handle_Ban | Handle_White | Create_Api_Key | List_Api_Keys | Update_Api_Key | Delete_Api_Key | Rotate_Api_Key
  | Rotate_Signing_Secret | Update_Key_Group_Permissions | Revoke_Key_Group_Permission | Create_Ip_Group
  | List_Ip_Groups | Delete_Ip_Group | Reassign_Group_Owner | Create_Webhook | List_Webhooks
  | List_Webhook_Executions | Delete_Webhook_Execution | Update_Webhook | Delete_Webhook
  | Reassign_Webhook_Owner | Test_Webhook | Clone_Webhook | List_Audit_Logs | Health_Check | Readiness_Check

definition api_routes :: "(string \<times> string \<times> endpoint) list" where
  "api_routes =
     [(''GET'', ''/auth/me'', Get_Me), (''GET'', ''/ips'', List_Ips), (''DELETE'', ''/ips'', Delete_Ip),
      (''DELETE'', ''/ips/{id}'', Delete_Ip_Record), (''POST'', ''/ips/{id}/restore'', Restore_Ip_Record),
      (''POST'', ''/system/purge-ips'', Purge_Ip_Records), (''POST'', ''/records/batch'', Batch_Records),
      (''POST'', ''/ban'', Handle_Ban), (''POST'', ''/white'', Handle_White),
      (''POST'', ''/keys'', Create_Api_Key), (''GET'', ''/keys'', List_Api_Keys),
      (''PUT'', ''/keys/{id}'', Update_Api_Key), (''DELETE'', ''/keys/{id}'', Delete_Api_Key),
      (''POST'', ''/keys/{id}/rotate'', Rotate_Api_Key), (''POST'', ''/keys/{id}/rotate-secret'', Rotate_Signing_Secret),
      (''POST'', ''/keys/{id}/groups'', Update_Key_Group_Permissions),
      (''POST'', ''/keys/{id}/permissions'', Update_Key_Group_Permissions),
      (''DELETE'', ''/keys/{id}/permissions/{group_identifier}'', Revoke_Key_Group_Permission),
      (''POST'', ''/groups'', Create_Ip_Group), (''GET'', ''/groups'', List_Ip_Groups),
      (''DELETE'', ''/groups/{id}'', Delete_Ip_Group),
      (''POST'', ''/ip_groups'', Create_Ip_Group), (''GET'', ''/ip_groups'', List_Ip_Groups),
      (''DELETE'', ''/ip_groups/{id}'', Delete_Ip_Group),
      (''PUT'', ''/groups/{id}/owner'', Reassign_Group_Owner), (''PUT'', ''/ip_groups/{id}/owner'', Reassign_Group_Owner),
      (''POST'', ''/webhooks'', Create_Webhook), (''GET'', ''/webhooks'', List_Webhooks),
      (''GET'', ''/webhooks/executions'', List_Webhook_Executions),
      (''DELETE'', ''/webhooks/executions/{id}'', Delete_Webhook_Execution),
      (''PUT'', ''/webhooks/{id}'', Update_Webhook), (''DELETE'', ''/webhooks/{id}'', Delete_Webhook),
      (''PUT'', ''/webhooks/{id}/owner'', Reassign_Webhook_Owner), (''POST'', ''/webhooks/{id}/test'', Test_Webhook),
      (''POST'', ''/webhooks/{id}/clone'', Clone_Webhook), (''GET'', ''/audit-logs'', List_Audit_Logs)]"

definition root_routes :: "(string \<times> string \<times> endpoint) list" where
  "root_routes = [(''GET'', ''/health'', Health_Check), (''GET'', ''/ready'', Readiness_Check),
     (''GET'', ''/healthz'', Health_Check), (''GET'', ''/readyz'', Readiness_Check)]"

subsection \<open>Matching a path\<close>

definition is_param :: "string \<Rightarrow> bool" where
  "is_param seg = starts_with ''{'' seg"

text \<open>The values of the parameters, when the path matches.\<close>
fun match_segments :: "string list \<Rightarrow> string list \<Rightarrow> string list option" where
  "match_segments [] [] = Some []"
| "match_segments (p # ps) (s # ss) =
     (if is_param p then (if s = [] then None else map_option ((#) s) (match_segments ps ss))
      else if p = s then match_segments ps ss else None)"
| "match_segments _ _ = None"

text \<open>Of two patterns that match, the one with a literal where they first differ in kind.\<close>
fun more_literal :: "string list \<Rightarrow> string list \<Rightarrow> bool" where
  "more_literal (p # ps) (q # qs) =
     (if is_param p = is_param q then more_literal ps qs else is_param q)"
| "more_literal _ _ = False"

fun best_pattern :: "string list \<Rightarrow> string list list \<Rightarrow> string list option" where
  "best_pattern path [] = None"
| "best_pattern path (p # ps) =
     (if match_segments p path = None then best_pattern path ps
      else (case best_pattern path ps of
              Some q \<Rightarrow> (if more_literal q p then Some q else Some p) | None \<Rightarrow> Some p))"

datatype routed = Matched endpoint "string list" | Method_Not_Allowed | Unmatched

definition method_admits :: "string \<Rightarrow> string \<Rightarrow> bool" where
  "method_admits registered requested \<longleftrightarrow> requested = registered \<or> (registered = ''GET'' \<and> requested = ''HEAD'')"

definition find_route :: "(string \<times> string \<times> endpoint) list \<Rightarrow> string \<Rightarrow> string \<Rightarrow> routed" where
  "find_route routes request_method path =
     (let segments = split_on (CHR ''/'') path in
      case best_pattern segments (map (\<lambda>(m, p, e). split_on (CHR ''/'') p) routes) of
        None \<Rightarrow> Unmatched
      | Some pattern \<Rightarrow>
          (case List.find (\<lambda>(m, p, e). split_on (CHR ''/'') p = pattern \<and> method_admits m request_method) routes of
             None \<Rightarrow> Method_Not_Allowed
           | Some (m, p, e) \<Rightarrow> Matched e (unwrap_or [] (match_segments pattern segments))))"

text \<open>A wrong method under \<open>/api\<close> is told apart: the middleware answers before the router's 405.\<close>
datatype destination =
    Api endpoint "string list" | Api_Other_Method | Probe endpoint | Probe_Other_Method | Static_Files

text \<open>The router of \<open>/api\<close> is nested: it sees the rest of the path. Whatever no route takes goes to the static files.\<close>
definition route :: "string \<Rightarrow> string \<Rightarrow> destination" where
  "route request_method path =
     (case find_route root_routes request_method path of
        Matched e _ \<Rightarrow> Probe e
      | Method_Not_Allowed \<Rightarrow> Probe_Other_Method
      | Unmatched \<Rightarrow>
          (case strip_prefix ''/api/'' path of
             None \<Rightarrow> Static_Files
           | Some rest \<Rightarrow>
               (case find_route api_routes request_method (CHR ''/'' # rest) of
                  Matched e params \<Rightarrow> Api e params
                | Method_Not_Allowed \<Rightarrow> Api_Other_Method
                | Unmatched \<Rightarrow> Static_Files)))"

subsection \<open>Extractors\<close>

text \<open>axum's rejections: the two of the content, and every other with its status and text.\<close>
datatype json_rejection = JsonDataError string | JsonSyntaxError string | OtherRejection nat string

definition strict_json :: "json_rejection + 'a \<Rightarrow> app_error + 'a" where
  "strict_json r =
     (case r of
        Inr value \<Rightarrow> Inr value
      | Inl (JsonDataError text) \<Rightarrow> Inl (InvalidInput text)
      | Inl (JsonSyntaxError text) \<Rightarrow> Inl (InvalidInput text)
      | Inl (OtherRejection status text) \<Rightarrow> Inl (BodyRejected status text))"

text \<open>\<open>parse\<close> is \<open>serde_json::from_slice\<close>, with the text of its error.\<close>
definition optional_strict_json :: "'a \<Rightarrow> (string \<Rightarrow> string + 'a) \<Rightarrow> (nat \<times> string) + string \<Rightarrow> app_error + 'a" where
  "optional_strict_json fallback parse r =
     (case r of
        Inl (status, text) \<Rightarrow> Inl (BodyRejected status text)
      | Inr bytes \<Rightarrow>
          (if bytes = [] then Inr fallback
           else (case parse bytes of
                   Inr value \<Rightarrow> Inr value
                 | Inl e \<Rightarrow> Inl (InvalidInput (''Failed to deserialize the JSON body: '' @ e)))))"

definition strict_path :: "(nat \<times> string) + 'a \<Rightarrow> app_error + 'a" where
  "strict_path r = (case r of Inr value \<Rightarrow> Inr value | Inl (status, text) \<Rightarrow> Inl (BodyRejected status text))"

definition strict_query :: "(nat \<times> string) + 'a \<Rightarrow> app_error + 'a" where
  "strict_query r = (case r of Inr value \<Rightarrow> Inr value | Inl (status, text) \<Rightarrow> Inl (BodyRejected status text))"

subsection \<open>Every route is reached\<close>

definition unambiguous :: "(string \<times> string \<times> endpoint) list \<Rightarrow> bool" where
  "unambiguous routes = distinct (map (\<lambda>(m, p, e). (m, map (\<lambda>s. if is_param s then ''{}'' else s) (split_on (CHR ''/'') p))) routes)"

lemma routes_unambiguous: "unambiguous api_routes" "unambiguous root_routes"
  by code_simp+

text \<open>Each pattern, read as a path, leads to its own endpoint.\<close>

lemma each_route_is_reached:
  "list_all (\<lambda>(m, p, e). case route m (''/api'' @ p) of Api e' params \<Rightarrow> e' = e | _ \<Rightarrow> False) api_routes"
  "list_all (\<lambda>(m, p, e). route m p = Probe e) root_routes"
  by code_simp+

text \<open>\<open>executions\<close> is a literal: it is never taken for the id of a webhook.\<close>

lemma executions_is_no_id:
  "route ''GET'' ''/api/webhooks/executions'' = Api List_Webhook_Executions []"
  "route ''DELETE'' ''/api/webhooks/executions'' = Api_Other_Method"
  "route ''DELETE'' ''/api/webhooks/executions/7'' = Api Delete_Webhook_Execution [''7'']"
  by code_simp+

lemma match_segments_length: "match_segments ps ss = Some vs \<Longrightarrow> length ps = length ss"
  by (induction ps ss arbitrary: vs rule: match_segments.induct) (auto split: if_splits)

lemma match_literal: "list_all (\<lambda>p. \<not> is_param p) ps \<Longrightarrow> match_segments ps ss = (if ss = ps then Some [] else None)"
  by (induction ps ss rule: match_segments.induct) auto

end
