(* ===== verification/Access.thy ===== *)
theory Access
  imports Key_Delete_Properties Ip_Groups Records Record_Safety Webhooks Dispatch Listings Batch Retention
begin

text \<open>
  Which handlers touch who may do what: the key table, the permission table and the ids of the groups
  are left alone by every handler of records, webhooks, executions and owners. One rule per database
  operation (collection \<open>access_steps\<close>), one equation per handler.
\<close>

named_theorems access_steps \<open>operations that leave keys, permissions and the set of groups alone\<close>

definition access_of :: "db \<Rightarrow> api_key list \<times> group_permission list \<times> uuid list" where
  "access_of db = (api_keys db, permissions db, map g_id (ip_groups db))"

lemma access_ofD:
  assumes "access_of db' = access_of db"
  shows "api_keys db' = api_keys db" "permissions db' = permissions db" "g_id ` set (ip_groups db') = g_id ` set (ip_groups db)"
  using assms by (auto simp: access_of_def simp flip: set_map)

subsection \<open>Database operations\<close>

lemma access_audit [access_steps]:
  "create_audit_log env i key a t g d db = Inr db' \<Longrightarrow> access_of db = acc \<Longrightarrow> access_of db' = acc"
  by (auto simp: access_of_def create_audit_log_frame)

lemma access_update_group [access_steps]: "update_group g db = Inr db' \<Longrightarrow> access_of db = acc \<Longrightarrow> access_of db' = acc"
  by (auto simp: access_of_def dest!: update_group_InrD)

lemma access_update_record [access_steps]: "update_record r db = Inr db' \<Longrightarrow> access_of db = acc \<Longrightarrow> access_of db' = acc"
  by (auto simp: access_of_def dest!: update_record_InrD)

lemma access_insert_record [access_steps]: "insert_record r db = Inr db' \<Longrightarrow> access_of db = acc \<Longrightarrow> access_of db' = acc"
  by (auto simp: access_of_def dest!: insert_record_InrD)

lemma access_link_member [access_steps]: "link_member m db = Inr (n, db') \<Longrightarrow> access_of db = acc \<Longrightarrow> access_of db' = acc"
  by (auto simp: access_of_def dest!: link_member_InrD)

lemma access_insert_webhook [access_steps]: "insert_webhook w db = Inr db' \<Longrightarrow> access_of db = acc \<Longrightarrow> access_of db' = acc"
  by (auto simp: access_of_def dest!: insert_webhook_InrD)

lemma access_update_webhook_row [access_steps]: "update_webhook_row w db = Inr db' \<Longrightarrow> access_of db = acc \<Longrightarrow> access_of db' = acc"
  by (auto simp: access_of_def dest!: update_webhook_row_InrD)

lemma access_insert_execution [access_steps]: "insert_execution x db = Inr db' \<Longrightarrow> access_of db = acc \<Longrightarrow> access_of db' = acc"
  by (auto simp: access_of_def dest!: insert_execution_InrD)

lemma access_deletions [access_steps]:
  "access_of db = acc \<Longrightarrow> access_of (delete_records P db) = acc"
  "access_of db = acc \<Longrightarrow> access_of (delete_member i g db) = acc"
  "access_of db = acc \<Longrightarrow> access_of (delete_webhooks Q db) = acc"
  "access_of db = acc \<Longrightarrow> access_of (delete_executions R db) = acc"
  by (simp_all add: access_of_def delete_records_def delete_member_def delete_webhooks_def delete_executions_def Let_def)

lemma access_log_execution [access_steps]: "access_of db = acc \<Longrightarrow> access_of (log_execution env ctx url s ok d b db) = acc"
  by (auto simp: log_execution_def access_of_def dest!: insert_execution_InrD split: sum.split)

lemma access_send_test_dispatch [access_steps]:
  "send_test_dispatch l dns c v env w ev db = (result, db1) \<Longrightarrow> access_of db = acc \<Longrightarrow> access_of db1 = acc"
  unfolding send_test_dispatch_def send_test_dispatch_with_privacy_def
  by (auto simp: Let_def access_log_execution split: sum.splits prod.splits reply.splits if_splits)

lemma access_purge [access_steps]:
  "purge_expired_ip_records l now days db = Some (n, db1) \<Longrightarrow> access_of db = acc \<Longrightarrow> access_of db1 = acc"
  by (auto simp: access_of_def dest: purge_expired_ip_records_keys)

subsection \<open>Handlers\<close>

lemma access_delete_ip_record: "access_of (snd (delete_ip_record l env key i hard db)) = access_of db"
  by (rule after_leavingD, unfold delete_ip_record_def, intro after_rules; unfold leaving_def; (hypsubst+)?)
    (erule access_steps | rule access_steps refl | assumption)+

lemma access_restore_ip_record: "access_of (snd (restore_ip_record env key i db)) = access_of db"
  by (rule after_leavingD, unfold restore_ip_record_def, intro after_rules; unfold leaving_def; (hypsubst+)?)
    (erule access_steps | rule access_steps refl | assumption)+

lemma access_purge_ip_records:
  "purge_ip_records l env key days var db = Some (r, db') \<Longrightarrow> access_of db' = access_of db"
  by (auto simp: purge_ip_records_def access_of_def attempt_def create_audit_log_frame dest!: purge_expired_ip_records_keys
      split: if_splits sum.splits option.splits prod.splits)

lemma access_unlink [access_steps]:
  "unlink_transaction env key address g db = Inr (r, db') \<Longrightarrow> access_of db = acc \<Longrightarrow> access_of db' = acc"
  unfolding unlink_transaction_def Let_def
  by (auto elim!: try_then_InrE split: if_splits simp: access_of_def create_audit_log_frame delete_member_def)

lemma access_ip_delete: "access_of (snd (ip_delete l env key params db)) = access_of db"
  by (rule after_leavingD, unfold ip_delete_def, intro after_rules; unfold leaving_def; (hypsubst+)?)
    (erule access_steps | rule access_steps refl | assumption)+

lemma access_reassign_group_owner: "access_of (snd (reassign_group_owner l env key i r db)) = access_of db"
  by (rule after_leavingD, unfold reassign_group_owner_def, intro after_rules; unfold leaving_def; (hypsubst+)?)
    (erule access_steps | rule access_steps refl | assumption)+

lemma access_create_webhook: "access_of (snd (create_webhook l env key p db)) = access_of db"
  by (rule after_leavingD, unfold create_webhook_def, intro after_rules; unfold leaving_def; (hypsubst+)?)
    (erule access_steps | rule access_steps refl | assumption)+

lemma access_update_webhook: "access_of (snd (update_webhook l env key i p db)) = access_of db"
  by (rule after_leavingD, unfold update_webhook_def, intro after_rules; unfold leaving_def; (hypsubst+)?)
    (erule access_steps | rule access_steps refl | assumption)+

lemma access_clone_webhook: "access_of (snd (clone_webhook l env key i n db)) = access_of db"
  by (rule after_leavingD, unfold clone_webhook_def, intro after_rules; unfold leaving_def; (hypsubst+)?)
    (erule access_steps | rule access_steps refl | assumption)+

lemma access_delete_webhook: "access_of (snd (delete_webhook l env key i db)) = access_of db"
  by (rule after_leavingD, unfold delete_webhook_def, intro after_rules; unfold leaving_def; (hypsubst+)?)
    (erule access_steps | rule access_steps refl | assumption)+

lemma access_reassign_webhook_owner: "access_of (snd (reassign_webhook_owner l env key i r db)) = access_of db"
  by (rule after_leavingD, unfold reassign_webhook_owner_def, intro after_rules; unfold leaving_def; (hypsubst+)?)
    (erule access_steps | rule access_steps refl | assumption)+

lemma access_test_webhook: "access_of (snd (test_webhook l dns c v env key i db)) = access_of db"
  by (rule after_leavingD, unfold test_webhook_def, intro after_rules; unfold leaving_def; (hypsubst+)?)
    (erule access_steps | rule access_steps refl | assumption)+

lemma access_delete_webhook_execution: "access_of (snd (delete_webhook_execution l env key i db)) = access_of db"
  by (rule after_leavingD, unfold delete_webhook_execution_def, intro after_rules; unfold leaving_def; (hypsubst+)?)
    (erule access_steps | rule access_steps refl | assumption)+


subsection \<open>Transactions\<close>

lemma access_upsert_record [access_steps]:
  "upsert_record ids address cause now db = Inr (i, db') \<Longrightarrow> access_of db = acc \<Longrightarrow> access_of db' = acc"
  by (drule upsert_record_InrD) (auto intro: access_update_record access_insert_record)

lemma access_upsert_transaction [access_steps]:
  "upsert_transaction env ids key address cause w g db = Inr (a, db') \<Longrightarrow> access_of db = acc \<Longrightarrow> access_of db' = acc"
  unfolding upsert_transaction_def Let_def
  by (elim try_then_InrE) (clarsimp elim!: try_then_InrE, (erule access_steps | rule refl | assumption)+)

lemma access_sync_record [access_steps]:
  "sync_record i now by address input sm db = Inr (Some (j, sm', db')) \<Longrightarrow> access_of db = acc \<Longrightarrow> access_of db' = acc"
  by (auto simp: sync_record_def elim!: try_then_InrE split: option.splits if_splits
      intro: access_update_record access_insert_record)

lemma access_sync_loop:
  "sync_loop ids n now by g skip recs (sm, evs, db) = Inr (sm', evs', db') \<Longrightarrow> access_of db' = access_of db"
proof (induction recs arbitrary: n sm evs db)
  case (Cons rec recs)
  obtain address input where rec: "rec = (address, input)" by (cases rec)
  from Cons.prems obtain res where synced: "sync_record (ids n) now by address input sm db = Inr res"
    by (auto simp: rec elim!: try_then_InrE)
  show ?case
  proof (cases res)
    case None
    then show ?thesis using Cons.prems synced Cons.IH by (simp add: rec)
  next
    case (Some t)
    obtain j sm1 db1 where t: "t = (j, sm1, db1)" by (cases t)
    have one: "access_of db1 = access_of db" using access_sync_record [OF _ refl] synced Some t by blast
    from Cons.prems synced Some t obtain linked db2 sm2 evs2 where two: "link_member \<lparr>m_ip_record_id = j, m_group_id = g_id g\<rparr> db1 = Inr (linked, db2)"
      "sync_loop ids (Suc n) now by g skip recs (sm2, evs2, db2) = Inr (sm', evs', db')"
      by (auto simp: rec Let_def elim!: try_then_InrE)
    from Cons.IH [OF two(2)] access_link_member [OF two(1) one] show ?thesis by simp
  qed
qed simp

lemma access_sweep_loop:
  "sweep_loop now by g skip seen rs (sm, evs, db) = Inr (sm', evs', db') \<Longrightarrow> access_of db' = access_of db"
proof (induction rs arbitrary: sm evs db)
  case (Cons r rs)
  show ?case
  proof (cases "r_target_address r \<in> seen")
    case False
    with Cons.prems obtain db1 sm1 evs1 where one: "update_record (soft_deleted now by r) db = Inr db1"
      "sweep_loop now by g skip seen rs (sm1, evs1, db1) = Inr (sm', evs', db')"
      by (auto simp: Let_def elim!: try_then_InrE)
    from Cons.IH [OF one(2)] access_update_record [OF one(1) refl] show ?thesis by simp
  qed (use Cons in simp)
qed simp

lemma access_batch_transaction [access_steps]:
  assumes "batch_transaction l env key g mode skip normalized db = Inr (sm, evs, db')" "access_of db = acc"
  shows "access_of db' = acc"
proof -
  from assms(1) obtain sm1 evs1 db1 sm2 db2 where
    sync: "sync_loop (\<lambda>n. e_uuid env (n + 2)) 0 (e_now env) (l_uuid_str l (k_id key)) g skip normalized (no_summary, [], db) =
        Inr (sm1, evs1, db1)"
    and sweep: "(if mode = FullReplace
       then sweep_loop (e_now env) (l_uuid_str l (k_id key)) g skip (fst ` set normalized) (sweep_candidates (g_id g) db1) (sm1, evs1, db1)
       else Inr (sm1, evs1, db1)) = Inr (sm, evs, db2)"
    and audit: "create_audit_log env (e_uuid env 1) key ''batch_records_updated'' None (Some (g_name g))
          (Some (batch_details mode (length normalized) sm)) db2 = Inr db'"
    by (auto simp: batch_transaction_def Let_def elim!: try_then_InrE)
  have "access_of db1 = acc" using access_sync_loop [OF sync] assms(2) by simp
  moreover have "access_of db2 = access_of db1" using sweep access_sweep_loop by (cases "mode = FullReplace") auto
  ultimately have "access_of db2 = acc" by simp
  then show ?thesis using access_audit [OF audit] by simp
qed

end
