(* ===== verification/Rbac.thy ===== *)
theory Rbac
  imports Access
begin

text \<open>
  The abstract access control state and the moves a caller may make in it (the non-escalation rules
  of \<open>RBAC_MODEL.md\<close>), with no database: which keys are masters, the global scopes of a key, its
  verbs on a group, and which groups exist. For every handler that changes keys, permissions or
  groups, what it leaves lies within the caller's rights.
\<close>

subsection \<open>Specification\<close>

record rbac =
  rb_masters :: "uuid set"
  rb_groups :: "uuid set"
  rb_scopes :: "uuid \<Rightarrow> scope set"
  rb_verbs :: "uuid \<Rightarrow> uuid \<Rightarrow> verb set"

text \<open>
  The verbs \<open>V\<close> that key \<open>k\<close> may end up with on group \<open>g\<close> when \<open>c\<close> acts and is no master: no
  more than before; or within what \<open>k\<close> had and \<open>c\<close> has, if \<open>c\<close> manages keys and the group; or the
  caller's own on a group that it creates, never including its management.
\<close>

definition may_hold :: "rbac \<Rightarrow> uuid \<Rightarrow> uuid \<Rightarrow> uuid \<Rightarrow> verb set \<Rightarrow> bool" where
  "may_hold a c k g V \<longleftrightarrow>
     V \<subseteq> rb_verbs a k g \<or>
     (Manage_Keys \<in> rb_scopes a c \<and> Manage \<in> rb_verbs a c g \<and> V \<subseteq> rb_verbs a k g \<union> rb_verbs a c g) \<or>
     (k = c \<and> Create_Groups \<in> rb_scopes a c \<and> g \<notin> rb_groups a \<and> Manage \<notin> V)"

definition rbac_step :: "uuid \<Rightarrow> rbac \<Rightarrow> rbac \<Rightarrow> bool" where
  "rbac_step c a a' \<longleftrightarrow>
     rb_masters a' = rb_masters a \<and>
     (c \<in> rb_masters a \<or>
      (\<forall>k. rb_scopes a' k \<subseteq> rb_scopes a k) \<and>
      (\<forall>k g. may_hold a c k g (rb_verbs a' k g)) \<and>
      (rb_groups a' \<subseteq> rb_groups a \<or> Create_Groups \<in> rb_scopes a c))"

definition rbac_of :: "db \<Rightarrow> rbac" where
  "rbac_of db = \<lparr>rb_masters = k_id ` set (filter k_is_master (api_keys db)), rb_groups = g_id ` set (ip_groups db),
     rb_scopes = scopes_of db, rb_verbs = verbs_of db\<rparr>"

subsection \<open>A handler within the caller's rights\<close>

definition within_rights :: "api_key \<Rightarrow> db \<Rightarrow> db \<Rightarrow> bool" where
  "within_rights key db db' \<longleftrightarrow>
     master_rows db' = master_rows db \<and>
     (k_is_master key \<or>
      scopes_within db db' \<and>
      (\<forall>k g. verbs_of db' k g \<subseteq> verbs_of db k g \<or>
         (k_can_manage_keys key \<and> Manage \<in> verbs_of db (k_id key) g \<and>
          verbs_of db' k g \<subseteq> verbs_of db k g \<union> verbs_of db (k_id key) g) \<or>
         (k = k_id key \<and> k_can_create_groups key \<and> g \<notin> g_id ` set (ip_groups db) \<and> Manage \<notin> verbs_of db' k g)) \<and>
      (g_id ` set (ip_groups db') \<subseteq> g_id ` set (ip_groups db) \<or> k_can_create_groups key))"

lemma k_id_frozen [simp]: "k_id (frozen k) = k_id k"
  by (simp add: frozen_def)

lemma master_ids: "k_id ` set (filter k_is_master (api_keys db)) = k_id ` set (master_rows db)"
  by (simp add: master_rows_def image_image)

lemma rights_are_steps:
  assumes "within_rights key db db'" "find_key (k_id key) db = Some row" "key_scopes key = key_scopes row"
    and "k_is_master key \<Longrightarrow> k_is_master row" "db_ok db"
  shows "rbac_step (k_id key) (rbac_of db) (rbac_of db')"
proof -
  have scopes: "Manage_Keys \<in> scopes_of db (k_id key) \<longleftrightarrow> k_can_manage_keys key"
    "Create_Groups \<in> scopes_of db (k_id key) \<longleftrightarrow> k_can_create_groups key"
    using assms(2,3) by (auto simp: scopes_of_def simp flip: key_scopes_iff)
  have master: "k_is_master key \<Longrightarrow> k_id key \<in> k_id ` set (filter k_is_master (api_keys db))"
    using find_key_SomeD [OF assms(2)] assms(4) by (auto intro!: image_eqI [of _ _ row])
  have "rb_masters (rbac_of db') = rb_masters (rbac_of db)"
    using assms(1) by (simp only: rbac_of_def rbac.simps master_ids within_rights_def)
  then show ?thesis
    using assms(1) master unfolding rbac_step_def within_rights_def
    by (auto simp: rbac_of_def may_hold_def scopes scopes_within_def)
qed

subsection \<open>Handlers that leave the access state alone\<close>

lemma rights_access:
  assumes "access_of db' = access_of db"
  shows "within_rights key db db'"
  using access_ofD [OF assms] scopes_of_cong [of db' db] verbs_of_cong [of db' db] master_rows_cong [of db' db]
  by (simp add: within_rights_def scopes_within_def)

lemma rights_trans_access:
  "within_rights key db db1 \<Longrightarrow> access_of db' = access_of db1 \<Longrightarrow> within_rights key db db'"
  using access_ofD [of db' db1] scopes_of_cong [of db' db1] verbs_of_cong [of db' db1] master_rows_cong [of db' db1]
  by (simp add: within_rights_def scopes_within_def)

subsection \<open>Deletions\<close>

definition dwindles :: "db \<Rightarrow> db \<Rightarrow> bool" where
  "dwindles db db' \<longleftrightarrow> set (api_keys db') \<subseteq> set (api_keys db) \<and> set (permissions db') \<subseteq> set (permissions db) \<and>
     g_id ` set (ip_groups db') \<subseteq> g_id ` set (ip_groups db)"

named_theorems dwindle_steps \<open>operations that only remove keys, permissions and groups\<close>

lemma dwindles_refl [dwindle_steps]: "dwindles db db"
  by (simp add: dwindles_def)

lemma dwindles_audit [dwindle_steps]:
  "create_audit_log env i key a t g d db1 = Inr db' \<Longrightarrow> dwindles db db1 \<Longrightarrow> dwindles db db'"
  by (simp add: dwindles_def create_audit_log_InrD)

lemma dwindles_delete [dwindle_steps]:
  "dwindles db db1 \<Longrightarrow> dwindles db (delete_group i db1)" "dwindles db db1 \<Longrightarrow> dwindles db (delete_keys ids db1)"
  "dwindles db db1 \<Longrightarrow> dwindles db (delete_permission k g db1)"
  by (auto simp: dwindles_def delete_group_rows delete_keys_def delete_permission_def)

lemma dwindles_apply_resolutions [dwindle_steps]:
  "apply_resolutions rs es d m db1 = (x, db') \<Longrightarrow> dwindles db db1 \<Longrightarrow> dwindles db db'"
proof (induction es arbitrary: d m db1)
  case (Cons e es)
  show ?case
  proof (cases "lookup_resolution rs (oe_pair e)")
    case (Some r)
    show ?thesis
    proof (cases "apply_resolution e r db1")
      case applied: (Some p)
      obtain db2 moved where p: "p = (db2, moved)" by (cases p)
      have "apply_resolution e r db1 = Some (db2, moved)" using applied p by simp
      then have "dwindles db1 db2"
        by (cases rule: apply_resolution_cases)
          (auto simp: dwindles_def delete_group_rows delete_webhooks_def set_group_owner_def set_webhook_owner_def Let_def
            intro: rev_image_eqI)
      with Cons.prems(2) have "dwindles db db2" unfolding dwindles_def by blast
      then show ?thesis using Cons.prems(1) Some applied p Cons.IH by (auto split: if_splits)
    qed (use Cons.prems Some in auto)
  qed (use Cons.prems in auto)
qed auto

lemma dwindles_rights:
  assumes "dwindles db db'" "db_ok db" "db_ok db'" "master_rows db' = master_rows db"
  shows "within_rights key db db'"
proof -
  have "scopes_of db' j \<subseteq> scopes_of db j" for j
  proof (cases "find_key j db'")
    case (Some k)
    then have "k \<in> set (api_keys db)" "k_id k = j" using assms(1) find_key_SomeD [OF Some] by (auto simp: dwindles_def)
    then have "find_key j db = Some k" using find_key_in [OF assms(2)] by blast
    then show ?thesis using Some by (simp add: scopes_of_def)
  qed (simp add: scopes_of_def)
  moreover have "verbs_of db' k g \<subseteq> verbs_of db k g" for k g
  proof (cases "find_permission k g db'")
    case (Some p)
    then have "p \<in> set (permissions db)" "p_api_key_id p = k" "p_group_id p = g"
      using assms(1) find_permission_SomeD [OF Some] by (auto simp: dwindles_def)
    then have "find_permission k g db = Some p" using find_permission_in [OF assms(2)] by blast
    then show ?thesis using Some by (simp add: verbs_of_def)
  qed (simp add: verbs_of_def)
  ultimately show ?thesis using assms(1,4) by (simp add: within_rights_def scopes_within_def dwindles_def)
qed

lemma rights_delete_ip_group:
  assumes "db_ok db"
  shows "within_rights key db (snd (delete_ip_group l env key i db))"
proof (rule dwindles_rights [OF _ assms db_ok_delete_ip_group [OF assms]])
  show "dwindles db (snd (delete_ip_group l env key i db))"
    by (rule after_leavingD, unfold delete_ip_group_def, intro after_rules; unfold leaving_def; (hypsubst+)?)
      (erule dwindle_steps | rule dwindle_steps | assumption)+
  have "api_keys (snd (delete_ip_group l env key i db)) = api_keys db"
    by (rule after_leavingD, unfold delete_ip_group_def, intro after_rules; unfold leaving_def)
      (auto simp: create_audit_log_InrD delete_group_rows)
  then show "master_rows (snd (delete_ip_group l env key i db)) = master_rows db" by (rule master_rows_cong)
qed

lemma rights_delete_api_key:
  assumes "db_ok db" "\<forall>k\<in>set (api_keys db). k_is_master k \<longrightarrow> k_parent_key_id k = None"
  shows "within_rights key db (snd (delete_api_key l env key i rs db))"
proof (rule dwindles_rights [OF _ assms(1) db_ok_delete_api_key [OF assms(1)] deletion_spares_master [OF assms]])
  show "dwindles db (snd (delete_api_key l env key i rs db))"
    by (rule after_leavingD, unfold delete_api_key_def, intro after_rules; unfold leaving_def; (hypsubst+)?)
      (erule dwindle_steps | rule dwindle_steps | assumption)+
qed


subsection \<open>Keys\<close>

text \<open>Handlers that write one key row: permissions and groups stay.\<close>
definition key_only :: "db \<Rightarrow> db \<Rightarrow> bool" where
  "key_only db db' \<longleftrightarrow> permissions db' = permissions db \<and> ip_groups db' = ip_groups db"

lemma key_only_rights:
  "key_only db db' \<Longrightarrow> master_rows db' = master_rows db \<Longrightarrow> (\<not> k_is_master key \<Longrightarrow> scopes_within db db') \<Longrightarrow>
     within_rights key db db'"
  using verbs_of_cong [of db' db] by (auto simp: within_rights_def key_only_def)

lemma key_only_steps:
  "key_only db db" "insert_key k db1 = Inr db' \<Longrightarrow> key_only db db1 \<Longrightarrow> key_only db db'"
  "update_key k db1 = Inr db' \<Longrightarrow> key_only db db1 \<Longrightarrow> key_only db db'"
  "create_audit_log env i key a t g d db1 = Inr db' \<Longrightarrow> key_only db db1 \<Longrightarrow> key_only db db'"
  by (auto simp: key_only_def create_audit_log_InrD dest!: insert_key_InrD update_key_InrD)

lemma rights_create_api_key: "within_rights key db (snd (create_api_key l cipher env key p db))"
proof (rule key_only_rights [OF _ master_rows_create_api_key scopes_create_api_key])
  show "key_only db (snd (create_api_key l cipher env key p db))"
    by (rule after_leavingD, unfold create_api_key_def, intro after_rules; unfold leaving_def; (hypsubst+)?)
      (erule key_only_steps | rule key_only_steps)+
qed

lemma rights_update_api_key: "db_ok db \<Longrightarrow> within_rights key db (snd (update_api_key l env key i p db))"
proof (rule key_only_rights [OF _ master_rows_update_api_key scopes_update_api_key])
  show "key_only db (snd (update_api_key l env key i p db))"
    by (rule after_leavingD, unfold update_api_key_def, intro after_rules; unfold leaving_def; (hypsubst+)?)
      (erule key_only_steps | rule key_only_steps)+
qed

lemma rights_rotate_api_key: "db_ok db \<Longrightarrow> within_rights key db (snd (rotate_api_key l cipher env key i db))"
proof (rule key_only_rights [OF _ master_rows_rotate_api_key scopes_rotate_api_key])
  show "key_only db (snd (rotate_api_key l cipher env key i db))"
    by (rule after_leavingD, unfold rotate_api_key_def, intro after_rules; unfold leaving_def; (hypsubst+)?)
      (erule key_only_steps | rule key_only_steps)+
qed

lemma rights_rotate_signing_secret: "db_ok db \<Longrightarrow> within_rights key db (snd (rotate_signing_secret l cipher env key i db))"
proof (rule key_only_rights [OF _ master_rows_rotate_signing_secret scopes_rotate_signing_secret])
  show "key_only db (snd (rotate_signing_secret l cipher env key i db))"
    by (rule after_leavingD, unfold rotate_signing_secret_def, intro after_rules; unfold leaving_def; (hypsubst+)?)
      (erule key_only_steps | rule key_only_steps)+
qed

subsection \<open>Permissions and groups\<close>

text \<open>The set of groups grows only by a caller that may create groups.\<close>
definition groups_within :: "api_key \<Rightarrow> db \<Rightarrow> db \<Rightarrow> bool" where
  "groups_within key db db' \<longleftrightarrow>
     k_is_master key \<or> g_id ` set (ip_groups db') \<subseteq> g_id ` set (ip_groups db) \<or> k_can_create_groups key"

lemma groups_within_steps:
  "groups_within key db db" "upsert_permission p db1 = Inr db' \<Longrightarrow> groups_within key db db1 \<Longrightarrow> groups_within key db db'"
  "create_audit_log env i key' a t g d db1 = Inr db' \<Longrightarrow> groups_within key db db1 \<Longrightarrow> groups_within key db db'"
  "groups_within key db db1 \<Longrightarrow> groups_within key db (delete_permission k gi db1)"
  "resolve_or_create_target l env key payload db = Inr (g', db') \<Longrightarrow> groups_within key db db'"
  by (auto simp: groups_within_def create_audit_log_InrD delete_permission_def dest!: upsert_permission_InrD resolve_or_create_target_InrD)

lemma verbs_bounded_rights:
  assumes "api_keys db' = api_keys db" "groups_within key db db'" "\<not> k_is_master key \<Longrightarrow> verbs_bounded key db db'"
  shows "within_rights key db db'"
  unfolding within_rights_def
proof (intro conjI disjCI)
  show "master_rows db' = master_rows db" by (rule master_rows_cong [OF assms(1)])
  assume not_all: "\<not> (scopes_within db db' \<and>
      (\<forall>k g. verbs_of db' k g \<subseteq> verbs_of db k g \<or>
         (k_can_manage_keys key \<and> Manage \<in> verbs_of db (k_id key) g \<and>
          verbs_of db' k g \<subseteq> verbs_of db k g \<union> verbs_of db (k_id key) g) \<or>
         (k = k_id key \<and> k_can_create_groups key \<and> g \<notin> g_id ` set (ip_groups db) \<and> Manage \<notin> verbs_of db' k g)) \<and>
      (g_id ` set (ip_groups db') \<subseteq> g_id ` set (ip_groups db) \<or> k_can_create_groups key))"
  show "k_is_master key"
  proof (rule ccontr)
    assume "\<not> k_is_master key"
    then show False
      using not_all assms scopes_of_cong [OF assms(1)] by (auto simp: verbs_bounded_def groups_within_def scopes_within_def)
  qed
qed

lemma rights_update_key_group_permissions:
  "within_rights key db (snd (update_key_group_permissions l env key i p db))"
proof (rule verbs_bounded_rights [OF api_keys_update_key_group_permissions _ verbs_bounded_update_key_group_permissions])
  show "groups_within key db (snd (update_key_group_permissions l env key i p db))"
    by (rule after_leavingD, unfold update_key_group_permissions_def, intro after_rules; unfold leaving_def; (hypsubst+)?)
      (erule groups_within_steps | rule groups_within_steps)+
qed

lemma rights_revoke_key_group_permission:
  "db_ok db \<Longrightarrow> within_rights key db (snd (revoke_key_group_permission l env key i gi db))"
proof (rule verbs_bounded_rights [OF api_keys_revoke_key_group_permission _ verbs_bounded_revoke_key_group_permission])
  show "groups_within key db (snd (revoke_key_group_permission l env key i gi db))"
    by (rule after_leavingD, unfold revoke_key_group_permission_def, intro after_rules; unfold leaving_def; (hypsubst+)?)
      (erule groups_within_steps | rule groups_within_steps)+
qed


subsection \<open>Creation of groups\<close>

definition grown :: "api_key \<Rightarrow> db \<Rightarrow> db \<Rightarrow> bool" where
  "grown key db d \<longleftrightarrow> api_keys d = api_keys db \<and> groups_within key db d \<and>
     (k_is_master key \<or> (\<forall>k g. verbs_of d k g = verbs_of db k g \<or>
        (k = k_id key \<and> k_can_create_groups key \<and> g \<notin> g_id ` set (ip_groups db) \<and> Manage \<notin> verbs_of d k g)))"

lemma grown_rights: "grown key db d \<Longrightarrow> within_rights key db d"
  using scopes_of_cong [of d db] master_rows_cong [of d db]
  by (auto simp: grown_def within_rights_def groups_within_def scopes_within_def)

lemma grown_refl: "grown key db db"
  by (simp add: grown_def groups_within_def)

lemma grown_access: "grown key db d \<Longrightarrow> access_of d' = access_of d \<Longrightarrow> grown key db d'"
  using access_ofD [of d' d] verbs_of_cong [of d' d] by (simp add: grown_def groups_within_def)

lemma grown_audit: "create_audit_log env i key' a t g d db1 = Inr d' \<Longrightarrow> grown key db db1 \<Longrightarrow> grown key db d'"
  using access_audit [OF _ refl] grown_access by blast

lemma grown_group:
  assumes "grown key db db1" "k_is_master key \<or> k_can_create_groups key" "api_keys d = api_keys db1" "permissions d = permissions db1"
  shows "grown key db d"
  using assms verbs_of_cong [OF assms(4)] by (auto simp: grown_def groups_within_def)

lemma grown_permission:
  assumes "insert_permission (creator_permission i (k_id key) g now) db1 = Inr d" "grown key db db1"
    and "k_can_create_groups key" "g \<notin> g_id ` set (ip_groups db)"
  shows "grown key db d"
proof -
  have "api_keys d = api_keys db1" "ip_groups d = ip_groups db1" using insert_permission_InrD [OF assms(1)] by simp_all
  moreover have "verbs_of d k h = (if (k, h) = (k_id key, g) then {Read, Write, Delete} else verbs_of db1 k h)" for k h
    using verbs_of_insert_permission [OF assms(1)] by (auto simp: creator_permission_def perm_verbs_def)
  moreover have "verbs_of d k h = verbs_of db k h \<or> (k = k_id key \<and> k_can_create_groups key \<and> h \<notin> g_id ` set (ip_groups db) \<and>
      Manage \<notin> verbs_of d k h)" if "\<not> k_is_master key" for k h
    using calculation(3) assms(2-4) that by (cases "k = k_id key \<and> h = g") (simp_all add: grown_def)
  ultimately show ?thesis using assms(2) unfolding grown_def groups_within_def by metis
qed

lemma grown_named_group:
  assumes "insert_named_group g db = Inr d" "k_is_master key \<or> k_can_create_groups key"
  shows "grown key db d" "g_id g \<notin> g_id ` set (ip_groups db)"
  using insert_group_InrD [OF insert_named_group_InrD [OF assms(1)]] assms(2) grown_group [OF grown_refl, of key d db]
  by (auto simp: groups_add_def list_ex_iff split: if_splits)

lemma grown_provision:
  assumes "(if \<not> k_is_master key then insert_permission (creator_permission i (k_id key) g now) d else Inr d) = Inr d'"
    and "grown key db d" "k_is_master key \<or> k_can_create_groups key" "g \<notin> g_id ` set (ip_groups db)"
  shows "grown key db d'"
  using assms grown_permission by (auto split: if_splits)

lemma grown_create_ip_group: "grown key db (snd (create_ip_group env key payload db))"
proof (rule after_leavingD)
  show "after (leaving (grown key db)) (create_ip_group env key payload db)"
    unfolding create_ip_group_def Let_def
  proof (intro after_rules, unfold leaving_def, goal_cases)
    case (3 d)
    then show ?case using grown_named_group(1) by blast
  next
    case (4 d d' e)
    then show ?case using grown_named_group [OF 4(2), of key] grown_provision [OF 4(3), of db] by auto
  next
    case (5 d d' d'')
    then have "grown key db d'" using grown_named_group [OF 5(2), of key] grown_provision [OF 5(3), of db] by auto
    then show ?case by (rule grown_audit [OF 5(4)])
  qed (rule grown_refl)+
qed

lemma grown_get_or_create:
  assumes "get_or_create_group env i n ty ow db = Inr (g, d)" "find_group_by_name n db = None" "k_is_master key \<or> k_can_create_groups key"
  shows "grown key db d" "g_id g \<notin> g_id ` set (ip_groups db)"
  using get_or_create_group_InrD [OF assms(1)] assms(2,3) grown_group [OF grown_refl, of key d db] by auto

lemma grown_resolve_upsert_group: "grown key db (snd (resolve_upsert_group env key payload w db))"
proof (rule after_leavingD)
  show "after (leaving (grown key db)) (resolve_upsert_group env key payload w db)"
    unfolding resolve_upsert_group_def Let_def
  proof (intro after_rules, unfold leaving_def, goal_cases)
    case (5 x n xa g d e)
    then show ?case using grown_get_or_create [of env _ n _ _ db g d key] resolve_group_ref_None_name by auto
  next
    case (6 x n xa g d d')
    then have n: "find_group_by_name n db = None" using resolve_group_ref_None_name by auto
    have "grown key db d" "g_id g \<notin> g_id ` set (ip_groups db)" "k_can_create_groups key"
      using 6 grown_get_or_create [OF _ n, of env _ _ _ g d key] by auto
    then show ?case
      using 6(8) grown_permission by (auto simp: insert_permission_or_ignore_def split: if_splits)
  next
    case (7 x n xa g d)
    then show ?case using grown_get_or_create [of env _ n _ _ db g d key] resolve_group_ref_None_name by auto
  qed (rule grown_refl)+
qed

lemma grown_ip_upsert: "grown key db (snd (ip_upsert l env ids key payload w db))"
proof (rule after_leavingD)
  have group: "resolve_upsert_group env key payload w db = (r, d) \<Longrightarrow> grown key db d" for r d
    using grown_resolve_upsert_group [of key db env payload w] by simp
  show "after (leaving (grown key db)) (ip_upsert l env ids key payload w db)"
    unfolding ip_upsert_def Let_def
  proof (intro after_rules, unfold leaving_def, goal_cases)
    case (5 x y r d g p action d')
    then show ?case using grown_access [OF group] access_upsert_transaction [OF _ refl] by blast
  qed (rule grown_refl | rule group, assumption)+
qed

lemma grown_resolve_batch_group: "grown key db (snd (resolve_batch_group env key n mode db))"
proof (rule after_leavingD)
  show "after (leaving (grown key db)) (resolve_batch_group env key n mode db)"
    unfolding resolve_batch_group_def
  proof (intro after_rules, unfold leaving_def, goal_cases)
    case (3 p g d)
    then show ?case using grown_get_or_create [of env _ n _ _ db g d key] by auto
  qed (rule grown_refl)+
qed

lemma grown_batch_records_db: "grown key db (snd (batch_records_db l env key payload db))"
proof (rule after_leavingD)
  have group: "resolve_batch_group env key n mode db = (r, d) \<Longrightarrow> grown key db d" for n mode r d
    using grown_resolve_batch_group [of key db env n mode] by simp
  show "after (leaving (grown key db)) (batch_records_db l env key payload db)"
    unfolding batch_records_db_def
  proof (intro after_rules, unfold leaving_def, goal_cases)
    case (6 normalized r d g x p sm rest events d')
    then show ?case using grown_access [OF group] access_batch_transaction [OF _ refl] by blast
  qed (rule grown_refl | rule group, assumption)+
qed


subsection \<open>Two registrations that race\<close>

text \<open>
  The lookup of the group and its creation are separate statements. If another key creates the name
  in between, the insertion returns that key's group, and the provisioning that follows gives the
  loser of the race read, write and delete on it, without the access check of an existing group.
\<close>

lemma raced_creation_grants_foreign_group:
  assumes "get_or_create_group env i n ty ow db = Inr (h, db1)" "find_group_by_name n db = Some g"
    and "insert_permission_or_ignore (creator_permission j (k_id key) (g_id h) now) db1 = Inr db2"
    and "find_permission (k_id key) (g_id g) db = None"
  shows "h = g \<and> verbs_of db (k_id key) (g_id g) = {} \<and> verbs_of db2 (k_id key) (g_id g) = {Read, Write, Delete}"
proof -
  have "h = g" "db1 = db" using get_or_create_group_InrD [OF assms(1)] assms(2) by auto
  moreover from this have "insert_permission (creator_permission j (k_id key) (g_id g) now) db = Inr db2"
    using assms(3,4) by (simp add: insert_permission_or_ignore_def creator_permission_def)
  ultimately show ?thesis
    using verbs_of_insert_permission assms(4) by (auto simp: verbs_of_def [of db] creator_permission_def perm_verbs_def)
qed

end
