(* ===== verification/System.thy ===== *)
theory System
  imports Router Startup Rbac
begin

text \<open>
  The running service as one machine (\<open>src/lib.rs\<close> with everything below it): a request is routed,
  authenticated, decoded and run by its handler; beside the requests the pool takes events and logs
  deliveries, and the retention workers sweep. \<open>handle_request\<close> is one request on its own; \<open>service_step\<close>
  lets any number of requests be between authentication and handler while others act.
\<close>

subsection \<open>Calls\<close>

text \<open>An endpoint with its decoded arguments.\<close>
datatype call =
    Call_Get_Me
  | Call_List_Ips query_filters
  | Call_Delete_Ip delete_ip_query delete_ip_query
  | Call_Delete_Ip_Record uuid "bool option"
  | Call_Restore_Ip_Record uuid
  | Call_Purge_Ip_Records "int option"
  | Call_Batch_Records batch_records_payload
  | Call_Handle_Ban ban_white_payload
  | Call_Handle_White ban_white_payload
  | Call_Create_Api_Key create_key_payload
  | Call_List_Api_Keys
  | Call_Update_Api_Key uuid update_key_payload
  | Call_Delete_Api_Key uuid "resolution_entry list"
  | Call_Rotate_Api_Key uuid
  | Call_Rotate_Signing_Secret uuid
  | Call_Update_Key_Group_Permissions uuid group_perm_input
  | Call_Revoke_Key_Group_Permission uuid string
  | Call_Create_Ip_Group create_group_payload
  | Call_List_Ip_Groups
  | Call_Delete_Ip_Group uuid
  | Call_Reassign_Group_Owner uuid "uuid option"
  | Call_Create_Webhook create_webhook_payload
  | Call_List_Webhooks
  | Call_List_Webhook_Executions webhook_execution_query
  | Call_Delete_Webhook_Execution uuid
  | Call_Update_Webhook uuid update_webhook_payload
  | Call_Delete_Webhook uuid
  | Call_Reassign_Webhook_Owner uuid "uuid option"
  | Call_Test_Webhook uuid
  | Call_Clone_Webhook uuid string
  | Call_List_Audit_Logs audit_log_query

fun call_endpoint :: "call \<Rightarrow> endpoint" where
  "call_endpoint Call_Get_Me = Get_Me"
| "call_endpoint (Call_List_Ips _) = List_Ips"
| "call_endpoint (Call_Delete_Ip _ _) = Delete_Ip"
| "call_endpoint (Call_Delete_Ip_Record _ _) = Delete_Ip_Record"
| "call_endpoint (Call_Restore_Ip_Record _) = Restore_Ip_Record"
| "call_endpoint (Call_Purge_Ip_Records _) = Purge_Ip_Records"
| "call_endpoint (Call_Batch_Records _) = Batch_Records"
| "call_endpoint (Call_Handle_Ban _) = Handle_Ban"
| "call_endpoint (Call_Handle_White _) = Handle_White"
| "call_endpoint (Call_Create_Api_Key _) = Create_Api_Key"
| "call_endpoint Call_List_Api_Keys = List_Api_Keys"
| "call_endpoint (Call_Update_Api_Key _ _) = Update_Api_Key"
| "call_endpoint (Call_Delete_Api_Key _ _) = Delete_Api_Key"
| "call_endpoint (Call_Rotate_Api_Key _) = Rotate_Api_Key"
| "call_endpoint (Call_Rotate_Signing_Secret _) = Rotate_Signing_Secret"
| "call_endpoint (Call_Update_Key_Group_Permissions _ _) = Update_Key_Group_Permissions"
| "call_endpoint (Call_Revoke_Key_Group_Permission _ _) = Revoke_Key_Group_Permission"
| "call_endpoint (Call_Create_Ip_Group _) = Create_Ip_Group"
| "call_endpoint Call_List_Ip_Groups = List_Ip_Groups"
| "call_endpoint (Call_Delete_Ip_Group _) = Delete_Ip_Group"
| "call_endpoint (Call_Reassign_Group_Owner _ _) = Reassign_Group_Owner"
| "call_endpoint (Call_Create_Webhook _) = Create_Webhook"
| "call_endpoint Call_List_Webhooks = List_Webhooks"
| "call_endpoint (Call_List_Webhook_Executions _) = List_Webhook_Executions"
| "call_endpoint (Call_Delete_Webhook_Execution _) = Delete_Webhook_Execution"
| "call_endpoint (Call_Update_Webhook _ _) = Update_Webhook"
| "call_endpoint (Call_Delete_Webhook _) = Delete_Webhook"
| "call_endpoint (Call_Reassign_Webhook_Owner _ _) = Reassign_Webhook_Owner"
| "call_endpoint (Call_Test_Webhook _) = Test_Webhook"
| "call_endpoint (Call_Clone_Webhook _ _) = Clone_Webhook"
| "call_endpoint (Call_List_Audit_Logs _) = List_Audit_Logs"

datatype answer =
    Done
  | Me me_response
  | Ips ips_response
  | Record_Deleted delete_record_response
  | Record_Restored uuid string
  | Purged nat int
  | Batch_Summary batch_summary
  | Key_Created create_key_response
  | Keys "api_key_summary list"
  | Key_Updated api_key_summary
  | Key_Rotated rotate_key_response
  | Secret_Rotated rotate_secret_response
  | Group_Created create_group_response
  | Groups "ip_group list"
  | Owner_Reassigned uuid "uuid option"
  | Webhook_Created uuid string string
  | Webhooks "webhook_summary list"
  | Executions "webhook_execution list"
  | Webhook_Updated update_webhook_response
  | Webhook_Tested webhook_test_result
  | Webhook_Cloned webhook_summary "string option"
  | Audit_Logs "audit_log list"

text \<open>\<open>Dropped\<close>: the handler panicked and the connection is closed without an answer.\<close>
datatype response = Answered answer | Refused app_error | Dropped

text \<open>What a handler reads beside its arguments, the database and the shared state.\<close>
record readings =
  rd_env :: env
  rd_ids :: "uuid list"
  rd_dns :: resolver
  rd_client :: "string + http_client"
  rd_vars :: environment

subsection \<open>Running a handler\<close>

definition respond :: "('a \<Rightarrow> answer) \<Rightarrow> app_error + 'a \<Rightarrow> response" where
  "respond f r = (case r of Inl e \<Rightarrow> Refused e | Inr x \<Rightarrow> Answered (f x))"

text \<open>A read, a handler on the database, and one that also raises events.\<close>

definition reading :: "('a \<Rightarrow> answer) \<Rightarrow> app_error + 'a \<Rightarrow> app \<Rightarrow> response \<times> app" where
  "reading f r ap = (respond f r, ap)"

definition on_db :: "('a \<Rightarrow> answer) \<Rightarrow> 'a outcome \<Rightarrow> app \<Rightarrow> response \<times> app" where
  "on_db f out ap = (respond f (fst out), ap\<lparr>a_db := snd out\<rparr>)"

definition on_app :: "('a \<Rightarrow> answer) \<Rightarrow> (app_error + 'a) \<times> app \<Rightarrow> response \<times> app" where
  "on_app f out = (respond f (fst out), snd out)"

fun run_call :: "lib \<Rightarrow> secret_cipher \<Rightarrow> readings \<Rightarrow> api_key \<Rightarrow> call \<Rightarrow> app \<Rightarrow> response \<times> app" where
  "run_call l cipher rd key Call_Get_Me ap = reading Me (Inr (get_me key (a_db ap))) ap"
| "run_call l cipher rd key (Call_List_Ips f) ap =
     (case list_ips l (e_now (rd_env rd)) key f (a_db ap) of None \<Rightarrow> (Dropped, ap) | Some r \<Rightarrow> reading Ips r ap)"
| "run_call l cipher rd key (Call_Delete_Ip q b) ap = on_app (\<lambda>_. Done) (delete_ip l (rd_env rd) key q b ap)"
| "run_call l cipher rd key (Call_Delete_Ip_Record i hard) ap =
     on_db Record_Deleted (delete_ip_record l (rd_env rd) key i hard (a_db ap)) ap"
| "run_call l cipher rd key (Call_Restore_Ip_Record i) ap =
     on_db (\<lambda>(r, a). Record_Restored r a) (restore_ip_record (rd_env rd) key i (a_db ap)) ap"
| "run_call l cipher rd key (Call_Purge_Ip_Records days) ap =
     (case purge_ip_records l (rd_env rd) key days (rd_vars rd ''IP_RETENTION_DAYS'') (a_db ap) of
        None \<Rightarrow> (Dropped, ap) | Some out \<Rightarrow> on_db (\<lambda>(n, d). Purged n d) out ap)"
| "run_call l cipher rd key (Call_Batch_Records p) ap = on_app Batch_Summary (batch_records l (rd_env rd) key p ap)"
| "run_call l cipher rd key (Call_Handle_Ban p) ap = on_app (\<lambda>_. Done) (handle_ban l (rd_env rd) (rd_ids rd) key p ap)"
| "run_call l cipher rd key (Call_Handle_White p) ap = on_app (\<lambda>_. Done) (handle_white l (rd_env rd) (rd_ids rd) key p ap)"
| "run_call l cipher rd key (Call_Create_Api_Key p) ap = on_db Key_Created (create_api_key l cipher (rd_env rd) key p (a_db ap)) ap"
| "run_call l cipher rd key Call_List_Api_Keys ap = reading Keys (list_api_keys key (a_db ap)) ap"
| "run_call l cipher rd key (Call_Update_Api_Key i p) ap = on_db Key_Updated (update_api_key l (rd_env rd) key i p (a_db ap)) ap"
| "run_call l cipher rd key (Call_Delete_Api_Key i rs) ap = on_db (\<lambda>_. Done) (delete_api_key l (rd_env rd) key i rs (a_db ap)) ap"
| "run_call l cipher rd key (Call_Rotate_Api_Key i) ap = on_db Key_Rotated (rotate_api_key l cipher (rd_env rd) key i (a_db ap)) ap"
| "run_call l cipher rd key (Call_Rotate_Signing_Secret i) ap =
     on_db Secret_Rotated (rotate_signing_secret l cipher (rd_env rd) key i (a_db ap)) ap"
| "run_call l cipher rd key (Call_Update_Key_Group_Permissions i p) ap =
     on_db (\<lambda>_. Done) (update_key_group_permissions l (rd_env rd) key i p (a_db ap)) ap"
| "run_call l cipher rd key (Call_Revoke_Key_Group_Permission i g) ap =
     on_db (\<lambda>_. Done) (revoke_key_group_permission l (rd_env rd) key i g (a_db ap)) ap"
| "run_call l cipher rd key (Call_Create_Ip_Group p) ap = on_db Group_Created (create_ip_group (rd_env rd) key p (a_db ap)) ap"
| "run_call l cipher rd key Call_List_Ip_Groups ap = reading Groups (Inr (list_ip_groups key (a_db ap))) ap"
| "run_call l cipher rd key (Call_Delete_Ip_Group i) ap = on_db (\<lambda>_. Done) (delete_ip_group l (rd_env rd) key i (a_db ap)) ap"
| "run_call l cipher rd key (Call_Reassign_Group_Owner i r) ap =
     on_db (\<lambda>(g, n). Owner_Reassigned g n) (reassign_group_owner l (rd_env rd) key i r (a_db ap)) ap"
| "run_call l cipher rd key (Call_Create_Webhook p) ap =
     on_db (\<lambda>(i, n, u). Webhook_Created i n u) (create_webhook l (rd_env rd) key p (a_db ap)) ap"
| "run_call l cipher rd key Call_List_Webhooks ap = reading Webhooks (list_webhooks key (a_db ap)) ap"
| "run_call l cipher rd key (Call_List_Webhook_Executions q) ap = reading Executions (list_webhook_executions l key q (a_db ap)) ap"
| "run_call l cipher rd key (Call_Delete_Webhook_Execution i) ap =
     on_db (\<lambda>_. Done) (delete_webhook_execution l (rd_env rd) key i (a_db ap)) ap"
| "run_call l cipher rd key (Call_Update_Webhook i p) ap = on_db Webhook_Updated (update_webhook l (rd_env rd) key i p (a_db ap)) ap"
| "run_call l cipher rd key (Call_Delete_Webhook i) ap = on_db (\<lambda>_. Done) (delete_webhook l (rd_env rd) key i (a_db ap)) ap"
| "run_call l cipher rd key (Call_Reassign_Webhook_Owner i r) ap =
     on_db (\<lambda>(w, n). Owner_Reassigned w n) (reassign_webhook_owner l (rd_env rd) key i r (a_db ap)) ap"
| "run_call l cipher rd key (Call_Test_Webhook i) ap =
     on_db Webhook_Tested (test_webhook l (rd_dns rd) (rd_client rd) (rd_vars rd ''ALLOW_PRIVATE_WEBHOOKS'') (rd_env rd) key i (a_db ap)) ap"
| "run_call l cipher rd key (Call_Clone_Webhook i n) ap =
     on_db (\<lambda>(w, s). Webhook_Cloned w s) (clone_webhook l (rd_env rd) key i n (a_db ap)) ap"
| "run_call l cipher rd key (Call_List_Audit_Logs q) ap = reading Audit_Logs (list_audit_logs key q (a_db ap)) ap"

text \<open>A decoder is what the extractors make of a request for an endpoint.\<close>
type_synonym decoder = "endpoint \<Rightarrow> string list \<Rightarrow> auth_request \<Rightarrow> app_error + call"

definition decodes :: "decoder \<Rightarrow> bool" where
  "decodes decode \<longleftrightarrow> (\<forall>e params rq c. decode e params rq = Inr c \<longrightarrow> call_endpoint c = e)"

subsection \<open>Serving a request\<close>

text \<open>The nested router sees the rest of the path and keeps the original URI aside.\<close>
definition nested :: "auth_request \<Rightarrow> auth_request" where
  "nested rq = rq\<lparr>rq_original_uri := Some (rq_uri rq),
     rq_uri := \<lparr>uri_path_and_query = map_option (drop 4) (uri_path_and_query (rq_uri rq)), uri_path = drop 4 (uri_path (rq_uri rq))\<rparr>\<rparr>"

datatype reply_kind =
    From_Api response | From_Probe nat "(string \<times> string) list" | From_Router nat | From_Files

text \<open>What authentication makes of a request under \<open>/api\<close>: a refusal, the router's 405, or a call of a key.\<close>
definition admit :: "lib \<Rightarrow> decoder \<Rightarrow> auth_env \<Rightarrow> auth_request \<Rightarrow> (endpoint \<times> string list) option \<Rightarrow> service \<Rightarrow>
    (reply_kind + ip_addr \<times> api_key \<times> call) \<times> service" where
  "admit l decode ae rq target sv =
     (let (res, st) = auth_middleware l ae (nested rq) (auth_part sv); sv1 = put_auth st sv in
      case res of
        Inl e \<Rightarrow> (Inl (From_Api (Refused e)), sv1)
      | Inr (ip, key) \<Rightarrow>
          (case target of
             None \<Rightarrow> (Inl (From_Router 405), sv1)
           | Some (e, params) \<Rightarrow>
               (case decode e params rq of
                  Inl err \<Rightarrow> (Inl (From_Api (Refused err)), sv1)
                | Inr c \<Rightarrow> (Inr (ip, key, c), sv1))))"

definition run_admitted :: "lib \<Rightarrow> readings \<Rightarrow> ip_addr \<Rightarrow> api_key \<Rightarrow> call \<Rightarrow> service \<Rightarrow> response \<times> service" where
  "run_admitted l rd ip key c sv =
     (let (r, ap) = run_call l (sv_cipher sv) (rd\<lparr>rd_env := (rd_env rd)\<lparr>e_client_ip := l_ip_str l ip\<rparr>\<rparr>) key c (app_part sv)
      in (r, put_app ap sv))"

definition handle_api :: "lib \<Rightarrow> decoder \<Rightarrow> auth_env \<Rightarrow> readings \<Rightarrow> auth_request \<Rightarrow> (endpoint \<times> string list) option \<Rightarrow> service \<Rightarrow>
    reply_kind \<times> service" where
  "handle_api l decode ae rd rq target sv =
     (case admit l decode ae rq target sv of
        (Inl r, sv1) \<Rightarrow> (r, sv1)
      | (Inr (ip, key, c), sv1) \<Rightarrow> (let (r, sv2) = run_admitted l rd ip key c sv1 in (From_Api r, sv2)))"

definition handle_request :: "lib \<Rightarrow> decoder \<Rightarrow> auth_env \<Rightarrow> readings \<Rightarrow> bool \<Rightarrow> auth_request \<Rightarrow> service \<Rightarrow> reply_kind \<times> service" where
  "handle_request l decode ae rd reachable rq sv =
     (case route (rq_method rq) (uri_path (rq_uri rq)) of
        Api e params \<Rightarrow> handle_api l decode ae rd rq (Some (e, params)) sv
      | Api_Other_Method \<Rightarrow> handle_api l decode ae rd rq None sv
      | Probe e \<Rightarrow>
          (let (status, body) = (if e = Health_Check then health_check else readiness_check reachable sv) in
           (From_Probe status body, sv))
      | Probe_Other_Method \<Rightarrow> (From_Router 405, sv)
      | Static_Files \<Rightarrow> (From_Files, sv))"

subsection \<open>The machine\<close>

record machine =
  mc_service :: service
  mc_inflight :: "(ip_addr \<times> api_key \<times> call) list"

text \<open>
  Between two steps any other may happen. A handler is one step: its transactions are atomic in the
  engine, its reads before them are taken at the same moment.
\<close>

inductive service_step :: "lib \<Rightarrow> machine \<Rightarrow> machine \<Rightarrow> bool" for l :: lib where
  arrive: "admit l decode ae rq target (mc_service m) = (Inr admitted, sv) \<Longrightarrow>
    service_step l m (m\<lparr>mc_service := sv, mc_inflight := mc_inflight m @ [admitted]\<rparr>)"
| refuse: "admit l decode ae rq target (mc_service m) = (Inl r, sv) \<Longrightarrow> service_step l m (m\<lparr>mc_service := sv\<rparr>)"
| run: "mc_inflight m = xs @ (ip, key, c) # ys \<Longrightarrow> run_admitted l rd ip key c (mc_service m) = (r, sv) \<Longrightarrow>
    service_step l m (m\<lparr>mc_service := sv, mc_inflight := xs @ ys\<rparr>)"
| take_event: "sv_queue (mc_service m) = ev # rest \<Longrightarrow> service_step l m (m\<lparr>mc_service := (mc_service m)\<lparr>sv_queue := rest\<rparr>\<rparr>)"
| log_delivery: "service_step l m (m\<lparr>mc_service := (mc_service m)\<lparr>sv_db := log_execution env ctx url s ok d b (sv_db (mc_service m))\<rparr>\<rparr>)"
| sweep: "purge_expired_ip_records l now days (sv_db (mc_service m)) = Some (n, db) \<Longrightarrow>
    service_step l m (m\<lparr>mc_service := (mc_service m)\<lparr>sv_db := db\<rparr>\<rparr>)"
| sweep_log: "purge_expired_webhook_executions l now s f (sv_db (mc_service m)) = Some (n, db) \<Longrightarrow>
    service_step l m (m\<lparr>mc_service := (mc_service m)\<lparr>sv_db := db\<rparr>\<rparr>)"
| shut_channel: "service_step l m (m\<lparr>mc_service := (mc_service m)\<lparr>sv_closed := True\<rparr>\<rparr>)"

inductive_cases service_stepE: "service_step l m m'"

lemmas service_step_split = service_stepE [consumes 1, case_names arrive refuse run take_event log_delivery sweep sweep_log shut_channel]

end
