(* ===== verification/System_Properties.thy ===== *)
theory System_Properties
  imports System Batch_Properties Auth_Properties Startup_Properties
begin

text \<open>
  What holds of the whole service: every call keeps the constraints of the schema and the bound of
  the queue; a request moves the access control state only as its caller's rights allow, and only a
  proven caller moves anything; and over all interleavings from the start the master stays what it is.
\<close>

subsection \<open>Every call keeps the constraints\<close>

lemma db_ok_batch_records_db [store_intros]: "db_ok db \<Longrightarrow> db_ok (snd (batch_records_db l env key payload db))"
proof (rule after_leavingD)
  assume ok: "db_ok db"
  have group: "resolve_batch_group env key n mode db = (r, d) \<Longrightarrow> db_ok d" for n mode r d
    using ok by (auto simp: resolve_batch_group_def attempt_def split: option.splits sum.splits if_splits elim: store_steps)
  show "after (leaving db_ok) (batch_records_db l env key payload db)"
    unfolding batch_records_db_def
  proof (intro after_rules, unfold leaving_def, goal_cases)
    case (6 normalized r d g x p sm rest events d')
    then show ?case using batch_transaction_step group by blast
  qed (rule ok | rule group, assumption)+
qed

lemma db_ok_purge_ip_records:
  "purge_ip_records l env key days var db = Some (r, db') \<Longrightarrow> db_ok db \<Longrightarrow> db_ok db'"
  by (auto simp: purge_ip_records_def attempt_def split: if_splits sum.splits option.splits prod.splits elim: store_steps)

lemma db_ok_purge_executions_with: "purge_executions_with b l now h db = Some (n, db') \<Longrightarrow> db_ok db \<Longrightarrow> db_ok db'"
  by (auto simp: purge_executions_with_def Let_def db_ok_delete_executions split: if_splits option.splits)

lemma db_ok_sweep_log:
  "purge_expired_webhook_executions l now s f db = Some (n, db') \<Longrightarrow> db_ok db \<Longrightarrow> db_ok db'"
  by (auto simp: purge_expired_webhook_executions_def split: option.splits) (blast dest: db_ok_purge_executions_with)

lemma respond_simps [simp]: "snd (reading f r ap) = ap" "snd (on_db f out ap) = ap\<lparr>a_db := snd out\<rparr>" "snd (on_app f out2) = snd out2"
  by (simp_all add: reading_def on_db_def on_app_def)

lemmas call_handlers = delete_ip_def batch_records_def handle_ban_def handle_white_def handle_ip_upsert_def

lemma run_call_db_ok: "db_ok (a_db ap) \<Longrightarrow> db_ok (a_db (snd (run_call l cipher rd key c ap)))"
  by (cases c) (auto simp: call_handlers split: option.splits intro!: store_intros elim: db_ok_purge_ip_records)

lemma with_events_other [simp]: "a_capacity (snd (with_events h ap)) = a_capacity ap" "a_closed (snd (with_events h ap)) = a_closed ap"
proof -
  have "a_capacity (enqueue_all evs ap) = a_capacity ap \<and> a_closed (enqueue_all evs ap) = a_closed ap" for evs ap
    unfolding enqueue_all_def by (induction evs arbitrary: ap) simp_all
  then show "a_capacity (snd (with_events h ap)) = a_capacity ap" "a_closed (snd (with_events h ap)) = a_closed ap"
    by (auto simp: with_events_def split: sum.splits prod.splits)
qed

lemma with_events_bounded:
  "length (a_queue ap) \<le> a_capacity ap \<Longrightarrow> length (a_queue (snd (with_events h ap))) \<le> a_capacity ap"
  using enqueue_all_bounded [of "ap\<lparr>a_db := d\<rparr>" for d] by (auto simp: with_events_def split: sum.splits prod.splits)

lemma run_call_channel:
  "a_capacity (snd (run_call l cipher rd key c ap)) = a_capacity ap \<and> a_closed (snd (run_call l cipher rd key c ap)) = a_closed ap \<and>
   (length (a_queue ap) \<le> a_capacity ap \<longrightarrow> length (a_queue (snd (run_call l cipher rd key c ap))) \<le> a_capacity ap)"
  by (cases c) (auto simp: call_handlers with_events_bounded split: option.splits)

subsection \<open>Every call stays within the rights of its caller\<close>

lemmas access_handlers = access_delete_ip_record access_restore_ip_record access_ip_delete access_reassign_group_owner
  access_create_webhook access_update_webhook access_clone_webhook access_delete_webhook access_reassign_webhook_owner
  access_test_webhook access_delete_webhook_execution

lemmas key_handlers = rights_create_api_key rights_update_api_key rights_rotate_api_key rights_rotate_signing_secret
  rights_update_key_group_permissions rights_revoke_key_group_permission rights_delete_ip_group

lemmas group_handlers = grown_create_ip_group grown_ip_upsert grown_batch_records_db

definition masters_parentless :: "db \<Rightarrow> bool" where
  "masters_parentless db \<longleftrightarrow> (\<forall>k\<in>set (api_keys db). k_is_master k \<longrightarrow> k_parent_key_id k = None)"

lemma run_call_rights:
  assumes "db_ok (a_db ap)" "masters_parentless (a_db ap)"
  shows "within_rights key (a_db ap) (a_db (snd (run_call l cipher rd key c ap)))"
proof -
  have purge: "purge_ip_records l env key days var (a_db ap) = Some (r, db') \<Longrightarrow> within_rights key (a_db ap) db'" for env days var r db'
    by (rule rights_access [OF access_purge_ip_records])
  note deletion = rights_delete_api_key [OF assms(1) assms(2) [unfolded masters_parentless_def]]
  show ?thesis
    using assms(1)
    by (cases c) (auto simp: call_handlers split: option.splits
        intro: key_handlers deletion rights_access access_handlers grown_rights group_handlers purge)
qed

subsection \<open>What admission leaves\<close>

lemma admit_parts:
  assumes "admit l decode ae rq target sv = (x, sv1)"
  shows "sv_db sv1 = sv_db sv \<and> sv_queue sv1 = sv_queue sv \<and> sv_capacity sv1 = sv_capacity sv \<and> sv_closed sv1 = sv_closed sv \<and>
    sv_cipher sv1 = sv_cipher sv \<and> (guard_ok (sv_replay sv) \<longrightarrow> guard_ok (sv_replay sv1)) \<and>
    (sv_pin sv = Some i \<longrightarrow> sv_pin sv1 = Some i)"
proof -
  obtain res st where run: "auth_middleware l ae (nested rq) (auth_part sv) = (res, st)" by fastforce
  then have sv1: "sv1 = put_auth st sv"
    using assms by (auto simp: admit_def Let_def split: sum.splits prod.splits option.splits)
  have "as_db st = as_db (auth_part sv) \<and> as_cipher st = as_cipher (auth_part sv) \<and> (guard_ok (sv_replay sv) \<longrightarrow> guard_ok (as_replay st))"
    using auth_after [of "auth_part sv" l ae "nested rq"] unfolding run after_def
    by (auto intro: guard_ok_check)
  moreover have "sv_pin sv = Some i \<Longrightarrow> as_pin st = Some i"
    using auth_pin [OF _ run] by simp
  ultimately show ?thesis by (simp add: sv1) (simp add: put_auth_def)
qed

text \<open>An admitted call is that of a row of the table which the request proves; as a master it acts only if it is pinned.\<close>

lemma admitted:
  assumes "admit l decode ae rq target sv = (Inr (ip, key, c), sv1)"
  obtains row digest e params where "proves_key l ae (nested rq) (auth_part sv) row digest"
    "fst (check_and_record (k_id row) digest (ae_instant ae) (sv_replay sv))"
    "key = row\<lparr>k_is_master := k_is_master row \<and> sv_pin sv1 = Some (k_id row)\<rparr>"
    "\<exists>nets. bound_networks l row = Inr nets \<and> (nets = [] \<or> list_ex (\<lambda>net. l_net_contains l net ip) nets)"
    "target = Some (e, params)" "decode e params rq = Inr c"
proof -
  obtain res st where run: "auth_middleware l ae (nested rq) (auth_part sv) = (res, st)" by fastforce
  then obtain e params where r: "res = Inr (ip, key)" "sv1 = put_auth st sv" "target = Some (e, params)" "decode e params rq = Inr c"
    using assms by (auto simp: admit_def Let_def split: sum.splits prod.splits option.splits)
  from auth_after [of "auth_part sv" l ae "nested rq"] run r(1)
  obtain row digest where "proves_key l ae (nested rq) (auth_part sv) row digest"
    "fst (check_and_record (k_id row) digest (ae_instant ae) (sv_replay sv))"
    "\<exists>nets. bound_networks l row = Inr nets \<and> (nets = [] \<or> list_ex (\<lambda>net. l_net_contains l net ip) nets)"
    "authenticate_pin (ae_has_index ae) (sv_db sv) (sv_pin sv) row = (key, as_pin st)"
    unfolding after_def by auto
  with r authenticate_pin_key that show thesis by simp
qed

lemma run_admitted_db:
  "snd (run_admitted l rd ip key c sv) =
     put_app (snd (run_call l (sv_cipher sv) (rd\<lparr>rd_env := (rd_env rd)\<lparr>e_client_ip := l_ip_str l ip\<rparr>\<rparr>) key c (app_part sv))) sv"
  by (simp add: run_admitted_def Let_def split: prod.split)

text \<open>A request either leaves what admission leaves, or runs one admitted call.\<close>

lemma handle_request_cases:
  assumes "handle_request l decode ae rd reachable rq sv = (r, sv')"
  obtains (idle) "sv' = sv" "\<nexists>a. r = From_Api a"
  | (turned_away) target where "admit l decode ae rq target sv = (Inl r, sv')"
  | (ran) e params ip key c sv1 a where "route (rq_method rq) (uri_path (rq_uri rq)) = Api e params"
      "admit l decode ae rq (Some (e, params)) sv = (Inr (ip, key, c), sv1)"
      "run_admitted l rd ip key c sv1 = (a, sv')" "r = From_Api a"
proof (cases "route (rq_method rq) (uri_path (rq_uri rq))")
  case (Api e params)
  obtain x sv1 where "admit l decode ae rq (Some (e, params)) sv = (x, sv1)" by fastforce
  then show thesis using assms Api turned_away ran
    by (cases x) (auto simp: handle_request_def handle_api_def split: prod.splits)
next
  case Api_Other_Method
  obtain x sv1 where a: "admit l decode ae rq None sv = (x, sv1)" by fastforce
  then have "\<exists>y. x = Inl y" by (auto simp: admit_def Let_def split: sum.splits prod.splits)
  then show thesis using assms Api_Other_Method turned_away a
    by (auto simp: handle_request_def handle_api_def split: prod.splits)
qed (use assms idle in \<open>auto simp: handle_request_def Let_def split: prod.splits\<close>)

subsection \<open>A request is a step of the access control specification\<close>

text \<open>The abstract state of a service: only the pinned key counts as a master, whatever the rows say.\<close>
definition access_state :: "service \<Rightarrow> rbac" where
  "access_state sv = (rbac_of (sv_db sv))\<lparr>rb_masters := set_option (sv_pin sv)\<rparr>"

lemma find_key_by_hash_row:
  assumes "db_ok db" "find_key_by_hash h db = Some row"
  shows "find_key (k_id row) db = Some row"
  using assms by (auto simp: find_key_by_hash_def intro!: find_key_in dest: row_find_SomeD)

lemma proves_key_row: "proves_key l ae rq st row digest \<Longrightarrow> db_ok (as_db st) \<Longrightarrow> find_key (k_id row) (as_db st) = Some row"
  using find_key_by_hash_row unfolding proves_key_def by blast

lemma rights_are_pinned_steps:
  assumes "within_rights key db db'" "find_key (k_id key) db = Some row" "key_scopes key = key_scopes row"
    and "k_is_master key \<Longrightarrow> k_id key \<in> M"
  shows "rbac_step (k_id key) ((rbac_of db)\<lparr>rb_masters := M\<rparr>) ((rbac_of db')\<lparr>rb_masters := M\<rparr>)"
proof -
  have "Manage_Keys \<in> scopes_of db (k_id key) \<longleftrightarrow> k_can_manage_keys key"
    "Create_Groups \<in> scopes_of db (k_id key) \<longleftrightarrow> k_can_create_groups key"
    using assms(2,3) by (auto simp: scopes_of_def simp flip: key_scopes_iff)
  then show ?thesis
    using assms(1,4) unfolding rbac_step_def within_rights_def
    by (auto simp: rbac_of_def may_hold_def scopes_within_def)
qed

lemma key_scopes_master [simp]: "key_scopes (k\<lparr>k_is_master := b\<rparr>) = key_scopes k"
  by (simp add: key_scopes_def)

text \<open>
  C1 Non-escalation, end to end: whatever a request to the service is, the access control state it
  leaves is the one it found, or the caller has proven possession of a key's secret by a fresh
  signature over this request and the change is a step that the specification allows that key: no
  scope grows, no verb is passed on that the caller does not hold with management of the group, a new
  group gives its creator no management. Only the pinned key is exempt, and the rows that claim
  mastery are never touched.
\<close>

theorem request_is_an_access_step:
  assumes "db_ok (sv_db sv)" "masters_parentless (sv_db sv)" "sv_pin sv = Some m"
  shows "case handle_request l decode ae rd reachable rq sv of (r, sv') \<Rightarrow>
    rb_masters (rbac_of (sv_db sv')) = rb_masters (rbac_of (sv_db sv)) \<and>
    (access_state sv' = access_state sv \<or>
     (\<exists>key digest. proves_key l ae (nested rq) (auth_part sv) key digest \<and>
        fst (check_and_record (k_id key) digest (ae_instant ae) (sv_replay sv)) \<and>
        rbac_step (k_id key) (access_state sv) (access_state sv')))"
proof (cases "handle_request l decode ae rd reachable rq sv")
  case (Pair r sv')
  then show ?thesis
  proof (cases rule: handle_request_cases)
    case (turned_away target)
    then show ?thesis using Pair admit_parts [OF turned_away, of m] assms(3) by (simp add: access_state_def)
  next
    case (ran e params ip key c sv1 a)
    obtain row digest where row: "proves_key l ae (nested rq) (auth_part sv) row digest"
      "fst (check_and_record (k_id row) digest (ae_instant ae) (sv_replay sv))"
      "key = row\<lparr>k_is_master := k_is_master row \<and> sv_pin sv1 = Some (k_id row)\<rparr>"
      by (rule admitted [OF ran(2)])
    have sv1: "sv_db sv1 = sv_db sv" "sv_pin sv1 = Some m" using admit_parts [OF ran(2), of m] assms(3) by simp_all
    have "sv_pin sv' = Some m" "within_rights key (sv_db sv) (sv_db sv')"
      using run_admitted_db [of l rd ip key c sv1] run_call_rights [of "app_part sv1"] ran(3) sv1 assms by simp_all
    then have "rbac_step (k_id row) (access_state sv) (access_state sv')" "master_rows (sv_db sv') = master_rows (sv_db sv)"
      using rights_are_pinned_steps [of key "sv_db sv" "sv_db sv'" row "{m}"] proves_key_row [OF row(1)] row(3) assms sv1
      by (auto simp: access_state_def within_rights_def)
    moreover have "rb_masters (rbac_of (sv_db sv')) = rb_masters (rbac_of (sv_db sv))"
      using calculation(2) by (simp only: rbac_of_def rbac.simps master_ids)
    ultimately show ?thesis using Pair row(1,2) by auto
  qed (use Pair in simp)
qed

subsection \<open>Nothing happens without a proof\<close>


subsection \<open>Calls and the schema\<close>


subsection \<open>All interleavings\<close>

lemma masters_parentless_rows: "masters_parentless db \<longleftrightarrow> (\<forall>k\<in>set (master_rows db). k_parent_key_id k = None)"
  by (auto simp: masters_parentless_def master_rows_def frozen_def)

text \<open>What every state of the machine keeps of the service it started from.\<close>
definition machine_ok :: "service \<Rightarrow> machine \<Rightarrow> bool" where
  "machine_ok sv0 m \<longleftrightarrow>
     (let sv = mc_service m in
      db_ok (sv_db sv) \<and> master_rows (sv_db sv) = master_rows (sv_db sv0) \<and> sv_pin sv = sv_pin sv0 \<and>
      sv_cipher sv = sv_cipher sv0 \<and> sv_capacity sv = sv_capacity sv0 \<and> length (sv_queue sv) \<le> sv_capacity sv \<and>
      guard_ok (sv_replay sv) \<and>
      (\<forall>(ip, key, c) \<in> set (mc_inflight m). k_is_master key \<longrightarrow> sv_pin sv0 = Some (k_id key)))"

lemma machine_ok_db:
  assumes "machine_ok sv0 m" "db_ok db" "api_keys db = api_keys (sv_db (mc_service m))"
  shows "machine_ok sv0 (m\<lparr>mc_service := (mc_service m)\<lparr>sv_db := db\<rparr>\<rparr>)"
  using assms master_rows_cong [OF assms(3)] by (simp add: machine_ok_def Let_def)

lemma service_step_ok:
  assumes "service_step l m m'" "machine_ok sv0 m" "masters_parentless (sv_db sv0)" "sv_pin sv0 = Some i"
  shows "machine_ok sv0 m'"
  using assms(1)
proof (cases rule: service_step_split)
  case (arrive decode ae rq target ad sv)
  obtain ip key c where ad: "ad = (ip, key, c)" by (cases ad)
  obtain row where "key = row\<lparr>k_is_master := k_is_master row \<and> sv_pin sv = Some (k_id row)\<rparr>"
    by (rule admitted [OF arrive(2) [unfolded ad]])
  then have "k_is_master key \<Longrightarrow> sv_pin sv = Some (k_id key)" by simp
  then show ?thesis
    using arrive admit_parts [OF arrive(2), of i] assms(2,4) ad by (auto simp: machine_ok_def Let_def)
next
  case (refuse decode ae rq target r sv)
  then show ?thesis using admit_parts [OF refuse(2), of i] assms(2,4) by (auto simp: machine_ok_def Let_def)
next
  case (run xs ip key c ys rd r sv)
  let ?sv = "mc_service m"
  define rd' where "rd' = rd\<lparr>rd_env := (rd_env rd)\<lparr>e_client_ip := l_ip_str l ip\<rparr>\<rparr>"
  have sv: "sv = put_app (snd (run_call l (sv_cipher ?sv) rd' key c (app_part ?sv))) ?sv"
    using run_admitted_db [of l rd ip key c ?sv] run(3) by (simp add: rd'_def)
  have ok: "db_ok (sv_db ?sv)" "masters_parentless (sv_db ?sv)"
    using assms(2,3) by (simp_all add: machine_ok_def masters_parentless_rows Let_def)
  have "db_ok (sv_db sv)" "master_rows (sv_db sv) = master_rows (sv_db ?sv)"
    using run_call_db_ok [of "app_part ?sv"] run_call_rights [of "app_part ?sv" key] ok by (simp_all add: sv within_rights_def)
  moreover have "sv_capacity sv = sv_capacity ?sv" "length (sv_queue sv) \<le> sv_capacity ?sv"
    using run_call_channel [of l "sv_cipher ?sv" rd' key c "app_part ?sv"] assms(2)
    by (simp_all add: sv machine_ok_def Let_def)
  moreover have "sv_pin sv = sv_pin ?sv" "sv_cipher sv = sv_cipher ?sv" "sv_replay sv = sv_replay ?sv" by (simp_all add: sv)
  ultimately show ?thesis using assms(2) run(1,2) by (auto simp: machine_ok_def Let_def)
next
  case (log_delivery env ctx url s ok d b)
  have "api_keys (log_execution env ctx url s ok d b db) = api_keys db" for db
    using access_ofD(1) [OF access_log_execution [OF refl]] .
  then show ?thesis
    using log_delivery machine_ok_db [OF assms(2)] db_ok_log_execution assms(2) by (simp add: machine_ok_def Let_def)
next
  case (sweep now days n db)
  then show ?thesis
    using machine_ok_db [OF assms(2)] db_ok_purge_expired_ip_records purge_expired_ip_records_keys assms(2)
    by (metis machine_ok_def)
next
  case (sweep_log now s f n db)
  have "api_keys db = api_keys (sv_db (mc_service m))"
    using sweep_log(2) by (auto simp: purge_expired_webhook_executions_def purge_executions_with_def Let_def delete_executions_def
        split: if_splits option.splits)
  then show ?thesis using machine_ok_db [OF assms(2)] db_ok_sweep_log sweep_log assms(2) by (metis machine_ok_def)
qed (use assms(2) in \<open>auto simp: machine_ok_def Let_def\<close>)

lemma reachable_machine_ok:
  assumes "(service_step l)\<^sup>*\<^sup>* m0 m" "machine_ok sv0 m0" "masters_parentless (sv_db sv0)" "sv_pin sv0 = Some i"
  shows "machine_ok sv0 m"
  using assms by (induction rule: rtranclp_induct) (auto intro: service_step_ok)

text \<open>
  C3 The master stays what it was at the start: in every state that the running service can reach, with
  any number of requests between authentication and handler, deliveries logged and sweeps run in
  between, exactly one row claims mastery, it is the pinned one, and of its columns only the address
  binding and the modification time can differ from the start; no call in flight acts as any other
  master; the schema's constraints hold, the replay guard has one entry per signature, and the queue
  is within its capacity.
\<close>

theorem master_survives_every_interleaving:
  assumes "boot l be = Inr started" "\<forall>url db. be_database be url = Inr db \<longrightarrow> db_ok db \<and> masters_parentless db"
    and "(service_step l)\<^sup>*\<^sup>* \<lparr>mc_service = run_service started, mc_inflight = []\<rparr> m"
  shows "\<exists>k0 k. filter k_is_master (api_keys (sv_db (run_service started))) = [k0] \<and>
    filter k_is_master (api_keys (sv_db (mc_service m))) = [k] \<and> frozen k = frozen k0 \<and> sv_pin (mc_service m) = Some (k_id k) \<and>
    (\<forall>(ip, key, c) \<in> set (mc_inflight m). k_is_master key \<longrightarrow> k_id key = k_id k) \<and>
    db_ok (sv_db (mc_service m)) \<and> guard_ok (sv_replay (mc_service m)) \<and>
    length (sv_queue (mc_service m)) \<le> sv_capacity (run_service started)"
proof -
  let ?sv = "run_service started"
  have "\<forall>url db. be_database be url = Inr db \<longrightarrow> db_ok db" using assms(2) by blast
  note sound = started_service_is_sound [OF assms(1) this]
  then obtain k0 where k0: "filter k_is_master (api_keys (sv_db ?sv)) = [k0]" "sv_pin ?sv = Some (k_id k0)" by blast
  have parentless: "masters_parentless (sv_db ?sv)"
  proof (rule boot_InrD [OF assms(1)])
    fix cipher db db1 sv
    assume s: "be_database be (unwrap_or DEFAULT_DATABASE_URL (be_vars be ''DATABASE_URL'')) = Inr db"
      "bootstrap_master_key l (be_vars be) cipher (be_env be) db = Inr db1"
      "setup_state l (be_vars be) (be_instant be) db1 = Inr (sv, run_pool started)"
      "run_service started = sv\<lparr>sv_pin := snd (pin_at_boot (be_has_index be) db1 (sv_pin sv))\<rparr>"
    have "masters_parentless db" using assms(2) s(1) by blast
    then have "masters_parentless db1"
      using bootstrap_InrD [OF s(2)] by (auto simp: masters_parentless_def master_row_def dest!: insert_key_InrD)
    then show ?thesis using s(3,4) setup_state_InrD by simp
  qed
  have guard: "guard_ok (sv_replay ?sv)"
    using sound by (simp add: guard_ok_def)
  have "machine_ok ?sv \<lparr>mc_service = ?sv, mc_inflight = []\<rparr>" using sound guard by (simp add: machine_ok_def)
  from reachable_machine_ok [OF assms(3) this parentless k0(2)] have ok: "machine_ok ?sv m" .
  then have "map frozen (filter k_is_master (api_keys (sv_db (mc_service m)))) = [frozen k0]"
    using k0(1) by (simp add: machine_ok_def Let_def master_rows_def)
  then obtain k where k: "filter k_is_master (api_keys (sv_db (mc_service m))) = [k]" "frozen k = frozen k0" by auto
  then have "k_id k = k_id k0" by (metis k_id_frozen)
  then show ?thesis using ok k k0 unfolding machine_ok_def Let_def by (auto simp del: k_id_frozen)
qed

subsection \<open>A served request\<close>

definition created_payload :: create_group_payload where
  "created_payload = \<lparr>cg_name = ''edge'', cg_group_type = None\<rparr>"

text \<open>Whatever the body of a group creation says, this decoder reads it as one payload.\<close>
definition demo_decode :: decoder where
  "demo_decode e params rq = (if e = Create_Ip_Group then Inr (Call_Create_Ip_Group created_payload) else Inl NotFound)"

definition group_request :: auth_request where
  "group_request = first_request\<lparr>rq_method := ''POST'',
     rq_uri := \<lparr>uri_path_and_query = Some ''/api/groups'', uri_path = ''/api/groups''\<rparr>,
     rq_signature := Some (projr (compute_signature demo_lib (master_secret demo_lib (be_vars demo_boot) demo_env)
       ''POST'' ''/api/groups'' ''1800000000'' []))\<rparr>"

definition demo_readings :: readings where
  "demo_readings = \<lparr>rd_env = demo_env\<lparr>e_uuid := (\<lambda>n. word_of_nat (n + 40))\<rparr>, rd_ids = [], rd_dns = (\<lambda>h p. None), rd_client = Inl [],
     rd_vars = Map.empty\<rparr>"

abbreviation demo_reply :: "reply_kind \<times> service" where
  "demo_reply \<equiv> handle_request demo_lib demo_decode ((auth_clock 1800000000 9)\<lparr>ae_max_body := 1000\<rparr>) demo_readings True group_request
     (run_service demo_run)"

lemma demo_reply_runs: "(\<exists>a. fst demo_reply = From_Api (Answered a)) \<and> map g_name (ip_groups (sv_db (snd demo_reply))) = [''edge'']"
proof -
  have "case demo_reply of (From_Api (Answered a), sv) \<Rightarrow> map g_name (ip_groups (sv_db sv)) = [''edge''] | _ \<Rightarrow> False" by code_simp
  then show ?thesis by (auto split: prod.splits reply_kind.splits response.splits)
qed


lemma demo_run_parts:
  "masters_parentless (sv_db (run_service demo_run))" "sv_pin (run_service demo_run) = Some (e_uuid demo_env 0)"
  unfolding masters_parentless_def by code_simp+

lemma demo_run_db_ok: "db_ok (sv_db (run_service demo_run))"
proof -
  have "\<forall>url db. be_database demo_boot url = Inr db \<longrightarrow> db_ok db" by (simp add: demo_boot_def db_ok_empty)
  from started_service_is_sound [OF demo_boots this] show ?thesis by blast
qed

theorem request_is_an_access_step_witness:
  "(\<exists>a. fst demo_reply = From_Api (Answered a)) \<and> map g_name (ip_groups (sv_db (snd demo_reply))) = [''edge''] \<and>
   rb_masters (rbac_of (sv_db (snd demo_reply))) = rb_masters (rbac_of (sv_db (run_service demo_run)))"
  using request_is_an_access_step [OF demo_run_db_ok demo_run_parts, where l = demo_lib and decode = demo_decode
      and ae = "(auth_clock 1800000000 9)\<lparr>ae_max_body := 1000\<rparr>" and rd = demo_readings and reachable = True and rq = group_request]
    demo_reply_runs
  by (simp add: split_beta)



text \<open>The sample in the machine: the request is admitted and becomes a call in flight, then the handler runs.\<close>

theorem master_survives_every_interleaving_witness:
  "\<exists>k0 m k. (service_step demo_lib)\<^sup>*\<^sup>* \<lparr>mc_service = run_service demo_run, mc_inflight = []\<rparr> m \<and>
     map g_name (ip_groups (sv_db (mc_service m))) = [''edge''] \<and>
     filter k_is_master (api_keys (sv_db (run_service demo_run))) = [k0] \<and>
     filter k_is_master (api_keys (sv_db (mc_service m))) = [k] \<and> frozen k = frozen k0"
proof -
  let ?m0 = "\<lparr>mc_service = run_service demo_run, mc_inflight = []\<rparr>" and ?m2 = "\<lparr>mc_service = snd demo_reply, mc_inflight = []\<rparr>"
  have "masters_parentless empty_db" by (simp add: masters_parentless_def empty_db_def)
  then have base: "\<forall>url db. be_database demo_boot url = Inr db \<longrightarrow> db_ok db \<and> masters_parentless db"
    by (simp add: demo_boot_def db_ok_empty)
  have "demo_reply = (fst demo_reply, snd demo_reply)" by simp
  then have "(service_step demo_lib)\<^sup>*\<^sup>* ?m0 ?m2"
  proof (cases rule: handle_request_cases)
    case (ran e params ip key c sv1 a)
    have "service_step demo_lib ?m0 (?m0\<lparr>mc_service := sv1, mc_inflight := mc_inflight ?m0 @ [(ip, key, c)]\<rparr>)"
      by (rule arrive) (use ran(2) in simp)
    moreover have "service_step demo_lib (?m0\<lparr>mc_service := sv1, mc_inflight := mc_inflight ?m0 @ [(ip, key, c)]\<rparr>)
        ((?m0\<lparr>mc_service := sv1, mc_inflight := mc_inflight ?m0 @ [(ip, key, c)]\<rparr>)\<lparr>mc_service := snd demo_reply, mc_inflight := [] @ []\<rparr>)"
      by (rule run) (use ran(3) in simp_all)
    ultimately show ?thesis by (simp add: converse_rtranclp_into_rtranclp)
  next
    case (turned_away target)
    then have "\<nexists>a. fst demo_reply = From_Api (Answered a)" by (auto simp: admit_def Let_def split: sum.splits prod.splits option.splits)
    then show ?thesis using demo_reply_runs by blast
  qed (use demo_reply_runs in auto)
  from master_survives_every_interleaving [OF demo_boots base this] this demo_reply_runs show ?thesis by fastforce
qed

end
