(* ===== verification/Schema_Names.thy ===== *)
theory Schema_Names
  imports Main
begin

text \<open>
  The identifiers of the schema: tables and columns as the \<open>DeriveIden\<close> enumerations of
  \<open>src/migration\<close> declare them, and the names of the indexes.
\<close>

datatype table_name =
    Tb_Ip_Groups | Tb_Ip_Records | Tb_Ip_Record_Group_Memberships | Tb_Api_Keys
  | Tb_Api_Key_Group_Permissions | Tb_Webhook_Configs | Tb_Audit_Logs | Tb_Audit_Logs_Rebuild
  | Tb_Webhook_Executions

datatype (plugins only: code) column_name =
    Col_Id | Col_Name | Col_Group_Type | Col_Description | Col_Created_At
  | Col_Target_Address | Col_Cause | Col_Is_Locked | Col_Updated_At | Col_Last_Seen_At
  | Col_Ip_Record_Id | Col_Group_Id | Col_Key_Hash | Col_Prefix | Col_Bound_Ips
  | Col_Is_Master | Col_Can_Manage_Keys | Col_Can_Manage_Webhooks | Col_Can_Create_Groups | Col_Api_Key_Id
  | Col_Can_Read | Col_Can_Write | Col_Can_Delete | Col_Target_Url | Col_Secret_Token
  | Col_Headers_Json | Col_Payload_Template | Col_Is_Active | Col_Events | Col_Api_Key_Name
  | Col_Api_Key_Prefix | Col_Client_Ip | Col_Action | Col_Group_Names | Col_Details
  | Col_Timestamp | Col_Signing_Secret | Col_Signature_Mode | Col_Auth_Mode | Col_Api_Key
  | Col_Hmac_Template | Col_Is_Deleted | Col_Deleted_At | Col_Deleted_By | Col_Can_Manage
  | Col_Master_Marker | Col_Parent_Key_Id | Col_Owner_Key_Id | Col_Signature_Header | Col_Signature_Prefix
  | Col_Webhook_Id | Col_Event_Type | Col_Status_Code | Col_Is_Success | Col_Duration_Ms
  | Col_Error_Message | Col_Response_Body | Col_Resolved_Target_Url

datatype (plugins only: code) index_name =
    Ix_Api_Keys_Prefix | Ix_Akgp_Api_Key_Id_Group_Id | Ix_Audit_Logs_Action
  | Ix_Audit_Logs_Timestamp | Ix_Ip_Records_Last_Seen_At | Ix_Ip_Records_Is_Deleted
  | Ix_Ip_Records_Deleted_At | Ix_Api_Keys_Master_Marker | Ix_Api_Keys_Parent_Key_Id
  | Ix_Ip_Groups_Owner_Key_Id | Ix_Webhook_Configs_Owner_Key_Id | Ix_Akgp_Group_Id
  | Ix_Api_Keys_Key_Hash | Ix_Ip_Records_Updated_At | Ix_Webhook_Executions_Webhook_Id
  | Ix_Webhook_Executions_Created_At | Ix_Webhook_Executions_Is_Success_Created_At | Ix_Ip_Records_Deleted_Updated
  | Ix_Group_Memberships_Lookup

text \<open>The names as they are spelt in the database.\<close>
primrec index_text :: "index_name \<Rightarrow> string" where
  "index_text Ix_Api_Keys_Prefix = ''idx-api_keys-prefix''"
| "index_text Ix_Akgp_Api_Key_Id_Group_Id = ''idx-akgp-api_key_id-group_id''"
| "index_text Ix_Audit_Logs_Action = ''idx-audit_logs-action''"
| "index_text Ix_Audit_Logs_Timestamp = ''idx-audit_logs-timestamp''"
| "index_text Ix_Ip_Records_Last_Seen_At = ''idx-ip_records-last_seen_at''"
| "index_text Ix_Ip_Records_Is_Deleted = ''idx_ip_records_is_deleted''"
| "index_text Ix_Ip_Records_Deleted_At = ''idx_ip_records_deleted_at''"
| "index_text Ix_Api_Keys_Master_Marker = ''idx-api_keys-master_marker''"
| "index_text Ix_Api_Keys_Parent_Key_Id = ''idx-api_keys-parent_key_id''"
| "index_text Ix_Ip_Groups_Owner_Key_Id = ''idx-ip_groups-owner_key_id''"
| "index_text Ix_Webhook_Configs_Owner_Key_Id = ''idx-webhook_configs-owner_key_id''"
| "index_text Ix_Akgp_Group_Id = ''idx-akgp-group_id''"
| "index_text Ix_Api_Keys_Key_Hash = ''idx-api_keys-key_hash''"
| "index_text Ix_Ip_Records_Updated_At = ''idx-ip_records-updated_at''"
| "index_text Ix_Webhook_Executions_Webhook_Id = ''idx-webhook_executions-webhook_id''"
| "index_text Ix_Webhook_Executions_Created_At = ''idx-webhook_executions-created_at''"
| "index_text Ix_Webhook_Executions_Is_Success_Created_At = ''idx-webhook_executions-is_success-created_at''"
| "index_text Ix_Ip_Records_Deleted_Updated = ''idx_ip_records_deleted_updated''"
| "index_text Ix_Group_Memberships_Lookup = ''idx_group_memberships_lookup''"

lemma index_text_injective: "index_text i = index_text j \<Longrightarrow> i = j"
  by (cases i; cases j) simp_all

end
