(* ===== verification/Sql_Schema.thy ===== *)
theory Sql_Schema
  imports Prelude Schema_Names
begin

text \<open>
  The part of SQL's data definition that the migrations are written in (\<open>src/migration\<close>): tables
  with columns, keys and rows, indexes, and the statements that change them. A statement fails on a
  missing or duplicate name, on dropping a column that an index or a key uses, and when rows would
  violate a constraint; a failed statement changes nothing. Two nulls never collide in a unique index.
\<close>

subsection \<open>Values, columns, tables\<close>

datatype sql_value = V_Null | V_Bool bool | V_Text string | V_Int int | V_Uuid nat | V_Time int

datatype sql_type = T_Uuid | T_String | T_Text | T_Boolean | T_Date_Time | T_Integer

text \<open>\<open>cl_derived = Some d\<close>: generated always as \<open>CASE WHEN d THEN 1 ELSE NULL END\<close>.\<close>
record column =
  cl_name :: column_name
  cl_type :: sql_type
  cl_not_null :: bool
  cl_default :: "sql_value option"
  cl_derived :: "column_name option"

datatype fk_action = Cascade | Set_Null | No_Action

record foreign_key =
  fk_name :: string
  fk_column :: column_name
  fk_table :: table_name
  fk_target :: column_name
  fk_delete :: fk_action
  fk_update :: fk_action

text \<open>A row gives every column a value; a column that a table does not have is null.\<close>
type_synonym row = "column_name \<Rightarrow> sql_value"

record sql_table =
  tb_name :: table_name
  tb_columns :: "column list"
  tb_unique :: "column_name list list"
  tb_foreign :: "foreign_key list"
  tb_rows :: "row list"

record sql_index =
  ix_name :: index_name
  ix_table :: table_name
  ix_columns :: "column_name list"
  ix_unique :: bool

record catalog =
  ct_tables :: "sql_table list"
  ct_indexes :: "sql_index list"

definition empty_catalog :: catalog where
  "empty_catalog = \<lparr>ct_tables = [], ct_indexes = []\<rparr>"

definition find_table :: "table_name \<Rightarrow> catalog \<Rightarrow> sql_table option" where
  "find_table n ct = List.find (\<lambda>t. tb_name t = n) (ct_tables ct)"

definition put_table :: "sql_table \<Rightarrow> catalog \<Rightarrow> catalog" where
  "put_table t ct = ct\<lparr>ct_tables := map (\<lambda>u. if tb_name u = tb_name t then t else u) (ct_tables ct)\<rparr>"

definition find_column :: "column_name \<Rightarrow> sql_table \<Rightarrow> column option" where
  "find_column c t = List.find (\<lambda>x. cl_name x = c) (tb_columns t)"

definition has_index :: "table_name \<Rightarrow> index_name \<Rightarrow> catalog \<Rightarrow> bool" where
  "has_index table_name index_name ct = (0 < length (filter (\<lambda>i. ix_name i = index_name \<and> ix_table i = table_name) (ct_indexes ct)))"

subsection \<open>Constraints\<close>

definition value_of :: "sql_table \<Rightarrow> row \<Rightarrow> column_name \<Rightarrow> sql_value" where
  "value_of t r c =
     (case find_column c t of
        None \<Rightarrow> V_Null
      | Some x \<Rightarrow> (case cl_derived x of None \<Rightarrow> r c | Some d \<Rightarrow> (if r d = V_Bool True then V_Int 1 else V_Null)))"

definition keys_distinct :: "sql_table \<Rightarrow> column_name list \<Rightarrow> bool" where
  "keys_distinct t cs = distinct (filter (\<lambda>vs. V_Null \<notin> set vs) (map (\<lambda>r. map (value_of t r) cs) (tb_rows t)))"

definition row_complete :: "sql_table \<Rightarrow> row \<Rightarrow> bool" where
  "row_complete t r = list_all (\<lambda>x. \<not> cl_not_null x \<or> r (cl_name x) \<noteq> V_Null) (tb_columns t)"

definition unique_keys :: "catalog \<Rightarrow> sql_table \<Rightarrow> column_name list list" where
  "unique_keys ct t = tb_unique t @ map ix_columns (filter (\<lambda>i. ix_table i = tb_name t \<and> ix_unique i) (ct_indexes ct))"

definition table_valid :: "catalog \<Rightarrow> sql_table \<Rightarrow> bool" where
  "table_valid ct t = (list_all (row_complete t) (tb_rows t) \<and> list_all (keys_distinct t) (unique_keys ct t))"

subsection \<open>Statements\<close>

datatype sql_error =
    No_Such_Table table_name | No_Such_Column column_name | No_Such_Index index_name
  | Table_Exists table_name | Column_Exists column_name | Index_Exists index_name
  | Table_In_Use table_name | Column_In_Use column_name
  | Violation table_name | Key_Violation index_name | Null_Violation column_name

datatype statement =
    Create_Table bool sql_table
  | Create_Index bool sql_index
  | Drop_Index index_name table_name
  | Add_Column table_name column
  | Add_Column_If_Missing table_name column
  | Drop_Column table_name column_name
  | Rename_Column table_name column_name column_name
  | Modify_Column table_name column
  | Drop_Table table_name
  | Rename_Table table_name table_name
  | Update_Set table_name column_name "row \<Rightarrow> sql_value" "row \<Rightarrow> bool"
  | Insert_Select table_name table_name "column_name list"

definition on_table :: "table_name \<Rightarrow> (sql_table \<Rightarrow> sql_error + catalog) \<Rightarrow> catalog \<Rightarrow> sql_error + catalog" where
  "on_table n f ct = (case find_table n ct of None \<Rightarrow> Inl (No_Such_Table n) | Some t \<Rightarrow> f t)"

definition settle :: "sql_table \<Rightarrow> catalog \<Rightarrow> sql_error + catalog" where
  "settle t ct = (if table_valid ct t then Inr (put_table t ct) else Inl (Violation (tb_name t)))"

definition column_in_use :: "column_name \<Rightarrow> sql_table \<Rightarrow> catalog \<Rightarrow> bool" where
  "column_in_use c t ct =
     (list_ex (\<lambda>i. ix_table i = tb_name t \<and> c \<in> set (ix_columns i)) (ct_indexes ct) \<or>
      list_ex (\<lambda>k. c \<in> set k) (tb_unique t) \<or> list_ex (\<lambda>f. fk_column f = c) (tb_foreign t) \<or>
      list_ex (\<lambda>x. cl_derived x = Some c) (tb_columns t))"

definition add_column :: "sql_table \<Rightarrow> column \<Rightarrow> catalog \<Rightarrow> sql_error + catalog" where
  "add_column t x ct =
     (if find_column (cl_name x) t \<noteq> None then Inl (Column_Exists (cl_name x))
      else if cl_not_null x \<and> cl_default x = None then Inl (Null_Violation (cl_name x))
      else Inr (put_table (t\<lparr>tb_columns := tb_columns t @ [x],
             tb_rows := map (\<lambda>r. r(cl_name x := unwrap_or V_Null (cl_default x))) (tb_rows t)\<rparr>) ct))"

definition swap_name :: "'a \<Rightarrow> 'a \<Rightarrow> 'a \<Rightarrow> 'a" where
  "swap_name old new n = (if n = old then new else n)"

fun run_statement :: "statement \<Rightarrow> catalog \<Rightarrow> sql_error + catalog" where
  "run_statement (Create_Table lenient t) ct =
     (if find_table (tb_name t) ct \<noteq> None then (if lenient then Inr ct else Inl (Table_Exists (tb_name t)))
      else Inr (ct\<lparr>ct_tables := ct_tables ct @ [t]\<rparr>))"
| "run_statement (Create_Index lenient i) ct =
     on_table (ix_table i) (\<lambda>t.
       if list_ex (\<lambda>j. ix_name j = ix_name i) (ct_indexes ct) then (if lenient then Inr ct else Inl (Index_Exists (ix_name i)))
       else if list_ex (\<lambda>c. find_column c t = None) (ix_columns i) then Inl (No_Such_Column (hd (filter (\<lambda>c. find_column c t = None) (ix_columns i))))
       else if ix_unique i \<and> \<not> keys_distinct t (ix_columns i) then Inl (Key_Violation (ix_name i))
       else Inr (ct\<lparr>ct_indexes := ct_indexes ct @ [i]\<rparr>)) ct"
| "run_statement (Drop_Index n table_name) ct =
     (if has_index table_name n ct then Inr (ct\<lparr>ct_indexes := filter (\<lambda>i. \<not> (ix_name i = n \<and> ix_table i = table_name)) (ct_indexes ct)\<rparr>)
      else Inl (No_Such_Index n))"
| "run_statement (Add_Column n x) ct = on_table n (\<lambda>t. add_column t x ct) ct"
| "run_statement (Add_Column_If_Missing n x) ct =
     on_table n (\<lambda>t. if find_column (cl_name x) t \<noteq> None then Inr ct else add_column t x ct) ct"
| "run_statement (Drop_Column n c) ct =
     on_table n (\<lambda>t.
       if find_column c t = None then Inl (No_Such_Column c)
       else if column_in_use c t ct then Inl (Column_In_Use c)
       else Inr (put_table (t\<lparr>tb_columns := filter (\<lambda>x. cl_name x \<noteq> c) (tb_columns t),
              tb_rows := map (\<lambda>r. r(c := V_Null)) (tb_rows t)\<rparr>) ct)) ct"
| "run_statement (Rename_Column n old new) ct =
     on_table n (\<lambda>t.
       if find_column old t = None then Inl (No_Such_Column old)
       else if find_column new t \<noteq> None then Inl (Column_Exists new)
       else if column_in_use old t ct then Inl (Column_In_Use old)
       else Inr (put_table (t\<lparr>tb_columns := map (\<lambda>x. x\<lparr>cl_name := swap_name old new (cl_name x)\<rparr>) (tb_columns t),
              tb_rows := map (\<lambda>r. r(new := r old, old := V_Null)) (tb_rows t)\<rparr>) ct)) ct"
| "run_statement (Modify_Column n x) ct =
     on_table n (\<lambda>t.
       if find_column (cl_name x) t = None then Inl (No_Such_Column (cl_name x))
       else settle (t\<lparr>tb_columns := map (\<lambda>y. if cl_name y = cl_name x then x else y) (tb_columns t)\<rparr>) ct) ct"
| "run_statement (Drop_Table n) ct =
     on_table n (\<lambda>t.
       if list_ex (\<lambda>u. tb_name u \<noteq> n \<and> list_ex (\<lambda>f. fk_table f = n) (tb_foreign u)) (ct_tables ct) then Inl (Table_In_Use n)
       else Inr \<lparr>ct_tables = filter (\<lambda>u. tb_name u \<noteq> n) (ct_tables ct), ct_indexes = filter (\<lambda>i. ix_table i \<noteq> n) (ct_indexes ct)\<rparr>) ct"
| "run_statement (Rename_Table old new) ct =
     on_table old (\<lambda>t.
       if find_table new ct \<noteq> None then Inl (Table_Exists new)
       else Inr \<lparr>ct_tables = map (\<lambda>u. u\<lparr>tb_name := swap_name old new (tb_name u),
                tb_foreign := map (\<lambda>f. f\<lparr>fk_table := swap_name old new (fk_table f)\<rparr>) (tb_foreign u)\<rparr>) (ct_tables ct),
              ct_indexes = map (\<lambda>i. i\<lparr>ix_table := swap_name old new (ix_table i)\<rparr>) (ct_indexes ct)\<rparr>) ct"
| "run_statement (Update_Set n c f P) ct =
     on_table n (\<lambda>t.
       if find_column c t = None then Inl (No_Such_Column c)
       else settle (t\<lparr>tb_rows := map (\<lambda>r. if P r then r(c := f r) else r) (tb_rows t)\<rparr>) ct) ct"
| "run_statement (Insert_Select into source cs) ct =
     on_table into (\<lambda>t. on_table source (\<lambda>s.
       if list_ex (\<lambda>c. find_column c t = None \<or> find_column c s = None) cs then Inl (No_Such_Column (hd (filter (\<lambda>c. find_column c t = None \<or> find_column c s = None) cs)))
       else settle (t\<lparr>tb_rows := tb_rows t @ map (\<lambda>r c. if c \<in> set cs then value_of s r c
              else (case find_column c t of None \<Rightarrow> V_Null | Some x \<Rightarrow> unwrap_or V_Null (cl_default x))) (tb_rows s)\<rparr>) ct) ct) ct"

subsection \<open>Programs of statements\<close>

datatype migration_error = Engine sql_error | Refusal string

text \<open>A step runs against the database and may leave it changed even when it fails.\<close>
type_synonym step = "catalog \<Rightarrow> (migration_error + unit) \<times> catalog"

definition exec :: "statement \<Rightarrow> step" where
  "exec s ct = (case run_statement s ct of Inl e \<Rightarrow> (Inl (Engine e), ct) | Inr ct' \<Rightarrow> (Inr (), ct'))"

text \<open>\<open>let _ = ...\<close>: the outcome is ignored.\<close>
definition exec_tolerant :: "statement \<Rightarrow> step" where
  "exec_tolerant s ct = (Inr (), snd (exec s ct))"

fun steps :: "step list \<Rightarrow> step" where
  "steps [] ct = (Inr (), ct)"
| "steps (s # ss) ct = (case s ct of (Inl e, ct1) \<Rightarrow> (Inl e, ct1) | (Inr _, ct1) \<Rightarrow> steps ss ct1)"

subsection \<open>Laws\<close>

lemma steps_append: "steps (xs @ ys) ct = (case steps xs ct of (Inl e, ct1) \<Rightarrow> (Inl e, ct1) | (Inr _, ct1) \<Rightarrow> steps ys ct1)"
  by (induction xs arbitrary: ct) (auto split: sum.split prod.split)

lemma steps_Inr_Cons: "steps (s # ss) ct = (Inr u, ct') \<longleftrightarrow> (\<exists>ct1. s ct = (Inr (), ct1) \<and> steps ss ct1 = (Inr u, ct'))"
  by (auto split: sum.splits prod.splits)

lemma exec_Inr: "exec s ct = (Inr u, ct') \<longleftrightarrow> run_statement s ct = Inr ct'"
  by (auto simp: exec_def split: sum.splits)

lemma exec_fails: "exec s ct = (Inl e, ct') \<Longrightarrow> ct' = ct"
  by (auto simp: exec_def split: sum.splits)

lemma find_table_name: "find_table n ct = Some t \<Longrightarrow> tb_name t = n"
  by (auto simp: find_table_def find_Some_iff)

lemma find_put_table:
  "find_table n (put_table t ct) = (if n = tb_name t \<and> find_table n ct \<noteq> None then Some t else find_table n ct)"
proof -
  have "List.find (\<lambda>t. tb_name t = n) (map (\<lambda>u. if tb_name u = tb_name t then t else u) ts) =
      (if n = tb_name t \<and> List.find (\<lambda>t. tb_name t = n) ts \<noteq> None then Some t else List.find (\<lambda>t. tb_name t = n) ts)" for ts
    by (induction ts) auto
  then show ?thesis by (auto simp: find_table_def put_table_def)
qed

lemma put_table_indexes [simp]: "ct_indexes (put_table t ct) = ct_indexes ct"
  by (simp add: put_table_def)

end
