(* ===== verification/Migrations.thy ===== *)
theory Migrations
  imports Sql_Schema
begin

text \<open>
  The sixteen schema migrations (\<open>src/migration\<close>) and their runner. A migration is a pair of
  programs of statements, up and down; the two that derive the master marker look at the rows first,
  and the audit migration takes another way on SQLite. The texts of refusals are shortened to what
  they report.
\<close>

datatype backend = Sqlite | Postgres | MySql

record migration =
  mg_name :: string
  mg_up :: "backend \<Rightarrow> step"
  mg_down :: "backend \<Rightarrow> step"

subsection \<open>Column and index builders\<close>

definition col :: "column_name \<Rightarrow> sql_type \<Rightarrow> column" where
  "col n ty = \<lparr>cl_name = n, cl_type = ty, cl_not_null = False, cl_default = None, cl_derived = None\<rparr>"

definition required :: "column_name \<Rightarrow> sql_type \<Rightarrow> column" where
  "required n ty = (col n ty)\<lparr>cl_not_null := True\<rparr>"

definition defaulted :: "column_name \<Rightarrow> sql_type \<Rightarrow> sql_value \<Rightarrow> column" where
  "defaulted n ty v = (required n ty)\<lparr>cl_default := Some v\<rparr>"

definition references :: "string \<Rightarrow> column_name \<Rightarrow> table_name \<Rightarrow> fk_action \<Rightarrow> fk_action \<Rightarrow> foreign_key" where
  "references n c target on_delete on_update =
     \<lparr>fk_name = n, fk_column = c, fk_table = target, fk_target = Col_Id, fk_delete = on_delete, fk_update = on_update\<rparr>"

definition new_table :: "table_name \<Rightarrow> column list \<Rightarrow> column_name list list \<Rightarrow> foreign_key list \<Rightarrow> sql_table" where
  "new_table n cs keys fks = \<lparr>tb_name = n, tb_columns = cs, tb_unique = keys, tb_foreign = fks, tb_rows = []\<rparr>"

definition index_on :: "index_name \<Rightarrow> table_name \<Rightarrow> column_name list \<Rightarrow> sql_index" where
  "index_on n t cs = \<lparr>ix_name = n, ix_table = t, ix_columns = cs, ix_unique = False\<rparr>"

definition unique_on :: "index_name \<Rightarrow> table_name \<Rightarrow> column_name list \<Rightarrow> sql_index" where
  "unique_on n t cs = (index_on n t cs)\<lparr>ix_unique := True\<rparr>"

subsection \<open>m20230101_000001_initial_schema\<close>

definition ip_groups_table :: sql_table where
  "ip_groups_table = new_table Tb_Ip_Groups
     [required Col_Id T_Uuid, required Col_Name T_String, defaulted Col_Group_Type T_String (V_Text ''banlist''),
      col Col_Description T_Text, required Col_Created_At T_Date_Time]
     [[Col_Id], [Col_Name]] []"

definition ip_records_table :: sql_table where
  "ip_records_table = new_table Tb_Ip_Records
     [required Col_Id T_Uuid, required Col_Target_Address T_String, col Col_Cause T_Text,
      defaulted Col_Is_Locked T_Boolean (V_Bool False), required Col_Created_At T_Date_Time,
      required Col_Updated_At T_Date_Time, required Col_Last_Seen_At T_Date_Time]
     [[Col_Id], [Col_Target_Address]] []"

definition memberships_table :: sql_table where
  "memberships_table = new_table Tb_Ip_Record_Group_Memberships
     [required Col_Ip_Record_Id T_Uuid, required Col_Group_Id T_Uuid]
     [[Col_Ip_Record_Id, Col_Group_Id]]
     [references ''fk-irgm-ip_record_id'' Col_Ip_Record_Id Tb_Ip_Records Cascade Cascade,
      references ''fk-irgm-group_id'' Col_Group_Id Tb_Ip_Groups Cascade Cascade]"

definition api_keys_table :: sql_table where
  "api_keys_table = new_table Tb_Api_Keys
     [required Col_Id T_Uuid, required Col_Name T_String, required Col_Key_Hash T_String, required Col_Prefix T_String,
      col Col_Bound_Ips T_Text, defaulted Col_Is_Master T_Boolean (V_Bool False),
      defaulted Col_Can_Manage_Keys T_Boolean (V_Bool False), defaulted Col_Can_Manage_Webhooks T_Boolean (V_Bool False),
      defaulted Col_Can_Create_Groups T_Boolean (V_Bool False), required Col_Created_At T_Date_Time,
      required Col_Updated_At T_Date_Time]
     [[Col_Id], [Col_Key_Hash]] []"

definition permissions_table :: sql_table where
  "permissions_table = new_table Tb_Api_Key_Group_Permissions
     [required Col_Id T_Uuid, required Col_Api_Key_Id T_Uuid, required Col_Group_Id T_Uuid,
      defaulted Col_Can_Read T_Boolean (V_Bool True), defaulted Col_Can_Write T_Boolean (V_Bool False),
      defaulted Col_Can_Delete T_Boolean (V_Bool False), required Col_Created_At T_Date_Time]
     [[Col_Id]]
     [references ''fk-akgp-api_key_id'' Col_Api_Key_Id Tb_Api_Keys Cascade Cascade,
      references ''fk-akgp-group_id'' Col_Group_Id Tb_Ip_Groups Cascade Cascade]"

definition webhook_configs_table :: sql_table where
  "webhook_configs_table = new_table Tb_Webhook_Configs
     [required Col_Id T_Uuid, required Col_Name T_String, required Col_Target_Url T_String, required Col_Secret_Token T_String,
      col Col_Headers_Json T_Text, required Col_Payload_Template T_Text, required Col_Group_Id T_Uuid,
      defaulted Col_Is_Active T_Boolean (V_Bool True), col Col_Events T_String, required Col_Created_At T_Date_Time]
     [[Col_Id]]
     [references ''fk-webhook_configs-group_id'' Col_Group_Id Tb_Ip_Groups Cascade No_Action]"

text \<open>\<open>table_definition\<close> of the audit migration, which with nullable attribution is also the initial one.\<close>
definition audit_table :: "table_name \<Rightarrow> bool \<Rightarrow> sql_table" where
  "audit_table n attribution_not_null =
     (let attribution = (\<lambda>c. if attribution_not_null then required c T_String else col c T_String) in
      new_table n
        [required Col_Id T_Uuid, col Col_Api_Key_Id T_Uuid, attribution Col_Api_Key_Name, attribution Col_Api_Key_Prefix,
         attribution Col_Client_Ip, required Col_Action T_String, col Col_Target_Address T_String,
         col Col_Group_Names T_String, col Col_Details T_Text, required Col_Timestamp T_Date_Time]
        [[Col_Id]]
        [references ''fk-audit_logs-api_key_id'' Col_Api_Key_Id Tb_Api_Keys Set_Null No_Action])"

definition initial_schema_up :: "backend \<Rightarrow> step" where
  "initial_schema_up b = steps
     [exec (Create_Table True ip_groups_table), exec (Create_Table True ip_records_table),
      exec (Create_Table True memberships_table), exec (Create_Table True api_keys_table),
      exec (Create_Index False (index_on Ix_Api_Keys_Prefix Tb_Api_Keys [Col_Prefix])),
      exec (Create_Table True permissions_table),
      exec (Create_Index False (unique_on Ix_Akgp_Api_Key_Id_Group_Id Tb_Api_Key_Group_Permissions [Col_Api_Key_Id, Col_Group_Id])),
      exec (Create_Table True webhook_configs_table), exec (Create_Table True (audit_table Tb_Audit_Logs False)),
      exec (Create_Index False (index_on Ix_Audit_Logs_Action Tb_Audit_Logs [Col_Action])),
      exec (Create_Index False (index_on Ix_Audit_Logs_Timestamp Tb_Audit_Logs [Col_Timestamp])),
      exec (Create_Index False (index_on Ix_Ip_Records_Last_Seen_At Tb_Ip_Records [Col_Last_Seen_At]))]"

definition initial_schema_down :: "backend \<Rightarrow> step" where
  "initial_schema_down b = steps (map (exec \<circ> Drop_Table)
     [Tb_Audit_Logs, Tb_Webhook_Configs, Tb_Api_Key_Group_Permissions, Tb_Api_Keys, Tb_Ip_Record_Group_Memberships,
      Tb_Ip_Records, Tb_Ip_Groups])"

subsection \<open>Plain additions\<close>

definition signing_secret_up :: "backend \<Rightarrow> step" where
  "signing_secret_up b = exec (Add_Column Tb_Api_Keys (col Col_Signing_Secret T_Text))"

definition signing_secret_down :: "backend \<Rightarrow> step" where
  "signing_secret_down b = exec (Drop_Column Tb_Api_Keys Col_Signing_Secret)"

definition signature_mode_up :: "backend \<Rightarrow> step" where
  "signature_mode_up b = exec (Add_Column Tb_Webhook_Configs (defaulted Col_Signature_Mode T_Text (V_Text ''BODY_ONLY'')))"

definition signature_mode_down :: "backend \<Rightarrow> step" where
  "signature_mode_down b = exec (Drop_Column Tb_Webhook_Configs Col_Signature_Mode)"

definition soft_delete_up :: "backend \<Rightarrow> step" where
  "soft_delete_up b = steps
     [exec (Add_Column Tb_Ip_Records (defaulted Col_Is_Deleted T_Boolean (V_Bool False))),
      exec (Add_Column Tb_Ip_Records (col Col_Deleted_At T_Date_Time)),
      exec (Add_Column Tb_Ip_Records (col Col_Deleted_By T_Text)),
      exec (Create_Index False (index_on Ix_Ip_Records_Is_Deleted Tb_Ip_Records [Col_Is_Deleted])),
      exec (Create_Index False (index_on Ix_Ip_Records_Deleted_At Tb_Ip_Records [Col_Deleted_At]))]"

definition soft_delete_down :: "backend \<Rightarrow> step" where
  "soft_delete_down b = steps
     [exec (Drop_Index Ix_Ip_Records_Deleted_At Tb_Ip_Records), exec (Drop_Index Ix_Ip_Records_Is_Deleted Tb_Ip_Records),
      exec (Drop_Column Tb_Ip_Records Col_Deleted_By), exec (Drop_Column Tb_Ip_Records Col_Deleted_At),
      exec (Drop_Column Tb_Ip_Records Col_Is_Deleted)]"

definition can_manage_up :: "backend \<Rightarrow> step" where
  "can_manage_up b = exec (Add_Column Tb_Api_Key_Group_Permissions (defaulted Col_Can_Manage T_Boolean (V_Bool False)))"

definition can_manage_down :: "backend \<Rightarrow> step" where
  "can_manage_down b = exec (Drop_Column Tb_Api_Key_Group_Permissions Col_Can_Manage)"

subsection \<open>m20260730_000004_add_webhook_auth_modes\<close>

definition migration_hmac_template :: string where
  "migration_hmac_template = ''{method}'' @ [CHR 0x5C, CHR ''n''] @ ''{path}'' @ [CHR 0x5C, CHR ''n''] @ ''{timestamp}'' @
     [CHR 0x5C, CHR ''n''] @ ''{body}''"

definition auth_modes_up :: "backend \<Rightarrow> step" where
  "auth_modes_up b = steps
     [exec (Add_Column Tb_Webhook_Configs (defaulted Col_Auth_Mode T_Text (V_Text ''CANONICAL_V1''))),
      exec (Update_Set Tb_Webhook_Configs Col_Auth_Mode (\<lambda>r. r Col_Signature_Mode) (\<lambda>r. True)),
      exec (Drop_Column Tb_Webhook_Configs Col_Signature_Mode),
      exec (Add_Column Tb_Webhook_Configs (col Col_Api_Key T_Text)),
      exec (Add_Column Tb_Webhook_Configs ((col Col_Hmac_Template T_Text)\<lparr>cl_default := Some (V_Text migration_hmac_template)\<rparr>))]"

definition auth_modes_down :: "backend \<Rightarrow> step" where
  "auth_modes_down b = steps
     ([exec (Add_Column Tb_Webhook_Configs (defaulted Col_Signature_Mode T_Text (V_Text ''BODY_ONLY'')))] @
      map (\<lambda>mode. exec (Update_Set Tb_Webhook_Configs Col_Signature_Mode (\<lambda>r. V_Text mode) (\<lambda>r. r Col_Auth_Mode = V_Text mode)))
        [''BODY_ONLY'', ''CANONICAL_V1''] @
      map (exec \<circ> Drop_Column Tb_Webhook_Configs) [Col_Hmac_Template, Col_Api_Key, Col_Auth_Mode])"

subsection \<open>The master marker: m20260807_000007 and m20260808_000009\<close>

definition MARKER_COLUMN :: column_name where "MARKER_COLUMN = Col_Master_Marker"
definition MARKER_INDEX :: index_name where "MARKER_INDEX = Ix_Api_Keys_Master_Marker"
definition MASTER_MARKER :: string where "MASTER_MARKER = ''master''"

definition master_key_rows :: "catalog \<Rightarrow> sql_error + row list" where
  "master_key_rows ct =
     (case find_table Tb_Api_Keys ct of
        None \<Rightarrow> Inl (No_Such_Table Tb_Api_Keys)
      | Some t \<Rightarrow> Inr (filter (\<lambda>r. r Col_Is_Master = V_Bool True) (tb_rows t)))"

definition refuse_second_master :: step where
  "refuse_second_master ct =
     (case master_key_rows ct of
        Inl e \<Rightarrow> (Inl (Engine e), ct)
      | Inr rows \<Rightarrow> (if 1 < length rows then (Inl (Refusal ''more than one master''), ct) else (Inr (), ct)))"

definition master_marker_up :: "backend \<Rightarrow> step" where
  "master_marker_up b = steps
     [refuse_second_master,
      exec (Add_Column Tb_Api_Keys (col MARKER_COLUMN T_String)),
      exec (Update_Set Tb_Api_Keys MARKER_COLUMN (\<lambda>r. V_Text MASTER_MARKER) (\<lambda>r. r Col_Is_Master = V_Bool True)),
      exec (Create_Index False (unique_on MARKER_INDEX Tb_Api_Keys [MARKER_COLUMN]))]"

definition master_marker_down :: "backend \<Rightarrow> step" where
  "master_marker_down b = steps [exec (Drop_Index MARKER_INDEX Tb_Api_Keys), exec (Drop_Column Tb_Api_Keys MARKER_COLUMN)]"

definition marker_column :: column where
  "marker_column = (col MARKER_COLUMN T_Integer)\<lparr>cl_derived := Some Col_Is_Master\<rparr>"

definition derive_marker_up :: "backend \<Rightarrow> step" where
  "derive_marker_up b = steps
     [refuse_second_master,
      exec (Drop_Index MARKER_INDEX Tb_Api_Keys), exec (Drop_Column Tb_Api_Keys MARKER_COLUMN),
      exec (Add_Column Tb_Api_Keys marker_column),
      exec (Create_Index False (unique_on MARKER_INDEX Tb_Api_Keys [MARKER_COLUMN]))]"

definition derive_marker_down :: "backend \<Rightarrow> step" where
  "derive_marker_down b = steps
     [exec (Drop_Index MARKER_INDEX Tb_Api_Keys), exec (Drop_Column Tb_Api_Keys MARKER_COLUMN),
      exec (Add_Column Tb_Api_Keys (col MARKER_COLUMN T_String)),
      exec (Update_Set Tb_Api_Keys MARKER_COLUMN (\<lambda>r. V_Text ''master'') (\<lambda>r. r Col_Is_Master = V_Bool True)),
      exec (Create_Index False (unique_on MARKER_INDEX Tb_Api_Keys [MARKER_COLUMN]))]"

subsection \<open>m20260807_000008_add_lineage_and_ownership\<close>

definition lineage_up :: "backend \<Rightarrow> step" where
  "lineage_up b = steps
     [exec (Add_Column_If_Missing Tb_Api_Keys (col Col_Parent_Key_Id T_Uuid)),
      exec (Add_Column_If_Missing Tb_Ip_Groups (col Col_Owner_Key_Id T_Uuid)),
      exec (Add_Column_If_Missing Tb_Webhook_Configs (col Col_Owner_Key_Id T_Uuid)),
      exec (Create_Index False (index_on Ix_Api_Keys_Parent_Key_Id Tb_Api_Keys [Col_Parent_Key_Id])),
      exec (Create_Index False (index_on Ix_Ip_Groups_Owner_Key_Id Tb_Ip_Groups [Col_Owner_Key_Id])),
      exec (Create_Index False (index_on Ix_Webhook_Configs_Owner_Key_Id Tb_Webhook_Configs [Col_Owner_Key_Id])),
      exec (Create_Index False (index_on Ix_Akgp_Group_Id Tb_Api_Key_Group_Permissions [Col_Group_Id])),
      exec_tolerant (Create_Index False (index_on Ix_Api_Keys_Key_Hash Tb_Api_Keys [Col_Key_Hash]))]"

definition lineage_down :: "backend \<Rightarrow> step" where
  "lineage_down b = steps
     [exec_tolerant (Drop_Index Ix_Api_Keys_Key_Hash Tb_Api_Keys),
      exec_tolerant (Drop_Index Ix_Api_Keys_Parent_Key_Id Tb_Api_Keys),
      exec_tolerant (Drop_Index Ix_Ip_Groups_Owner_Key_Id Tb_Ip_Groups),
      exec_tolerant (Drop_Index Ix_Webhook_Configs_Owner_Key_Id Tb_Webhook_Configs),
      exec_tolerant (Drop_Index Ix_Akgp_Group_Id Tb_Api_Key_Group_Permissions),
      exec (Drop_Column Tb_Webhook_Configs Col_Owner_Key_Id), exec (Drop_Column Tb_Ip_Groups Col_Owner_Key_Id),
      exec (Drop_Column Tb_Api_Keys Col_Parent_Key_Id)]"

subsection \<open>m20260811_000010_audit_attribution_not_null\<close>

definition UNRECORDED :: string where "UNRECORDED = ''(unknown)''"
definition ATTRIBUTION_COLUMNS :: "column_name list" where
  "ATTRIBUTION_COLUMNS = [Col_Api_Key_Name, Col_Api_Key_Prefix, Col_Client_Ip]"

definition recreate_indexes :: step where
  "recreate_indexes = steps
     [exec (Create_Index False (index_on Ix_Audit_Logs_Action Tb_Audit_Logs [Col_Action])),
      exec (Create_Index False (index_on Ix_Audit_Logs_Timestamp Tb_Audit_Logs [Col_Timestamp]))]"

definition rebuild_audit :: "bool \<Rightarrow> step" where
  "rebuild_audit attribution_not_null = steps
     [exec (Create_Table False (audit_table Tb_Audit_Logs_Rebuild attribution_not_null)),
      exec (Insert_Select Tb_Audit_Logs_Rebuild Tb_Audit_Logs
        [Col_Id, Col_Api_Key_Id, Col_Api_Key_Name, Col_Api_Key_Prefix, Col_Client_Ip, Col_Action, Col_Target_Address,
         Col_Group_Names, Col_Details, Col_Timestamp]),
      exec (Drop_Table Tb_Audit_Logs), exec (Rename_Table Tb_Audit_Logs_Rebuild Tb_Audit_Logs),
      recreate_indexes]"

definition backfill :: step where
  "backfill = steps (map (\<lambda>c. exec (Update_Set Tb_Audit_Logs c (\<lambda>r. V_Text UNRECORDED) (\<lambda>r. r c = V_Null))) ATTRIBUTION_COLUMNS)"

definition attribution_up :: "backend \<Rightarrow> step" where
  "attribution_up b = steps
     [backfill,
      (if b = Sqlite then rebuild_audit True
       else steps (map (\<lambda>c. exec (Modify_Column Tb_Audit_Logs (required c T_String))) ATTRIBUTION_COLUMNS))]"

definition attribution_down :: "backend \<Rightarrow> step" where
  "attribution_down b =
     (if b = Sqlite then rebuild_audit False
      else steps (map (\<lambda>c. exec (Modify_Column Tb_Audit_Logs (col c T_String))) ATTRIBUTION_COLUMNS))"

subsection \<open>m20260811_000012_webhook_hmac_only_mode\<close>

definition rewrite_mode :: "string \<Rightarrow> string \<Rightarrow> step" where
  "rewrite_mode from to = exec (Update_Set Tb_Webhook_Configs Col_Auth_Mode (\<lambda>r. V_Text to) (\<lambda>r. r Col_Auth_Mode = V_Text from))"

definition hmac_only_up :: "backend \<Rightarrow> step" where
  "hmac_only_up b = steps
     [exec (Add_Column Tb_Webhook_Configs (col Col_Signature_Header T_String)),
      exec (Add_Column Tb_Webhook_Configs (col Col_Signature_Prefix T_String)),
      rewrite_mode ''BODY_ONLY'' ''HMAC_ONLY'']"

definition hmac_only_down :: "backend \<Rightarrow> step" where
  "hmac_only_down b = steps
     [rewrite_mode ''HMAC_ONLY'' ''BODY_ONLY'',
      exec (Drop_Column Tb_Webhook_Configs Col_Signature_Header), exec (Drop_Column Tb_Webhook_Configs Col_Signature_Prefix)]"

subsection \<open>Indexes and the delivery history\<close>

definition UPDATED_AT_INDEX :: index_name where "UPDATED_AT_INDEX = Ix_Ip_Records_Updated_At"

definition delta_index_up :: "backend \<Rightarrow> step" where
  "delta_index_up b = exec (Create_Index True (index_on UPDATED_AT_INDEX Tb_Ip_Records [Col_Updated_At]))"

definition delta_index_down :: "backend \<Rightarrow> step" where
  "delta_index_down b = exec (Drop_Index UPDATED_AT_INDEX Tb_Ip_Records)"

definition executions_table :: sql_table where
  "executions_table = new_table Tb_Webhook_Executions
     [required Col_Id T_Uuid, required Col_Webhook_Id T_Uuid, required Col_Event_Type T_String, col Col_Status_Code T_Integer,
      required Col_Is_Success T_Boolean, required Col_Duration_Ms T_Integer, col Col_Error_Message T_Text,
      required Col_Created_At T_Date_Time]
     [[Col_Id]]
     [references ''fk-webhook_executions-webhook_id'' Col_Webhook_Id Tb_Webhook_Configs Cascade No_Action]"

definition executions_up :: "backend \<Rightarrow> step" where
  "executions_up b = steps
     [exec (Create_Table True executions_table),
      exec (Create_Index False (index_on Ix_Webhook_Executions_Webhook_Id Tb_Webhook_Executions [Col_Webhook_Id])),
      exec (Create_Index False (index_on Ix_Webhook_Executions_Created_At Tb_Webhook_Executions [Col_Created_At])),
      exec (Create_Index False (index_on Ix_Webhook_Executions_Is_Success_Created_At Tb_Webhook_Executions [Col_Is_Success, Col_Created_At]))]"

definition executions_down :: "backend \<Rightarrow> step" where
  "executions_down b = exec (Drop_Table Tb_Webhook_Executions)"

definition response_body_up :: "backend \<Rightarrow> step" where
  "response_body_up b = exec (Rename_Column Tb_Webhook_Executions Col_Error_Message Col_Response_Body)"

definition response_body_down :: "backend \<Rightarrow> step" where
  "response_body_down b = exec (Rename_Column Tb_Webhook_Executions Col_Response_Body Col_Error_Message)"

definition event_context_up :: "backend \<Rightarrow> step" where
  "event_context_up b = steps
     [exec (Add_Column Tb_Webhook_Executions (col Col_Resolved_Target_Url T_Text)),
      exec (Add_Column Tb_Webhook_Executions (col Col_Target_Address T_Text)),
      exec (Add_Column Tb_Webhook_Executions (col Col_Cause T_Text))]"

definition event_context_down :: "backend \<Rightarrow> step" where
  "event_context_down b = steps (map (exec \<circ> Drop_Column Tb_Webhook_Executions) [Col_Resolved_Target_Url, Col_Target_Address, Col_Cause])"

definition DELETED_UPDATED_INDEX :: index_name where "DELETED_UPDATED_INDEX = Ix_Ip_Records_Deleted_Updated"
definition GROUP_MEMBERSHIPS_LOOKUP_INDEX :: index_name where
  "GROUP_MEMBERSHIPS_LOOKUP_INDEX = Ix_Group_Memberships_Lookup"

definition performance_up :: "backend \<Rightarrow> step" where
  "performance_up b = steps
     [exec (Create_Index True (index_on DELETED_UPDATED_INDEX Tb_Ip_Records [Col_Is_Deleted, Col_Updated_At])),
      exec (Create_Index True (index_on GROUP_MEMBERSHIPS_LOOKUP_INDEX Tb_Ip_Record_Group_Memberships [Col_Group_Id, Col_Ip_Record_Id]))]"

definition performance_down :: "backend \<Rightarrow> step" where
  "performance_down b = steps
     [exec (Drop_Index GROUP_MEMBERSHIPS_LOOKUP_INDEX Tb_Ip_Record_Group_Memberships),
      exec (Drop_Index DELETED_UPDATED_INDEX Tb_Ip_Records)]"

subsection \<open>The registry and its runner\<close>

definition migrations :: "migration list" where
  "migrations =
     [\<lparr>mg_name = ''m20230101_000001_initial_schema'', mg_up = initial_schema_up, mg_down = initial_schema_down\<rparr>,
      \<lparr>mg_name = ''m20260729_000002_add_api_key_signing_secret'', mg_up = signing_secret_up, mg_down = signing_secret_down\<rparr>,
      \<lparr>mg_name = ''m20260730_000003_add_webhook_signature_mode'', mg_up = signature_mode_up, mg_down = signature_mode_down\<rparr>,
      \<lparr>mg_name = ''m20260730_000004_add_webhook_auth_modes'', mg_up = auth_modes_up, mg_down = auth_modes_down\<rparr>,
      \<lparr>mg_name = ''m20260801_000005_add_ip_record_soft_delete'', mg_up = soft_delete_up, mg_down = soft_delete_down\<rparr>,
      \<lparr>mg_name = ''m20260804_000006_add_group_permission_can_manage'', mg_up = can_manage_up, mg_down = can_manage_down\<rparr>,
      \<lparr>mg_name = ''m20260807_000007_add_api_key_master_marker'', mg_up = master_marker_up, mg_down = master_marker_down\<rparr>,
      \<lparr>mg_name = ''m20260807_000008_add_lineage_and_ownership'', mg_up = lineage_up, mg_down = lineage_down\<rparr>,
      \<lparr>mg_name = ''m20260808_000009_derive_master_marker'', mg_up = derive_marker_up, mg_down = derive_marker_down\<rparr>,
      \<lparr>mg_name = ''m20260811_000010_audit_attribution_not_null'', mg_up = attribution_up, mg_down = attribution_down\<rparr>,
      \<lparr>mg_name = ''m20260811_000011_index_ip_record_delta_columns'', mg_up = delta_index_up, mg_down = delta_index_down\<rparr>,
      \<lparr>mg_name = ''m20260811_000012_webhook_hmac_only_mode'', mg_up = hmac_only_up, mg_down = hmac_only_down\<rparr>,
      \<lparr>mg_name = ''m20260824_093000_add_webhook_executions'', mg_up = executions_up, mg_down = executions_down\<rparr>,
      \<lparr>mg_name = ''m20260824_110000_webhook_execution_response_body'', mg_up = response_body_up, mg_down = response_body_down\<rparr>,
      \<lparr>mg_name = ''m20260824_140000_webhook_execution_event_context'', mg_up = event_context_up, mg_down = event_context_down\<rparr>,
      \<lparr>mg_name = ''m20260824_150000_add_query_performance_indexes'', mg_up = performance_up, mg_down = performance_down\<rparr>]"

text \<open>
  \<open>Migrator::up\<close> with no bound: every migration that is not recorded as applied runs in the order of
  the registry and is recorded when it has succeeded; the first failure stops the run.
\<close>

fun migrate :: "backend \<Rightarrow> migration list \<Rightarrow> string list \<Rightarrow> catalog \<Rightarrow> (migration_error + unit) \<times> string list \<times> catalog" where
  "migrate b [] applied ct = (Inr (), applied, ct)"
| "migrate b (m # ms) applied ct =
     (if mg_name m \<in> set applied then migrate b ms applied ct
      else case mg_up m b ct of
             (Inl e, ct1) \<Rightarrow> (Inl e, applied, ct1)
           | (Inr _, ct1) \<Rightarrow> migrate b ms (applied @ [mg_name m]) ct1)"

definition run_migrations :: "backend \<Rightarrow> string list \<Rightarrow> catalog \<Rightarrow> (migration_error + unit) \<times> string list \<times> catalog" where
  "run_migrations b = migrate b migrations"

lemmas migration_defs = initial_schema_up_def initial_schema_down_def signing_secret_up_def signing_secret_down_def signature_mode_up_def
  signature_mode_down_def soft_delete_up_def soft_delete_down_def can_manage_up_def can_manage_down_def
  auth_modes_up_def auth_modes_down_def master_marker_up_def master_marker_down_def derive_marker_up_def
  derive_marker_down_def lineage_up_def lineage_down_def attribution_up_def attribution_down_def
  hmac_only_up_def hmac_only_down_def delta_index_up_def delta_index_down_def executions_up_def
  executions_down_def response_body_up_def response_body_down_def event_context_up_def event_context_down_def
  performance_up_def performance_down_def

text \<open>Only SQLite is told apart.\<close>

lemma all_other_backends:
  assumes "b \<noteq> Sqlite"
  shows "list_all (\<lambda>m. mg_up m b = mg_up m Postgres \<and> mg_down m b = mg_down m Postgres) migrations"
  unfolding migrations_def list.pred_inject migration.simps
  by (simp only: migration_defs assms backend.distinct if_False simp_thms list.pred_inject(1))

lemma other_backends:
  assumes "b \<noteq> Sqlite" "m \<in> set migrations"
  shows "mg_up m b = mg_up m Postgres" "mg_down m b = mg_down m Postgres"
  using bspec [OF all_other_backends [OF assms(1), unfolded list_all_iff] assms(2)] by (rule conjunct1, rule conjunct2)

lemma migrate_other:
  assumes "b \<noteq> Sqlite" "set ms \<subseteq> set migrations"
  shows "migrate b ms applied ct = migrate Postgres ms applied ct"
  using assms(2)
proof (induction ms arbitrary: applied ct)
  case (Cons m ms)
  then have "mg_up m b = mg_up m Postgres" using other_backends(1) [OF assms(1)] by simp
  then show ?case using Cons by (auto split: prod.split sum.split)
qed simp

lemma run_migrations_other: "run_migrations b = (if b = Sqlite then run_migrations Sqlite else run_migrations Postgres)"
  using migrate_other [of b migrations] by (auto simp: run_migrations_def fun_eq_iff)

end
