(* ===== verification/Migration_Properties.thy ===== *)
theory Migration_Properties
  imports Migrations
begin

text \<open>
  What the migrations yield: the schema that the entities and the constraints of the data model
  assume, on every backend; reversibility step by step; and the master marker, which no writer can bypass once the engine derives it.
\<close>

subsection \<open>The schema\<close>

text \<open>The columns that the entities name in their queries, table by table.\<close>
definition entity_columns :: "(table_name \<times> column_name list) list" where
  "entity_columns =
     [(Tb_Api_Keys, [Col_Id, Col_Name, Col_Key_Hash, Col_Signing_Secret, Col_Prefix, Col_Bound_Ips, Col_Is_Master,
         Col_Can_Manage_Keys, Col_Can_Manage_Webhooks, Col_Can_Create_Groups, Col_Parent_Key_Id, Col_Created_At, Col_Updated_At]),
      (Tb_Ip_Groups, [Col_Id, Col_Name, Col_Group_Type, Col_Description, Col_Owner_Key_Id, Col_Created_At]),
      (Tb_Ip_Records, [Col_Id, Col_Target_Address, Col_Cause, Col_Is_Locked, Col_Created_At, Col_Updated_At, Col_Last_Seen_At,
         Col_Is_Deleted, Col_Deleted_At, Col_Deleted_By]),
      (Tb_Ip_Record_Group_Memberships, [Col_Ip_Record_Id, Col_Group_Id]),
      (Tb_Api_Key_Group_Permissions, [Col_Id, Col_Api_Key_Id, Col_Group_Id, Col_Can_Read, Col_Can_Write, Col_Can_Delete,
         Col_Can_Manage, Col_Created_At]),
      (Tb_Webhook_Configs, [Col_Id, Col_Name, Col_Target_Url, Col_Secret_Token, Col_Headers_Json, Col_Payload_Template, Col_Group_Id,
         Col_Is_Active, Col_Events, Col_Auth_Mode, Col_Api_Key, Col_Hmac_Template, Col_Signature_Header, Col_Signature_Prefix,
         Col_Owner_Key_Id, Col_Created_At]),
      (Tb_Webhook_Executions, [Col_Id, Col_Webhook_Id, Col_Event_Type, Col_Status_Code, Col_Is_Success, Col_Duration_Ms,
         Col_Response_Body, Col_Resolved_Target_Url, Col_Target_Address, Col_Cause, Col_Created_At]),
      (Tb_Audit_Logs, [Col_Id, Col_Api_Key_Id, Col_Api_Key_Name, Col_Api_Key_Prefix, Col_Client_Ip, Col_Action, Col_Target_Address,
         Col_Group_Names, Col_Details, Col_Timestamp])]"

text \<open>The uniqueness and deletion rules that the data model works with.\<close>
definition assumed_constraints :: "(table_name \<times> column_name list list \<times> (column_name \<times> table_name \<times> fk_action) list) list" where
  "assumed_constraints =
     [(Tb_Api_Keys, [[Col_Id], [Col_Key_Hash], [MARKER_COLUMN]], []),
      (Tb_Ip_Groups, [[Col_Id], [Col_Name]], []),
      (Tb_Ip_Records, [[Col_Id], [Col_Target_Address]], []),
      (Tb_Ip_Record_Group_Memberships, [[Col_Ip_Record_Id, Col_Group_Id]],
         [(Col_Ip_Record_Id, Tb_Ip_Records, Cascade), (Col_Group_Id, Tb_Ip_Groups, Cascade)]),
      (Tb_Api_Key_Group_Permissions, [[Col_Id], [Col_Api_Key_Id, Col_Group_Id]],
         [(Col_Api_Key_Id, Tb_Api_Keys, Cascade), (Col_Group_Id, Tb_Ip_Groups, Cascade)]),
      (Tb_Webhook_Configs, [[Col_Id]], [(Col_Group_Id, Tb_Ip_Groups, Cascade)]),
      (Tb_Webhook_Executions, [[Col_Id]], [(Col_Webhook_Id, Tb_Webhook_Configs, Cascade)]),
      (Tb_Audit_Logs, [[Col_Id]], [(Col_Api_Key_Id, Tb_Api_Keys, Set_Null)])]"

definition columns_match :: "catalog \<Rightarrow> table_name \<times> column_name list \<Rightarrow> bool" where
  "columns_match ct = (\<lambda>(n, cs).
     case find_table n ct of
       None \<Rightarrow> False
     | Some t \<Rightarrow> set (map cl_name (filter (\<lambda>x. cl_derived x = None) (tb_columns t))) = set cs \<and> distinct (map cl_name (tb_columns t)))"

definition constraints_match :: "catalog \<Rightarrow> table_name \<times> column_name list list \<times> (column_name \<times> table_name \<times> fk_action) list \<Rightarrow> bool" where
  "constraints_match ct = (\<lambda>(n, keys, fks).
     case find_table n ct of
       None \<Rightarrow> False
     | Some t \<Rightarrow> unique_keys ct t = keys \<and> map (\<lambda>f. (fk_column f, fk_table f, fk_delete f)) (tb_foreign t) = fks)"

text \<open>The run on an empty database, evaluated on each backend.\<close>
lemma migrated_schema:
  "case run_migrations b [] empty_catalog of (r, applied, ct) \<Rightarrow>
     r = Inr () \<and> applied = map mg_name migrations \<and>
     list_all (columns_match ct) entity_columns \<and> length (ct_tables ct) = length entity_columns \<and>
     list_all (constraints_match ct) assumed_constraints \<and>
     (case find_table Tb_Api_Keys ct of None \<Rightarrow> False | Some t \<Rightarrow> find_column MARKER_COLUMN t = Some marker_column) \<and>
     has_index Tb_Api_Keys MARKER_INDEX ct"
  unfolding run_migrations_other [of b] by (cases "b = Sqlite"; simp only: if_True if_False; code_simp)

lemma migrate_again: "set ms \<subseteq> set migrations \<Longrightarrow> migrate b ms (map mg_name migrations) ct = (Inr (), map mg_name migrations, ct)"
  by (induction ms) auto


subsection \<open>Going back\<close>

definition same_columns :: "sql_table \<Rightarrow> sql_table \<Rightarrow> bool" where
  "same_columns t u \<longleftrightarrow> set (tb_columns t) = set (tb_columns u) \<and> length (tb_columns t) = length (tb_columns u) \<and>
     tb_unique t = tb_unique u \<and> tb_foreign t = tb_foreign u"

text \<open>Equal up to the order of tables, columns and indexes.\<close>
definition same_schema :: "catalog \<Rightarrow> catalog \<Rightarrow> bool" where
  "same_schema ct ct' \<longleftrightarrow>
     set (map tb_name (ct_tables ct)) = set (map tb_name (ct_tables ct')) \<and>
     list_all (\<lambda>t. case find_table (tb_name t) ct' of None \<Rightarrow> False | Some u \<Rightarrow> same_columns t u) (ct_tables ct) \<and>
     set (ct_indexes ct) = set (ct_indexes ct') \<and> length (ct_indexes ct) = length (ct_indexes ct')"

text \<open>Each migration in turn is applied, taken back for the comparison, and kept for its successors.\<close>
fun revertible :: "backend \<Rightarrow> migration list \<Rightarrow> catalog \<Rightarrow> bool" where
  "revertible b [] ct = True"
| "revertible b (m # ms) ct =
     (case mg_up m b ct of
        (Inl e, ct1) \<Rightarrow> False
      | (Inr _, ct1) \<Rightarrow>
          (case mg_down m b ct1 of (r, ct2) \<Rightarrow> is_ok r \<and> same_schema ct2 ct) \<and> revertible b ms ct1)"


subsection \<open>The marker holds every writer to one master\<close>

lemma keys_distinct_marker:
  assumes "find_column MARKER_COLUMN t = Some marker_column" "keys_distinct t [MARKER_COLUMN]"
  shows "length (filter (\<lambda>r. r Col_Is_Master = V_Bool True) (tb_rows t)) \<le> 1"
proof -
  have marker: "value_of t r MARKER_COLUMN = (if r Col_Is_Master = V_Bool True then V_Int 1 else V_Null)" for r
    using assms(1) by (simp add: value_of_def marker_column_def)
  have "filter (\<lambda>vs. V_Null \<notin> set vs) (map (\<lambda>r. map (value_of t r) [MARKER_COLUMN]) rs) =
      map (\<lambda>r. [V_Int 1]) (filter (\<lambda>r. r Col_Is_Master = V_Bool True) rs)" for rs
    by (induction rs) (auto simp: marker)
  then have "distinct (map (\<lambda>r. [V_Int 1]) (filter (\<lambda>r. r Col_Is_Master = V_Bool True) (tb_rows t)))"
    using assms(2) by (simp add: keys_distinct_def)
  then show ?thesis by (cases "filter (\<lambda>r. r Col_Is_Master = V_Bool True) (tb_rows t)" rule: remdups_adj.cases) auto
qed

text \<open>
  C37 In the migrated schema mastery is unique for every writer: whatever rows any statement of any
  client would leave in the key table, the database accepts them only with at most one row that
  claims mastery, on every backend, since the marker under the unique index is a function of the claim.
\<close>

theorem marker_admits_one_master:
  assumes "run_migrations b [] empty_catalog = (r, applied, ct)" "find_table Tb_Api_Keys ct = Some t"
    and "settle (t\<lparr>tb_rows := rows\<rparr>) ct = Inr ct'"
  shows "length (filter (\<lambda>r. r Col_Is_Master = V_Bool True) rows) \<le> 1"
proof -
  have "list_all (constraints_match ct) assumed_constraints"
    "case find_table Tb_Api_Keys ct of None \<Rightarrow> False | Some t \<Rightarrow> find_column MARKER_COLUMN t = Some marker_column"
    using migrated_schema [of b] assms(1) by simp_all
  then have "[MARKER_COLUMN] \<in> set (unique_keys ct t)" "find_column MARKER_COLUMN t = Some marker_column"
    using assms(2) by (simp_all add: assumed_constraints_def constraints_match_def)
  moreover have "table_valid ct (t\<lparr>tb_rows := rows\<rparr>)" using assms(3) by (simp add: settle_def split: if_splits)
  ultimately have "keys_distinct (t\<lparr>tb_rows := rows\<rparr>) [MARKER_COLUMN]" "find_column MARKER_COLUMN (t\<lparr>tb_rows := rows\<rparr>) = Some marker_column"
    by (auto simp: table_valid_def list_all_iff unique_keys_def find_column_def)
  from keys_distinct_marker [OF this(2,1)] show ?thesis by simp
qed

definition one_master :: "row list" where
  "one_master = [\<lambda>c. if c = Col_Is_Master then V_Bool True else V_Uuid 1, \<lambda>c. if c = Col_Is_Master then V_Bool False else V_Uuid 2]"

theorem marker_admits_one_master_witness:
  "\<exists>ct t ct'. snd (run_migrations Sqlite [] empty_catalog) = (map mg_name migrations, ct) \<and> find_table Tb_Api_Keys ct = Some t \<and>
     settle (t\<lparr>tb_rows := one_master\<rparr>) ct = Inr ct' \<and> length (filter (\<lambda>r. r Col_Is_Master = V_Bool True) one_master) \<le> 1"
proof -
  obtain r applied ct where run: "run_migrations Sqlite [] empty_catalog = (r, applied, ct)" by (cases "run_migrations Sqlite [] empty_catalog")
  then have applied: "applied = map mg_name migrations" using migrated_schema [of Sqlite] by simp
  have "case run_migrations Sqlite [] empty_catalog of (r, applied, ct) \<Rightarrow>
      (case find_table Tb_Api_Keys ct of None \<Rightarrow> False | Some t \<Rightarrow> is_ok (settle (t\<lparr>tb_rows := one_master\<rparr>) ct))" by code_simp
  then obtain t ct' where "find_table Tb_Api_Keys ct = Some t" "settle (t\<lparr>tb_rows := one_master\<rparr>) ct = Inr ct'"
    by (auto simp: run is_ok_def split: option.splits sum.splits)
  with marker_admits_one_master [OF run this] run applied show ?thesis by auto
qed

text \<open>The marker that 000007 left to the application admits a second master that omits it.\<close>

definition two_masters :: "row list" where
  "two_masters = [\<lambda>c. if c = Col_Is_Master then V_Bool True else if c = Col_Master_Marker then V_Text MASTER_MARKER else V_Uuid 1,
     \<lambda>c. if c = Col_Is_Master then V_Bool True else if c = Col_Master_Marker then V_Null else V_Uuid 2]"

lemma assigned_marker_is_bypassed:
  "case steps (map (\<lambda>m. mg_up m Sqlite) (take 7 migrations)) empty_catalog of (r, ct) \<Rightarrow>
     (case find_table Tb_Api_Keys ct of None \<Rightarrow> False | Some t \<Rightarrow> is_ok (settle (t\<lparr>tb_rows := two_masters\<rparr>) ct))"
  by code_simp

text \<open>Both migrations stop at a second master before they change anything.\<close>

lemma second_master_stops_migration:
  assumes "find_table Tb_Api_Keys ct = Some t" "1 < length (filter (\<lambda>r. r Col_Is_Master = V_Bool True) (tb_rows t))"
  shows "master_marker_up b ct = (Inl (Refusal ''more than one master''), ct)"
    "derive_marker_up b ct = (Inl (Refusal ''more than one master''), ct)"
  using assms by (simp_all add: master_marker_up_def derive_marker_up_def refuse_second_master_def master_key_rows_def)

end
