(* ===== verification/Audit_Migration.thy ===== *)
theory Audit_Migration
  imports Migrations
begin

text \<open>
  The audit migration on a table with arbitrary rows: rebuilding the table (SQLite) and altering its
  columns (the other backends) leave the same table with the same rows, in which every entry names
  an actor or says that none was recorded.
\<close>

subsection \<open>The audit migration on arbitrary rows\<close>

text \<open>The audit table with each attribution column nullable or not, and its rows.\<close>
definition audit_with :: "bool \<Rightarrow> bool \<Rightarrow> bool \<Rightarrow> row list \<Rightarrow> sql_table" where
  "audit_with n p i rows =
     (audit_table Tb_Audit_Logs False)\<lparr>tb_columns :=
        [required Col_Id T_Uuid, col Col_Api_Key_Id T_Uuid, (col Col_Api_Key_Name T_String)\<lparr>cl_not_null := n\<rparr>,
         (col Col_Api_Key_Prefix T_String)\<lparr>cl_not_null := p\<rparr>, (col Col_Client_Ip T_String)\<lparr>cl_not_null := i\<rparr>,
         required Col_Action T_String, col Col_Target_Address T_String, col Col_Group_Names T_String, col Col_Details T_Text,
         required Col_Timestamp T_Date_Time], tb_rows := rows\<rparr>"

definition audit_indexes :: "sql_index list" where
  "audit_indexes = [index_on Ix_Audit_Logs_Action Tb_Audit_Logs [Col_Action], index_on Ix_Audit_Logs_Timestamp Tb_Audit_Logs [Col_Timestamp]]"

text \<open>A database whose audit table has the initial definition, its two indexes, and any rows.\<close>
definition audit_shape :: "row list \<Rightarrow> catalog \<Rightarrow> bool" where
  "audit_shape rows ct \<longleftrightarrow>
     find_table Tb_Audit_Logs ct = Some (audit_with False False False rows) \<and> find_table Tb_Audit_Logs_Rebuild ct = None \<and>
     distinct (map tb_name (ct_tables ct)) \<and>
     list_all (\<lambda>u. list_all (\<lambda>f. fk_table f \<noteq> Tb_Audit_Logs \<and> fk_table f \<noteq> Tb_Audit_Logs_Rebuild) (tb_foreign u)) (ct_tables ct) \<and>
     filter (\<lambda>i. ix_table i = Tb_Audit_Logs) (ct_indexes ct) = audit_indexes \<and>
     list_all (\<lambda>i. ix_table i \<noteq> Tb_Audit_Logs_Rebuild \<and>
       (ix_name i \<in> {Ix_Audit_Logs_Action, Ix_Audit_Logs_Timestamp} \<longrightarrow> ix_table i = Tb_Audit_Logs)) (ct_indexes ct) \<and>
     list_all (\<lambda>r. r Col_Id \<noteq> V_Null \<and> r Col_Action \<noteq> V_Null \<and> r Col_Timestamp \<noteq> V_Null \<and>
       (\<forall>c. find_column c (audit_with False False False []) = None \<longrightarrow> r c = V_Null)) rows \<and>
     distinct (map (\<lambda>r. r Col_Id) rows)"

text \<open>A row with what was never recorded marked as such.\<close>
definition recorded :: "row \<Rightarrow> row" where
  "recorded r c = (if c \<in> set ATTRIBUTION_COLUMNS \<and> r c = V_Null then V_Text UNRECORDED else r c)"

lemma audit_with_True: "audit_table Tb_Audit_Logs True = audit_with True True True []"
  by (simp add: audit_with_def audit_table_def new_table_def Let_def required_def)

lemma audit_with_simps [simp]:
  "tb_name (audit_with n p i rows) = Tb_Audit_Logs" "tb_rows (audit_with n p i rows) = rows"
  "(audit_with n p i rows)\<lparr>tb_rows := rows'\<rparr> = audit_with n p i rows'" "tb_unique (audit_with n p i rows) = [[Col_Id]]"
  by (simp_all add: audit_with_def audit_table_def new_table_def Let_def)

lemma column_builders [simp]:
  "cl_name (col n ty) = n" "cl_not_null (col n ty) = False" "cl_derived (col n ty) = None"
  "cl_name (required n ty) = n" "cl_not_null (required n ty) = True" "cl_derived (required n ty) = None"
  by (simp_all add: col_def required_def)

lemma audit_column: "find_column c (audit_with n p i rows) = None \<longleftrightarrow> find_column c (audit_with False False False []) = None"
  by (auto simp: audit_with_def find_column_def)

lemma audit_value: "(\<forall>c. find_column c (audit_with False False False []) = None \<longrightarrow> r c = V_Null) \<Longrightarrow> value_of (audit_with n p i rows) r = r"
  by (rule ext) (auto simp: value_of_def audit_with_def find_column_def)

lemma audit_valid:
  assumes "filter (\<lambda>j. ix_table j = Tb_Audit_Logs) (ct_indexes ct) = audit_indexes"
    and "\<forall>r\<in>set rows. r Col_Id \<noteq> V_Null \<and> r Col_Action \<noteq> V_Null \<and> r Col_Timestamp \<noteq> V_Null"
    and "\<forall>r\<in>set rows. (n \<longrightarrow> r Col_Api_Key_Name \<noteq> V_Null) \<and> (p \<longrightarrow> r Col_Api_Key_Prefix \<noteq> V_Null) \<and> (i \<longrightarrow> r Col_Client_Ip \<noteq> V_Null)"
    and "distinct (map (\<lambda>r. r Col_Id) rows)"
  shows "table_valid ct (audit_with n p i rows)"
proof -
  have "filter (\<lambda>j. ix_table j = Tb_Audit_Logs \<and> ix_unique j) (ct_indexes ct) = filter ix_unique audit_indexes"
    unfolding assms(1) [symmetric] by (simp add: conj_commute)
  then have keys: "unique_keys ct (audit_with n p i rows) = [[Col_Id]]"
    by (simp add: unique_keys_def audit_indexes_def index_on_def)
  have "value_of (audit_with n p i rows) r Col_Id = r Col_Id" for r by (simp add: value_of_def audit_with_def find_column_def)
  then have "keys_distinct (audit_with n p i rows) [Col_Id]"
    using assms(2,4) by (auto simp: keys_distinct_def filter_map comp_def distinct_map inj_on_def)
  moreover have "row_complete (audit_with n p i rows) r" if "r \<in> set rows" for r
    using assms(2,3) that by (simp add: row_complete_def audit_with_def)
  ultimately show ?thesis by (simp add: table_valid_def list_all_iff keys)
qed

subsection \<open>Backfill\<close>

lemma put_put_table [simp]: "tb_name t = tb_name u \<Longrightarrow> put_table t (put_table u ct) = put_table t ct"
  by (simp add: put_table_def comp_def if_distrib cong: if_cong)

definition filled :: "column_name \<Rightarrow> row \<Rightarrow> row" where
  "filled c r = (if r c = V_Null then r(c := V_Text UNRECORDED) else r)"

lemma recorded_fills: "recorded r = filled Col_Client_Ip (filled Col_Api_Key_Prefix (filled Col_Api_Key_Name r))"
  by (rule ext) (auto simp: recorded_def filled_def ATTRIBUTION_COLUMNS_def)

lemma ids_kept: "(\<And>r. f r Col_Id = r Col_Id) \<Longrightarrow> map (\<lambda>r. r Col_Id) (map f rows) = map (\<lambda>r. r Col_Id) rows"
  by simp

lemma recorded_fun: "recorded = (\<lambda>r. filled Col_Client_Ip (filled Col_Api_Key_Prefix (filled Col_Api_Key_Name r)))"
  by (rule ext) (rule recorded_fills)

lemma backfill_step:
  assumes "find_table Tb_Audit_Logs ct = Some (audit_with False False False rows)" "c \<in> set ATTRIBUTION_COLUMNS"
    and "filter (\<lambda>j. ix_table j = Tb_Audit_Logs) (ct_indexes ct) = audit_indexes"
    and "\<forall>r\<in>set rows. r Col_Id \<noteq> V_Null \<and> r Col_Action \<noteq> V_Null \<and> r Col_Timestamp \<noteq> V_Null"
    and "distinct (map (\<lambda>r. r Col_Id) rows)"
  shows "exec (Update_Set Tb_Audit_Logs c (\<lambda>r. V_Text UNRECORDED) (\<lambda>r. r c = V_Null)) ct =
    (Inr (), put_table (audit_with False False False (map (filled c) rows)) ct)"
proof -
  have c: "c \<noteq> Col_Id" "c \<noteq> Col_Action" "c \<noteq> Col_Timestamp" "find_column c (audit_with False False False rows) \<noteq> None"
    using assms(2) by (auto simp: ATTRIBUTION_COLUMNS_def audit_with_def find_column_def)
  have ids: "map (\<lambda>r. r Col_Id) (map (filled c) rows) = map (\<lambda>r. r Col_Id) rows"
    by (rule ids_kept) (use c in \<open>simp add: filled_def\<close>)
  have "distinct (map (\<lambda>r. r Col_Id) (map (filled c) rows))" unfolding ids by (rule assms(5))
  moreover have "\<forall>r\<in>set (map (filled c) rows). r Col_Id \<noteq> V_Null \<and> r Col_Action \<noteq> V_Null \<and> r Col_Timestamp \<noteq> V_Null"
    using assms(4) c by (auto simp: filled_def)
  ultimately have "table_valid ct (audit_with False False False (map (filled c) rows))"
    by (intro audit_valid [OF assms(3)]) simp_all
  moreover have "(\<lambda>r. if r c = V_Null then r(c := V_Text UNRECORDED) else r) = filled c"
    by (rule ext) (simp add: filled_def)
  ultimately show ?thesis using assms(1) c(4) by (simp add: exec_def on_table_def settle_def)
qed

lemma backfill_runs:
  assumes "audit_shape rows ct"
  shows "backfill ct = (Inr (), put_table (audit_with False False False (map recorded rows)) ct)"
proof -
  have shape: "find_table Tb_Audit_Logs ct = Some (audit_with False False False rows)"
    "filter (\<lambda>j. ix_table j = Tb_Audit_Logs) (ct_indexes ct) = audit_indexes" "distinct (map (\<lambda>r. r Col_Id) rows)"
    "\<forall>r\<in>set rows. r Col_Id \<noteq> V_Null \<and> r Col_Action \<noteq> V_Null \<and> r Col_Timestamp \<noteq> V_Null"
    using assms by (auto simp: audit_shape_def list_all_iff)
  have kept: "filled c r d = r d" if "c \<in> set ATTRIBUTION_COLUMNS" "d \<in> {Col_Id, Col_Action, Col_Timestamp}" for c r d
    using that by (auto simp: filled_def ATTRIBUTION_COLUMNS_def)
  have in_list: "Col_Api_Key_Name \<in> set ATTRIBUTION_COLUMNS" "Col_Api_Key_Prefix \<in> set ATTRIBUTION_COLUMNS"
    "Col_Client_Ip \<in> set ATTRIBUTION_COLUMNS" by (simp_all add: ATTRIBUTION_COLUMNS_def)
  show ?thesis
    unfolding backfill_def ATTRIBUTION_COLUMNS_def
    using backfill_step [OF shape(1) in_list(1) shape(2,4,3)]
      backfill_step [where ct = "put_table (audit_with False False False (map (filled Col_Api_Key_Name) rows)) ct", OF _ in_list(2), of "map (filled Col_Api_Key_Name) rows"]
      backfill_step [where ct = "put_table (audit_with False False False (map (filled Col_Api_Key_Prefix) (map (filled Col_Api_Key_Name) rows))) ct",
        OF _ in_list(3), of "map (filled Col_Api_Key_Prefix) (map (filled Col_Api_Key_Name) rows)"]
      shape kept in_list
    by (simp add: find_put_table comp_def recorded_fun)
qed

subsection \<open>The two ways\<close>

lemma recorded_complete:
  "recorded r Col_Api_Key_Name \<noteq> V_Null \<and> recorded r Col_Api_Key_Prefix \<noteq> V_Null \<and> recorded r Col_Client_Ip \<noteq> V_Null"
  by (simp add: recorded_def ATTRIBUTION_COLUMNS_def)

lemma recorded_kept: "c \<notin> set ATTRIBUTION_COLUMNS \<Longrightarrow> recorded r c = r c"
  by (simp add: recorded_def)

lemma backfilled_shape:
  assumes "audit_shape rows ct"
  shows "audit_shape (map recorded rows) (put_table (audit_with False False False (map recorded rows)) ct)"
proof -
  have ids: "map (\<lambda>r. r Col_Id) (map recorded rows) = map (\<lambda>r. r Col_Id) rows"
    by (rule ids_kept) (simp add: recorded_kept ATTRIBUTION_COLUMNS_def)
  have "distinct (map (\<lambda>r. r Col_Id) (map recorded rows))" unfolding ids using assms by (simp add: audit_shape_def)
  moreover have "map tb_name (ct_tables (put_table t ct)) = map tb_name (ct_tables ct)" for t
    by (auto simp: put_table_def)
  moreover have "find_column c (audit_with False False False []) = None \<Longrightarrow> c \<notin> set ATTRIBUTION_COLUMNS" for c
    by (auto simp: ATTRIBUTION_COLUMNS_def audit_with_def find_column_def)
  moreover have "list_all (\<lambda>u. list_all (\<lambda>f. fk_table f \<noteq> Tb_Audit_Logs \<and> fk_table f \<noteq> Tb_Audit_Logs_Rebuild) (tb_foreign u))
      (ct_tables (put_table (audit_with False False False (map recorded rows)) ct))"
    using assms
    by (auto simp: audit_shape_def put_table_def list_all_iff audit_with_def audit_table_def new_table_def references_def Let_def)
  ultimately show ?thesis
    using assms unfolding audit_shape_def
    by (simp add: find_put_table list_all_iff recorded_kept) (simp add: recorded_kept ATTRIBUTION_COLUMNS_def)
qed

lemma modify_audit:
  assumes "find_table Tb_Audit_Logs ct = Some (audit_with n p i rows)" "table_valid ct (audit_with n' p' i' rows)"
    and "map (\<lambda>y. if cl_name y = c then required c T_String else y) (tb_columns (audit_with n p i [])) = tb_columns (audit_with n' p' i' [])"
    and "c \<in> set ATTRIBUTION_COLUMNS"
  shows "exec (Modify_Column Tb_Audit_Logs (required c T_String)) ct = (Inr (), put_table (audit_with n' p' i' rows) ct)"
proof -
  have "(audit_with n p i rows)\<lparr>tb_columns := map (\<lambda>y. if cl_name y = c then required c T_String else y) (tb_columns (audit_with n p i rows))\<rparr> =
      audit_with n' p' i' rows"
    using assms(3) by (simp add: audit_with_def)
  moreover have "find_column c (audit_with n p i rows) \<noteq> None"
    using assms(4) by (auto simp: ATTRIBUTION_COLUMNS_def audit_with_def find_column_def)
  ultimately show ?thesis using assms(1,2) by (simp add: exec_def on_table_def settle_def)
qed

lemma modify_runs:
  assumes "audit_shape rows ct"
    and "\<forall>r\<in>set rows. r Col_Api_Key_Name \<noteq> V_Null \<and> r Col_Api_Key_Prefix \<noteq> V_Null \<and> r Col_Client_Ip \<noteq> V_Null"
  shows "steps (map (\<lambda>c. exec (Modify_Column Tb_Audit_Logs (required c T_String))) ATTRIBUTION_COLUMNS) ct =
    (Inr (), put_table (audit_with True True True rows) ct)"
proof -
  have valid: "table_valid ct' (audit_with n p i rows)" if "ct_indexes ct' = ct_indexes ct" for ct' n p i
    by (rule audit_valid) (use assms that in \<open>auto simp: audit_shape_def list_all_iff\<close>)
  have found: "find_table Tb_Audit_Logs ct = Some (audit_with False False False rows)" using assms(1) by (simp add: audit_shape_def)
  have one: "exec (Modify_Column Tb_Audit_Logs (required Col_Api_Key_Name T_String)) ct = (Inr (), put_table (audit_with True False False rows) ct)"
    by (rule modify_audit [OF found, of True False False]) (simp_all add: valid, simp_all add: audit_with_def ATTRIBUTION_COLUMNS_def required_def col_def)
  have two: "exec (Modify_Column Tb_Audit_Logs (required Col_Api_Key_Prefix T_String)) (put_table (audit_with True False False rows) ct) =
      (Inr (), put_table (audit_with True True False rows) (put_table (audit_with True False False rows) ct))"
    by (rule modify_audit [of _ True False False rows True True False]) (simp_all add: find_put_table found valid, simp_all add: audit_with_def ATTRIBUTION_COLUMNS_def required_def col_def
        audit_table_def new_table_def Let_def)
  have three: "exec (Modify_Column Tb_Audit_Logs (required Col_Client_Ip T_String)) (put_table (audit_with True True False rows) ct) =
      (Inr (), put_table (audit_with True True True rows) (put_table (audit_with True True False rows) ct))"
    by (rule modify_audit [of _ True True False rows True True True]) (simp_all add: find_put_table found valid, simp_all add: audit_with_def ATTRIBUTION_COLUMNS_def required_def col_def
        audit_table_def new_table_def Let_def)
  show ?thesis using one two three by (simp add: ATTRIBUTION_COLUMNS_def)
qed

lemma find_filtered: "n \<noteq> m \<Longrightarrow> List.find (\<lambda>t. tb_name t = n) (filter (\<lambda>u. tb_name u \<noteq> m) ts) = List.find (\<lambda>t. tb_name t = n) ts"
  by (induction ts) auto

lemma find_removed: "List.find (\<lambda>t. tb_name t = n) (filter (\<lambda>u. tb_name u \<noteq> n) ts) = None"
  by (auto simp: find_None_iff)

lemma find_append: "List.find P (xs @ ys) = (case List.find P xs of None \<Rightarrow> List.find P ys | Some x \<Rightarrow> Some x)"
  by (induction xs) auto

definition rebuilt :: "row list \<Rightarrow> catalog \<Rightarrow> catalog" where
  "rebuilt rows ct =
     \<lparr>ct_tables = filter (\<lambda>u. tb_name u \<noteq> Tb_Audit_Logs) (ct_tables ct) @ [audit_with True True True rows],
      ct_indexes = filter (\<lambda>i. ix_table i \<noteq> Tb_Audit_Logs) (ct_indexes ct) @ audit_indexes\<rparr>"

lemma rebuild_runs:
  assumes "audit_shape rows ct"
    and "\<forall>r\<in>set rows. r Col_Api_Key_Name \<noteq> V_Null \<and> r Col_Api_Key_Prefix \<noteq> V_Null \<and> r Col_Client_Ip \<noteq> V_Null"
  shows "rebuild_audit True ct = (Inr (), rebuilt rows ct)"
proof -
  let ?R = "\<lambda>rs. (audit_with True True True rs)\<lparr>tb_name := Tb_Audit_Logs_Rebuild\<rparr>"
  let ?all = "[Col_Id, Col_Api_Key_Id, Col_Api_Key_Name, Col_Api_Key_Prefix, Col_Client_Ip, Col_Action, Col_Target_Address,
       Col_Group_Names, Col_Details, Col_Timestamp]"
  have found: "find_table Tb_Audit_Logs ct = Some (audit_with False False False rows)" "find_table Tb_Audit_Logs_Rebuild ct = None"
    using assms(1) by (simp_all add: audit_shape_def)
  have absent: "\<forall>u\<in>set (ct_tables ct). tb_name u \<noteq> Tb_Audit_Logs_Rebuild"
    using found(2) by (auto simp: find_table_def find_None_iff)
  have unreferenced: "\<forall>u\<in>set (ct_tables ct). \<forall>f\<in>set (tb_foreign u). fk_table f \<noteq> Tb_Audit_Logs \<and> fk_table f \<noteq> Tb_Audit_Logs_Rebuild"
    using assms(1) by (simp add: audit_shape_def list_all_iff)
  have indexes: "\<forall>i\<in>set (ct_indexes ct). ix_table i \<noteq> Tb_Audit_Logs_Rebuild \<and>
      (ix_name i \<in> {Ix_Audit_Logs_Action, Ix_Audit_Logs_Timestamp} \<longrightarrow> ix_table i = Tb_Audit_Logs)"
    using assms(1) by (simp add: audit_shape_def list_all_iff)
  have fresh: "audit_table Tb_Audit_Logs_Rebuild True = ?R []"
    by (simp add: audit_with_def audit_table_def new_table_def Let_def required_def)
  define ct1 where "ct1 = ct\<lparr>ct_tables := ct_tables ct @ [?R []]\<rparr>"
  have one: "exec (Create_Table False (audit_table Tb_Audit_Logs_Rebuild True)) ct = (Inr (), ct1)"
    using found(2) by (simp add: exec_def fresh ct1_def)
  have found1: "find_table Tb_Audit_Logs_Rebuild ct1 = Some (?R [])" "find_table Tb_Audit_Logs ct1 = Some (audit_with False False False rows)"
    using found by (simp_all add: find_table_def ct1_def find_append)
  have trimmed: "r c = V_Null" if "r \<in> set rows" "c \<notin> set ?all" for r c
    using assms(1) that by (auto simp: audit_shape_def list_all_iff audit_with_def find_column_def)
  have copied: "map (\<lambda>r c. if c \<in> set ?all then value_of (audit_with False False False rows) r c
      else (case find_column c (?R []) of None \<Rightarrow> V_Null | Some x \<Rightarrow> unwrap_or V_Null (cl_default x))) rows = rows"
  proof (rule map_idI, rule ext)
    fix r c assume r: "r \<in> set rows"
    then have "value_of (audit_with False False False rows) r c = r c"
      using assms(1) audit_value [of r False False False rows] by (auto simp: audit_shape_def list_all_iff)
    then show "(if c \<in> set ?all then value_of (audit_with False False False rows) r c
        else (case find_column c (?R []) of None \<Rightarrow> V_Null | Some x \<Rightarrow> unwrap_or V_Null (cl_default x))) = r c"
      using trimmed [OF r, of c] by (auto simp: audit_with_def find_column_def)
  qed
  have "table_valid ct1 (?R rows)"
  proof -
    have "unique_keys ct1 (?R rows) = [[Col_Id]]"
      using indexes by (auto simp: unique_keys_def ct1_def filter_empty_conv)
    moreover have "value_of (?R rows) r Col_Id = r Col_Id" for r by (simp add: value_of_def audit_with_def find_column_def)
    then have "keys_distinct (?R rows) [Col_Id]"
      using assms(1) by (auto simp: keys_distinct_def filter_map comp_def distinct_map inj_on_def audit_shape_def list_all_iff)
    moreover have "list_all (row_complete (?R rows)) rows"
      using assms by (auto simp: audit_shape_def list_all_iff row_complete_def audit_with_def)
    ultimately show ?thesis by (simp add: table_valid_def)
  qed
  moreover have "find_column c (?R []) \<noteq> None \<and> find_column c (audit_with False False False rows) \<noteq> None" if "c \<in> set ?all" for c
    using that by (auto simp: audit_with_def find_column_def)
  moreover have "(?R [])\<lparr>tb_rows := rows\<rparr> = ?R rows" by (simp add: audit_with_def)
  ultimately have two: "exec (Insert_Select Tb_Audit_Logs_Rebuild Tb_Audit_Logs ?all) ct1 = (Inr (), put_table (?R rows) ct1)"
    using copied by (simp add: exec_def on_table_def found1 settle_def list_ex_iff del: set_simps)
  have tables2: "ct_tables (put_table (?R rows) ct1) = ct_tables ct @ [?R rows]"
    using absent by (auto simp: put_table_def ct1_def intro: map_idI)
  define ct2 where "ct2 = put_table (?R rows) ct1"
  have ct2: "ct_tables ct2 = ct_tables ct @ [?R rows]" "ct_indexes ct2 = ct_indexes ct"
    using tables2 by (simp_all add: ct2_def ct1_def)
  define ct3 where "ct3 = \<lparr>ct_tables = filter (\<lambda>u. tb_name u \<noteq> Tb_Audit_Logs) (ct_tables ct) @ [?R rows],
      ct_indexes = filter (\<lambda>i. ix_table i \<noteq> Tb_Audit_Logs) (ct_indexes ct)\<rparr>"
  have audit_fks: "\<forall>f\<in>set (tb_foreign (?R rows)). fk_table f = Tb_Api_Keys"
    by (simp add: audit_with_def audit_table_def new_table_def references_def Let_def)
  have three: "exec (Drop_Table Tb_Audit_Logs) ct2 = (Inr (), ct3)"
    using unreferenced audit_fks found(1) by (auto simp: exec_def on_table_def find_table_def ct2 ct3_def find_append list_ex_iff)
  define ct4 where "ct4 = \<lparr>ct_tables = filter (\<lambda>u. tb_name u \<noteq> Tb_Audit_Logs) (ct_tables ct) @ [audit_with True True True rows],
      ct_indexes = filter (\<lambda>i. ix_table i \<noteq> Tb_Audit_Logs) (ct_indexes ct)\<rparr>"
  have kept: "u\<lparr>tb_name := swap_name Tb_Audit_Logs_Rebuild Tb_Audit_Logs (tb_name u),
      tb_foreign := map (\<lambda>f. f\<lparr>fk_table := swap_name Tb_Audit_Logs_Rebuild Tb_Audit_Logs (fk_table f)\<rparr>) (tb_foreign u)\<rparr> = u"
    if "tb_name u \<noteq> Tb_Audit_Logs_Rebuild" "\<forall>f\<in>set (tb_foreign u). fk_table f \<noteq> Tb_Audit_Logs_Rebuild" for u :: sql_table
    using that by (simp add: swap_name_def map_idI)
  have renamed: "(?R rows)\<lparr>tb_name := Tb_Audit_Logs,
      tb_foreign := map (\<lambda>f. f\<lparr>fk_table := swap_name Tb_Audit_Logs_Rebuild Tb_Audit_Logs (fk_table f)\<rparr>) (tb_foreign (?R rows))\<rparr> =
      audit_with True True True rows"
    by (simp add: audit_with_def audit_table_def new_table_def references_def Let_def swap_name_def)
  have "find_table Tb_Audit_Logs ct3 = None" "find_table Tb_Audit_Logs_Rebuild ct3 = Some (?R rows)"
    using found(2) by (simp_all add: ct3_def find_table_def find_append find_filtered find_removed)
  then have four: "exec (Rename_Table Tb_Audit_Logs_Rebuild Tb_Audit_Logs) ct3 = (Inr (), ct4)"
    using absent unreferenced kept renamed indexes
    by (auto simp: exec_def on_table_def ct3_def ct4_def swap_name_def intro!: map_idI)
  have "find_table Tb_Audit_Logs ct4 = Some (audit_with True True True rows)"
    by (simp add: ct4_def find_table_def find_append find_removed)
  then have five: "recreate_indexes ct4 = (Inr (), rebuilt rows ct)"
    using indexes
    by (auto simp: recreate_indexes_def exec_def on_table_def find_table_def index_on_def audit_indexes_def rebuilt_def ct4_def
        list_ex_iff audit_with_def find_column_def)
  show ?thesis using one two three four five by (simp add: rebuild_audit_def ct2_def [symmetric])
qed

text \<open>
  C38 The audit trail survives the migration that completes its attribution: whichever way the backend
  takes, on a table with any rows it succeeds, and leaves the table with its three attribution columns
  required, the same rows in the same order with only the missing attributions replaced by the text
  that says so, the same indexes, and every other table as it was.
\<close>

theorem audit_migration_keeps_the_trail:
  assumes "audit_shape rows ct"
  shows "case attribution_up b ct of (r, ct') \<Rightarrow>
    r = Inr () \<and> find_table Tb_Audit_Logs ct' = Some ((audit_table Tb_Audit_Logs True)\<lparr>tb_rows := map recorded rows\<rparr>) \<and>
    (\<forall>n. n = Tb_Audit_Logs \<or> find_table n ct' = find_table n ct) \<and> set (ct_indexes ct') = set (ct_indexes ct)"
proof -
  let ?ct1 = "put_table (audit_with False False False (map recorded rows)) ct"
  note shape = backfilled_shape [OF assms]
  have complete: "\<forall>r\<in>set (map recorded rows). r Col_Api_Key_Name \<noteq> V_Null \<and> r Col_Api_Key_Prefix \<noteq> V_Null \<and> r Col_Client_Ip \<noteq> V_Null"
    using recorded_complete by simp
  have found: "find_table Tb_Audit_Logs ct = Some (audit_with False False False rows)" using assms by (simp add: audit_shape_def)
  have goal_table: "(audit_table Tb_Audit_Logs True)\<lparr>tb_rows := map recorded rows\<rparr> = audit_with True True True (map recorded rows)"
    by (simp add: audit_with_True)
  show ?thesis
  proof (cases "b = Sqlite")
    case True
    have "set audit_indexes = {i \<in> set (ct_indexes ct). ix_table i = Tb_Audit_Logs}"
      using assms unfolding audit_shape_def by (metis set_filter)
    then have "set (ct_indexes (rebuilt (map recorded rows) ?ct1)) = set (ct_indexes ct)"
      by (auto simp: rebuilt_def)
    moreover have "find_table n (rebuilt (map recorded rows) ?ct1) = find_table n ct" if "n \<noteq> Tb_Audit_Logs" for n
      using that find_put_table [of n "audit_with False False False (map recorded rows)" ct]
      by (simp add: rebuilt_def find_table_def find_append find_filtered split: option.split)
    moreover have "find_table Tb_Audit_Logs (rebuilt (map recorded rows) ?ct1) = Some (audit_with True True True (map recorded rows))"
      by (simp add: rebuilt_def find_table_def find_append find_removed)
    ultimately show ?thesis
      using True backfill_runs [OF assms] rebuild_runs [OF shape complete] goal_table by (auto simp: attribution_up_def)
  next
    case False
    then show ?thesis
      using backfill_runs [OF assms] modify_runs [OF shape complete] found goal_table
      by (simp add: attribution_up_def find_put_table)
  qed
qed

text \<open>One entry whose actor was never written, and one that has been.\<close>

definition trail_rows :: "row list" where
  "trail_rows =
     [\<lambda>c. if c = Col_Id then V_Uuid 1 else if c = Col_Action then V_Text ''KEY_CREATE'' else if c = Col_Timestamp then V_Time 1 else V_Null,
      \<lambda>c. if c = Col_Id then V_Uuid 2 else if c = Col_Action then V_Text ''KEY_DELETE'' else if c = Col_Timestamp then V_Time 2
          else if c = Col_Api_Key_Name then V_Text ''ops'' else V_Null]"

definition trail_catalog :: catalog where
  "trail_catalog = \<lparr>ct_tables = [audit_with False False False trail_rows], ct_indexes = audit_indexes\<rparr>"

theorem audit_migration_keeps_the_trail_witness:
  "\<exists>t. find_table Tb_Audit_Logs (snd (attribution_up Sqlite trail_catalog)) = Some t \<and>
     map (\<lambda>r. r Col_Api_Key_Name) (tb_rows t) = [V_Text ''(unknown)'', V_Text ''ops''] \<and>
     map (\<lambda>r. r Col_Id) (tb_rows t) = [V_Uuid 1, V_Uuid 2]"
proof -
  have "find_table Tb_Audit_Logs trail_catalog = Some (audit_with False False False trail_rows)"
    "find_table Tb_Audit_Logs_Rebuild trail_catalog = None"
    by (simp_all add: trail_catalog_def find_table_def)
  moreover have "list_all (\<lambda>f. fk_table f \<noteq> Tb_Audit_Logs \<and> fk_table f \<noteq> Tb_Audit_Logs_Rebuild) (tb_foreign (audit_with n p i rows))"
    for n p i rows by (simp add: audit_with_def audit_table_def new_table_def references_def Let_def)
  ultimately have "audit_shape trail_rows trail_catalog"
    unfolding audit_shape_def
    by (auto simp: trail_catalog_def audit_indexes_def index_on_def trail_rows_def audit_with_def find_column_def)
  from audit_migration_keeps_the_trail [OF this, of Sqlite] show ?thesis
    by (auto simp: trail_rows_def recorded_def ATTRIBUTION_COLUMNS_def UNRECORDED_def split: prod.splits)
qed

definition empty_audit_shape :: "catalog \<Rightarrow> bool" where
  "empty_audit_shape ct =
     ((case find_table Tb_Audit_Logs ct of None \<Rightarrow> False
       | Some t \<Rightarrow> tb_columns t = tb_columns (audit_with False False False []) \<and> tb_unique t = [[Col_Id]] \<and>
          tb_foreign t = tb_foreign (audit_with False False False []) \<and> length (tb_rows t) = 0) \<and>
      (case find_table Tb_Audit_Logs_Rebuild ct of None \<Rightarrow> True | Some t \<Rightarrow> False) \<and>
      distinct (map tb_name (ct_tables ct)) \<and>
      list_all (\<lambda>u. list_all (\<lambda>f. fk_table f \<noteq> Tb_Audit_Logs \<and> fk_table f \<noteq> Tb_Audit_Logs_Rebuild) (tb_foreign u)) (ct_tables ct) \<and>
      filter (\<lambda>i. ix_table i = Tb_Audit_Logs) (ct_indexes ct) = audit_indexes \<and>
      list_all (\<lambda>i. ix_table i \<noteq> Tb_Audit_Logs_Rebuild \<and>
        (ix_name i \<in> {Ix_Audit_Logs_Action, Ix_Audit_Logs_Timestamp} \<longrightarrow> ix_table i = Tb_Audit_Logs)) (ct_indexes ct))"

lemma empty_audit_shapeD:
  assumes "empty_audit_shape ct"
  shows "audit_shape [] ct"
proof -
  obtain t where t: "find_table Tb_Audit_Logs ct = Some t" "tb_columns t = tb_columns (audit_with False False False [])"
    "tb_unique t = [[Col_Id]]" "tb_foreign t = tb_foreign (audit_with False False False [])" "tb_rows t = []"
    using assms by (auto simp: empty_audit_shape_def split: option.splits)
  then have "t = audit_with False False False []" using find_table_name [OF t(1)] by simp
  then show ?thesis using t(1) assms by (simp add: audit_shape_def empty_audit_shape_def split: option.splits)
qed

text \<open>The nine migrations before it leave a table of this shape.\<close>

lemma predecessors_leave_the_shape: "audit_shape [] (snd (steps (map (\<lambda>m. mg_up m b) (take 9 migrations)) empty_catalog))"
proof -
  have "case steps (map (\<lambda>m. mg_up m Sqlite) (take 9 migrations)) empty_catalog of (r, ct) \<Rightarrow> empty_audit_shape ct"
    "case steps (map (\<lambda>m. mg_up m Postgres) (take 9 migrations)) empty_catalog of (r, ct) \<Rightarrow> empty_audit_shape ct"
    by code_simp+
  moreover have "map (\<lambda>m. mg_up m b) (take 9 migrations) = map (\<lambda>m. mg_up m Postgres) (take 9 migrations)" if "b \<noteq> Sqlite"
    by (rule map_cong [OF refl], rule other_backends(1) [OF that], erule in_set_takeD)
  ultimately show ?thesis using empty_audit_shapeD unfolding split_beta by (cases "b = Sqlite") metis+
qed

end
