(* ===== verification/Connection.thy ===== *)
theory Connection
  imports Config Migration_Properties Errors
begin

text \<open>
  How the database is opened (\<open>src/db.rs\<close>): the options of every SQLite connection, the isolated run
  of the migrations, the pool of the application and the pragmas that confirm its settings. What the
  driver answers is read through \<open>driver\<close>: the parsing of a SQLite URL, whether a pool opens and
  closes, and the engine behind any other URL. \<open>storage\<close> is what outlives a pool, by URL: the
  record of applied migrations and the schema.
\<close>

subsection \<open>A SQLite connection\<close>

datatype journal_mode = Wal | Journal string

datatype synchronous = Normal | Synchronous string

record sqlite_options =
  so_create_if_missing :: bool
  so_foreign_keys :: bool
  so_journal_mode :: journal_mode
  so_synchronous :: synchronous
  so_busy_timeout :: nat
  so_temp_store :: string

record driver =
  dr_parse :: "string \<Rightarrow> string + sqlite_options"
  dr_open :: "string \<Rightarrow> db_err option"
  dr_close :: "string \<Rightarrow> db_err option"
  dr_backend :: "string \<Rightarrow> backend"

definition SQLITE_BUSY_TIMEOUT_MS :: nat where "SQLITE_BUSY_TIMEOUT_MS = 10000"

definition build_sqlite_connect_options :: "driver \<Rightarrow> string \<Rightarrow> db_err + sqlite_options" where
  "build_sqlite_connect_options dr db_url =
     (case dr_parse dr db_url of
        Inl e \<Rightarrow> Inl (Conn (RuntimeInternal e))
      | Inr options \<Rightarrow> Inr (options\<lparr>so_create_if_missing := True, so_foreign_keys := True, so_journal_mode := Wal,
          so_synchronous := Normal, so_busy_timeout := SQLITE_BUSY_TIMEOUT_MS, so_temp_store := ''MEMORY''\<rparr>))"

subsection \<open>Pools\<close>

record pool_spec =
  ps_backend :: backend
  ps_options :: pool_options
  ps_sqlite :: "sqlite_options option"

definition opened :: "driver \<Rightarrow> string \<Rightarrow> db_err + unit" where
  "opened dr db_url = (case dr_open dr db_url of Some e \<Rightarrow> Inl e | None \<Rightarrow> Inr ())"

definition closed :: "driver \<Rightarrow> string \<Rightarrow> db_err + unit" where
  "closed dr db_url = (case dr_close dr db_url of Some e \<Rightarrow> Inl e | None \<Rightarrow> Inr ())"

text \<open>The two branches of both functions that open a pool; \<open>options\<close> is what they differ in.\<close>
definition open_pool :: "driver \<Rightarrow> string \<Rightarrow> pool_options \<Rightarrow> db_err + pool_spec" where
  "open_pool dr db_url options =
     (if starts_with ''sqlite:'' db_url then
        try_then (build_sqlite_connect_options dr db_url) (\<lambda>sqlite.
        try_then (opened dr db_url) (\<lambda>_. Inr \<lparr>ps_backend = Sqlite, ps_options = options, ps_sqlite = Some sqlite\<rparr>))
      else
        try_then (opened dr db_url) (\<lambda>_.
          Inr \<lparr>ps_backend = dr_backend dr db_url, ps_options = options, ps_sqlite = None\<rparr>))"

definition connect :: "driver \<Rightarrow> environment \<Rightarrow> string \<Rightarrow> db_err + pool_spec" where
  "connect dr vars db_url = open_pool dr db_url (connect_options vars db_url)"

subsection \<open>The isolated run of the migrations\<close>

type_synonym storage = "string \<Rightarrow> string list \<times> catalog"

text \<open>A pool on an in-memory database starts from nothing and takes what it wrote with it.\<close>
definition in_memory :: "string \<Rightarrow> bool" where
  "in_memory db_url \<longleftrightarrow> starts_with ''sqlite:'' db_url \<and> is_in_memory_sqlite db_url"

definition found_by :: "string \<Rightarrow> storage \<Rightarrow> string list \<times> catalog" where
  "found_by db_url st = (if in_memory db_url then ([], empty_catalog) else st db_url)"

definition left_by :: "string \<Rightarrow> string list \<times> catalog \<Rightarrow> storage \<Rightarrow> storage" where
  "left_by db_url d st = (if in_memory db_url then st else st(db_url := d))"

definition MIGRATION_POOL_MAX_CONNECTIONS :: nat where "MIGRATION_POOL_MAX_CONNECTIONS = 1"

definition migration_pool :: pool_options where
  "migration_pool = \<lparr>po_max_connections = MIGRATION_POOL_MAX_CONNECTIONS, po_min_connections = None,
     po_idle_timeout = None, po_acquire_timeout = None\<rparr>"

datatype setup_error = Driver db_err | Migrating migration_error

definition as_setup :: "db_err + 'a \<Rightarrow> setup_error + 'a" where
  "as_setup r = (case r of Inl e \<Rightarrow> Inl (Driver e) | Inr x \<Rightarrow> Inr x)"

definition run_migrations_isolated :: "driver \<Rightarrow> string \<Rightarrow> storage \<Rightarrow> (setup_error + unit) \<times> storage" where
  "run_migrations_isolated dr db_url st =
     attempt (as_setup (open_pool dr db_url migration_pool)) st (\<lambda>db.
       case run_migrations (ps_backend db) (fst (found_by db_url st)) (snd (found_by db_url st)) of
         (Inl e, d) \<Rightarrow> (Inl (Migrating e), left_by db_url d st)
       | (Inr _, d) \<Rightarrow> (as_setup (closed dr db_url), left_by db_url d st))"

subsection \<open>The pragmas\<close>

datatype pragma = Pragma_Journal_Mode | Pragma_Foreign_Keys | Pragma_Synchronous | Pragma_Busy_Timeout | Pragma_Temp_Store

fun set_pragma :: "pragma \<Rightarrow> sqlite_options \<Rightarrow> sqlite_options" where
  "set_pragma Pragma_Journal_Mode s = s\<lparr>so_journal_mode := Wal\<rparr>"
| "set_pragma Pragma_Foreign_Keys s = s\<lparr>so_foreign_keys := True\<rparr>"
| "set_pragma Pragma_Synchronous s = s\<lparr>so_synchronous := Normal\<rparr>"
| "set_pragma Pragma_Busy_Timeout s = s\<lparr>so_busy_timeout := SQLITE_BUSY_TIMEOUT_MS\<rparr>"
| "set_pragma Pragma_Temp_Store s = s\<lparr>so_temp_store := ''MEMORY''\<rparr>"

text \<open>\<open>takes p\<close>: the engine carries the statement out; a refusal is logged and swallowed.\<close>
definition apply_sqlite_pragmas :: "(pragma \<Rightarrow> bool) \<Rightarrow> pool_spec \<Rightarrow> (db_err + unit) \<times> pool_spec" where
  "apply_sqlite_pragmas takes db =
     (if ps_backend db \<noteq> Sqlite then (Inr (), db)
      else (Inr (), db\<lparr>ps_sqlite := map_option
        (fold (\<lambda>p s. if takes p then set_pragma p s else s)
          [Pragma_Journal_Mode, Pragma_Foreign_Keys, Pragma_Synchronous, Pragma_Busy_Timeout, Pragma_Temp_Store]) (ps_sqlite db)\<rparr>))"

subsection \<open>Opening the database at the start\<close>

definition open_database ::
  "driver \<Rightarrow> (pragma \<Rightarrow> bool) \<Rightarrow> environment \<Rightarrow> string \<Rightarrow> storage \<Rightarrow> (setup_error + pool_spec \<times> catalog) \<times> storage" where
  "open_database dr takes vars db_url st =
     (case run_migrations_isolated dr db_url st of
        (Inl e, st1) \<Rightarrow> (Inl e, st1)
      | (Inr _, st1) \<Rightarrow>
          attempt (as_setup (connect dr vars db_url)) st1 (\<lambda>db.
          attempt (as_setup (fst (apply_sqlite_pragmas takes db))) st1 (\<lambda>_.
            (Inr (snd (apply_sqlite_pragmas takes db), snd (found_by db_url st1)), st1))))"

lemma as_setup_simps [simp]: "as_setup (Inl e) = Inl (Driver e)" "as_setup (Inr x) = Inr x"
  by (simp_all add: as_setup_def)

lemma as_setup_Inr_iff [simp]: "as_setup r = Inr x \<longleftrightarrow> r = Inr x"
  by (cases r) auto

lemma fst_apply_sqlite_pragmas [simp]: "fst (apply_sqlite_pragmas takes db) = Inr ()"
  by (simp add: apply_sqlite_pragmas_def)

lemma open_pool_InrD:
  assumes "open_pool dr db_url options = Inr db"
  shows "ps_options db = options" "starts_with ''sqlite:'' db_url \<Longrightarrow> ps_backend db = Sqlite"
    "ps_sqlite db = None \<or> (\<exists>s. ps_sqlite db = Some s \<and> build_sqlite_connect_options dr db_url = Inr s)"
  using assms by (auto simp: open_pool_def split: if_splits elim!: try_then_InrE)

lemma built_options:
  "build_sqlite_connect_options dr db_url = Inr s \<Longrightarrow>
     so_foreign_keys s \<and> so_journal_mode s = Wal \<and> so_busy_timeout s = SQLITE_BUSY_TIMEOUT_MS"
  by (auto simp: build_sqlite_connect_options_def split: sum.splits)

lemma set_pragma_built: "build_sqlite_connect_options dr db_url = Inr s \<Longrightarrow> set_pragma p s = s"
  by (cases p) (auto simp: build_sqlite_connect_options_def split: sum.splits)

text \<open>On a pool of this module the pragmas confirm what holds, whether or not the engine takes them.\<close>
lemma pragmas_confirm:
  assumes "open_pool dr db_url options = Inr db"
  shows "apply_sqlite_pragmas takes db = (Inr (), db)"
proof -
  have "fold (\<lambda>p s. if takes p then set_pragma p s else s) ps s = s"
    if "build_sqlite_connect_options dr db_url = Inr s" for ps s
    using that by (induction ps) (auto simp: set_pragma_built)
  then show ?thesis
    using open_pool_InrD(3) [OF assms] by (cases "ps_sqlite db") (auto simp: apply_sqlite_pragmas_def simp del: fold.simps)
qed

lemma open_database_InrD:
  assumes "open_database dr takes vars db_url st = (Inr (db, ct), st1)"
  shows "connect dr vars db_url = Inr db" "ct = snd (found_by db_url st1)"
    "run_migrations_isolated dr db_url st = (Inr (), st1)"
  using assms pragmas_confirm [of dr db_url "connect_options vars db_url" _ takes]
  by (auto simp: open_database_def attempt_def connect_def split: prod.splits sum.splits)

text \<open>
  Every SQLite connection of the service enforces the foreign keys that the cascades of the schema
  rest on, and an in-memory database is served by one connection.
\<close>

lemma service_connections:
  assumes "open_database dr takes vars db_url st = (Inr (db, ct), st1)"
  shows "ps_sqlite db = Some s \<Longrightarrow> so_foreign_keys s \<and> so_busy_timeout s = SQLITE_BUSY_TIMEOUT_MS"
    "in_memory db_url \<Longrightarrow> po_max_connections (ps_options db) = 1"
  using open_pool_InrD [OF open_database_InrD(1) [OF assms, unfolded connect_def]]
  by (auto simp: in_memory_def connect_options_def SQLITE_MEMORY_MAX_CONNECTIONS_def dest: built_options)

text \<open>The first start on a durable database: the application sees the migrated schema.\<close>
lemma first_start_sees_the_schema:
  assumes "open_database dr takes vars db_url st = (Inr (db, ct), st1)"
    "\<not> in_memory db_url" "st db_url = ([], empty_catalog)"
  shows "list_all (columns_match ct) entity_columns \<and> list_all (constraints_match ct) assumed_constraints \<and>
    has_index Tb_Api_Keys MARKER_INDEX ct"
  using open_database_InrD [OF assms(1)] assms(2,3) migrated_schema
  by (fastforce simp: run_migrations_isolated_def attempt_def found_by_def left_by_def split: prod.splits sum.splits)

text \<open>
  On an in-memory URL the migrations run on a database that vanishes with their pool: the application
  finds no table at all, so such a start always fails at its first statement.
\<close>

lemma in_memory_start_finds_nothing:
  assumes "open_database dr takes vars db_url st = (Inr (db, ct), st1)" "in_memory db_url"
  shows "find_table n ct = None \<and> \<not> has_index n i ct"
  using open_database_InrD(2) [OF assms(1)] assms(2)
  by (simp add: found_by_def empty_catalog_def find_table_def has_index_def)

end
