(* ===== verification/Interference.thy ===== *)
theory Interference
  imports System_Properties
begin

text \<open>
  Handlers that run outside a transaction, statement by statement: a program is a function \<open>move\<close> from
  its local state and the database to both, one statement at a time, and between two statements others
  may change the database as \<open>rely\<close> allows. What its invariant promises then holds in every reachable
  state, if no move breaks it and no change of the others does; and programs whose own moves are
  allowed by \<open>rely\<close> can race each other.
\<close>

subsection \<open>A program alone and a program raced\<close>

inductive alone :: "('s \<times> 'd \<Rightarrow> 's \<times> 'd) \<Rightarrow> 's \<times> 'd \<Rightarrow> 's \<times> 'd \<Rightarrow> bool" for move where
  step: "alone move c (move c)"

inductive raced :: "('s \<times> 'd \<Rightarrow> 's \<times> 'd) \<Rightarrow> ('d \<Rightarrow> 'd \<Rightarrow> bool) \<Rightarrow> 's \<times> 'd \<Rightarrow> 's \<times> 'd \<Rightarrow> bool" for move rely where
  own: "raced move rely c (move c)"
| other: "rely d d' \<Longrightarrow> raced move rely (s, d) (s, d')"

inductive_cases racedE: "raced move rely c c'"

lemma alone_move: "(alone move)\<^sup>*\<^sup>* (move c) c' \<Longrightarrow> (alone move)\<^sup>*\<^sup>* c c'"
  by (erule converse_rtranclp_into_rtranclp [rotated]) (rule alone.intros)

lemma raced_own: "(raced move rely)\<^sup>*\<^sup>* c c' \<Longrightarrow> (raced move rely)\<^sup>*\<^sup>* c (move c')"
  by (erule rtranclp.rtrancl_into_rtrancl) (rule raced.own)

lemma raced_other: "(raced move rely)\<^sup>*\<^sup>* c (s, d) \<Longrightarrow> rely d d' \<Longrightarrow> (raced move rely)\<^sup>*\<^sup>* c (s, d')"
  by (erule rtranclp.rtrancl_into_rtrancl) (rule raced.other)

locale interfered =
  fixes move :: "'s \<times> 'd \<Rightarrow> 's \<times> 'd" and rely :: "'d \<Rightarrow> 'd \<Rightarrow> bool" and inv :: "'s \<Rightarrow> 'd \<Rightarrow> bool"
  assumes kept: "inv s d \<Longrightarrow> move (s, d) = (s', d') \<Longrightarrow> inv s' d'"
    and stable: "inv s d \<Longrightarrow> rely d d' \<Longrightarrow> inv s d'"
    and guaranteed: "inv s d \<Longrightarrow> move (s, d) = (s', d') \<Longrightarrow> rely d d'"
begin

lemma reachable:
  assumes "(raced move rely)\<^sup>*\<^sup>* c c'" "inv (fst c) (snd c)"
  shows "inv (fst c') (snd c')"
  using assms
proof (induction rule: rtranclp_induct)
  case (step c1 c2)
  then have "inv (fst c1) (snd c1)" by simp
  with step.hyps(2) show ?case
    by (cases c1, elim racedE) (auto intro: stable dest: kept [of _ _ "fst c2" "snd c2"])
qed simp

text \<open>Seen from the database, own steps are not told apart from those of the others.\<close>

lemma changes:
  assumes "(raced move rely)\<^sup>*\<^sup>* c c'" "inv (fst c) (snd c)"
  shows "rely\<^sup>*\<^sup>* (snd c) (snd c')"
  using assms
proof (induction rule: rtranclp_induct)
  case (step c1 c2)
  have "inv (fst c1) (snd c1)" by (rule reachable [OF step.hyps(1) step.prems])
  with step.hyps(2) have "rely (snd c1) (snd c2)"
    by (cases c1, elim racedE) (auto dest: guaranteed [of _ _ "fst c2" "snd c2"])
  with step show ?case by (simp add: rtranclp.rtrancl_into_rtrancl)
qed simp

end

subsection \<open>What the others of the service do\<close>

text \<open>They keep the constraints of the schema and the rows of the masters: every call of the service does.\<close>

definition undisturbing :: "db \<Rightarrow> db \<Rightarrow> bool" where
  "undisturbing db db' \<longleftrightarrow> (db_ok db \<and> masters_parentless db \<longrightarrow> db_ok db' \<and> master_rows db' = master_rows db)"

lemma run_call_undisturbing: "undisturbing (a_db ap) (a_db (snd (run_call l cipher rd key c ap)))"
  using run_call_db_ok [of ap l cipher rd key c] run_call_rights [of ap key l cipher rd c]
  by (simp add: undisturbing_def within_rights_def)

lemma masters_parentless_kept: "master_rows db' = master_rows db \<Longrightarrow> masters_parentless db \<Longrightarrow> masters_parentless db'"
  by (simp add: masters_parentless_rows)

text \<open>What is sound in every database that the service can be in: the part of an invariant that others keep.\<close>

definition settled :: "db \<Rightarrow> db \<Rightarrow> bool" where
  "settled db0 db \<longleftrightarrow> db_ok db \<and> masters_parentless db \<and> master_rows db = master_rows db0"

lemma settled_start: "db_ok db \<Longrightarrow> masters_parentless db \<Longrightarrow> settled db db"
  by (simp add: settled_def)

lemma settled_undisturbed: "settled db0 db \<Longrightarrow> undisturbing db db' \<Longrightarrow> settled db0 db'"
  by (auto simp: settled_def undisturbing_def masters_parentless_rows)

lemma settled_step: "settled db0 db \<Longrightarrow> db_ok db' \<Longrightarrow> master_rows db' = master_rows db \<Longrightarrow> settled db0 db' \<and> undisturbing db db'"
  by (auto simp: settled_def undisturbing_def masters_parentless_rows)

subsection \<open>An installation for the races\<close>

text \<open>The daughter of the sample installation may create groups.\<close>

definition maker_key :: api_key where "maker_key = daughter_key\<lparr>k_can_create_groups := True\<rparr>"

definition maker_db :: db where "maker_db = demo_db\<lparr>api_keys := [root_key, manager_key, maker_key, stranger_key]\<rparr>"

definition edge_payload :: create_group_payload where "edge_payload = \<lparr>cg_name = ''edge'', cg_group_type = None\<rparr>"

lemma maker_facts [simp]: "k_id maker_key = 3" "\<not> k_is_master maker_key" "k_can_create_groups maker_key" "k_name maker_key = ''daughter''"
  by (simp_all add: maker_key_def) (simp add: sample_defs)

lemma maker_db_ok: "db_ok maker_db" "masters_parentless maker_db"
  by (simp_all add: db_ok_def refs_ok_def table_defs masters_parentless_def maker_db_def maker_key_def Prelude.run)

text \<open>The creation of the group \<open>edge\<close> by some key, as one call among the others.\<close>

lemma edge_created_undisturbing: "undisturbing db (snd (create_ip_group demo_env key edge_payload db))"
  using run_call_undisturbing [of "\<lparr>a_db = db, a_queue = [], a_capacity = 1, a_closed = False\<rparr>" demo_lib Plaintext
      "demo_readings\<lparr>rd_env := demo_env\<rparr>" key "Call_Create_Ip_Group edge_payload"]
  by simp

end
