(* ===== verification/Deletion_Races.thy ===== *)
theory Deletion_Races
  imports Interference
begin

text \<open>
  The deletion of a key (\<open>delete_api_key\<close> in \<open>src/api/keys.rs\<close>) statement by statement. It runs
  in no transaction, so between two of its statements the service answers other requests. Alone, the
  steps compute what the handler computes; raced by any calls, they still destroy only what was
  decided; and a group that is created while the deletion runs can be left with a deleted owner.
\<close>

subsection \<open>The steps\<close>

text \<open>
  Its reads before the first write are one step; then one step for every entity of the inventory, one
  for the cascade, one for the audit row.
\<close>

datatype deletion =
  Checking
| Resolving string "uuid list" "owned_entity list" nat nat
| Cascading string "uuid list" nat nat
| Recording string nat nat nat
| Replied "app_error + unit"

definition decided_deletion ::
  "lib \<Rightarrow> api_key \<Rightarrow> uuid \<Rightarrow> resolution_entry list \<Rightarrow> db \<Rightarrow> app_error + string \<times> uuid list \<times> owned_entity list" where
  "decided_deletion l key key_id resolutions db =
     try_then (may_manage_keys key) (\<lambda>_.
       if key_id = k_id key then Inl (Forbidden msg_delete_self)
       else try_then (find_administrable_key db key key_id) (\<lambda>target.
       try_then (guard_master_target key target) (\<lambda>_.
       try_then (guard_master_immutable target ''deleted'') (\<lambda>_.
         let target_ref = format_key_reference l (k_name target) key_id;
             subtree = collect_key_subtree db key_id
         in if k_id key \<in> set subtree then Inl (Conflict msg_parent_cycle)
            else let inventory = inventory_owned_entities db subtree in
              try_then (check_resolutions l db target_ref subtree inventory resolutions) (\<lambda>_.
                Inr (target_ref, subtree, inventory))))))"

fun deletion_move ::
  "lib \<Rightarrow> env \<Rightarrow> api_key \<Rightarrow> uuid \<Rightarrow> resolution_entry list \<Rightarrow> deletion \<times> db \<Rightarrow> deletion \<times> db" where
  "deletion_move l env key key_id rs (Checking, db) =
     (case decided_deletion l key key_id rs db of
        Inl e \<Rightarrow> (Replied (Inl e), db)
      | Inr (target_ref, subtree, inventory) \<Rightarrow> (Resolving target_ref subtree inventory 0 0, db))"
| "deletion_move l env key key_id rs (Resolving target_ref subtree [] deleted reassigned, db) =
     (Cascading target_ref subtree deleted reassigned, db)"
| "deletion_move l env key key_id rs (Resolving target_ref subtree (e # es) deleted reassigned, db) =
     (case lookup_resolution rs (oe_pair e) of
        None \<Rightarrow> (Replied (Inl Internal), db)
      | Some r \<Rightarrow>
          (case apply_resolution e r db of
             None \<Rightarrow> (Replied (Inl Internal), db)
           | Some (db1, moved) \<Rightarrow>
               (if moved then (Resolving target_ref subtree es deleted (reassigned + 1), db1)
                else (Resolving target_ref subtree es (deleted + 1) reassigned, db1))))"
| "deletion_move l env key key_id rs (Cascading target_ref subtree deleted reassigned, db) =
     (if count_rows (\<lambda>k. k_id k \<in> set subtree) (api_keys db) = 0 then (Replied (Inl NotFound), db)
      else (Recording target_ref (length subtree - 1) deleted reassigned, delete_keys (set subtree) db))"
| "deletion_move l env key key_id rs (Recording target_ref descendants deleted reassigned, db) =
     (case create_audit_log env (e_uuid env 0) key ''KEY_DELETE'' None None
         (Some (key_delete_details target_ref descendants deleted reassigned)) db of
        Inl e \<Rightarrow> (Replied (Inl e), db)
      | Inr db1 \<Rightarrow> (Replied (Inr ()), db1))"
| "deletion_move l env key key_id rs (Replied r, db) = (Replied r, db)"

subsection \<open>Alone: the handler\<close>

lemma delete_api_key_decided:
  "delete_api_key l env key key_id rs db =
     (case decided_deletion l key key_id rs db of
        Inl e \<Rightarrow> (Inl e, db)
      | Inr (target_ref, subtree, inventory) \<Rightarrow>
          (case apply_resolutions rs inventory 0 0 db of
             (Inl e, db1) \<Rightarrow> (Inl e, db1)
           | (Inr (deleted, reassigned), db1) \<Rightarrow>
               (if count_rows (\<lambda>k. k_id k \<in> set subtree) (api_keys db1) = 0 then (Inl NotFound, db1)
                else let db2 = delete_keys (set subtree) db1 in
                  attempt (create_audit_log env (e_uuid env 0) key ''KEY_DELETE'' None None
                      (Some (key_delete_details target_ref (length subtree - 1) deleted reassigned)) db2) db2 (\<lambda>db3.
                    (Inr (), db3)))))"
  by (simp add: delete_api_key_def decided_deletion_def attempt_def try_then_def Let_def split: sum.split)

lemma alone_resolving:
  "case apply_resolutions rs es d m db of
     (Inl e, db1) \<Rightarrow> (alone (deletion_move l env key key_id rs))\<^sup>*\<^sup>* (Resolving ref sub es d m, db) (Replied (Inl e), db1)
   | (Inr (d1, m1), db1) \<Rightarrow> (alone (deletion_move l env key key_id rs))\<^sup>*\<^sup>* (Resolving ref sub es d m, db) (Cascading ref sub d1 m1, db1)"
proof (induction rs es d m db rule: apply_resolutions.induct)
  case (1 rs d m db)
  show ?case by (simp add: alone_move)
next
  case (2 rs e es d m db)
  show ?case
  proof (cases "lookup_resolution rs (oe_pair e)")
    case None
    then show ?thesis by (simp add: alone_move)
  next
    case (Some r)
    show ?thesis
    proof (cases "apply_resolution e r db")
      case None
      then show ?thesis using Some by (simp add: alone_move)
    next
      case (Some p)
      obtain db1 moved where p: "p = (db1, moved)" by (cases p)
      note here = \<open>lookup_resolution rs (oe_pair e) = Some r\<close> Some [unfolded p]
      show ?thesis
      proof (cases moved)
        case True
        then show ?thesis
          using 2(1) [OF here refl True] here by (auto split: prod.splits sum.splits intro: alone_move)
      next
        case False
        then show ?thesis
          using 2(2) [OF here refl False] here by (auto split: prod.splits sum.splits intro: alone_move)
      qed
    qed
  qed
qed

text \<open>Undisturbed, the steps end, with the answer and the database of the handler.\<close>

lemma alone_is_the_handler:
  "(alone (deletion_move l env key key_id rs))\<^sup>*\<^sup>* (Checking, db)
     (Replied (fst (delete_api_key l env key key_id rs db)), snd (delete_api_key l env key key_id rs db))"
proof (cases "decided_deletion l key key_id rs db")
  case (Inl e)
  then show ?thesis by (simp add: delete_api_key_decided alone_move)
next
  case (Inr p)
  obtain ref sub ents where p: "p = (ref, sub, ents)" by (cases p)
  obtain x db1 where run: "apply_resolutions rs ents 0 0 db = (x, db1)" by fastforce
  have start: "(alone (deletion_move l env key key_id rs))\<^sup>*\<^sup>* (Resolving ref sub ents 0 0, db) c' \<Longrightarrow>
      (alone (deletion_move l env key key_id rs))\<^sup>*\<^sup>* (Checking, db) c'" for c'
    by (rule alone_move) (simp add: Inr p)
  show ?thesis
  proof (cases x)
    case (Inl e)
    then show ?thesis
      using alone_resolving [where rs = rs and es = ents and d = 0 and m = 0 and db = db and l = l and env = env and key = key and key_id = key_id and ref = ref and sub = sub] run start \<open>decided_deletion l key key_id rs db = Inr p\<close> p
      by (simp add: delete_api_key_decided)
  next
    case (Inr y)
    obtain d m where y: "y = (d, m)" by (cases y)
    have "(alone (deletion_move l env key key_id rs))\<^sup>*\<^sup>* (Checking, db) (Cascading ref sub d m, db1)"
      using alone_resolving [where rs = rs and es = ents and d = 0 and m = 0 and db = db and l = l and env = env and key = key and key_id = key_id and ref = ref and sub = sub] run start Inr y by simp
    moreover have "(alone (deletion_move l env key key_id rs))\<^sup>*\<^sup>* (Cascading ref sub d m, db1)
        (Replied (fst (delete_api_key l env key key_id rs db)), snd (delete_api_key l env key key_id rs db))"
      using \<open>decided_deletion l key key_id rs db = Inr p\<close> p run Inr y
      by (auto simp: delete_api_key_decided attempt_def Let_def alone_move split: sum.split intro!: alone_move)
    ultimately show ?thesis by (rule rtranclp_trans)
  qed
qed

subsection \<open>Raced: nothing is destroyed but what was decided\<close>

lemma spared_ids: "k_id ` set (master_rows db) = k_id ` {k \<in> set (api_keys db). k_is_master k}"
  by (auto simp: master_rows_def image_image)

text \<open>Once decided, the subtree holds neither the caller nor a master, and it stays what it is.\<close>

fun spares :: "uuid set \<Rightarrow> deletion \<Rightarrow> bool" where
  "spares ids (Resolving target_ref subtree es deleted reassigned) = (set subtree \<inter> ids = {})"
| "spares ids (Cascading target_ref subtree deleted reassigned) = (set subtree \<inter> ids = {})"
| "spares ids _ = True"

lemma decided_deletion_spares:
  assumes "decided_deletion l key key_id rs db = Inr (ref, sub, ents)" "db_ok db" "masters_parentless db"
  shows "set sub \<inter> insert (k_id key) (k_id ` set (master_rows db)) = {}"
proof -
  from assms(1) obtain target where t: "find_administrable_key db key key_id = Inr target" "\<not> k_is_master target"
    and sub: "sub = collect_key_subtree db key_id" "k_id key \<notin> set sub"
    by (auto simp: decided_deletion_def Let_def guard_master_immutable_admits elim!: try_then_InrE split: if_splits)
  have "k_id k \<notin> set sub" if k: "k \<in> set (api_keys db)" "k_is_master k" for k
  proof
    assume "k_id k \<in> set sub"
    then have "k_id k = key_id"
      using parentless_not_in_subtree [OF assms(2) k(1)] assms(3) k sub(1) by (simp add: masters_parentless_def)
    then show False using find_key_in [OF assms(2) k(1)] find_administrable_key_InrD [OF t(1)] t(2) k(2) by simp
  qed
  then show ?thesis using sub(2) by (auto simp: spared_ids)
qed

lemma deletion_move_cases:
  assumes "deletion_move l env key key_id rs (st, db) = (st', db')"
  obtains (idle) "db' = db"
  | (resolved) ref sub e es d m r moved where "st = Resolving ref sub (e # es) d m" "lookup_resolution rs (oe_pair e) = Some r"
      "apply_resolution e r db = Some (db', moved)"
  | (cascaded) ref sub d m where "st = Cascading ref sub d m" "db' = delete_keys (set sub) db"
  | (recorded) i t where "create_audit_log env i key ''KEY_DELETE'' None None t db = Inr db'"
  using assms
  by (cases "(l, env, key, key_id, rs, (st, db))" rule: deletion_move.cases)
    (auto split: sum.splits option.splits if_splits prod.splits)

lemma master_rows_delete_keys:
  "ids \<inter> k_id ` set (master_rows db) = {} \<Longrightarrow> master_rows (delete_keys ids db) = master_rows db"
  unfolding spared_ids
  by (auto simp: delete_keys_def master_rows_def row_delete_def filter_filter
      intro!: arg_cong [where f = "map frozen"] filter_cong)

lemma deletion_move_ok:
  assumes "deletion_move l env key key_id rs (st, db) = (st', db')" "db_ok db" "masters_parentless db"
    "spares (insert (k_id key) (k_id ` set (master_rows db))) st"
  shows "db_ok db'" "master_rows db' = master_rows db" "spares (insert (k_id key) (k_id ` set (master_rows db))) st'"
proof -
  show "db_ok db'"
    using assms(1)
  proof (cases rule: deletion_move_cases)
    case (recorded i t)
    then show ?thesis by (rule store_steps) (rule assms(2))
  qed (use assms(2) in \<open>auto intro: db_ok_apply_resolution store_intros\<close>)
  show "master_rows db' = master_rows db"
    using assms(1)
  proof (cases rule: deletion_move_cases)
    case (cascaded ref sub d m)
    then show ?thesis using assms(4) by (auto intro: master_rows_delete_keys)
  qed (auto simp: apply_resolution_other create_audit_log_InrD intro: master_rows_cong)
  show "spares (insert (k_id key) (k_id ` set (master_rows db))) st'"
    using assms decided_deletion_spares
    by (cases "(l, env, key, key_id, rs, (st, db))" rule: deletion_move.cases)
      (auto split: sum.splits option.splits if_splits prod.splits)
qed

text \<open>Whatever keeps the constraints and the master rows may happen between two statements.\<close>

definition deletion_inv :: "db \<Rightarrow> api_key \<Rightarrow> deletion \<Rightarrow> db \<Rightarrow> bool" where
  "deletion_inv db0 key st db \<longleftrightarrow> settled db0 db \<and> spares (insert (k_id key) (k_id ` set (master_rows db0))) st"

lemma deletion_inv_move:
  assumes "deletion_inv db0 key st db" "deletion_move l env key key_id rs (st, db) = (st', db')"
  shows "deletion_inv db0 key st' db' \<and> undisturbing db db'"
proof -
  have ok: "settled db0 db" "db_ok db" "masters_parentless db" "master_rows db = master_rows db0"
    "spares (insert (k_id key) (k_id ` set (master_rows db))) st"
    using assms(1) by (simp_all add: deletion_inv_def settled_def)
  note kept = deletion_move_ok [OF assms(2) ok(2,3,5)]
  then show ?thesis using settled_step [OF ok(1) kept(1,2)] ok(4) by (simp add: deletion_inv_def)
qed

interpretation deletion: interfered "deletion_move l env key key_id rs" undisturbing "deletion_inv db0 key"
  for l env key key_id rs db0
proof unfold_locales
  show "deletion_inv db0 key s d \<Longrightarrow> undisturbing d d' \<Longrightarrow> deletion_inv db0 key s d'" for s d d'
    by (auto simp: deletion_inv_def intro: settled_undisturbed)
qed (blast dest: deletion_inv_move)+

lemma apply_resolution_keeps_webhook:
  assumes "apply_resolution e r db = Some (db1, m)" "w \<in> set (webhook_configs db)"
    "\<not> (oe_pair e = (''webhook'', w_id w) \<and> r = Destroy)" "\<not> (oe_pair e = (''group'', w_group_id w) \<and> r = Destroy)"
  shows "w_id w \<in> w_id ` set (webhook_configs db1)"
  using assms(1)
proof (cases rule: apply_resolution_cases)
  case (webhook_moved ow)
  then show ?thesis
    using assms(2) by (intro image_eqI [of _ _ "if w_id w = oe_id e then w\<lparr>w_owner_key_id := Some ow\<rparr> else w"])
      (auto simp: entity_defs)
qed (use assms(2-4) in \<open>auto simp: entity_defs intro!: image_eqI [of _ _ w]\<close>)

text \<open>
  C19 A deletion destroys nothing implicitly, even when it is raced: whatever the service does between
  its statements, no step of it removes a group or a webhook without an explicit decision of the
  request for it (for a webhook, or for its group), none changes an owner but as decided, none
  touches a record, a master row or the key of the caller, and the constraints of the schema hold.
\<close>

theorem racing_deletion_stays_decided:
  assumes "db_ok db0" "masters_parentless db0" "(raced (deletion_move l env key key_id rs) undisturbing)\<^sup>*\<^sup>* (Checking, db0) (st, db)"
    and "deletion_move l env key key_id rs (st, db) = (st', db')"
  shows "db_ok db' \<and> master_rows db' = master_rows db0 \<and> ip_records db' = ip_records db \<and>
    (\<forall>k\<in>set (api_keys db). k_id k = k_id key \<longrightarrow> k \<in> set (api_keys db')) \<and>
    (\<forall>g\<in>set (ip_groups db). g_id g \<notin> g_id ` set (ip_groups db') \<longrightarrow>
       lookup_resolution rs (''group'', g_id g) = Some Destroy) \<and>
    (\<forall>w\<in>set (webhook_configs db). w_id w \<notin> w_id ` set (webhook_configs db') \<longrightarrow>
       lookup_resolution rs (''webhook'', w_id w) = Some Destroy \<or>
       lookup_resolution rs (''group'', w_group_id w) = Some Destroy) \<and>
    (\<forall>g'\<in>set (ip_groups db'). g' \<in> set (ip_groups db) \<or>
       (\<exists>owner. lookup_resolution rs (''group'', g_id g') = Some (Reassign owner) \<and> g_owner_key_id g' = Some owner)) \<and>
    (\<forall>w'\<in>set (webhook_configs db'). w' \<in> set (webhook_configs db) \<or>
       (\<exists>owner. lookup_resolution rs (''webhook'', w_id w') = Some (Reassign owner) \<and> w_owner_key_id w' = Some owner))"
proof -
  have "deletion_inv db0 key st db"
    using deletion.reachable [OF assms(3)] settled_start [OF assms(1,2)] by (simp add: deletion_inv_def)
  then have "deletion_inv db0 key st' db'" and ok: "spares (insert (k_id key) (k_id ` set (master_rows db0))) st"
    using deletion_inv_move [OF _ assms(4)] by (blast, simp add: deletion_inv_def)
  then have kept: "db_ok db'" "master_rows db' = master_rows db0" by (simp_all add: deletion_inv_def settled_def)
  show ?thesis
    using assms(4)
  proof (cases rule: deletion_move_cases)
    case idle
    then show ?thesis using ok kept by auto
  next
    case (resolved ref sub e es d m r moved)
    note same = apply_resolution_other [OF resolved(3)]
    have "g_id g \<in> g_id ` set (ip_groups db') \<or> lookup_resolution rs (''group'', g_id g) = Some Destroy"
      if "g \<in> set (ip_groups db)" for g
      using apply_resolution_keeps_group [OF resolved(3) that] resolved(2) by (cases "oe_pair e = (''group'', g_id g)") auto
    moreover have "w_id w \<in> w_id ` set (webhook_configs db') \<or> lookup_resolution rs (''webhook'', w_id w) = Some Destroy \<or>
        lookup_resolution rs (''group'', w_group_id w) = Some Destroy" if "w \<in> set (webhook_configs db)" for w
      using apply_resolution_keeps_webhook [OF resolved(3) that] resolved(2)
      by (cases "r = Destroy"; cases "oe_pair e = (''webhook'', w_id w)"; cases "oe_pair e = (''group'', w_group_id w)") auto
    moreover have "g' \<in> set (ip_groups db) \<or>
        (\<exists>owner. lookup_resolution rs (''group'', g_id g') = Some (Reassign owner) \<and> g_owner_key_id g' = Some owner)"
      if "g' \<in> set (ip_groups db')" for g'
      using apply_resolution_group [OF resolved(3) that] resolved(2) by (auto split: if_splits)
    moreover have "w' \<in> set (webhook_configs db) \<or>
        (\<exists>owner. lookup_resolution rs (''webhook'', w_id w') = Some (Reassign owner) \<and> w_owner_key_id w' = Some owner)"
      if "w' \<in> set (webhook_configs db')" for w'
      using apply_resolution_webhook [OF resolved(3) that] resolved(2) by (auto split: if_splits)
    ultimately show ?thesis using same kept by auto
  next
    case (cascaded ref sub d m)
    then show ?thesis using kept ok by (auto simp: delete_keys_def row_delete_def)
  next
    case (recorded i t)
    then show ?thesis using kept by (simp add: create_audit_log_InrD [OF recorded])
  qed
qed

subsection \<open>A race that leaves a deleted owner\<close>

text \<open>
  The manager of the maker deletes her with a decision for the group she owns;
  between the check and the cascade she creates another.
\<close>

definition raced_db :: db where "raced_db = snd (create_ip_group demo_env maker_key edge_payload maker_db)"

definition maker_ref :: string where "maker_ref = format_key_reference demo_lib ''daughter'' 3"

definition maker_inventory :: "owned_entity list" where
  "maker_inventory = [\<lparr>oe_type = ''group'', oe_id = 10, oe_name = ''ssh'', oe_owner_key_id = 3, oe_owner_name = ''daughter''\<rparr>]"

lemma maker_decided: "decided_deletion demo_lib manager_key 3 sample_move maker_db = Inr (maker_ref, [3], maker_inventory)"
proof -
  have walk: "collect_key_subtree maker_db 3 = [3]" "collect_key_subtree maker_db 2 = [2, 3]"
    by (simp_all add: maker_db_def maker_key_def Prelude.run)
  have found: "find_administrable_key maker_db manager_key 3 = Inr maker_key"
    by (simp add: find_administrable_key_def caller_can_administer_key_def walk) (simp add: maker_db_def maker_key_def Prelude.run)
  have ents: "inventory_owned_entities maker_db [3] = maker_inventory"
    by (simp add: inventory_owned_entities_def group_entity_def webhook_entity_def owner_name_in_def owned_by_def
        maker_inventory_def maker_db_def maker_key_def Prelude.run)
  have owner: "resolve_owner_assignment maker_db (Some 2) = Inr (Some 2)"
    by (simp add: maker_db_def maker_key_def Prelude.run)
  show ?thesis
    by (simp add: decided_deletion_def walk found ents owner may_manage_keys_def check_resolutions_def maker_ref_def
        lookup_resolution_def re_pair_def oe_pair_def sample_move_def maker_inventory_def guard_master_target_def
        guard_master_immutable_def Let_def)
qed

lemma raced_db_ok: "undisturbing maker_db raced_db"
  unfolding raced_db_def by (rule edge_created_undisturbing)

lemma raced_rows:
  "api_keys raced_db = api_keys maker_db"
  "map (\<lambda>g. (g_id g, g_owner_key_id g)) (ip_groups raced_db) = [(10, Some 3), (11, None), (1000, Some 3)]"
  "map a_id (audit_logs raced_db) = [1002]" "webhook_configs raced_db = []"
  by (simp_all add: raced_db_def maker_db_def edge_payload_def maker_key_def Prelude.run)

definition step_of :: "deletion \<times> db \<Rightarrow> deletion \<times> db" where
  "step_of = deletion_move demo_lib demo_env manager_key 3 sample_move"

definition raced_end :: db where
  "raced_end = snd (step_of (step_of (step_of (step_of (Resolving maker_ref [3] maker_inventory 0 0, raced_db)))))"

lemma raced_run:
  "step_of (step_of (step_of (step_of (Resolving maker_ref [3] maker_inventory 0 0, raced_db)))) = (Replied (Inr ()), raced_end)"
  "map k_id (api_keys raced_end) = [1, 2, 4]"
  "map (\<lambda>g. (g_id g, g_owner_key_id g)) (ip_groups raced_end) = [(10, Some 2), (11, None), (1000, Some 3)]"
  by (simp_all add: raced_end_def step_of_def maker_inventory_def lookup_resolution_def re_pair_def oe_pair_def sample_move_def
      apply_resolution_def set_group_owner_def delete_keys_def raced_db_def maker_db_def edge_payload_def maker_key_def Prelude.run)

lemma raced_to: "(raced step_of undisturbing)\<^sup>*\<^sup>* (Checking, maker_db) (Resolving maker_ref [3] maker_inventory 0 0, raced_db)"
proof -
  have "step_of (Checking, maker_db) = (Resolving maker_ref [3] maker_inventory 0 0, maker_db)"
    by (simp add: step_of_def maker_decided)
  then have "(raced step_of undisturbing)\<^sup>*\<^sup>* (Checking, maker_db) (Resolving maker_ref [3] maker_inventory 0 0, maker_db)"
    using raced_own [OF rtranclp.rtrancl_refl, of step_of undisturbing "(Checking, maker_db)"] by simp
  then show ?thesis by (rule raced_other) (rule raced_db_ok)
qed

lemma raced_deletion_leaves_deleted_owner:
  "\<exists>db. (raced step_of undisturbing)\<^sup>*\<^sup>* (Checking, maker_db) (Replied (Inr ()), db) \<and>
     3 \<notin> k_id ` set (api_keys db) \<and> (1000, Some 3) \<in> (\<lambda>g. (g_id g, g_owner_key_id g)) ` set (ip_groups db)"
proof (intro exI conjI)
  show "(raced step_of undisturbing)\<^sup>*\<^sup>* (Checking, maker_db) (Replied (Inr ()), raced_end)"
    using raced_own [OF raced_own [OF raced_own [OF raced_own [OF raced_to]]]] unfolding raced_run(1) .
  show "3 \<notin> k_id ` set (api_keys raced_end)" using arg_cong [OF raced_run(2), of set] by simp
  show "(1000, Some 3) \<in> (\<lambda>g. (g_id g, g_owner_key_id g)) ` set (ip_groups raced_end)"
    using arg_cong [OF raced_run(3), of set] by simp
qed

theorem racing_deletion_stays_decided_witness:
  "1000 \<in> g_id ` set (ip_groups (snd (step_of (Resolving maker_ref [3] maker_inventory 0 0, raced_db))))"
proof -
  have "map g_id (ip_groups raced_db) = [10, 11, 1000]"
    using arg_cong [OF raced_rows(2), of "map fst"] by (simp add: comp_def)
  then have "1000 \<in> g_id ` set (ip_groups raced_db)" by (metis list.set_intros set_map)
  then obtain g where g: "g \<in> set (ip_groups raced_db)" "g_id g = 1000" by auto
  have "lookup_resolution sample_move (''group'', 1000) \<noteq> Some Destroy"
    by (simp add: lookup_resolution_def sample_move_def re_pair_def)
  then show ?thesis
    using racing_deletion_stays_decided [OF maker_db_ok raced_to [unfolded step_of_def] prod.collapse [symmetric]] g
    unfolding step_of_def by auto
qed

end
