(* ===== verification/Registration_Races.thy ===== *)
theory Registration_Races
  imports Interference
begin

text \<open>
  The registration of an address (\<open>handle_ip_upsert\<close> in \<open>src/api/records.rs\<close>) statement by statement: the
  lookup of the group, the access check, the creation of a group with the creator's row, each on its
  own, then the one transaction. Alone, the steps compute what the handler computes; raced by any calls
  they still change no other address, no locked record and nobody else's rights.
\<close>

subsection \<open>The steps\<close>

datatype registration =
  Looking
| Accessing ip_group
| Creating string
| Fetching string
| Granting ip_group
| Storing ip_group
| Registered "app_error + unit \<times> webhook_event list"

definition registered_event :: "lib \<Rightarrow> ban_white_payload \<Rightarrow> bool \<Rightarrow> ip_group \<Rightarrow> string \<Rightarrow> webhook_event" where
  "registered_event l payload is_whitelist g action =
     \<lparr>ev_action = action, ev_address = normalize_ip_or_cidr l (bw_target_address payload), ev_is_whitelist = is_whitelist,
      ev_group_id = Some (g_id g), ev_group_name = Some (g_name g), ev_cause = bw_cause payload\<rparr>"

text \<open>What follows the lookup of the group.\<close>
definition after_lookup :: "api_key \<Rightarrow> ban_white_payload \<Rightarrow> ip_group option \<Rightarrow> registration" where
  "after_lookup key payload existing =
     (case existing of
        Some g \<Rightarrow> Accessing g
      | None \<Rightarrow>
          (case bw_group_name payload of
             Some name \<Rightarrow>
               (if \<not> k_is_master key \<and> \<not> k_can_create_groups key then Registered (Inl (Forbidden msg_cannot_create_group))
                else Creating name)
           | None \<Rightarrow> Registered (Inl NotFound)))"

text \<open>A step that fails ends the registration, with the database as it is.\<close>
definition going_on :: "app_error + 'a \<Rightarrow> db \<Rightarrow> ('a \<Rightarrow> registration \<times> db) \<Rightarrow> registration \<times> db" where
  "going_on r db f = (case r of Inl e \<Rightarrow> (Registered (Inl e), db) | Inr x \<Rightarrow> f x)"

fun registration_move ::
  "lib \<Rightarrow> env \<Rightarrow> uuid list \<Rightarrow> api_key \<Rightarrow> ban_white_payload \<Rightarrow> bool \<Rightarrow> registration \<times> db \<Rightarrow> registration \<times> db" where
  "registration_move l env ids key payload is_whitelist (Looking, db) =
     going_on (ok_or (InvalidInput msg_invalid_address) (l_net_parse l (bw_target_address payload))) db (\<lambda>network.
     going_on (if \<not> is_whitelist then guard_bannable_address l network else Inr ()) db (\<lambda>_.
     going_on (resolve_group_ref db (bw_group_id payload) (bw_group_name payload)) db (\<lambda>existing.
       (after_lookup key payload existing, db))))"
| "registration_move l env ids key payload is_whitelist (Accessing g, db) =
     going_on (check_write_access db key g) db (\<lambda>_.
     going_on (check_group_type is_whitelist g) db (\<lambda>_. (Storing g, db)))"
| "registration_move l env ids key payload is_whitelist (Creating name, db) =
     going_on (insert_group_or_ignore \<lparr>g_id = e_uuid env 0, g_name = name,
         g_group_type = (if is_whitelist then ''whitelist'' else ''banlist''), g_description = None,
         g_owner_key_id = resource_owner key, g_created_at = e_now env\<rparr> db) db (\<lambda>db1. (Fetching name, db1))"
| "registration_move l env ids key payload is_whitelist (Fetching name, db) =
     going_on (ok_or Internal (find_group_by_name name db)) db (\<lambda>g.
       (if \<not> k_is_master key then Granting g else Storing g, db))"
| "registration_move l env ids key payload is_whitelist (Granting g, db) =
     going_on (insert_permission_or_ignore (creator_permission (e_uuid env 1) (k_id key) (g_id g) (e_now env)) db) db
       (\<lambda>db1. (Storing g, db1))"
| "registration_move l env ids key payload is_whitelist (Storing g, db) =
     going_on (upsert_transaction env ids key (normalize_ip_or_cidr l (bw_target_address payload)) (bw_cause payload)
         is_whitelist g db) db
       (\<lambda>(action, db1). (Registered (Inr ((), [registered_event l payload is_whitelist g action])), db1))"
| "registration_move l env ids key payload is_whitelist (Registered r, db) = (Registered r, db)"

lemma going_on_simps [simp]:
  "going_on (Inl e) db f = (Registered (Inl e), db)" "going_on (Inr x) db f = f x"
  by (simp_all add: going_on_def)

lemma going_onE:
  assumes "going_on r db f = (st', db')"
  obtains e where "r = Inl e" "st' = Registered (Inl e)" "db' = db" | x where "r = Inr x" "f x = (st', db')"
  using assms by (cases r) auto

subsection \<open>Alone: the handler\<close>

abbreviation registers ::
  "lib \<Rightarrow> env \<Rightarrow> uuid list \<Rightarrow> api_key \<Rightarrow> ban_white_payload \<Rightarrow> bool \<Rightarrow> registration \<times> db \<Rightarrow>
     (app_error + unit \<times> webhook_event list) \<times> db \<Rightarrow> bool" where
  "registers l env ids key payload w c r \<equiv>
     (alone (registration_move l env ids key payload w))\<^sup>*\<^sup>* c (Registered (fst r), snd r)"

lemma registers_move:
  "registers l env ids key payload w (registration_move l env ids key payload w c) r \<Longrightarrow> registers l env ids key payload w c r"
  by (rule alone_move)

lemma registers_attempt:
  assumes "registration_move l env ids key payload w c = going_on r db f"
    and "\<And>x. r = Inr x \<Longrightarrow> registers l env ids key payload w (f x) (g x)"
  shows "registers l env ids key payload w c (attempt r db g)"
  using assms by (cases r) (rule registers_move, simp)+

definition stored ::
  "lib \<Rightarrow> env \<Rightarrow> uuid list \<Rightarrow> api_key \<Rightarrow> ban_white_payload \<Rightarrow> bool \<Rightarrow> ip_group \<Rightarrow> db \<Rightarrow> (unit \<times> webhook_event list) outcome" where
  "stored l env ids key payload w g db =
     attempt (upsert_transaction env ids key (normalize_ip_or_cidr l (bw_target_address payload)) (bw_cause payload) w g db) db
       (\<lambda>(action, db1). (Inr ((), [registered_event l payload w g action]), db1))"

lemma registers_storing: "registers l env ids key payload w (Storing g, db) (stored l env ids key payload w g db)"
  unfolding stored_def by (rule registers_attempt) auto

definition accessed ::
  "lib \<Rightarrow> env \<Rightarrow> uuid list \<Rightarrow> api_key \<Rightarrow> ban_white_payload \<Rightarrow> bool \<Rightarrow> ip_group \<Rightarrow> db \<Rightarrow> (unit \<times> webhook_event list) outcome" where
  "accessed l env ids key payload w g db =
     attempt (check_write_access db key g) db (\<lambda>_. attempt (check_group_type w g) db (\<lambda>_. stored l env ids key payload w g db))"

definition created ::
  "lib \<Rightarrow> env \<Rightarrow> uuid list \<Rightarrow> api_key \<Rightarrow> ban_white_payload \<Rightarrow> bool \<Rightarrow> string \<Rightarrow> db \<Rightarrow> (unit \<times> webhook_event list) outcome" where
  "created l env ids key payload w name db =
     attempt (get_or_create_group env (e_uuid env 0) name (if w then ''whitelist'' else ''banlist'') (resource_owner key) db) db
       (\<lambda>(g, db1). if \<not> k_is_master key
          then attempt (insert_permission_or_ignore (creator_permission (e_uuid env 1) (k_id key) (g_id g) (e_now env)) db1) db1
                 (\<lambda>db2. stored l env ids key payload w g db2)
          else stored l env ids key payload w g db1)"

lemma registers_accessing: "registers l env ids key payload w (Accessing g, db) (accessed l env ids key payload w g db)"
  unfolding accessed_def by (rule registers_move) (auto simp: going_on_def attempt_def registers_storing split: sum.split)

lemma inserted_group_is_found: "insert_group_or_ignore g db = Inr db1 \<Longrightarrow> find_group_by_name (g_name g) db1 \<noteq> None"
  by (auto simp: insert_group_or_ignore_def find_None_iffs find_group_by_name_def row_find_None_iff split: if_splits dest!: insert_group_InrD)

lemma registers_creating: "registers l env ids key payload w (Creating name, db) (created l env ids key payload w name db)"
proof -
  let ?new = "\<lparr>g_id = e_uuid env 0, g_name = name, g_group_type = (if w then ''whitelist'' else ''banlist''),
    g_description = None, g_owner_key_id = resource_owner key, g_created_at = e_now env\<rparr>"
  have granting: "registers l env ids key payload w (Granting g, db1)
      (attempt (insert_permission_or_ignore (creator_permission (e_uuid env 1) (k_id key) (g_id g) (e_now env)) db1) db1
         (\<lambda>db2. stored l env ids key payload w g db2))" for g db1
    by (rule registers_attempt) (auto intro: registers_storing)
  show ?thesis
  proof (cases "insert_group_or_ignore ?new db")
    case (Inl e)
    then show ?thesis by (intro registers_move [of _ _ _ _ _ _ "(Creating name, db)"]) (simp add: get_or_create_group_def created_def)
  next
    case (Inr db1)
    then obtain g where g: "find_group_by_name name db1 = Some g" using inserted_group_is_found [OF Inr] by auto
    have "registers l env ids key payload w (Fetching name, db1) (created l env ids key payload w name db)"
      using Inr g granting registers_storing
      by (intro registers_move [of _ _ _ _ _ _ "(Fetching name, db1)"]) (simp add: get_or_create_group_def created_def)
    then show ?thesis using Inr by (intro registers_move [of _ _ _ _ _ _ "(Creating name, db)"]) simp
  qed
qed

lemma ip_upsert_steps:
  "ip_upsert l env ids key payload w db =
     attempt (ok_or (InvalidInput msg_invalid_address) (l_net_parse l (bw_target_address payload))) db (\<lambda>network.
     attempt (if \<not> w then guard_bannable_address l network else Inr ()) db (\<lambda>_.
     attempt (resolve_group_ref db (bw_group_id payload) (bw_group_name payload)) db (\<lambda>existing.
       (case existing of
          Some g \<Rightarrow> accessed l env ids key payload w g db
        | None \<Rightarrow>
            (case bw_group_name payload of
               Some name \<Rightarrow>
                 (if \<not> k_is_master key \<and> \<not> k_can_create_groups key then (Inl (Forbidden msg_cannot_create_group), db)
                  else created l env ids key payload w name db)
             | None \<Rightarrow> (Inl NotFound, db))))))"
proof -
  have resolved: "(case resolve_upsert_group env key payload w db of
        (Inl e, db1) \<Rightarrow> (Inl e, db1)
      | (Inr g, db1) \<Rightarrow> stored l env ids key payload w g db1) =
    attempt (resolve_group_ref db (bw_group_id payload) (bw_group_name payload)) db (\<lambda>existing.
       (case existing of
          Some g \<Rightarrow> accessed l env ids key payload w g db
        | None \<Rightarrow>
            (case bw_group_name payload of
               Some name \<Rightarrow>
                 (if \<not> k_is_master key \<and> \<not> k_can_create_groups key then (Inl (Forbidden msg_cannot_create_group), db)
                  else created l env ids key payload w name db)
             | None \<Rightarrow> (Inl NotFound, db))))"
  proof (cases "resolve_group_ref db (bw_group_id payload) (bw_group_name payload)")
    case (Inl e)
    then show ?thesis by (simp add: resolve_upsert_group_def)
  next
    case (Inr existing)
    show ?thesis
    proof (cases existing)
      case None
      then show ?thesis
        using Inr by (cases "bw_group_name payload")
          (simp_all add: resolve_upsert_group_def created_def attempt_def split: sum.split prod.split)
    next
      case (Some g)
      then show ?thesis using Inr by (simp add: resolve_upsert_group_def accessed_def attempt_def split: sum.split)
    qed
  qed
  show ?thesis
    unfolding ip_upsert_def Let_def resolved [symmetric] stored_def registered_event_def ..
qed

text \<open>Undisturbed, the steps end, with the answer and the database of the handler.\<close>

lemma alone_is_the_registration:
  "registers l env ids key payload w (Looking, db) (ip_upsert l env ids key payload w db)"
proof (rule registers_move)
  show "registers l env ids key payload w (registration_move l env ids key payload w (Looking, db)) (ip_upsert l env ids key payload w db)"
    unfolding ip_upsert_steps registration_move.simps
    by (cases "ok_or (InvalidInput msg_invalid_address) (l_net_parse l (bw_target_address payload))";
        cases "resolve_group_ref db (bw_group_id payload) (bw_group_name payload)")
      (auto simp: going_on_def attempt_def after_lookup_def registers_accessing registers_creating split: sum.split option.split)
qed

subsection \<open>Raced: the damage is bounded\<close>

text \<open>What a registration on its way knows, whatever the others do: why it may create or grant.\<close>

fun permitted :: "api_key \<Rightarrow> ban_white_payload \<Rightarrow> registration \<Rightarrow> bool" where
  "permitted key payload (Creating name) = (bw_group_name payload = Some name \<and> (k_is_master key \<or> k_can_create_groups key))"
| "permitted key payload (Fetching name) = (k_is_master key \<or> k_can_create_groups key)"
| "permitted key payload (Granting g) = (\<not> k_is_master key \<and> k_can_create_groups key)"
| "permitted key payload _ = True"

definition registration_inv :: "db \<Rightarrow> api_key \<Rightarrow> ban_white_payload \<Rightarrow> registration \<Rightarrow> db \<Rightarrow> bool" where
  "registration_inv db0 key payload st db \<longleftrightarrow> settled db0 db \<and> permitted key payload st"

lemma registration_move_cases:
  assumes "registration_move l env ids key payload w (st, db) = (st', db')"
  obtains (idle) "db' = db"
  | (made) name ty where "st = Creating name" "insert_group_or_ignore \<lparr>g_id = e_uuid env 0, g_name = name, g_group_type = ty,
      g_description = None, g_owner_key_id = resource_owner key, g_created_at = e_now env\<rparr> db = Inr db'"
  | (granted) g where "st = Granting g"
      "insert_permission_or_ignore (creator_permission (e_uuid env 1) (k_id key) (g_id g) (e_now env)) db = Inr db'"
  | (stored) g action where "st = Storing g"
      "upsert_transaction env ids key (normalize_ip_or_cidr l (bw_target_address payload)) (bw_cause payload) w g db = Inr (action, db')"
  using assms
  by (cases "(l, env, ids, key, payload, w, (st, db))" rule: registration_move.cases) (auto elim!: going_onE split: if_splits)

lemma permitted_move:
  assumes "permitted key payload st" "registration_move l env ids key payload w (st, db) = (st', db')"
  shows "permitted key payload st'"
  using assms
  by (cases "(l, env, ids, key, payload, w, (st, db))" rule: registration_move.cases)
    (auto elim!: going_onE simp: after_lookup_def split: if_splits option.splits)

text \<open>The effect of one step on the rows that others rely on.\<close>

definition modest :: "lib \<Rightarrow> api_key \<Rightarrow> ban_white_payload \<Rightarrow> db \<Rightarrow> db \<Rightarrow> bool" where
  "modest l key payload db db' \<longleftrightarrow>
     api_keys db' = api_keys db \<and> webhook_configs db' = webhook_configs db \<and>
     (\<forall>r\<in>set (ip_records db). r_target_address r \<noteq> normalize_ip_or_cidr l (bw_target_address payload) \<or> r_is_locked r \<longrightarrow>
        r \<in> set (ip_records db')) \<and>
     set (memberships db) \<subseteq> set (memberships db') \<and>
     (\<forall>m\<in>set (memberships db') - set (memberships db).
        \<exists>r. find_record_by_address (normalize_ip_or_cidr l (bw_target_address payload)) db' = Some r \<and>
          \<not> r_is_locked r \<and> m_ip_record_id m = r_id r) \<and>
     set (ip_groups db) \<subseteq> set (ip_groups db') \<and>
     (\<forall>g\<in>set (ip_groups db') - set (ip_groups db).
        bw_group_name payload = Some (g_name g) \<and> g_owner_key_id g = resource_owner key \<and>
        (k_is_master key \<or> k_can_create_groups key)) \<and>
     set (permissions db) \<subseteq> set (permissions db') \<and>
     (\<forall>p\<in>set (permissions db') - set (permissions db).
        p_api_key_id p = k_id key \<and> \<not> p_can_manage p \<and> \<not> k_is_master key \<and> k_can_create_groups key)"

lemma modest_refl: "modest l key payload db db"
  by (simp add: modest_def)

lemma insert_group_or_ignore_rows:
  "insert_group_or_ignore g db = Inr db' \<Longrightarrow> db' = db \<or> db' = db\<lparr>ip_groups := ip_groups db @ [g]\<rparr>"
  by (auto simp: insert_group_or_ignore_def split: if_splits dest: insert_group_InrD)

lemma insert_permission_or_ignore_rows:
  "insert_permission_or_ignore p db = Inr db' \<Longrightarrow> db' = db \<or> db' = db\<lparr>permissions := permissions db @ [p]\<rparr>"
  by (auto simp: insert_permission_or_ignore_def split: if_splits dest: insert_permission_InrD)

lemma registration_move_modest:
  assumes "registration_move l env ids key payload w (st, db) = (st', db')" "db_ok db" "permitted key payload st"
  shows "modest l key payload db db'"
  using assms(1)
proof (cases rule: registration_move_cases)
  case (made name ty)
  then show ?thesis using insert_group_or_ignore_rows [OF made(2)] assms(3) by (auto simp: modest_def)
next
  case (granted g)
  then show ?thesis
    using insert_permission_or_ignore_rows [OF granted(2)] assms(3) by (auto simp: modest_def creator_permission_def)
next
  case (stored g action)
  note eff = upsert_transaction_effect [OF assms(2) stored(2)]
  from eff(1) obtain r where r: "find_record_by_address (normalize_ip_or_cidr l (bw_target_address payload)) db' = Some r"
    "\<not> r_is_locked r" "set (memberships db') = insert \<lparr>m_ip_record_id = r_id r, m_group_id = g_id g\<rparr> (set (memberships db))"
    by blast
  show ?thesis unfolding modest_def using eff(2-6) r by auto
qed (simp add: modest_refl)

lemma registration_move_db_ok:
  assumes "registration_move l env ids key payload w (st, db) = (st', db')" "db_ok db"
  shows "db_ok db'"
  using assms(1)
  by (cases rule: registration_move_cases) (use assms(2) in \<open>auto elim: store_steps\<close>)

lemma registration_inv_move:
  assumes "registration_inv db0 key payload st db" "registration_move l env ids key payload w (st, db) = (st', db')"
  shows "registration_inv db0 key payload st' db' \<and> undisturbing db db'"
proof -
  have ok: "settled db0 db" "db_ok db" "permitted key payload st"
    using assms(1) by (simp_all add: registration_inv_def settled_def)
  have "master_rows db' = master_rows db"
    using registration_move_modest [OF assms(2) ok(2,3)] by (intro master_rows_cong) (simp add: modest_def)
  then show ?thesis
    using settled_step [OF ok(1) registration_move_db_ok [OF assms(2) ok(2)]] permitted_move [OF ok(3) assms(2)]
    by (simp add: registration_inv_def)
qed

interpretation registering: interfered "registration_move l env ids key payload w" undisturbing "registration_inv db0 key payload"
  for l env ids key payload w db0
proof unfold_locales
  show "registration_inv db0 key payload s d \<Longrightarrow> undisturbing d d' \<Longrightarrow> registration_inv db0 key payload s d'" for s d d'
    by (auto simp: registration_inv_def intro: settled_undisturbed)
qed (blast dest: registration_inv_move)+

text \<open>
  C22 A registration that is raced does no more than its caller could do alone: whatever the service does
  between its statements, a step changes no key, no webhook, no locked record and no record of another
  address, links only the record of its address, creates at most the group the request names and only
  for a caller that may create groups, and adds no right but to its own caller and never management;
  the constraints and the master rows hold in every state.
\<close>

theorem racing_registration_is_modest:
  assumes "db_ok db0" "masters_parentless db0"
    and "(raced (registration_move l env ids key payload w) undisturbing)\<^sup>*\<^sup>* (Looking, db0) (st, db)"
    and "registration_move l env ids key payload w (st, db) = (st', db')"
  shows "db_ok db' \<and> master_rows db' = master_rows db0 \<and> modest l key payload db db'"
proof -
  have inv: "registration_inv db0 key payload st db"
    using registering.reachable [OF assms(3)] settled_start [OF assms(1,2)] by (simp add: registration_inv_def)
  then have "db_ok db" "permitted key payload st" by (simp_all add: registration_inv_def settled_def)
  then show ?thesis
    using registration_move_modest [OF assms(4)] registration_inv_move [OF inv assms(4)]
    by (simp add: registration_inv_def settled_def)
qed

subsection \<open>What the race can give\<close>

text \<open>
  The maker registers an address into the group \<open>edge\<close>, which does not exist. The master creates it
  between the lookup and the insertion: the maker is given read, write and delete on the master's
  group, on which she held nothing.
\<close>

definition maker_env :: env where "maker_env = demo_env\<lparr>e_uuid := (\<lambda>n. word_of_int (2000 + int n))\<rparr>"

definition edge_ban :: ban_white_payload where
  "edge_ban = \<lparr>bw_target_address = ''8.8.8.8/32'', bw_group_id = None, bw_group_name = Some ''edge'', bw_cause = None\<rparr>"

definition maker_step :: "registration \<times> db \<Rightarrow> registration \<times> db" where
  "maker_step = registration_move demo_lib maker_env [77] maker_key edge_ban False"

definition edge_group :: ip_group where
  "edge_group = \<lparr>g_id = 1000, g_name = ''edge'', g_group_type = ''banlist'', g_description = None, g_owner_key_id = None,
     g_created_at = 1800000000000000000\<rparr>"

definition edge_db :: db where "edge_db = snd (create_ip_group demo_env root_key edge_payload maker_db)"

lemma maker_looks: "maker_step (Looking, maker_db) = (Creating ''edge'', maker_db)"
proof -
  have "resolve_group_ref maker_db None (Some ''edge'') = Inr None"
    by (simp add: resolve_group_ref_def maker_db_def Prelude.run)
  then show ?thesis by (simp add: maker_step_def edge_ban_def sample_address after_lookup_def)
qed

lemma maker_fetches: "maker_step (maker_step (Creating ''edge'', edge_db)) = (Granting edge_group, edge_db)"
  by (simp add: maker_step_def edge_db_def edge_ban_def edge_payload_def maker_db_def maker_key_def edge_group_def Prelude.run)

lemma raced_to_grant: "(raced maker_step undisturbing)\<^sup>*\<^sup>* (Looking, maker_db) (Granting edge_group, edge_db)"
proof -
  have "(raced maker_step undisturbing)\<^sup>*\<^sup>* (Looking, maker_db) (Creating ''edge'', maker_db)"
    using raced_own [OF rtranclp.rtrancl_refl, of maker_step undisturbing "(Looking, maker_db)"] by (simp add: maker_looks)
  then have "(raced maker_step undisturbing)\<^sup>*\<^sup>* (Looking, maker_db) (Creating ''edge'', edge_db)"
    unfolding edge_db_def by (rule raced_other) (rule edge_created_undisturbing)
  then show ?thesis using raced_own [OF raced_own] maker_fetches by metis
qed

lemma raced_registration_gains_foreign_group:
  "\<exists>db. (raced maker_step undisturbing)\<^sup>*\<^sup>* (Looking, maker_db) (Storing edge_group, db) \<and>
     verbs_of maker_db 3 1000 = {} \<and> verbs_of edge_db 3 1000 = {} \<and> verbs_of db 3 1000 = {Read, Write, Delete}"
proof (intro exI conjI)
  have granted: "maker_step (Granting edge_group, edge_db) = (Storing edge_group, snd (maker_step (Granting edge_group, edge_db)))"
    by (simp add: maker_step_def edge_db_def edge_payload_def maker_db_def maker_key_def edge_group_def creator_permission_def
        maker_env_def Prelude.run)
  show "(raced maker_step undisturbing)\<^sup>*\<^sup>* (Looking, maker_db) (Storing edge_group, snd (maker_step (Granting edge_group, edge_db)))"
    using raced_own [OF raced_to_grant] granted by simp
  show "verbs_of maker_db 3 1000 = {}" "verbs_of edge_db 3 1000 = {}"
    "verbs_of (snd (maker_step (Granting edge_group, edge_db))) 3 1000 = {Read, Write, Delete}"
    by (simp_all add: verbs_of_def perm_verbs_def maker_step_def edge_db_def edge_payload_def maker_db_def maker_key_def edge_group_def
        creator_permission_def maker_env_def Prelude.run insert_commute)
qed

theorem racing_registration_is_modest_witness:
  "map k_id (api_keys (snd (maker_step (Granting edge_group, edge_db)))) = [1, 2, 3, 4]"
proof -
  have "api_keys (snd (maker_step (Granting edge_group, edge_db))) = api_keys edge_db"
    using racing_registration_is_modest [OF maker_db_ok raced_to_grant [unfolded maker_step_def] prod.collapse [symmetric]]
    unfolding maker_step_def by (simp add: modest_def)
  also have "map k_id \<dots> = [1, 2, 3, 4]"
    by (simp add: edge_db_def edge_payload_def maker_db_def maker_key_def Prelude.run)
  finally show ?thesis .
qed

end
