(* ===== verification/Audit_Trail.thy ===== *)
theory Audit_Trail
  imports System_Properties
begin

text \<open>
  Accountability: an answered call that changed the database left one audit row, and the row names
  the caller as it was authenticated, the address it came from and the action of the handler. The
  trail is what the audit table says of the past; the deletion of a key takes the reference to the
  key out of its rows (\<open>ON DELETE SET NULL\<close>), everything else of a row stays for good. One rule per
  database operation (collection \<open>trail_steps\<close>), one lemma per handler.
\<close>

named_theorems trail_steps \<open>operations that leave the audit trail alone\<close>

definition trail_of :: "db \<Rightarrow> audit_log list" where
  "trail_of db = map (\<lambda>a. a\<lparr>a_api_key_id := None\<rparr>) (audit_logs db)"

definition row_names :: "env \<Rightarrow> api_key \<Rightarrow> string set \<Rightarrow> audit_log \<Rightarrow> bool" where
  "row_names env key acts a \<longleftrightarrow>
     a_api_key_name a = k_name key \<and> a_api_key_prefix a = k_prefix key \<and> a_client_ip a = e_client_ip env \<and>
     a_timestamp a = e_audit_now env \<and> a_action a \<in> acts"

text \<open>A refusal adds nothing; an answer adds one row, or the call has changed nothing.\<close>
definition recorded :: "env \<Rightarrow> api_key \<Rightarrow> string set \<Rightarrow> db \<Rightarrow> 'e + 'a \<Rightarrow> db \<Rightarrow> bool" where
  "recorded env key acts db r db' \<longleftrightarrow>
     (case r of
        Inl _ \<Rightarrow> trail_of db' = trail_of db
      | Inr _ \<Rightarrow> db' = db \<or> (\<exists>a. trail_of db' = trail_of db @ [a] \<and> row_names env key acts a))"

lemma trail_of_cong: "audit_logs db' = audit_logs db \<Longrightarrow> trail_of db' = trail_of db"
  by (simp add: trail_of_def)

lemma recorded_refusal: "trail_of db' = trail_of db \<Longrightarrow> recorded env key acts db (Inl e) db'"
  by (simp add: recorded_def)

lemma recorded_idle: "recorded env key acts db (Inr x) db"
  by (simp add: recorded_def)

lemma recorded_row:
  "create_audit_log env i key act t g d db1 = Inr db' \<Longrightarrow> trail_of db1 = trail_of db \<Longrightarrow> act \<in> acts \<Longrightarrow>
     recorded env key acts db (Inr x) db'"
  unfolding create_audit_log_def by (drule insert_audit_InrD) (auto simp: recorded_def row_names_def trail_of_def)

lemma recorded_map: "recorded env key acts db (map_sum f g r) db' \<longleftrightarrow> recorded env key acts db r db'"
  by (cases r) (simp_all add: recorded_def)

subsection \<open>Database operations\<close>

lemma trail_inserts [trail_steps]:
  "insert_key k db = Inr db' \<Longrightarrow> trail_of db = t \<Longrightarrow> trail_of db' = t"
  "insert_group g db = Inr db' \<Longrightarrow> trail_of db = t \<Longrightarrow> trail_of db' = t"
  "insert_permission p db = Inr db' \<Longrightarrow> trail_of db = t \<Longrightarrow> trail_of db' = t"
  "insert_record r db = Inr db' \<Longrightarrow> trail_of db = t \<Longrightarrow> trail_of db' = t"
  "insert_webhook w db = Inr db' \<Longrightarrow> trail_of db = t \<Longrightarrow> trail_of db' = t"
  "insert_execution x db = Inr db' \<Longrightarrow> trail_of db = t \<Longrightarrow> trail_of db' = t"
  "link_member m db = Inr (n, db') \<Longrightarrow> trail_of db = t \<Longrightarrow> trail_of db' = t"
  by (auto simp: trail_of_def dest!: insert_key_InrD insert_group_InrD insert_permission_InrD insert_record_InrD
      insert_webhook_InrD insert_execution_InrD link_member_InrD)

lemma trail_updates [trail_steps]:
  "update_key k db = Inr db' \<Longrightarrow> trail_of db = t \<Longrightarrow> trail_of db' = t"
  "update_group g db = Inr db' \<Longrightarrow> trail_of db = t \<Longrightarrow> trail_of db' = t"
  "update_record r db = Inr db' \<Longrightarrow> trail_of db = t \<Longrightarrow> trail_of db' = t"
  "update_webhook_row w db = Inr db' \<Longrightarrow> trail_of db = t \<Longrightarrow> trail_of db' = t"
  by (auto simp: trail_of_def dest!: update_key_InrD update_group_InrD update_record_InrD update_webhook_row_InrD)

text \<open>Only the reference to a deleted key goes.\<close>

lemma trail_delete_keys [trail_steps]: "trail_of db = t \<Longrightarrow> trail_of (delete_keys ids db) = t"
  by (auto simp: trail_of_def delete_keys_def split: option.splits)

lemma trail_deletions [trail_steps]:
  "trail_of db = t \<Longrightarrow> trail_of (delete_group i db) = t"
  "trail_of db = t \<Longrightarrow> trail_of (delete_permission j g db) = t"
  "trail_of db = t \<Longrightarrow> trail_of (delete_records P db) = t"
  "trail_of db = t \<Longrightarrow> trail_of (delete_member i g db) = t"
  "trail_of db = t \<Longrightarrow> trail_of (delete_webhooks Q db) = t"
  "trail_of db = t \<Longrightarrow> trail_of (delete_executions R db) = t"
  by (simp_all add: trail_of_def delete_group_def delete_permission_def delete_records_def delete_member_def
      delete_webhooks_def delete_executions_def Let_def)

lemma trail_insert_permission_or_ignore [trail_steps]:
  "insert_permission_or_ignore p db = Inr db' \<Longrightarrow> trail_of db = t \<Longrightarrow> trail_of db' = t"
  by (auto simp: insert_permission_or_ignore_def split: if_splits elim: trail_steps)

lemma trail_insert_named_group [trail_steps]:
  "insert_named_group g db = Inr db' \<Longrightarrow> trail_of db = t \<Longrightarrow> trail_of db' = t"
  by (drule insert_named_group_InrD) (erule trail_steps)

lemma trail_get_or_create_group [trail_steps]:
  "get_or_create_group env i name ty owner db = Inr (g, db') \<Longrightarrow> trail_of db = t \<Longrightarrow> trail_of db' = t"
  by (drule get_or_create_group_InrD) (auto simp: trail_of_def)

lemma trail_resolve_or_create_target [trail_steps]:
  "resolve_or_create_target l env key p db = Inr (g, db') \<Longrightarrow> trail_of db = t \<Longrightarrow> trail_of db' = t"
  by (auto simp: resolve_or_create_target_def elim!: try_then_InrE split: option.splits if_splits elim: trail_steps)

lemma trail_upsert_permission [trail_steps]:
  "upsert_permission p db = Inr db' \<Longrightarrow> trail_of db = t \<Longrightarrow> trail_of db' = t"
  by (auto simp: upsert_permission_def split: option.splits if_splits elim: trail_steps intro: trail_of_cong)

lemma trail_upsert_record [trail_steps]:
  "upsert_record ids address cause now db = Inr (i, db') \<Longrightarrow> trail_of db = t \<Longrightarrow> trail_of db' = t"
  by (drule upsert_record_InrD) (auto elim: trail_steps)

lemma trail_resolve_upsert_group [trail_steps]:
  "resolve_upsert_group env key p w db = (r, db') \<Longrightarrow> trail_of db = t \<Longrightarrow> trail_of db' = t"
  by (auto simp: resolve_upsert_group_def attempt_def split: sum.splits option.splits if_splits prod.splits elim: trail_steps)

lemma trail_resolve_batch_group [trail_steps]:
  "resolve_batch_group env key n mode db = (r, db') \<Longrightarrow> trail_of db = t \<Longrightarrow> trail_of db' = t"
  by (auto simp: resolve_batch_group_def attempt_def split: sum.splits option.splits if_splits elim: trail_steps)

lemma trail_log_execution [trail_steps]: "trail_of db = t \<Longrightarrow> trail_of (log_execution env ctx url s ok d b db) = t"
  by (auto simp: log_execution_def split: sum.split elim: trail_steps)

lemma trail_send_test_dispatch [trail_steps]:
  "send_test_dispatch l dns c v env w ev db = (result, db1) \<Longrightarrow> trail_of db = t \<Longrightarrow> trail_of db1 = t"
  unfolding send_test_dispatch_def send_test_dispatch_with_privacy_def
  by (auto simp: Let_def trail_log_execution split: sum.splits prod.splits reply.splits if_splits)

lemma trail_purge [trail_steps]:
  "purge_expired_ip_records l now days db = Some (n, db1) \<Longrightarrow> trail_of db = t \<Longrightarrow> trail_of db1 = t"
  by (auto simp: purge_expired_ip_records_def Let_def split: option.splits if_splits intro: trail_steps)


lemma trail_sync_record [trail_steps]:
  "sync_record i now by address input sm db = Inr (Some (j, sm', db')) \<Longrightarrow> trail_of db = t \<Longrightarrow> trail_of db' = t"
  by (auto simp: sync_record_def elim!: try_then_InrE split: option.splits if_splits elim: trail_steps)

lemma trail_sync_loop:
  "sync_loop ids n now by g skip recs (sm, evs, db) = Inr (sm', evs', db') \<Longrightarrow> trail_of db' = trail_of db"
proof (induction recs arbitrary: n sm evs db)
  case (Cons rec recs)
  obtain address input where rec: "rec = (address, input)" by (cases rec)
  from Cons.prems obtain res where synced: "sync_record (ids n) now by address input sm db = Inr res"
    by (auto simp: rec elim!: try_then_InrE)
  show ?case
  proof (cases res)
    case None
    then show ?thesis using Cons.prems synced Cons.IH by (simp add: rec)
  next
    case (Some r)
    obtain j sm1 db1 where r: "r = (j, sm1, db1)" by (cases r)
    from Cons.prems synced Some r obtain linked db2 sm2 evs2 where two: "link_member \<lparr>m_ip_record_id = j, m_group_id = g_id g\<rparr> db1 = Inr (linked, db2)"
      "sync_loop ids (Suc n) now by g skip recs (sm2, evs2, db2) = Inr (sm', evs', db')"
      by (auto simp: rec Let_def elim!: try_then_InrE)
    have "trail_of db1 = trail_of db" using trail_sync_record [OF _ refl] synced Some r by blast
    from trail_inserts(7) [OF two(1) this] Cons.IH [OF two(2)] show ?thesis by simp
  qed
qed simp

lemma trail_sweep_loop:
  "sweep_loop now by g skip seen rs (sm, evs, db) = Inr (sm', evs', db') \<Longrightarrow> trail_of db' = trail_of db"
proof (induction rs arbitrary: sm evs db)
  case (Cons r rs)
  show ?case
  proof (cases "r_target_address r \<in> seen")
    case False
    with Cons.prems obtain db1 sm1 evs1 where one: "update_record (soft_deleted now by r) db = Inr db1"
      "sweep_loop now by g skip seen rs (sm1, evs1, db1) = Inr (sm', evs', db')"
      by (auto simp: Let_def elim!: try_then_InrE)
    from Cons.IH [OF one(2)] trail_updates(3) [OF one(1) refl] show ?thesis by simp
  qed (use Cons in simp)
qed simp

lemma trail_apply_resolution [trail_steps]:
  "apply_resolution e r db = Some (db', moved) \<Longrightarrow> trail_of db = t \<Longrightarrow> trail_of db' = t"
  by (cases rule: apply_resolution_cases [of e r db db' moved])
    (auto simp: set_group_owner_def set_webhook_owner_def intro: trail_of_cong trail_steps)

lemma trail_apply_resolutions [trail_steps]:
  "apply_resolutions rs es d m db = (x, db') \<Longrightarrow> trail_of db = t \<Longrightarrow> trail_of db' = t"
proof (induction es arbitrary: d m db)
  case (Cons e es)
  show ?case
    using Cons.prems Cons.IH by (auto split: option.splits if_splits prod.splits dest: trail_apply_resolution [OF _ refl])
qed auto


subsection \<open>Handlers\<close>

text \<open>A row closes a handler; everything before it leaves the trail alone.\<close>
lemmas recorded_rules = recorded_refusal refl trail_delete_keys trail_deletions insertI1 insertI2

lemma trail_creator [trail_steps]:
  "(if b then insert_permission p db else Inr db) = Inr db' \<Longrightarrow> trail_of db = t \<Longrightarrow> trail_of db' = t"
  by (auto split: if_splits elim: trail_steps)

lemma recorded_key_handlers:
  "after (recorded env key {''KEY_CREATE''} db) (create_api_key l cipher env key p db)"
  "after (recorded env key {''KEY_UPDATE''} db) (update_api_key l env key i up db)"
  "after (recorded env key {''KEY_ROTATE''} db) (rotate_api_key l cipher env key i db)"
  "after (recorded env key {''KEY_SECRET_ROTATE''} db) (rotate_signing_secret l cipher env key i db)"
  "after (recorded env key {''KEY_DELETE''} db) (delete_api_key l env key i rs db)"
  "after (recorded env key {''KEY_PERM_UPDATE''} db) (update_key_group_permissions l env key i perm db)"
  "after (recorded env key {''KEY_PERM_REVOKE''} db) (revoke_key_group_permission l env key i g db)"
  unfolding create_api_key_def update_api_key_def rotate_api_key_def rotate_signing_secret_def
    delete_api_key_def update_key_group_permissions_def revoke_key_group_permission_def
  by ((intro after_rules; (hypsubst+)?),
      (assumption | rule recorded_rules | erule recorded_row trail_steps | rule recorded_idle)+)+

lemma recorded_group_handlers:
  "after (recorded env key {''GROUP_CREATE''} db) (create_ip_group env key p db)"
  "after (recorded env key {''GROUP_DELETE''} db) (delete_ip_group l env key i db)"
  "after (recorded env key {''GROUP_OWNER_REASSIGN''} db) (reassign_group_owner l env key i r db)"
  unfolding create_ip_group_def delete_ip_group_def reassign_group_owner_def
  by ((intro after_rules; (hypsubst+)?),
      (assumption | rule recorded_rules | erule recorded_row trail_steps | rule recorded_idle)+)+

lemma recorded_webhook_handlers:
  "after (recorded env key {''WEBHOOK_CREATE''} db) (create_webhook l env key p db)"
  "after (recorded env key {''WEBHOOK_UPDATE''} db) (update_webhook l env key i up db)"
  "after (recorded env key {''WEBHOOK_CLONE''} db) (clone_webhook l env key i n db)"
  "after (recorded env key {''WEBHOOK_DELETE''} db) (delete_webhook l env key i db)"
  "after (recorded env key {''WEBHOOK_OWNER_REASSIGN''} db) (reassign_webhook_owner l env key i r db)"
  "after (recorded env key {''WEBHOOK_TEST''} db) (test_webhook l dns c v env key i db)"
  "after (recorded env key {''WEBHOOK_EXECUTION_DELETE''} db) (delete_webhook_execution l env key i db)"
  unfolding create_webhook_def update_webhook_def clone_webhook_def delete_webhook_def
    reassign_webhook_owner_def test_webhook_def delete_webhook_execution_def
  by ((intro after_rules; (hypsubst+)?),
      (assumption | rule recorded_rules | erule recorded_row trail_steps | rule recorded_idle)+)+

lemma recorded_record_handlers:
  "after (recorded env key {''IP_HARD_DELETE'', ''IP_SOFT_DELETE''} db) (delete_ip_record l env key i hard db)"
  "after (recorded env key {''IP_RESTORE''} db) (restore_ip_record env key i db)"
  unfolding delete_ip_record_def restore_ip_record_def
  by ((intro after_rules; (hypsubst+)?),
      (assumption | rule recorded_rules | erule recorded_row trail_steps | rule recorded_idle)+)+


subsection \<open>Transactions\<close>

lemma recorded_unlink:
  "unlink_transaction env key address g db = Inr (r, db') \<Longrightarrow> recorded env key {''IP_DELETE''} db (Inr x) db'"
  unfolding unlink_transaction_def Let_def
  by (elim try_then_InrE) (auto split: if_splits elim!: try_then_InrE elim: recorded_row intro: trail_steps)

lemma recorded_ip_delete: "after (recorded env key {''IP_DELETE''} db) (ip_delete l env key q db)"
  unfolding ip_delete_def
  by (intro after_rules; (hypsubst+)?) (assumption | rule recorded_rules | erule recorded_unlink)+

lemma recorded_upsert_transaction:
  assumes "upsert_transaction env ids key address cause w g db1 = Inr (a, db')" "trail_of db1 = trail_of db"
  shows "recorded env key {''IP_ADD'', ''IP_UPDATE''} db (Inr x) db'"
proof -
  obtain i db2 n db3 where "upsert_record ids address cause (e_now env) db1 = Inr (i, db2)"
    "link_member \<lparr>m_ip_record_id = i, m_group_id = g_id g\<rparr> db2 = Inr (n, db3)"
    and row: "create_audit_log env (e_uuid env 2) key (if n > 0 then ''IP_ADD'' else ''IP_UPDATE'') (Some address)
        (Some (g_name g)) (Some (upsert_details w)) db3 = Inr db'"
    using assms(1) by (auto simp: upsert_transaction_def Let_def elim!: try_then_InrE)
  then have "trail_of db3 = trail_of db" using assms(2) by (blast intro: trail_steps)
  with row show ?thesis by (rule recorded_row) simp
qed

lemma recorded_ip_upsert: "after (recorded env key {''IP_ADD'', ''IP_UPDATE''} db) (ip_upsert l env ids key p w db)"
  unfolding ip_upsert_def
  by (intro after_rules; (hypsubst+)?)
    (assumption | rule recorded_rules | erule recorded_upsert_transaction | erule trail_resolve_upsert_group)+

lemma recorded_batch_transaction:
  assumes "batch_transaction l env key g mode skip normalized db1 = Inr (sm, evs, db')" "trail_of db1 = trail_of db"
  shows "recorded env key {''batch_records_updated''} db (Inr x) db'"
proof -
  from assms(1) obtain sm1 evs1 db2 sm2 db3 where
    sync: "sync_loop (\<lambda>n. e_uuid env (n + 2)) 0 (e_now env) (l_uuid_str l (k_id key)) g skip normalized (no_summary, [], db1) =
        Inr (sm1, evs1, db2)"
    and sweep: "(if mode = FullReplace
       then sweep_loop (e_now env) (l_uuid_str l (k_id key)) g skip (fst ` set normalized) (sweep_candidates (g_id g) db2) (sm1, evs1, db2)
       else Inr (sm1, evs1, db2)) = Inr (sm, evs, db3)"
    and row: "create_audit_log env (e_uuid env 1) key ''batch_records_updated'' None (Some (g_name g))
          (Some (batch_details mode (length normalized) sm)) db3 = Inr db'"
    by (auto simp: batch_transaction_def Let_def elim!: try_then_InrE)
  have "trail_of db3 = trail_of db2" using sweep trail_sweep_loop by (cases "mode = FullReplace") auto
  then have "trail_of db3 = trail_of db" using trail_sync_loop [OF sync] assms(2) by simp
  with row show ?thesis by (rule recorded_row) simp
qed

lemma recorded_batch_records_db: "after (recorded env key {''batch_records_updated''} db) (batch_records_db l env key p db)"
  unfolding batch_records_db_def
  by (intro after_rules; (hypsubst+)?)
    (assumption | rule recorded_rules | erule recorded_batch_transaction | erule trail_resolve_batch_group)+

lemma recorded_purge_ip_records:
  "purge_ip_records l env key days var db = Some out \<Longrightarrow> after (recorded env key {''IP_PURGE''} db) out"
  unfolding purge_ip_records_def
  by (auto split: if_splits sum.splits option.splits intro!: after_rules intro: recorded_refusal recorded_row trail_steps)

subsection \<open>Calls\<close>

text \<open>The actions that the row of an answered call may carry; a listing leaves none.\<close>
fun audit_actions :: "call \<Rightarrow> string set" where
  "audit_actions (Call_Delete_Ip _ _) = {''IP_DELETE''}"
| "audit_actions (Call_Delete_Ip_Record _ _) = {''IP_HARD_DELETE'', ''IP_SOFT_DELETE''}"
| "audit_actions (Call_Restore_Ip_Record _) = {''IP_RESTORE''}"
| "audit_actions (Call_Purge_Ip_Records _) = {''IP_PURGE''}"
| "audit_actions (Call_Batch_Records _) = {''batch_records_updated''}"
| "audit_actions (Call_Handle_Ban _) = {''IP_ADD'', ''IP_UPDATE''}"
| "audit_actions (Call_Handle_White _) = {''IP_ADD'', ''IP_UPDATE''}"
| "audit_actions (Call_Create_Api_Key _) = {''KEY_CREATE''}"
| "audit_actions (Call_Update_Api_Key _ _) = {''KEY_UPDATE''}"
| "audit_actions (Call_Delete_Api_Key _ _) = {''KEY_DELETE''}"
| "audit_actions (Call_Rotate_Api_Key _) = {''KEY_ROTATE''}"
| "audit_actions (Call_Rotate_Signing_Secret _) = {''KEY_SECRET_ROTATE''}"
| "audit_actions (Call_Update_Key_Group_Permissions _ _) = {''KEY_PERM_UPDATE''}"
| "audit_actions (Call_Revoke_Key_Group_Permission _ _) = {''KEY_PERM_REVOKE''}"
| "audit_actions (Call_Create_Ip_Group _) = {''GROUP_CREATE''}"
| "audit_actions (Call_Delete_Ip_Group _) = {''GROUP_DELETE''}"
| "audit_actions (Call_Reassign_Group_Owner _ _) = {''GROUP_OWNER_REASSIGN''}"
| "audit_actions (Call_Create_Webhook _) = {''WEBHOOK_CREATE''}"
| "audit_actions (Call_Delete_Webhook_Execution _) = {''WEBHOOK_EXECUTION_DELETE''}"
| "audit_actions (Call_Update_Webhook _ _) = {''WEBHOOK_UPDATE''}"
| "audit_actions (Call_Delete_Webhook _) = {''WEBHOOK_DELETE''}"
| "audit_actions (Call_Reassign_Webhook_Owner _ _) = {''WEBHOOK_OWNER_REASSIGN''}"
| "audit_actions (Call_Test_Webhook _) = {''WEBHOOK_TEST''}"
| "audit_actions (Call_Clone_Webhook _ _) = {''WEBHOOK_CLONE''}"
| "audit_actions _ = {}"

definition response_result :: "response \<Rightarrow> unit + answer" where
  "response_result r = (case r of Answered a \<Rightarrow> Inr a | _ \<Rightarrow> Inl ())"

definition recorded_call :: "env \<Rightarrow> api_key \<Rightarrow> string set \<Rightarrow> app \<Rightarrow> response \<times> app \<Rightarrow> bool" where
  "recorded_call env key acts ap out \<longleftrightarrow> recorded env key acts (a_db ap) (response_result (fst out)) (a_db (snd out))"

lemmas recorded_call_defs = recorded_call_def recorded_def after_def response_result_def respond_def

lemma recorded_reading: "recorded_call env key acts ap (reading f r ap)"
  by (cases r) (simp_all add: recorded_call_defs reading_def)

lemma recorded_on_db: "after (recorded env key acts (a_db ap)) out \<Longrightarrow> recorded_call env key acts ap (on_db f out ap)"
  by (cases "fst out") (simp_all add: recorded_call_defs on_db_def)

lemma recorded_on_app:
  "after (recorded env key acts (a_db ap)) (h (a_db ap)) \<Longrightarrow> recorded_call env key acts ap (on_app f (with_events h ap))"
  by (cases "fst (h (a_db ap))") (auto simp: recorded_call_defs on_app_def with_events_fst)

lemma recorded_dropped: "recorded_call env key acts ap (Dropped, ap)"
  by (simp add: recorded_call_defs)

lemma run_call_recorded: "recorded_call (rd_env rd) key (audit_actions c) ap (run_call l cipher rd key c ap)"
  by (cases c)
    (auto simp: call_handlers split: option.splits
      intro!: recorded_reading recorded_on_db recorded_on_app recorded_dropped recorded_key_handlers recorded_group_handlers
        recorded_webhook_handlers recorded_record_handlers recorded_ip_delete recorded_ip_upsert recorded_batch_records_db
        recorded_purge_ip_records)


subsection \<open>Requests\<close>

text \<open>The address a request counts as coming from, with the proxies trusted at that moment.\<close>
definition client_of :: "lib \<Rightarrow> auth_env \<Rightarrow> auth_request \<Rightarrow> service \<Rightarrow> ip_addr" where
  "client_of l ae rq sv = resolve_client_ip l (rq_peer rq) (rq_forwarded rq) (rq_real_ip rq)
     (fst (resolved l (as_proxies (auth_part sv)) (ae_instant ae) (ae_lookups ae) (as_cache (auth_part sv))))"

lemma admitted_caller:
  assumes "admit l decode ae rq target sv = (Inr (ip, key, c), sv1)"
  obtains row digest e params where "proves_key l ae (nested rq) (auth_part sv) row digest" "ip = client_of l ae rq sv"
    "k_name key = k_name row" "k_prefix key = k_prefix row" "target = Some (e, params)" "decode e params rq = Inr c"
proof -
  obtain res st where run: "auth_middleware l ae (nested rq) (auth_part sv) = (res, st)" by fastforce
  then obtain e params where r: "res = Inr (ip, key)" "target = Some (e, params)" "decode e params rq = Inr c"
    using assms by (auto simp: admit_def Let_def split: sum.splits prod.splits option.splits)
  from auth_after [of "auth_part sv" l ae "nested rq"] run r(1) obtain row digest where
    "proves_key l ae (nested rq) (auth_part sv) row digest" "ip = client_of l ae rq sv"
    "authenticate_pin (ae_has_index ae) (sv_db sv) (sv_pin sv) row = (key, as_pin st)"
    unfolding after_def by (auto simp: client_of_def nested_def)
  moreover from this(3) have "k_name key = k_name row" "k_prefix key = k_prefix row"
    by (auto dest: authenticate_pin_key)
  ultimately show thesis using r(2,3) by (intro that) simp_all
qed

text \<open>
  C5 Accountability, end to end: a request either leaves the audit trail as it found it, and then it
  was answered without a change of the database or not answered at all, or it adds exactly one row.
  The row carries name and prefix of a key whose possession the request has proven, the address the
  request counts as coming from, and the action of the endpoint it names. No request, the deletion
  of keys included, alters or removes a row that was there, but for the reference to a deleted key.
\<close>

theorem changes_are_accounted_for:
  assumes "handle_request l decode ae rd reachable rq sv = (r, sv')"
  shows "(trail_of (sv_db sv') = trail_of (sv_db sv) \<and> (sv_db sv' = sv_db sv \<or> (\<nexists>a. r = From_Api (Answered a)))) \<or>
    (\<exists>e params c row digest entry.
       route (rq_method rq) (uri_path (rq_uri rq)) = Api e params \<and> decode e params rq = Inr c \<and>
       proves_key l ae (nested rq) (auth_part sv) row digest \<and> (\<exists>a. r = From_Api (Answered a)) \<and>
       trail_of (sv_db sv') = trail_of (sv_db sv) @ [entry] \<and>
       row_names ((rd_env rd)\<lparr>e_client_ip := l_ip_str l (client_of l ae rq sv)\<rparr>) row (audit_actions c) entry)"
  using assms
proof (cases rule: handle_request_cases)
  case (turned_away target)
  then have "\<nexists>a. r = From_Api (Answered a)" by (auto simp: admit_def Let_def split: sum.splits prod.splits option.splits)
  then show ?thesis using admit_parts [OF turned_away] by simp
next
  case (ran e params ip key c sv1 a)
  define env where "env = (rd_env rd)\<lparr>e_client_ip := l_ip_str l ip\<rparr>"
  obtain row digest where caller: "proves_key l ae (nested rq) (auth_part sv) row digest" "ip = client_of l ae rq sv"
    "k_name key = k_name row" "k_prefix key = k_prefix row" "decode e params rq = Inr c"
    by (rule admitted_caller [OF ran(2)]) auto
  obtain r1 ap where call: "run_call l (sv_cipher sv1) (rd\<lparr>rd_env := env\<rparr>) key c (app_part sv1) = (r1, ap)" by fastforce
  then have out: "a = r1" "sv_db sv' = a_db ap"
    using ran(3) by (auto simp: run_admitted_def env_def put_app_def)
  have "a_db (app_part sv1) = sv_db sv" using admit_parts [OF ran(2)] by (simp add: app_part_def)
  then have "recorded env key (audit_actions c) (sv_db sv) (response_result a) (sv_db sv')"
    using run_call_recorded [of "rd\<lparr>rd_env := env\<rparr>" key c "app_part sv1" l "sv_cipher sv1"] call out
    by (simp add: recorded_call_def)
  then show ?thesis
    using ran(1,4) caller unfolding recorded_def row_names_def env_def
    by (cases a) (auto simp: response_result_def)
qed simp

theorem changes_are_accounted_for_witness:
  "\<exists>entry. trail_of (sv_db (snd demo_reply)) = trail_of (sv_db (run_service demo_run)) @ [entry] \<and>
     a_action entry = ''GROUP_CREATE'' \<and> a_client_ip entry = show_ip (V6 1)"
proof -
  let ?ae = "(auth_clock 1800000000 9)\<lparr>ae_max_body := 1000\<rparr>"
  have "ip_groups (sv_db (run_service demo_run)) = []" by code_simp
  then have changed: "sv_db (snd demo_reply) \<noteq> sv_db (run_service demo_run)" using demo_reply_runs by auto
  have address: "l_ip_str demo_lib (client_of demo_lib ?ae group_request (run_service demo_run)) = show_ip (V6 1)" by code_simp
  from changes_are_accounted_for [OF prod.collapse [symmetric], of demo_lib demo_decode ?ae demo_readings True group_request "run_service demo_run"]
    changed demo_reply_runs
  obtain e params c row entry where entry: "demo_decode e params group_request = Inr c"
    "trail_of (sv_db (snd demo_reply)) = trail_of (sv_db (run_service demo_run)) @ [entry]"
    "row_names ((rd_env demo_readings)\<lparr>e_client_ip := l_ip_str demo_lib (client_of demo_lib ?ae group_request (run_service demo_run))\<rparr>)
       row (audit_actions c) entry"
    by auto
  then have "c = Call_Create_Ip_Group created_payload" by (simp add: demo_decode_def split: if_splits)
  then show ?thesis using entry(2,3) by (auto simp: row_names_def address)
qed


text \<open>
  What a refusal may hide: outside a transaction the change comes before its row. A key deleted while
  its call is in flight still deletes a group; the row that should name it is refused by the foreign
  key, so the caller is told of an error and the trail says nothing.
\<close>

lemma call_of_deleted_key_is_unrecorded:
  "case delete_ip_group demo_lib demo_env daughter_key 10 (delete_keys {3} demo_db) of (r, db') \<Rightarrow>
     (\<exists>e. r = Inl e) \<and> find_group 10 (delete_keys {3} demo_db) \<noteq> None \<and> find_group 10 db' = None \<and>
     trail_of db' = trail_of (delete_keys {3} demo_db)"
proof -
  have "case delete_ip_group demo_lib demo_env daughter_key 10 (delete_keys {3} demo_db) of
      (Inl e, db') \<Rightarrow> find_group 10 (delete_keys {3} demo_db) \<noteq> None \<and> find_group 10 db' = None \<and>
        trail_of db' = trail_of (delete_keys {3} demo_db)
    | _ \<Rightarrow> False"
    by code_simp
  then show ?thesis by (auto split: prod.splits sum.splits)
qed

end
