(* ===== verification/Spec2Isabelle.thy ===== *)
theory Spec2Isabelle
  imports Key_Properties Crypto_Properties Key_Delete_Properties Group_Properties Record_Delete_Properties Auth_Properties Webhook_Properties Pool_Properties Listing_Properties Batch_Properties Startup_Properties System_Properties Migration_Properties Audit_Migration Connection
    Deletion_Races Registration_Races Audit_Trail
begin

text \<open>
  The simply_firewall vault: a service that keeps lists of addresses (records in groups), serves them to
  API keys over signed requests, and tells receivers of changes by webhooks. This development models
  the service from the environment it starts in to the row a handler writes, and proves what the
  documents of the repository (\<open>RBAC_MODEL.md\<close>, \<open>SCHEMA.MD\<close>, \<open>API_REFERENCE.md\<close>) and the comments
  of the code promise. All paths below are relative to \<open>src/src\<close>.
\<close>

section \<open>The program and how its parts interact\<close>

text \<open>
  A request is routed (\<open>lib.rs\<close>), authenticated (\<open>middleware.rs\<close>: the client address behind trusted
  proxies, the key by the hash of its plaintext, the bound networks, the HMAC over method, target,
  timestamp and body, the replay register, the pinned master), decoded by strict extractors (\<open>extract.rs\<close>)
  and handled (\<open>api/*.rs\<close>). A handler asks the guards (\<open>api/guards.rs\<close>), reads and writes the database
  (\<open>entities/*.rs\<close>, \<open>api/support.rs\<close>), writes an audit row and offers events to a bounded queue
  (\<open>state.rs\<close>). Workers take events from the queue, prepare one request per subscribed webhook and
  deliver it with retries (\<open>dispatch.rs\<close>). Sweeps purge what has expired (\<open>retention.rs\<close>). A start
  (\<open>main.rs\<close>) migrates the database (\<open>migration/*.rs\<close>, \<open>db.rs\<close>), creates the first master key, checks
  the encryption key and pins the master (\<open>master.rs\<close>).

  Conventions. A handler is a function from its environment (clock, randomness, peer), the calling key,
  its payload and the database to a result and the database it leaves: \<open>(app_error + 'a) \<times> db\<close>. The chain
  \<open>attempt step db (\<lambda>x. ...)\<close> is the chain of \<open>?\<close> in the handler: a failing step ends it and what was
  written before stays written; inside a transaction \<open>try_then\<close> is used instead and the database of a
  failure is the one before. Integers that can wrap keep their width or write the wrap out. Text is bytes:
  a \<open>string\<close> holds the UTF-8 of a Rust string. The crates the code calls are fields of the record \<open>lib\<close>
  (\<open>Extern\<close>), which every definition that uses them takes as an argument; a theorem that needs something
  of them has it as a hypothesis on that record, and its witness instantiates the record with concrete
  functions (\<open>demo_lib\<close> in \<open>Samples\<close>).
\<close>

section \<open>Theories and the code they model\<close>

text \<open>
  Foundations.
  \<open>Prelude\<close>: results, the handler calculus (\<open>attempt\<close>, the postcondition \<open>after\<close> and its rules), text and
  number parsing, tables with the locale \<open>keyed_table\<close>, the collections of hints.
  \<open>Extern\<close>: the record \<open>lib\<close> of external functions, addresses, \<open>std::net\<close>. \<open>Errors\<close>: \<open>error.rs\<close>.
  \<open>Store\<close>: the rows of \<open>entities/*.rs\<close>, the state \<open>db\<close>, its constraints \<open>db_ok\<close>; every table interprets
  \<open>keyed_table\<close>. \<open>Database\<close> and \<open>Database_Laws\<close>: the statements the handlers issue, with unique keys,
  foreign keys and cascades, and what each keeps. \<open>Samples\<close>: the small installation of the witnesses.

  Authorization and shared helpers.
  \<open>Guards\<close>: \<open>api/guards.rs\<close>. \<open>Support\<close>: \<open>api/support.rs\<close>. \<open>App_State\<close>: the event queue of \<open>state.rs\<close>.

  Handlers.
  \<open>Key_Views\<close>, \<open>Keys\<close>, \<open>Key_Delete\<close>: \<open>api/keys.rs\<close> (views and the subtree walk; creation, update, rotations,
  grants; deletion with resolutions). \<open>Ip_Groups\<close>: \<open>api/groups.rs\<close>. \<open>Records\<close>, \<open>Listings\<close>, \<open>Batch\<close>:
  \<open>api/records.rs\<close>, the listing of \<open>api/audit.rs\<close> and the execution history of \<open>api/webhooks.rs\<close>.
  \<open>Webhooks\<close>: \<open>api/webhooks.rs\<close> with \<open>entities/webhook_config.rs\<close>.

  Boundary.
  \<open>Crypto\<close>: \<open>crypto.rs\<close>, signatures and secrets at rest. \<open>Proxies\<close>: \<open>TRUSTED_PROXIES\<close> and
  \<open>resolve_client_ip\<close> of \<open>config.rs\<close>. \<open>Replay\<close>: \<open>replay.rs\<close>. \<open>Master_Pin\<close>: \<open>master.rs\<close>. \<open>Auth\<close>:
  \<open>middleware.rs\<close>. \<open>Router\<close>: \<open>create_app\<close> of \<open>lib.rs\<close> and \<open>extract.rs\<close>.

  Delivery.
  \<open>Templates\<close>, \<open>Outbound\<close>, \<open>Dispatch\<close>, \<open>Dispatch_Pool\<close>: \<open>dispatch.rs\<close> (the two template languages; the
  screen of targets and the preparation of a request; attempts, retries and the test dispatch; the worker
  pool as a step relation). \<open>Peer_Auth\<close>: a dispatch received by another instance. \<open>Retention\<close>: \<open>retention.rs\<close>.

  Start and schema.
  \<open>Config\<close>: the settings of \<open>config.rs\<close>, the pool sizes of \<open>db.rs\<close>. \<open>Schema_Names\<close>, \<open>Sql_Schema\<close>,
  \<open>Migrations\<close>: \<open>migration/*.rs\<close> on a small data definition language. \<open>Connection\<close>: the connections,
  the isolated run of the migrations and the pragmas of \<open>db.rs\<close>. \<open>Startup\<close>: \<open>main.rs\<close>, \<open>setup_state\<close>,
  the constructors of \<open>state.rs\<close>, the probes of \<open>api/health.rs\<close>.

  The whole.
  \<open>Rbac\<close>: the specification of access control with no database, as moves over masters, scopes, verbs,
  parents and groups. \<open>Access\<close>: which operations leave that state alone. \<open>System\<close>: a request from route to
  handler (\<open>handle_request\<close>) and the machine of interleaved requests, deliveries and sweeps
  (\<open>service_step\<close>). \<open>Interference\<close>: programs that run statement by statement among others;
  \<open>Deletion_Races\<close> and \<open>Registration_Races\<close>: \<open>delete_api_key\<close> and \<open>handle_ip_upsert\<close> at that grain.
  \<open>Audit_Trail\<close>: what a request adds to the audit table.
\<close>

section \<open>What the lemmas show\<close>

text \<open>
  Locales. \<open>keyed_table\<close>: what a table with a unique key promises, interpreted by all eight tables.
  \<open>secret_store\<close>: what is sealed opens, interpreted by \<open>seal\<close> and \<open>open_secret\<close>. \<open>once_only\<close>: a register
  that admits an item once per window, interpreted by the replay guard. \<open>clamped\<close>: a setting within its
  bounds, interpreted by the settings. \<open>template_language\<close>: a template is rendered once, interpreted by both
  languages. \<open>interfered\<close>: an invariant that neither a program's own moves nor the others break, interpreted
  by the deletion and by the registration.

  Invariants. \<open>db_ok\<close> (unique keys, one master, foreign keys) is kept by every statement
  (\<open>Database_Laws\<close>), by every handler (\<open>Key_Safety\<close>, \<open>Record_Safety\<close> and the other property theories) and
  by every call (\<open>System_Properties\<close>). The dispatcher's bounds hold in every reachable state of the pool.
  One row claims mastery in every state reachable from a start.

  Access control. Every key handler is bounded by the rules of \<open>RBAC_MODEL.md\<close>: scopes are raised by the
  master only, verbs are granted within what the caller manages, keys outside the subtree look absent.
  \<open>request_is_an_access_step\<close> lifts this to requests: whatever arrives, the access control state moves by a
  step that \<open>Rbac\<close> allows the proven caller.

  Authentication. An accepted request carries a fresh, unused HMAC by a stored key from a bound network;
  refusals change nothing and disclose nothing; no header forges a client address; a signature is accepted
  once per window.

  Effects. Registration, deletion, restoration and batches change what they name and nothing else, refused
  calls change no record; deletion of a key removes exactly its subtree, and no data without a decision.

  Accountability. An answered request that changed the database added one row to the audit trail, which
  names the proven caller, the address and the action; no request alters or removes a row that was there
  (\<open>Audit_Trail\<close>). The limit is a refusal: \<open>call_of_deleted_key_is_unrecorded\<close>.

  Delivery. A target is contacted only if public; a template is resolved in one pass; a canonical
  dispatch authenticates at a receiving instance; retries are bounded and serve a receiver that recovers;
  the steps of the pool implement the sequential loop.

  Schema and start. The sixteen migrations succeed on every engine and leave the columns and constraints
  that the entities and \<open>Store\<close> assume; each can be taken back; the derived marker admits one master
  whoever writes; the audit migration keeps every row. The first start yields credentials that are served.
\<close>

section \<open>Bounds and termination\<close>

text \<open>
  No definition takes fuel. The walk over daughters terminates by the keys not yet visited, the signing
  template by the length of the rest, the retry loop by the attempts left (configured to at most 10). The
  only \<open>partial_function\<close> is the substitution loop of the event template: it returns on every template
  because each round consumes the text before the next scan (proved in \<open>Templates\<close>). Sweeps that panic in
  \<open>chrono\<close> for a window out of range are \<open>None\<close>, and a panicking start is an error of its own.
\<close>

section \<open>Reading the model\<close>

text \<open>
  One handler is one step of the machine. In the code a handler that is not inside a transaction can be
  interleaved with another between its reads and its writes. For the two handlers where most happens
  outside a transaction the statements are steps of their own: alone they compute the handler
  (\<open>alone_is_the_handler\<close>, \<open>alone_is_the_registration\<close>), and among others, which may do whatever keeps the
  constraints and the master rows (as every call of the service does), their promises are stated for every
  interleaving. What such a race can do wrong is shown by \<open>raced_deletion_leaves_deleted_owner\<close> and
  \<open>raced_registration_gains_foreign_group\<close>. The reads before the first write count as one moment. The engine refuses what violates a constraint by an
  error and applies a transaction entirely or not at all. Text comparison of the \<open>LIKE\<close> filters is the
  function \<open>l_like\<close>. Instants are natural numbers and never go back.

  Behaviours that the code does not intend are stated as lemmas beside the properties they limit:
  \<open>future_stamp_replays\<close>, \<open>reassigned_webhook_destroyed_with_group\<close>, \<open>blank_template_is_refused\<close>,
  \<open>escaped_body_is_not_covered\<close>, \<open>query_breaks_chaining\<close>, \<open>body_limit_wraps_to_zero\<close>,
  \<open>in_memory_start_finds_nothing\<close>, \<open>call_of_deleted_key_is_unrecorded\<close>, \<open>assigned_marker_is_bypassed\<close>.
\<close>

section \<open>Not modelled\<close>

text \<open>
  The declarations of the ORM's relations and the module lists (no behaviour of their own; the reach of
  the foreign keys is in \<open>Store\<close> and \<open>Migrations\<close>); logging, \<open>Debug\<close> and \<open>Display\<close> renderings that only
  the log shows, the banner of the first start; waiting for a signal of the operating system; the static
  files of the dashboard; the HTTP client, the TLS stack, the resolver and the database engines themselves,
  which are parameters or readings. The decoding of JSON is a parameter of the router (\<open>decoder\<close>): which
  payload a body holds is serde's answer, what the code does with either answer is modelled.
\<close>

end
